(* ===== verification/Go_Prelude.thy ===== *)
theory Go_Prelude
  imports Main "HOL-Library.State_Monad" "HOL-Library.Finite_Map" "HOL-Library.Word"
begin

text \<open>
  The values of Go that the controller computes with, and the lemmas every component shares.

  \<^item> A slice that is compared with \<open>reflect.DeepEqual\<close> keeps the difference between the nil
    slice and the empty one: \<open>None\<close> is nil.  A slice that is only ranged over is a list.
  \<^item> A map is a finite map; where the code compares a map with nil or writes into a map that
    may be nil it is an option, \<open>None\<close> being the nil map.  With these types
    \<open>reflect.DeepEqual\<close> is equality.
  \<^item> A pointer is an option; \<open>int32\<close> is a 32 bit word.
  \<^item> A call that may fail returns an \<open>outcome\<close>: a value, an error, or a Go panic.
  \<^item> A function with effects is a computation of the library's state monad; \<open>emits\<close> is a
    weakest-precondition style predicate over the requests such a computation sends.
\<close>

type_synonym 'a slice = "'a list option"
type_synonym ('k, 'v) nilmap = "('k, 'v) fmap option"
type_synonym int32 = "32 word"

named_theorems const_defs \<open>definitions of the string constants of the code\<close>
named_theorems emits_rules \<open>rules of the predicate emits, one for each API operation\<close>

section \<open>Slices and maps\<close>

definition elems :: "'a slice \<Rightarrow> 'a list" where
  "elems s = (case s of None \<Rightarrow> [] | Some xs \<Rightarrow> xs)"

lemma elems_simps [simp]: "elems None = []" "elems (Some xs) = xs"
  by (simp_all add: elems_def)

text \<open>\<open>append(s, xs...)\<close>: appending nothing to the nil slice leaves it nil.\<close>

definition go_append :: "'a slice \<Rightarrow> 'a list \<Rightarrow> 'a slice" where
  "go_append s xs = (if s = None \<and> xs = [] then None else Some (elems s @ xs))"

lemma elems_go_append [simp]: "elems (go_append s xs) = elems s @ xs"
  by (auto simp: go_append_def elems_def split: option.splits)

lemma go_append_Some [simp]: "go_append (Some ys) xs = Some (ys @ xs)"
  by (simp add: go_append_def)

text \<open>\<open>m[k]\<close> for a map of strings: the zero value is the empty string.\<close>

definition map_get :: "('k, string) fmap \<Rightarrow> 'k \<Rightarrow> string" where
  "map_get m k = (case fmlookup m k of None \<Rightarrow> '''' | Some v \<Rightarrow> v)"

definition nil_lookup :: "('k, 'v) nilmap \<Rightarrow> 'k \<Rightarrow> 'v option" where
  "nil_lookup m k = (case m of None \<Rightarrow> None | Some f \<Rightarrow> fmlookup f k)"

definition nil_get :: "('k, string) nilmap \<Rightarrow> 'k \<Rightarrow> string" where
  "nil_get m k = (case nil_lookup m k of None \<Rightarrow> '''' | Some v \<Rightarrow> v)"

text \<open>The entries of a map that may be nil.\<close>

definition or_empty :: "('k, 'v) nilmap \<Rightarrow> ('k, 'v) fmap" where
  "or_empty m = (case m of None \<Rightarrow> fmempty | Some f \<Rightarrow> f)"

lemma or_empty_simps [simp]: "or_empty None = fmempty" "or_empty (Some f) = f"
  by (simp_all add: or_empty_def)

lemma nil_lookup_simps [simp]:
  "nil_lookup None k = None" "nil_lookup (Some f) k = fmlookup f k"
  by (simp_all add: nil_lookup_def)

lemma map_get_fmupd [simp]:
  "map_get (fmupd a b m) k = (if k = a then b else map_get m k)"
  by (simp add: map_get_def)

lemma nil_get_Some [simp]: "nil_get (Some f) k = map_get f k"
  by (simp add: nil_get_def map_get_def)

lemma nil_get_None [simp]: "nil_get None k = ''''"
  by (simp add: nil_get_def)

lemma fmlookup_fmap_of_list [simp]: "fmlookup (fmap_of_list xs) k = map_of xs k"
  by (simp add: fmlookup_of_list)

section \<open>Outcomes of a call\<close>

datatype ('e, 'a) outcome = Ok 'a | Err 'e | Panic

abbreviation ret :: "'a \<Rightarrow> ('s, 'a) state" where
  "ret \<equiv> State_Monad.return"

fun map_err :: "('e \<Rightarrow> 'f) \<Rightarrow> ('e, 'a) outcome \<Rightarrow> ('f, 'a) outcome" where
  "map_err f (Ok x) = Ok x"
| "map_err f (Err e) = Err (f e)"
| "map_err f Panic = Panic"

fun of_sum :: "'e + 'a \<Rightarrow> ('e, 'a) outcome" where
  "of_sum (Inl e) = Err e"
| "of_sum (Inr x) = Ok x"

lemma map_err_eq_simps [simp]:
  "(map_err f r = Ok x) = (r = Ok x)"
  "(map_err f r = Err g) = (\<exists>e. r = Err e \<and> g = f e)"
  "(map_err f r = Panic) = (r = Panic)"
  by (cases r; auto)+

section \<open>List lemmas\<close>

text \<open>The loop that returns at the first hit is \<open>find\<close>.\<close>

lemma find_append: "find P (xs @ ys) = (case find P xs of None \<Rightarrow> find P ys | Some x \<Rightarrow> Some x)"
  by (induction xs) auto

lemma find_None_filter: "find P xs = None \<longleftrightarrow> filter P xs = []"
  by (induction xs) auto

lemma find_SomeD: "find P xs = Some x \<Longrightarrow> x \<in> set xs \<and> P x"
  by (induction xs) (auto split: if_splits)

lemma find_distinct:
  assumes "distinct (map f ps)"
  shows "find (\<lambda>p. f p = n) (rev ps) = Some p \<longleftrightarrow> p \<in> set ps \<and> f p = n"
proof
  assume p: "p \<in> set ps \<and> f p = n"
  then obtain q where q: "find (\<lambda>p. f p = n) (rev ps) = Some q"
    by (cases "find (\<lambda>p. f p = n) (rev ps)") (auto simp: find_None_iff)
  with find_SomeD [OF q] p assms show "find (\<lambda>p. f p = n) (rev ps) = Some p"
    by (auto simp: distinct_map inj_on_def)
qed (auto dest: find_SomeD)

lemma append_eq_same_split:
  "a @ c # b = a' @ c # b' \<Longrightarrow> c \<notin> set a \<Longrightarrow> c \<notin> set a' \<Longrightarrow> a = a' \<and> b = b'"
  by (induction a arbitrary: a') (case_tac a', auto)+

end
