(* ===== verification/Kube_Objects.thy ===== *)
theory Kube_Objects
  imports Go_Prelude
begin

text \<open>
  The Kubernetes objects the controller reads and writes.  The types belong to the Kubernetes API
  modules, so each record has the fields that the controller's code sets or reads, and no others;
  what the API server does with an object is a parameter of the model (\<open>Api_Client\<close>).
\<close>

section \<open>Errors\<close>

text \<open>
  The error of an API request, classified as the predicates \<open>apierrors.IsNotFound\<close>,
  \<open>IsAlreadyExists\<close> and \<open>IsConflict\<close> classify it, with its text.
\<close>

datatype api_error =
    NotFound string
  | AlreadyExists string
  | Conflict string
  | OtherApiError string

fun IsNotFound :: "api_error \<Rightarrow> bool" where
  "IsNotFound (NotFound m) = True"
| "IsNotFound e = False"

fun IsAlreadyExists :: "api_error \<Rightarrow> bool" where
  "IsAlreadyExists (AlreadyExists m) = True"
| "IsAlreadyExists e = False"

fun IsConflict :: "api_error \<Rightarrow> bool" where
  "IsConflict (Conflict m) = True"
| "IsConflict e = False"

fun api_error_text :: "api_error \<Rightarrow> string" where
  "api_error_text (NotFound m) = m"
| "api_error_text (AlreadyExists m) = m"
| "api_error_text (Conflict m) = m"
| "api_error_text (OtherApiError m) = m"

lemma IsNotFound_iff: "IsNotFound e \<longleftrightarrow> (\<exists>m. e = NotFound m)"
  by (cases e) auto

lemma IsAlreadyExists_iff: "IsAlreadyExists e \<longleftrightarrow> (\<exists>m. e = AlreadyExists m)"
  by (cases e) auto

section \<open>Metadata, selectors and status conditions\<close>

record TypeMeta =
  tmKind :: string
  tmAPIVersion :: string

record ObjectMeta =
  Name :: string
  Namespace :: string
  Labels :: "(string, string) fmap"
  Annotations :: "(string, string) nilmap"
  ResourceVersion :: string
  DeletionTimestamp :: "nat option"
  Finalizers :: "string list"

text \<open>The zero value of the struct, and the struct literal that sets only name and namespace.\<close>

definition metaZero :: ObjectMeta where
  "metaZero = \<lparr>Name = '''', Namespace = '''', Labels = fmempty, Annotations = None,
     ResourceVersion = '''', DeletionTimestamp = None, Finalizers = []\<rparr>"

definition metaNamed :: "string \<Rightarrow> string \<Rightarrow> ObjectMeta" where
  "metaNamed ns n = metaZero\<lparr>Name := n, Namespace := ns\<rparr>"

lemma metaNamed_simps [simp]:
  "Name (metaNamed ns n) = n" "Namespace (metaNamed ns n) = ns"
  "Labels (metaNamed ns n) = fmempty" "Annotations (metaNamed ns n) = None"
  "ResourceVersion (metaNamed ns n) = ''''" "DeletionTimestamp (metaNamed ns n) = None"
  "Finalizers (metaNamed ns n) = []"
  by (simp_all add: metaNamed_def metaZero_def)

record NamespacedName =
  nnNamespace :: string
  nnName :: string

record LabelSelectorRequirement =
  lsrKey :: string
  lsrOperator :: string
  lsrValues :: "string slice"

record LabelSelector =
  MatchLabels :: "(string, string) nilmap"
  MatchExpressions :: "LabelSelectorRequirement slice"

text \<open>The four fields of \<open>metav1.Condition\<close> the controller sets.\<close>

record Condition =
  condType :: string
  condStatus :: string
  condReason :: string
  condMessage :: string

definition ConditionTrue :: string where [const_defs]: "ConditionTrue = ''True''"

definition ConditionFalse :: string where [const_defs]: "ConditionFalse = ''False''"

lemma ConditionTrue_not_False [simp]:
  "ConditionTrue \<noteq> ConditionFalse" "ConditionFalse \<noteq> ConditionTrue"
  by (simp_all add: const_defs)

definition find_condition :: "string \<Rightarrow> Condition list \<Rightarrow> Condition option" where
  "find_condition t cs = find (\<lambda>c. condType c = t) cs"

section \<open>Secrets, config maps, services\<close>

record ConfigMap =
  cmMeta :: ObjectMeta
  cmData :: "(string, string) nilmap"

record Secret =
  secKind :: string
  secMeta :: ObjectMeta
  secData :: "(string, string) fmap"
  secStringData :: "(string, string) fmap"
  secType :: string

definition SecretTypeOpaque :: string where [const_defs]: "SecretTypeOpaque = ''Opaque''"

datatype IntOrString = FromInt int32 | FromString string

record ServicePort =
  svcPortName :: string
  svcPort :: int32
  svcTargetPort :: IntOrString
  svcProtocol :: string

record Service =
  svcMeta :: ObjectMeta
  svcPorts :: "ServicePort list"
  svcSelector :: "(string, string) fmap"

section \<open>Deployments, replica sets, pods\<close>

record EnvVar =
  envName :: string
  envValue :: string
  envValueFrom :: "string option"

record VolumeMount =
  vmName :: string
  vmReadOnly :: bool
  vmMountPath :: string

record KeyToPath =
  ktpKey :: string
  ktpPath :: string

datatype VolumeSource =
    EmptyDirVolumeSource
  | SecretVolumeSource string
  | ConfigMapVolumeSource string "KeyToPath slice"

record Volume =
  volName :: string
  volSource :: VolumeSource

record HTTPGetAction =
  hgPath :: string
  hgPort :: IntOrString
  hgScheme :: string

record Container =
  ctName :: string
  ctImage :: string
  ctVolumeMounts :: "VolumeMount list"
  ctEnv :: "EnvVar slice"
  ctReadinessProbe :: "HTTPGetAction option"
  ctReadOnlyRootFilesystem :: "bool option"

record PodTemplateSpec =
  tplMeta :: ObjectMeta
  tplContainers :: "Container list"
  tplServiceAccountName :: string
  tplVolumes :: "Volume list"

record Deployment =
  depMeta :: ObjectMeta
  depReplicas :: "int32 option"
  depSelector :: "(string, string) fmap"
  depStrategy :: string
  depTemplate :: PodTemplateSpec

record ReplicaSet =
  rsMeta :: ObjectMeta

record PodCondition =
  pcType :: string
  pcStatus :: string

record Pod =
  podMeta :: ObjectMeta
  podConditions :: "PodCondition list"

section \<open>Admission webhook configurations\<close>

record RuleWithOperations =
  ruleOperations :: "string slice"
  ruleAPIGroups :: "string slice"
  ruleAPIVersions :: "string slice"
  ruleResources :: "string slice"
  ruleScope :: "string option"

definition NamespacedScope :: string where [const_defs]: "NamespacedScope = ''Namespaced''"

record ServiceReference =
  srNamespace :: string
  srName :: string
  srPath :: "string option"
  srPort :: "int32 option"

record AdmissionWebhook =
  whName :: string
  whService :: "ServiceReference option"
  whCABundle :: "string option"
  whRules :: "RuleWithOperations slice"
  whFailurePolicy :: "string option"
  whMatchPolicy :: "string option"
  whNamespaceSelector :: "LabelSelector option"
  whObjectSelector :: "LabelSelector option"
  whSideEffects :: "string option"
  whTimeoutSeconds :: "int32 option"
  whAdmissionReviewVersions :: "string slice"

text \<open>The mutating webhook has one field more, which the controller never sets.\<close>

record MutatingWebhook = AdmissionWebhook +
  whReinvocationPolicy :: "string option"

record ValidatingWebhookConfiguration =
  vwcMeta :: ObjectMeta
  vwcWebhooks :: "AdmissionWebhook slice"

record MutatingWebhookConfiguration =
  mwcMeta :: ObjectMeta
  mwcWebhooks :: "MutatingWebhook slice"

definition SideEffectClassNone :: string where [const_defs]: "SideEffectClassNone = ''None''"

end
