(* ===== verification/Kubewarden_Constants.thy ===== *)
theory Kubewarden_Constants
  imports Go_Prelude
begin

text \<open>
  The constants of \<open>internal/pkg/constants/constants.go\<close>, under the names they have there.  The
  package variable \<open>DefaultPolicyServer\<close> is set by a command line flag, so the functions that
  read it take it as an argument.
\<close>

definition PolicyServerTLSCert :: string where [const_defs]:
  "PolicyServerTLSCert = ''policy-server-cert''"

definition PolicyServerTLSKey :: string where [const_defs]:
  "PolicyServerTLSKey = ''policy-server-key''"

definition PolicyServerCARootSecretName :: string where [const_defs]:
  "PolicyServerCARootSecretName = ''policy-server-root-ca''"

definition PolicyServerCARootPemName :: string where [const_defs]:
  "PolicyServerCARootPemName = ''policy-server-root-ca-pem''"

definition PolicyServerCARootCACert :: string where [const_defs]:
  "PolicyServerCARootCACert = ''policy-server-root-ca-cert''"

definition PolicyServerCARootPrivateKeyCertName :: string where [const_defs]:
  "PolicyServerCARootPrivateKeyCertName = ''policy-server-root-ca-privatekey-cert''"

definition PolicyServerEnableMetricsEnvVar :: string where [const_defs]:
  "PolicyServerEnableMetricsEnvVar = ''KUBEWARDEN_ENABLE_METRICS''"

definition PolicyServerDeploymentConfigVersionAnnotation :: string where [const_defs]:
  "PolicyServerDeploymentConfigVersionAnnotation = ''kubewarden/config-version''"

definition PolicyServerDeploymentPodSpecConfigVersionLabel :: string where [const_defs]:
  "PolicyServerDeploymentPodSpecConfigVersionLabel = ''kubewarden/config-version''"

definition PolicyServerPort :: int32 where [const_defs]:
  "PolicyServerPort = 8443"

definition PolicyServerMetricsPortEnvVar :: string where [const_defs]:
  "PolicyServerMetricsPortEnvVar = ''KUBEWARDEN_POLICY_SERVER_SERVICES_METRICS_PORT''"

definition PolicyServerMetricsPort :: int32 where [const_defs]:
  "PolicyServerMetricsPort = 8080"

definition PolicyServerReadinessProbe :: string where [const_defs]:
  "PolicyServerReadinessProbe = ''/readiness''"

definition PolicyServerConfigPoliciesEntry :: string where [const_defs]:
  "PolicyServerConfigPoliciesEntry = ''policies.yml''"

definition PolicyServerDeploymentRestartAnnotation :: string where [const_defs]:
  "PolicyServerDeploymentRestartAnnotation = ''kubectl.kubernetes.io/restartedAt''"

definition PolicyServerConfigSourcesEntry :: string where [const_defs]:
  "PolicyServerConfigSourcesEntry = ''sources.yml''"

definition PolicyServerSourcesConfigContainerPath :: string where [const_defs]:
  "PolicyServerSourcesConfigContainerPath = ''/sources''"

definition PolicyServerVerificationConfigEntry :: string where [const_defs]:
  "PolicyServerVerificationConfigEntry = ''verification-config''"

definition PolicyServerVerificationConfigContainerPath :: string where [const_defs]:
  "PolicyServerVerificationConfigContainerPath = ''/verification''"

definition AppLabelKey :: string where [const_defs]:
  "AppLabelKey = ''app''"

definition PolicyServerLabelKey :: string where [const_defs]:
  "PolicyServerLabelKey = ''kubewarden/policy-server''"

definition PolicyServerIndexKey :: string where [const_defs]:
  "PolicyServerIndexKey = ''.spec.policyServer''"

definition KubewardenFinalizer :: string where [const_defs]:
  "KubewardenFinalizer = ''kubewarden''"

definition KubernetesRevisionAnnotation :: string where [const_defs]:
  "KubernetesRevisionAnnotation = ''deployment.kubernetes.io/revision''"

text \<open>The keys that share a map are different from each other.\<close>

lemma configmap_keys_distinct [simp]:
  "PolicyServerConfigPoliciesEntry \<noteq> PolicyServerConfigSourcesEntry"
  "PolicyServerConfigSourcesEntry \<noteq> PolicyServerConfigPoliciesEntry"
  by (simp_all add: const_defs)

lemma ca_root_keys_distinct [simp]:
  "PolicyServerCARootCACert \<noteq> PolicyServerCARootPemName"
  "PolicyServerCARootCACert \<noteq> PolicyServerCARootPrivateKeyCertName"
  "PolicyServerCARootPemName \<noteq> PolicyServerCARootPrivateKeyCertName"
  "PolicyServerCARootPemName \<noteq> PolicyServerCARootCACert"
  "PolicyServerCARootPrivateKeyCertName \<noteq> PolicyServerCARootCACert"
  "PolicyServerCARootPrivateKeyCertName \<noteq> PolicyServerCARootPemName"
  by (simp_all add: const_defs)

lemma label_keys_distinct [simp]:
  "AppLabelKey \<noteq> PolicyServerLabelKey"
  "PolicyServerLabelKey \<noteq> AppLabelKey"
  "PolicyServerDeploymentPodSpecConfigVersionLabel \<noteq> AppLabelKey"
  "AppLabelKey \<noteq> PolicyServerDeploymentPodSpecConfigVersionLabel"
  "PolicyServerDeploymentPodSpecConfigVersionLabel \<noteq> PolicyServerLabelKey"
  "PolicyServerLabelKey \<noteq> PolicyServerDeploymentPodSpecConfigVersionLabel"
  by (simp_all add: const_defs)

lemma version_restart_keys_distinct [simp]:
  "PolicyServerDeploymentConfigVersionAnnotation \<noteq> PolicyServerDeploymentRestartAnnotation"
  "PolicyServerDeploymentRestartAnnotation \<noteq> PolicyServerDeploymentConfigVersionAnnotation"
  by (simp_all add: const_defs)

end
