(* ===== verification/Policy_Types.thy ===== *)
theory Policy_Types
  imports Kube_Objects Kubewarden_Constants
begin

text \<open>
  The custom resources of \<open>apis/policies/v1\<close>: the two kinds of policy, the policy server, their
  status, and the methods of the Go interface \<open>Policy\<close> that both kinds of policy implement.

  The string types \<open>PolicyMode\<close>, \<open>PolicyModeStatus\<close>, \<open>PolicyStatusEnum\<close> and the condition types
  are strings here too, because the code converts between them and plain strings.  An embedded
  struct is the parent of a record.
\<close>

type_synonym PolicyMode = string
type_synonym PolicyModeStatus = string
type_synonym PolicyStatusEnum = string
type_synonym RawExtension = "string option"

section \<open>The policies\<close>

definition PolicyStatusUnscheduled :: PolicyStatusEnum where [const_defs]:
  "PolicyStatusUnscheduled = ''unscheduled''"

definition PolicyStatusScheduled :: PolicyStatusEnum where [const_defs]:
  "PolicyStatusScheduled = ''scheduled''"

definition PolicyStatusPending :: PolicyStatusEnum where [const_defs]:
  "PolicyStatusPending = ''pending''"

definition PolicyStatusActive :: PolicyStatusEnum where [const_defs]:
  "PolicyStatusActive = ''active''"

definition PolicyModeStatusProtect :: PolicyModeStatus where [const_defs]:
  "PolicyModeStatusProtect = ''protect''"

definition PolicyModeStatusMonitor :: PolicyModeStatus where [const_defs]:
  "PolicyModeStatusMonitor = ''monitor''"

definition PolicyModeStatusUnknown :: PolicyModeStatus where [const_defs]:
  "PolicyModeStatusUnknown = ''unknown''"

definition PolicyActive :: string where [const_defs]:
  "PolicyActive = ''PolicyActive''"

definition PolicyServerConfigurationUpToDate :: string where [const_defs]:
  "PolicyServerConfigurationUpToDate = ''PolicyServerConfigurationUpToDate''"

definition PolicyUniquelyReachable :: string where [const_defs]:
  "PolicyUniquelyReachable = ''PolicyUniquelyReachable''"

lemma policy_status_distinct [simp]:
  "PolicyStatusUnscheduled \<noteq> PolicyStatusScheduled" "PolicyStatusUnscheduled \<noteq> PolicyStatusPending"
  "PolicyStatusUnscheduled \<noteq> PolicyStatusActive" "PolicyStatusScheduled \<noteq> PolicyStatusUnscheduled"
  "PolicyStatusScheduled \<noteq> PolicyStatusPending" "PolicyStatusScheduled \<noteq> PolicyStatusActive"
  "PolicyStatusPending \<noteq> PolicyStatusUnscheduled" "PolicyStatusPending \<noteq> PolicyStatusScheduled"
  "PolicyStatusPending \<noteq> PolicyStatusActive" "PolicyStatusActive \<noteq> PolicyStatusUnscheduled"
  "PolicyStatusActive \<noteq> PolicyStatusScheduled" "PolicyStatusActive \<noteq> PolicyStatusPending"
  by (simp_all add: const_defs)

lemma policy_condition_types_distinct [simp]:
  "PolicyActive \<noteq> PolicyServerConfigurationUpToDate" "PolicyActive \<noteq> PolicyUniquelyReachable"
  "PolicyServerConfigurationUpToDate \<noteq> PolicyActive" "PolicyUniquelyReachable \<noteq> PolicyActive"
  "PolicyServerConfigurationUpToDate \<noteq> PolicyUniquelyReachable"
  "PolicyUniquelyReachable \<noteq> PolicyServerConfigurationUpToDate"
  by (simp_all add: const_defs)

record PolicySpec =
  specPolicyServer :: string
  specModule :: string
  specMode :: PolicyMode
  specSettings :: RawExtension
  specRules :: "RuleWithOperations slice"
  specFailurePolicy :: "string option"
  specMutating :: bool
  specMatchPolicy :: "string option"
  specObjectSelector :: "LabelSelector option"
  specSideEffects :: "string option"
  specTimeoutSeconds :: "int32 option"

record ClusterAdmissionPolicySpec = PolicySpec +
  specNamespaceSelector :: "LabelSelector option"

type_synonym AdmissionPolicySpec = PolicySpec

record PolicyStatus =
  statPolicyStatus :: PolicyStatusEnum
  statPolicyMode :: PolicyModeStatus
  statConditions :: "Condition list"

record ClusterAdmissionPolicy =
  capMeta :: ObjectMeta
  capSpec :: ClusterAdmissionPolicySpec
  capStatus :: PolicyStatus

record AdmissionPolicy =
  apMeta :: ObjectMeta
  apSpec :: AdmissionPolicySpec
  apStatus :: PolicyStatus

section \<open>The methods of ClusterAdmissionPolicy\<close>

definition cap_SetStatus :: "PolicyStatusEnum \<Rightarrow> ClusterAdmissionPolicy \<Rightarrow> ClusterAdmissionPolicy" where
  "cap_SetStatus st r = r\<lparr>capStatus := (capStatus r)\<lparr>statPolicyStatus := st\<rparr>\<rparr>"

definition cap_GetPolicyMode :: "ClusterAdmissionPolicy \<Rightarrow> PolicyMode" where
  "cap_GetPolicyMode r = specMode (capSpec r)"

definition cap_SetPolicyModeStatus ::
    "PolicyModeStatus \<Rightarrow> ClusterAdmissionPolicy \<Rightarrow> ClusterAdmissionPolicy" where
  "cap_SetPolicyModeStatus m r = r\<lparr>capStatus := (capStatus r)\<lparr>statPolicyMode := m\<rparr>\<rparr>"

definition cap_GetModule :: "ClusterAdmissionPolicy \<Rightarrow> string" where
  "cap_GetModule r = specModule (capSpec r)"

definition cap_IsMutating :: "ClusterAdmissionPolicy \<Rightarrow> bool" where
  "cap_IsMutating r = specMutating (capSpec r)"

definition cap_GetSettings :: "ClusterAdmissionPolicy \<Rightarrow> RawExtension" where
  "cap_GetSettings r = specSettings (capSpec r)"

definition cap_GetStatus :: "ClusterAdmissionPolicy \<Rightarrow> PolicyStatus" where
  "cap_GetStatus r = capStatus r"

definition cap_GetSideEffects :: "ClusterAdmissionPolicy \<Rightarrow> string option" where
  "cap_GetSideEffects r = specSideEffects (capSpec r)"

definition cap_GetFailurePolicy :: "ClusterAdmissionPolicy \<Rightarrow> string option" where
  "cap_GetFailurePolicy r = specFailurePolicy (capSpec r)"

definition cap_GetMatchPolicy :: "ClusterAdmissionPolicy \<Rightarrow> string option" where
  "cap_GetMatchPolicy r = specMatchPolicy (capSpec r)"

definition cap_GetRules :: "ClusterAdmissionPolicy \<Rightarrow> RuleWithOperations slice" where
  "cap_GetRules r = specRules (capSpec r)"

definition cap_GetNamespaceSelector :: "ClusterAdmissionPolicy \<Rightarrow> LabelSelector option" where
  "cap_GetNamespaceSelector r = specNamespaceSelector (capSpec r)"

definition cap_GetObjectSelector :: "ClusterAdmissionPolicy \<Rightarrow> LabelSelector option" where
  "cap_GetObjectSelector r = specObjectSelector (capSpec r)"

definition cap_GetTimeoutSeconds :: "ClusterAdmissionPolicy \<Rightarrow> int32 option" where
  "cap_GetTimeoutSeconds r = specTimeoutSeconds (capSpec r)"

definition cap_GetPolicyServer :: "ClusterAdmissionPolicy \<Rightarrow> string" where
  "cap_GetPolicyServer r = specPolicyServer (capSpec r)"

definition cap_GetUniqueName :: "ClusterAdmissionPolicy \<Rightarrow> string" where
  "cap_GetUniqueName r = ''clusterwide-'' @ Name (capMeta r)"

section \<open>The methods of AdmissionPolicy\<close>

definition ap_SetStatus :: "PolicyStatusEnum \<Rightarrow> AdmissionPolicy \<Rightarrow> AdmissionPolicy" where
  "ap_SetStatus st r = r\<lparr>apStatus := (apStatus r)\<lparr>statPolicyStatus := st\<rparr>\<rparr>"

definition ap_GetPolicyMode :: "AdmissionPolicy \<Rightarrow> PolicyMode" where
  "ap_GetPolicyMode r = specMode (apSpec r)"

definition ap_SetPolicyModeStatus :: "PolicyModeStatus \<Rightarrow> AdmissionPolicy \<Rightarrow> AdmissionPolicy" where
  "ap_SetPolicyModeStatus m r = r\<lparr>apStatus := (apStatus r)\<lparr>statPolicyMode := m\<rparr>\<rparr>"

definition ap_GetModule :: "AdmissionPolicy \<Rightarrow> string" where
  "ap_GetModule r = specModule (apSpec r)"

definition ap_IsMutating :: "AdmissionPolicy \<Rightarrow> bool" where
  "ap_IsMutating r = specMutating (apSpec r)"

definition ap_GetSettings :: "AdmissionPolicy \<Rightarrow> RawExtension" where
  "ap_GetSettings r = specSettings (apSpec r)"

definition ap_GetStatus :: "AdmissionPolicy \<Rightarrow> PolicyStatus" where
  "ap_GetStatus r = apStatus r"

definition ap_GetSideEffects :: "AdmissionPolicy \<Rightarrow> string option" where
  "ap_GetSideEffects r = specSideEffects (apSpec r)"

text \<open>The loop copies each rule and sets its scope; its result is never the nil slice.\<close>

fun namespaced_rules :: "RuleWithOperations list \<Rightarrow> RuleWithOperations list \<Rightarrow> RuleWithOperations list" where
  "namespaced_rules [] rules = rules"
| "namespaced_rules (rule # rest) rules =
     namespaced_rules rest (rules @ [rule\<lparr>ruleScope := Some NamespacedScope\<rparr>])"

definition ap_GetRules :: "AdmissionPolicy \<Rightarrow> RuleWithOperations slice" where
  "ap_GetRules r = Some (namespaced_rules (elems (specRules (apSpec r))) [])"

definition ap_GetFailurePolicy :: "AdmissionPolicy \<Rightarrow> string option" where
  "ap_GetFailurePolicy r = specFailurePolicy (apSpec r)"

definition ap_GetMatchPolicy :: "AdmissionPolicy \<Rightarrow> string option" where
  "ap_GetMatchPolicy r = specMatchPolicy (apSpec r)"

definition ap_GetNamespaceSelector :: "AdmissionPolicy \<Rightarrow> LabelSelector option" where
  "ap_GetNamespaceSelector r =
     Some \<lparr>MatchLabels = Some (fmap_of_list [(''kubernetes.io/metadata.name'', Namespace (apMeta r))]),
           MatchExpressions = None\<rparr>"

definition ap_GetObjectSelector :: "AdmissionPolicy \<Rightarrow> LabelSelector option" where
  "ap_GetObjectSelector r = specObjectSelector (apSpec r)"

definition ap_GetTimeoutSeconds :: "AdmissionPolicy \<Rightarrow> int32 option" where
  "ap_GetTimeoutSeconds r = specTimeoutSeconds (apSpec r)"

definition ap_GetPolicyServer :: "AdmissionPolicy \<Rightarrow> string" where
  "ap_GetPolicyServer r = specPolicyServer (apSpec r)"

definition ap_GetUniqueName :: "AdmissionPolicy \<Rightarrow> string" where
  "ap_GetUniqueName r = ''namespaced-'' @ Namespace (apMeta r) @ ''-'' @ Name (apMeta r)"

lemma namespaced_rules_eq:
  "namespaced_rules rs acc = acc @ map (\<lambda>r. r\<lparr>ruleScope := Some NamespacedScope\<rparr>) rs"
  by (induction rs arbitrary: acc) auto

lemma ap_GetRules_eq:
  "ap_GetRules r =
     Some (map (\<lambda>r. r\<lparr>ruleScope := Some NamespacedScope\<rparr>) (elems (specRules (apSpec r))))"
  by (simp add: ap_GetRules_def namespaced_rules_eq)

end
