(* ===== verification/Policy_Interface.thy ===== *)
theory Policy_Interface
  imports Policy_Types
begin

text \<open>
  The Go interface \<open>Policy\<close> (\<open>apis/policies/v1/policy.go\<close>).  A value of the interface type is one
  of the two kinds of policy, and a method call dispatches on the kind.  The pointers that
  \<open>GetStatus\<close> and \<open>GetObjectMeta\<close> return are used to write: \<open>UpdateStatus\<close> and \<open>UpdateMeta\<close> are
  the writes through them.

  The locale \<open>policy_methods\<close> states what the controllers rely on: writing the status of a policy
  leaves everything else the interface shows unchanged.  It is interpreted on both kinds and on
  the interface type.
\<close>

datatype Policy =
    ClusterPolicy ClusterAdmissionPolicy
  | NamespacedPolicy AdmissionPolicy

section \<open>Dispatch\<close>

fun GetPolicyMode :: "Policy \<Rightarrow> PolicyMode" where
  "GetPolicyMode (ClusterPolicy r) = cap_GetPolicyMode r"
| "GetPolicyMode (NamespacedPolicy r) = ap_GetPolicyMode r"

fun SetPolicyModeStatus :: "PolicyModeStatus \<Rightarrow> Policy \<Rightarrow> Policy" where
  "SetPolicyModeStatus m (ClusterPolicy r) = ClusterPolicy (cap_SetPolicyModeStatus m r)"
| "SetPolicyModeStatus m (NamespacedPolicy r) = NamespacedPolicy (ap_SetPolicyModeStatus m r)"

fun GetModule :: "Policy \<Rightarrow> string" where
  "GetModule (ClusterPolicy r) = cap_GetModule r"
| "GetModule (NamespacedPolicy r) = ap_GetModule r"

fun IsMutating :: "Policy \<Rightarrow> bool" where
  "IsMutating (ClusterPolicy r) = cap_IsMutating r"
| "IsMutating (NamespacedPolicy r) = ap_IsMutating r"

fun GetSettings :: "Policy \<Rightarrow> RawExtension" where
  "GetSettings (ClusterPolicy r) = cap_GetSettings r"
| "GetSettings (NamespacedPolicy r) = ap_GetSettings r"

fun GetStatus :: "Policy \<Rightarrow> PolicyStatus" where
  "GetStatus (ClusterPolicy r) = cap_GetStatus r"
| "GetStatus (NamespacedPolicy r) = ap_GetStatus r"

fun SetStatus :: "PolicyStatusEnum \<Rightarrow> Policy \<Rightarrow> Policy" where
  "SetStatus st (ClusterPolicy r) = ClusterPolicy (cap_SetStatus st r)"
| "SetStatus st (NamespacedPolicy r) = NamespacedPolicy (ap_SetStatus st r)"

fun GetSideEffects :: "Policy \<Rightarrow> string option" where
  "GetSideEffects (ClusterPolicy r) = cap_GetSideEffects r"
| "GetSideEffects (NamespacedPolicy r) = ap_GetSideEffects r"

fun GetRules :: "Policy \<Rightarrow> RuleWithOperations slice" where
  "GetRules (ClusterPolicy r) = cap_GetRules r"
| "GetRules (NamespacedPolicy r) = ap_GetRules r"

fun GetFailurePolicy :: "Policy \<Rightarrow> string option" where
  "GetFailurePolicy (ClusterPolicy r) = cap_GetFailurePolicy r"
| "GetFailurePolicy (NamespacedPolicy r) = ap_GetFailurePolicy r"

fun GetMatchPolicy :: "Policy \<Rightarrow> string option" where
  "GetMatchPolicy (ClusterPolicy r) = cap_GetMatchPolicy r"
| "GetMatchPolicy (NamespacedPolicy r) = ap_GetMatchPolicy r"

fun GetNamespaceSelector :: "Policy \<Rightarrow> LabelSelector option" where
  "GetNamespaceSelector (ClusterPolicy r) = cap_GetNamespaceSelector r"
| "GetNamespaceSelector (NamespacedPolicy r) = ap_GetNamespaceSelector r"

fun GetObjectSelector :: "Policy \<Rightarrow> LabelSelector option" where
  "GetObjectSelector (ClusterPolicy r) = cap_GetObjectSelector r"
| "GetObjectSelector (NamespacedPolicy r) = ap_GetObjectSelector r"

fun GetTimeoutSeconds :: "Policy \<Rightarrow> int32 option" where
  "GetTimeoutSeconds (ClusterPolicy r) = cap_GetTimeoutSeconds r"
| "GetTimeoutSeconds (NamespacedPolicy r) = ap_GetTimeoutSeconds r"

fun GetObjectMeta :: "Policy \<Rightarrow> ObjectMeta" where
  "GetObjectMeta (ClusterPolicy r) = capMeta r"
| "GetObjectMeta (NamespacedPolicy r) = apMeta r"

fun GetPolicyServer :: "Policy \<Rightarrow> string" where
  "GetPolicyServer (ClusterPolicy r) = cap_GetPolicyServer r"
| "GetPolicyServer (NamespacedPolicy r) = ap_GetPolicyServer r"

fun GetUniqueName :: "Policy \<Rightarrow> string" where
  "GetUniqueName (ClusterPolicy r) = cap_GetUniqueName r"
| "GetUniqueName (NamespacedPolicy r) = ap_GetUniqueName r"

fun UpdateStatus :: "(PolicyStatus \<Rightarrow> PolicyStatus) \<Rightarrow> Policy \<Rightarrow> Policy" where
  "UpdateStatus f (ClusterPolicy r) = ClusterPolicy (r\<lparr>capStatus := f (capStatus r)\<rparr>)"
| "UpdateStatus f (NamespacedPolicy r) = NamespacedPolicy (r\<lparr>apStatus := f (apStatus r)\<rparr>)"

fun UpdateMeta :: "(ObjectMeta \<Rightarrow> ObjectMeta) \<Rightarrow> Policy \<Rightarrow> Policy" where
  "UpdateMeta f (ClusterPolicy r) = ClusterPolicy (r\<lparr>capMeta := f (capMeta r)\<rparr>)"
| "UpdateMeta f (NamespacedPolicy r) = NamespacedPolicy (r\<lparr>apMeta := f (apMeta r)\<rparr>)"

abbreviation GetName :: "Policy \<Rightarrow> string" where
  "GetName p \<equiv> Name (GetObjectMeta p)"

abbreviation GetNamespace :: "Policy \<Rightarrow> string" where
  "GetNamespace p \<equiv> Namespace (GetObjectMeta p)"

text \<open>The write \<open>apimeta.SetStatusCondition(&policy.GetStatus().Conditions, c)\<close>.\<close>

definition UpdateConditions :: "(Condition list \<Rightarrow> Condition list) \<Rightarrow> Policy \<Rightarrow> Policy" where
  "UpdateConditions f = UpdateStatus (\<lambda>s. s\<lparr>statConditions := f (statConditions s)\<rparr>)"

section \<open>What the interface shows besides the status\<close>

record PolicyView =
  pvMeta :: ObjectMeta
  pvMode :: PolicyMode
  pvModule :: string
  pvMutating :: bool
  pvSettings :: RawExtension
  pvSideEffects :: "string option"
  pvRules :: "RuleWithOperations slice"
  pvFailurePolicy :: "string option"
  pvMatchPolicy :: "string option"
  pvNamespaceSelector :: "LabelSelector option"
  pvObjectSelector :: "LabelSelector option"
  pvTimeoutSeconds :: "int32 option"
  pvPolicyServer :: string
  pvUniqueName :: string

definition policy_view :: "Policy \<Rightarrow> PolicyView" where
  "policy_view p = \<lparr>pvMeta = GetObjectMeta p, pvMode = GetPolicyMode p, pvModule = GetModule p,
     pvMutating = IsMutating p, pvSettings = GetSettings p, pvSideEffects = GetSideEffects p,
     pvRules = GetRules p, pvFailurePolicy = GetFailurePolicy p, pvMatchPolicy = GetMatchPolicy p,
     pvNamespaceSelector = GetNamespaceSelector p, pvObjectSelector = GetObjectSelector p,
     pvTimeoutSeconds = GetTimeoutSeconds p, pvPolicyServer = GetPolicyServer p,
     pvUniqueName = GetUniqueName p\<rparr>"

definition cap_view :: "ClusterAdmissionPolicy \<Rightarrow> PolicyView" where
  "cap_view r = policy_view (ClusterPolicy r)"

definition ap_view :: "AdmissionPolicy \<Rightarrow> PolicyView" where
  "ap_view r = policy_view (NamespacedPolicy r)"

lemmas cap_method_defs = cap_SetStatus_def cap_GetPolicyMode_def cap_SetPolicyModeStatus_def
  cap_GetModule_def cap_IsMutating_def cap_GetSettings_def cap_GetStatus_def cap_GetSideEffects_def
  cap_GetFailurePolicy_def cap_GetMatchPolicy_def cap_GetRules_def cap_GetNamespaceSelector_def
  cap_GetObjectSelector_def cap_GetTimeoutSeconds_def cap_GetPolicyServer_def cap_GetUniqueName_def

lemmas ap_method_defs = ap_SetStatus_def ap_GetPolicyMode_def ap_SetPolicyModeStatus_def
  ap_GetModule_def ap_IsMutating_def ap_GetSettings_def ap_GetStatus_def ap_GetSideEffects_def
  ap_GetFailurePolicy_def ap_GetMatchPolicy_def ap_GetRules_def ap_GetNamespaceSelector_def
  ap_GetObjectSelector_def ap_GetTimeoutSeconds_def ap_GetPolicyServer_def ap_GetUniqueName_def

text \<open>A write of a controller to a policy it holds: one of the three parts of the status.\<close>

datatype status_write =
    WriteStatus PolicyStatusEnum
  | WriteMode PolicyModeStatus
  | WriteConditions "Condition list"

locale policy_methods =
  fixes view :: "'p \<Rightarrow> PolicyView"
    and getStatus :: "'p \<Rightarrow> PolicyStatus"
    and setStatus :: "PolicyStatusEnum \<Rightarrow> 'p \<Rightarrow> 'p"
    and setMode :: "PolicyModeStatus \<Rightarrow> 'p \<Rightarrow> 'p"
    and setConditions :: "Condition list \<Rightarrow> 'p \<Rightarrow> 'p"
  assumes get_set_status: "getStatus (setStatus st p) = (getStatus p)\<lparr>statPolicyStatus := st\<rparr>"
    and get_set_mode: "getStatus (setMode m p) = (getStatus p)\<lparr>statPolicyMode := m\<rparr>"
    and get_set_conditions: "getStatus (setConditions cs p) = (getStatus p)\<lparr>statConditions := cs\<rparr>"
    and view_set_status: "view (setStatus st p) = view p"
    and view_set_mode: "view (setMode m p) = view p"
    and view_set_conditions: "view (setConditions cs p) = view p"
begin

definition apply_write :: "status_write \<Rightarrow> 'p \<Rightarrow> 'p" where
  "apply_write w p = (case w of WriteStatus st \<Rightarrow> setStatus st p | WriteMode m \<Rightarrow> setMode m p
                 | WriteConditions cs \<Rightarrow> setConditions cs p)"

lemma view_status_write: "view (apply_write w p) = view p"
  by (cases w) (simp_all add: apply_write_def view_set_status view_set_mode view_set_conditions)

text \<open>No sequence of status writes changes what a policy asks for.\<close>

lemma view_writes: "view (fold apply_write ws p) = view p"
  by (induction ws arbitrary: p) (simp_all add: view_status_write)

text \<open>The last write of a status value is the one that is read.\<close>

lemma writes_last_status:
  assumes "\<forall>w \<in> set ws. \<forall>st. w \<noteq> WriteStatus st"
  shows "statPolicyStatus (getStatus (fold apply_write ws (setStatus st p))) = st"
proof -
  have "statPolicyStatus (getStatus (fold apply_write ws q)) = statPolicyStatus (getStatus q)" for q
    using assms
  proof (induction ws arbitrary: q)
    case (Cons w ws)
    then have "statPolicyStatus (getStatus (apply_write w q)) = statPolicyStatus (getStatus q)"
      by (cases w) (auto simp: apply_write_def get_set_mode get_set_conditions)
    with Cons show ?case by simp
  qed simp
  then show ?thesis by (simp add: get_set_status)
qed

end

interpretation cap: policy_methods cap_view cap_GetStatus cap_SetStatus cap_SetPolicyModeStatus
    "\<lambda>cs r. r\<lparr>capStatus := (capStatus r)\<lparr>statConditions := cs\<rparr>\<rparr>"
  by unfold_locales (simp_all add: cap_view_def policy_view_def cap_method_defs)

interpretation ap: policy_methods ap_view ap_GetStatus ap_SetStatus ap_SetPolicyModeStatus
    "\<lambda>cs r. r\<lparr>apStatus := (apStatus r)\<lparr>statConditions := cs\<rparr>\<rparr>"
  by unfold_locales (simp_all add: ap_view_def policy_view_def ap_method_defs)

lemma GetStatus_UpdateConditions [simp]:
  "GetStatus (UpdateConditions f p) = (GetStatus p)\<lparr>statConditions := f (statConditions (GetStatus p))\<rparr>"
  by (cases p) (simp_all add: UpdateConditions_def cap_method_defs ap_method_defs)

lemma GetStatus_SetStatus [simp]:
  "GetStatus (SetStatus st p) = (GetStatus p)\<lparr>statPolicyStatus := st\<rparr>"
  by (cases p) (simp_all add: cap.get_set_status ap.get_set_status)

lemma GetStatus_SetPolicyModeStatus [simp]:
  "GetStatus (SetPolicyModeStatus m p) = (GetStatus p)\<lparr>statPolicyMode := m\<rparr>"
  by (cases p) (simp_all add: cap.get_set_mode ap.get_set_mode)

lemma policy_view_SetStatus [simp]: "policy_view (SetStatus st p) = policy_view p"
  using cap.view_set_status ap.view_set_status by (cases p) (simp_all add: cap_view_def ap_view_def)

lemma policy_view_SetPolicyModeStatus [simp]:
  "policy_view (SetPolicyModeStatus m p) = policy_view p"
  using cap.view_set_mode ap.view_set_mode by (cases p) (simp_all add: cap_view_def ap_view_def)

lemma policy_view_UpdateConditions [simp]: "policy_view (UpdateConditions f p) = policy_view p"
  by (cases p) (simp_all add: UpdateConditions_def policy_view_def cap_method_defs ap_method_defs)

interpretation pol: policy_methods policy_view GetStatus SetStatus SetPolicyModeStatus
    "\<lambda>cs. UpdateConditions (\<lambda>_. cs)"
  by unfold_locales simp_all

text \<open>Two policies with the same view agree on every getter of the interface.\<close>

lemma policy_view_eqD:
  assumes "policy_view p = policy_view q"
  shows "GetObjectMeta p = GetObjectMeta q" "GetPolicyMode p = GetPolicyMode q"
    "GetModule p = GetModule q" "IsMutating p = IsMutating q" "GetSettings p = GetSettings q"
    "GetSideEffects p = GetSideEffects q" "GetRules p = GetRules q"
    "GetFailurePolicy p = GetFailurePolicy q" "GetMatchPolicy p = GetMatchPolicy q"
    "GetNamespaceSelector p = GetNamespaceSelector q" "GetObjectSelector p = GetObjectSelector q"
    "GetTimeoutSeconds p = GetTimeoutSeconds q" "GetPolicyServer p = GetPolicyServer q"
    "GetUniqueName p = GetUniqueName q"
  using assms by (simp_all add: policy_view_def)

lemmas status_write_getters [simp] =
  policy_view_SetStatus [THEN policy_view_eqD(1)] policy_view_SetStatus [THEN policy_view_eqD(4)]
  policy_view_SetStatus [THEN policy_view_eqD(13)] policy_view_SetStatus [THEN policy_view_eqD(14)]
  policy_view_SetPolicyModeStatus [THEN policy_view_eqD(1)]
  policy_view_SetPolicyModeStatus [THEN policy_view_eqD(4)]
  policy_view_SetPolicyModeStatus [THEN policy_view_eqD(13)]
  policy_view_SetPolicyModeStatus [THEN policy_view_eqD(14)]
  policy_view_UpdateConditions [THEN policy_view_eqD(1)]
  policy_view_UpdateConditions [THEN policy_view_eqD(4)]
  policy_view_UpdateConditions [THEN policy_view_eqD(13)]
  policy_view_UpdateConditions [THEN policy_view_eqD(14)]

section \<open>Unique names\<close>

text \<open>
  A policy is known to its policy server, and its webhook to the API server, by its unique name.
  Names of the two kinds never meet; names of cluster policies are different when the policies
  are, and so are those of the policies of one namespace.
\<close>

lemma cluster_namespaced_unique_names:
  "GetUniqueName (ClusterPolicy r) \<noteq> GetUniqueName (NamespacedPolicy q)"
  by (simp add: cap_GetUniqueName_def ap_GetUniqueName_def)

lemma cluster_unique_name_inject:
  "GetUniqueName (ClusterPolicy r) = GetUniqueName (ClusterPolicy q) \<longleftrightarrow> Name (capMeta r) = Name (capMeta q)"
  by (simp add: cap_GetUniqueName_def)

lemma namespaced_unique_name_inject:
  assumes "CHR ''-'' \<notin> set (Namespace (apMeta r))" "CHR ''-'' \<notin> set (Namespace (apMeta q))"
  shows "GetUniqueName (NamespacedPolicy r) = GetUniqueName (NamespacedPolicy q) \<longleftrightarrow>
     Namespace (apMeta r) = Namespace (apMeta q) \<and> Name (apMeta r) = Name (apMeta q)"
proof
  assume "GetUniqueName (NamespacedPolicy r) = GetUniqueName (NamespacedPolicy q)"
  then have "Namespace (apMeta r) @ CHR ''-'' # Name (apMeta r)
           = Namespace (apMeta q) @ CHR ''-'' # Name (apMeta q)"
    by (simp add: ap_GetUniqueName_def)
  from append_eq_same_split [OF this assms]
  show "Namespace (apMeta r) = Namespace (apMeta q) \<and> Name (apMeta r) = Name (apMeta q)" .
qed (simp add: ap_GetUniqueName_def)

text \<open>What identifies a policy in the cluster: its kind, its namespace and its name.\<close>

fun identity :: "Policy \<Rightarrow> bool \<times> string \<times> string" where
  "identity (ClusterPolicy r) = (True, '''', Name (capMeta r))"
| "identity (NamespacedPolicy r) = (False, Namespace (apMeta r), Name (apMeta r))"

section \<open>Example policies\<close>

definition demo_spec :: "string \<Rightarrow> string \<Rightarrow> PolicySpec" where
  "demo_spec server mode = \<lparr>specPolicyServer = server, specModule = ''registry://m:v1'', specMode = mode,
     specSettings = None, specRules = Some [], specFailurePolicy = None, specMutating = False,
     specMatchPolicy = None, specObjectSelector = None, specSideEffects = None,
     specTimeoutSeconds = None\<rparr>"

definition demo_policy :: "string \<Rightarrow> string \<Rightarrow> string \<Rightarrow> Policy" where
  "demo_policy server mode n = ClusterPolicy \<lparr>capMeta = metaNamed '''' n,
     capSpec = PolicySpec.extend (demo_spec server mode) (ClusterAdmissionPolicySpec.fields None),
     capStatus = \<lparr>statPolicyStatus = '''', statPolicyMode = '''', statConditions = []\<rparr>\<rparr>"

definition demo_namespaced_policy :: "string \<Rightarrow> string \<Rightarrow> string \<Rightarrow> string \<Rightarrow> Policy" where
  "demo_namespaced_policy server mode ns n = NamespacedPolicy \<lparr>apMeta = metaNamed ns n,
     apSpec = demo_spec server mode,
     apStatus = \<lparr>statPolicyStatus = '''', statPolicyMode = '''', statConditions = []\<rparr>\<rparr>"

lemmas demo_defs = demo_policy_def demo_namespaced_policy_def demo_spec_def PolicySpec.defs
  ClusterAdmissionPolicySpec.defs

section \<open>Properties\<close>

text \<open>
  The unique name identifies the policy: two policies whose namespaces contain no hyphen have
  the same unique name exactly when they are the same object (same kind, namespace and name).
\<close>

theorem GetUniqueName_identifies:
  assumes "CHR ''-'' \<notin> set (GetNamespace p)" "CHR ''-'' \<notin> set (GetNamespace q)"
  shows "GetUniqueName p = GetUniqueName q \<longleftrightarrow> identity p = identity q"
  using assms cluster_namespaced_unique_names cluster_unique_name_inject namespaced_unique_name_inject
  by (cases p; cases q) (auto simp del: GetUniqueName.simps dest: sym)

theorem GetUniqueName_identifies_witness:
  "GetUniqueName (demo_namespaced_policy ''s'' ''protect'' ''a'' ''b-c'')
     \<noteq> GetUniqueName (demo_namespaced_policy ''s'' ''protect'' ''ab'' ''c'')"
  using GetUniqueName_identifies [of "demo_namespaced_policy ''s'' ''protect'' ''a'' ''b-c''"
      "demo_namespaced_policy ''s'' ''protect'' ''ab'' ''c''"]
  by (simp add: demo_defs)

end
