(* ===== verification/Policy_Server_Types.thy ===== *)
theory Policy_Server_Types
  imports Kube_Objects Kubewarden_Constants
begin

text \<open>
  The custom resource \<open>PolicyServer\<close> (\<open>apis/policies/v1/policyserver_types.go\<close>) and the names
  derived from it (\<open>internal/pkg/naming\<close>).
\<close>

record PolicyServerSpec =
  psImage :: string
  psReplicas :: int32
  psAnnotations :: "(string, string) nilmap"
  psEnv :: "EnvVar list"
  psServiceAccountName :: string
  psImagePullSecret :: string
  psInsecureSources :: "string slice"
  psSourceAuthorities :: "(string, string list) nilmap"
  psVerificationConfig :: string

definition ReconciliationFailed :: string where [const_defs]:
  "ReconciliationFailed = ''ReconciliationFailed''"

definition ReconciliationSucceeded :: string where [const_defs]:
  "ReconciliationSucceeded = ''ReconciliationSucceeded''"

definition PolicyServerCASecretReconciled :: string where [const_defs]:
  "PolicyServerCASecretReconciled = ''CASecretReconciled''"

definition PolicyServerCARootSecretReconciled :: string where [const_defs]:
  "PolicyServerCARootSecretReconciled = ''CARootSecretReconciled''"

definition PolicyServerConfigMapReconciled :: string where [const_defs]:
  "PolicyServerConfigMapReconciled = ''ConfigMapReconciled''"

definition PolicyServerDeploymentReconciled :: string where [const_defs]:
  "PolicyServerDeploymentReconciled = ''DeploymentReconciled''"

definition PolicyServerServiceReconciled :: string where [const_defs]:
  "PolicyServerServiceReconciled = ''ServiceReconciled''"

record PolicyServer =
  psMeta :: ObjectMeta
  psSpec :: PolicyServerSpec
  psConditions :: "Condition list"

definition NameWithPrefix :: "PolicyServer \<Rightarrow> string" where
  "NameWithPrefix ps = ''policy-server-'' @ Name (psMeta ps)"

definition AppLabel :: "PolicyServer \<Rightarrow> string" where
  "AppLabel ps = ''kubewarden-'' @ NameWithPrefix ps"

definition PolicyServerDeploymentNameForPolicyServerName :: "string \<Rightarrow> string" where
  "PolicyServerDeploymentNameForPolicyServerName policyServerName = ''policy-server-'' @ policyServerName"

definition PolicyServerDeploymentNameForPolicyServer :: "PolicyServer \<Rightarrow> string" where
  "PolicyServerDeploymentNameForPolicyServer policyServer =
     PolicyServerDeploymentNameForPolicyServerName (Name (psMeta policyServer))"

text \<open>
  The policy controller finds the deployment and the config map of a policy server by the name
  the policy server controller gives them, and two policy servers never share it.
\<close>

lemma deployment_name_agrees:
  "PolicyServerDeploymentNameForPolicyServer ps = NameWithPrefix ps"
  "PolicyServerDeploymentNameForPolicyServerName (Name (psMeta ps)) = NameWithPrefix ps"
  by (simp_all add: PolicyServerDeploymentNameForPolicyServer_def NameWithPrefix_def
        PolicyServerDeploymentNameForPolicyServerName_def)

lemma NameWithPrefix_inject:
  "NameWithPrefix p = NameWithPrefix q \<longleftrightarrow> Name (psMeta p) = Name (psMeta q)"
  by (simp add: NameWithPrefix_def)

lemma NameWithPrefix_conditions [simp]:
  "NameWithPrefix (ps\<lparr>psConditions := cs\<rparr>) = NameWithPrefix ps"
  by (simp add: NameWithPrefix_def)

section \<open>An example policy server\<close>

definition demo_server :: PolicyServer where
  "demo_server = \<lparr>psMeta = metaNamed '''' ''default'',
     psSpec = \<lparr>psImage = ''policy-server:v1'', psReplicas = 1, psAnnotations = None, psEnv = [],
       psServiceAccountName = '''', psImagePullSecret = '''', psInsecureSources = None,
       psSourceAuthorities = None, psVerificationConfig = ''''\<rparr>,
     psConditions = []\<rparr>"

end
