(* ===== verification/Go_Text.thy ===== *)
theory Go_Text
  imports Go_Prelude
begin

text \<open>
  The functions of Go's packages \<open>strings\<close>, \<open>strconv\<close> and \<open>path/filepath\<close> that the controller
  calls, on strings of bytes.
\<close>

section \<open>strings.Join\<close>

fun strings_Join :: "string list \<Rightarrow> string \<Rightarrow> string" where
  "strings_Join [] sep = ''''"
| "strings_Join [s] sep = s"
| "strings_Join (s # ss) sep = s @ sep @ strings_Join ss sep"

section \<open>Decimal numbers\<close>

definition digit_char :: "nat \<Rightarrow> char" where
  "digit_char d = char_of (48 + d)"

definition digit_value :: "char \<Rightarrow> nat option" where
  "digit_value c = (let n = of_char c in if 48 \<le> n \<and> n \<le> (57::nat) then Some (n - 48) else None)"

fun decimal :: "nat \<Rightarrow> string" where
  "decimal n = (if n < 10 then [digit_char n] else decimal (n div 10) @ [digit_char (n mod 10)])"

declare decimal.simps [simp del]

lemma digit_value_digit_char [simp]: "d < 10 \<Longrightarrow> digit_value (digit_char d) = Some d"
  by (simp add: digit_value_def digit_char_def)

lemma decimal_nonempty [simp]: "decimal n \<noteq> []"
  by (subst decimal.simps) simp

text \<open>
  \<open>strconv.ParseInt(s, 10, 32)\<close>: an optional sign, then decimal digits.  The digits are read by
  \<open>ParseUint\<close> with the limit \<open>2^32 - 1\<close>, then the signed limit is applied.
\<close>

datatype num_error = ErrSyntax | ErrRange

fun parse_digits :: "nat \<Rightarrow> nat \<Rightarrow> string \<Rightarrow> num_error + nat" where
  "parse_digits mx n [] = Inr n"
| "parse_digits mx n (c # cs) =
     (case digit_value c of
        None \<Rightarrow> Inl ErrSyntax
      | Some d \<Rightarrow> if mx < n * 10 + d then Inl ErrRange else parse_digits mx (n * 10 + d) cs)"

definition ParseUint32 :: "string \<Rightarrow> num_error + nat" where
  "ParseUint32 s = (if s = [] then Inl ErrSyntax else parse_digits (2 ^ 32 - 1) 0 s)"

definition ParseInt32 :: "string \<Rightarrow> num_error + int" where
  "ParseInt32 s =
     (let neg = (case s of [] \<Rightarrow> False | c # _ \<Rightarrow> c = CHR ''-'');
          digits = (case s of [] \<Rightarrow> [] | c # cs \<Rightarrow> if c = CHR ''-'' \<or> c = CHR ''+'' then cs else s)
      in if s = [] then Inl ErrSyntax
         else case ParseUint32 digits of
             Inl e \<Rightarrow> Inl e
           | Inr un \<Rightarrow> if \<not> neg \<and> 2 ^ 31 \<le> un then Inl ErrRange
                       else if neg \<and> 2 ^ 31 < un then Inl ErrRange
                       else Inr (if neg then - int un else int un))"

lemma ParseInt32_bounds:
  "ParseInt32 s = Inr v \<Longrightarrow> - (2 ^ 31) \<le> v \<and> v < 2 ^ 31"
  by (auto simp: ParseInt32_def Let_def split: if_splits sum.splits)

lemma parse_digits_append:
  "parse_digits mx n (xs @ ys) =
     (case parse_digits mx n xs of Inl e \<Rightarrow> Inl e | Inr m \<Rightarrow> parse_digits mx m ys)"
  by (induction xs arbitrary: n) (auto split: option.splits)

lemma parse_digits_decimal: "n \<le> mx \<Longrightarrow> parse_digits mx 0 (decimal n) = Inr n"
proof (induction n rule: decimal.induct)
  case (1 n)
  show ?case
  proof (cases "n < 10")
    case True
    with 1 show ?thesis by (subst decimal.simps) simp
  next
    case False
    with 1 have "parse_digits mx 0 (decimal (n div 10)) = Inr (n div 10)"
      by simp
    with False 1 show ?thesis
      by (subst decimal.simps) (simp add: parse_digits_append)
  qed
qed

lemma decimal_hd_digit: "\<exists>c cs. decimal n = c # cs \<and> digit_value c \<noteq> None"
proof (induction n rule: decimal.induct)
  case (1 n)
  show ?case
  proof (cases "n < 10")
    case True
    then show ?thesis by (subst decimal.simps) simp
  next
    case False
    with 1 obtain c cs where "decimal (n div 10) = c # cs" "digit_value c \<noteq> None"
      by blast
    with False show ?thesis by (subst decimal.simps) auto
  qed
qed

lemma ParseInt32_decimal:
  assumes "n < 2 ^ 31"
  shows "ParseInt32 (decimal n) = Inr (int n)"
proof -
  obtain c cs where d: "decimal n = c # cs" "digit_value c \<noteq> None"
    using decimal_hd_digit by blast
  from d(2) have c: "c \<noteq> CHR ''-''" "c \<noteq> CHR ''+''"
    by (auto simp: digit_value_def)
  from assms have "ParseUint32 (decimal n) = Inr n"
    by (simp add: ParseUint32_def parse_digits_decimal)
  with c d(1) assms show ?thesis
    by (simp add: ParseInt32_def)
qed

section \<open>filepath.Join\<close>

text \<open>
  \<open>filepath.Clean\<close> on Unix: the path is read one element at a time; empty elements and \<open>.\<close> are
  dropped, \<open>..\<close> removes the element before it, and at the root it removes nothing.
\<close>

fun split_slash :: "string \<Rightarrow> string list" where
  "split_slash [] = [[]]"
| "split_slash (c # cs) =
     (if c = CHR ''/'' then [] # split_slash cs
      else case split_slash cs of [] \<Rightarrow> [[c]] | w # ws \<Rightarrow> (c # w) # ws)"

text \<open>The accumulator holds the elements kept so far, the last one first.\<close>

fun clean_elements :: "bool \<Rightarrow> string list \<Rightarrow> string list \<Rightarrow> string list" where
  "clean_elements rooted acc [] = rev acc"
| "clean_elements rooted acc (e # es) =
     (if e = [] \<or> e = ''.'' then clean_elements rooted acc es
      else if e = ''..'' then
        (case acc of
           [] \<Rightarrow> clean_elements rooted (if rooted then [] else [e]) es
         | a # as \<Rightarrow> clean_elements rooted (if a = ''..'' then e # acc else as) es)
      else clean_elements rooted (e # acc) es)"

definition filepath_Clean :: "string \<Rightarrow> string" where
  "filepath_Clean p =
     (if p = [] then ''.''
      else let rooted = (hd p = CHR ''/'');
               body = strings_Join (clean_elements rooted [] (split_slash p)) ''/''
           in if rooted then ''/'' @ body else if body = [] then ''.'' else body)"

fun filepath_Join :: "string list \<Rightarrow> string" where
  "filepath_Join [] = ''''"
| "filepath_Join (e # es) =
     (if e = [] then filepath_Join es else filepath_Clean (strings_Join (e # es) ''/''))"

lemma split_slash_no_slash [simp]:
  "CHR ''/'' \<notin> set s \<Longrightarrow> split_slash s = [s]"
  by (induction s) auto

lemma split_slash_append:
  "CHR ''/'' \<notin> set s \<Longrightarrow> split_slash (s @ CHR ''/'' # t) = s # split_slash t"
  by (induction s) auto

lemma filepath_Join_dir:
  assumes "CHR ''/'' \<notin> set s" "CHR ''/'' \<notin> set d"
    and "s \<noteq> []" "s \<noteq> ''.''" "s \<noteq> ''..''" "d \<noteq> []" "d \<noteq> ''.''" "d \<noteq> ''..''"
  shows "filepath_Join [CHR ''/'' # d, s] = CHR ''/'' # d @ CHR ''/'' # s"
  using assms by (simp add: filepath_Clean_def split_slash_append)

end
