(* ===== verification/Api_Client.thy ===== *)
theory Api_Client
  imports Policy_Interface Policy_Server_Types Go_Text
begin

text \<open>
  The interface between the controllers and the rest of the world.

  The API server and the client library are not part of the repository: \<open>reader_ops\<close> and
  \<open>client_ops\<close> are the operations of \<open>client.Reader\<close> and \<open>client.Client\<close> as arbitrary functions
  on a state \<open>'w\<close> of the world.  Nothing is assumed of them, so every theorem that has no
  hypothesis about them holds for an API server that fails, is slow, or is changed by others
  between two requests.  Each request is recorded with its answer, so that theorems can speak of
  the requests a function sends and of their order.

  \<open>kube_lib\<close> has the functions of the Kubernetes libraries the code calls on its own data
  (\<open>apimeta.SetStatusCondition\<close>, \<open>controllerutil.AddFinalizer\<close> and \<open>RemoveFinalizer\<close>, the JSON
  methods of \<open>runtime.RawExtension\<close>); their documented behaviour is stated as predicates and used
  as named hypotheses.
\<close>

section \<open>Errors of the controllers\<close>

text \<open>
  \<open>Wrapped p e\<close> is the error made by \<open>fmt.Errorf("...: %w", e)\<close> or \<open>errors.Wrap(e, "...")\<close>, where
  \<open>p\<close> is the text before the text of \<open>e\<close>.  \<open>ReconcilerErrors\<close> is the type \<open>reconcilerErrors\<close>.
\<close>

datatype go_error =
    ApiErr api_error
  | PolicyServerNotReadyError string
  | Plain string
  | Wrapped string go_error
  | ReconcilerErrors "go_error list"

fun Error :: "go_error \<Rightarrow> string" where
  "Error (ApiErr e) = api_error_text e"
| "Error (PolicyServerNotReadyError m) = m"
| "Error (Plain m) = m"
| "Error (Wrapped p e) = p @ Error e"
| "Error (ReconcilerErrors es) = strings_Join (map Error es) '', ''"

text \<open>
  \<open>IsPolicyServerNotReady\<close>: \<open>errors.As\<close> follows \<open>Unwrap\<close>, which only wrapping errors have.
\<close>

fun IsPolicyServerNotReady :: "go_error \<Rightarrow> bool" where
  "IsPolicyServerNotReady (PolicyServerNotReadyError m) = True"
| "IsPolicyServerNotReady (Wrapped p e) = IsPolicyServerNotReady e"
| "IsPolicyServerNotReady (ApiErr e) = False"
| "IsPolicyServerNotReady (Plain m) = False"
| "IsPolicyServerNotReady (ReconcilerErrors es) = False"

type_synonym 'a result = "(go_error, 'a) outcome"

section \<open>Requests\<close>

datatype kind =
    KConfigMap | KSecret | KDeployment | KService
  | KMutatingWebhookConfiguration | KValidatingWebhookConfiguration
  | KPolicyServer | KClusterAdmissionPolicy | KAdmissionPolicy | KReplicaSet | KPod

datatype api_object =
    OConfigMap ConfigMap
  | OSecret Secret
  | ODeployment Deployment
  | OService Service
  | OMutating MutatingWebhookConfiguration
  | OValidating ValidatingWebhookConfiguration
  | OPolicyServer PolicyServer
  | OPolicy Policy
  | OReplicaSet ReplicaSet
  | OPod Pod

fun kind_of :: "api_object \<Rightarrow> kind" where
  "kind_of (OConfigMap c) = KConfigMap"
| "kind_of (OSecret s) = KSecret"
| "kind_of (ODeployment d) = KDeployment"
| "kind_of (OService s) = KService"
| "kind_of (OMutating m) = KMutatingWebhookConfiguration"
| "kind_of (OValidating v) = KValidatingWebhookConfiguration"
| "kind_of (OPolicyServer p) = KPolicyServer"
| "kind_of (OPolicy (ClusterPolicy p)) = KClusterAdmissionPolicy"
| "kind_of (OPolicy (NamespacedPolicy p)) = KAdmissionPolicy"
| "kind_of (OReplicaSet r) = KReplicaSet"
| "kind_of (OPod p) = KPod"

fun meta_of :: "api_object \<Rightarrow> ObjectMeta" where
  "meta_of (OConfigMap c) = cmMeta c"
| "meta_of (OSecret s) = secMeta s"
| "meta_of (ODeployment d) = depMeta d"
| "meta_of (OService s) = svcMeta s"
| "meta_of (OMutating m) = mwcMeta m"
| "meta_of (OValidating v) = vwcMeta v"
| "meta_of (OPolicyServer p) = psMeta p"
| "meta_of (OPolicy p) = GetObjectMeta p"
| "meta_of (OReplicaSet r) = rsMeta r"
| "meta_of (OPod p) = podMeta p"

type_synonym ObjectKey = NamespacedName

definition object_key :: "string \<Rightarrow> string \<Rightarrow> ObjectKey" where
  "object_key ns n = \<lparr>nnNamespace = ns, nnName = n\<rparr>"

definition key_of :: "api_object \<Rightarrow> ObjectKey" where
  "key_of ob = object_key (Namespace (meta_of ob)) (Name (meta_of ob))"

lemma object_key_inject [simp]:
  "object_key a b = object_key c d \<longleftrightarrow> a = c \<and> b = d"
  by (auto simp: object_key_def)

lemma object_key_simps [simp]: "nnNamespace (object_key a b) = a" "nnName (object_key a b) = b"
  by (simp_all add: object_key_def)

text \<open>The two list options the code uses: a set of labels, or the value of the field index.\<close>

datatype list_selector =
    MatchingLabels string string
  | MatchingFields string string

datatype write_request =
    Create api_object
  | Update api_object
  | StatusUpdate api_object
  | Patch api_object api_object
  | Delete kind ObjectKey

text \<open>
  A successful write returns the object as the API server stored it; the client library copies it
  over the object passed in.
\<close>

datatype api_event =
    EvGet kind ObjectKey "api_error + api_object"
  | EvList kind list_selector "api_error + api_object list"
  | EvWrite write_request "api_error + api_object"

record 'w reader_ops =
  rdGet :: "kind \<Rightarrow> ObjectKey \<Rightarrow> 'w \<Rightarrow> (api_error + api_object) \<times> 'w"
  rdList :: "kind \<Rightarrow> list_selector \<Rightarrow> 'w \<Rightarrow> (api_error + api_object list) \<times> 'w"

record 'w client_ops = "'w reader_ops" +
  clWrite :: "write_request \<Rightarrow> 'w \<Rightarrow> (api_error + api_object) \<times> 'w"

record 'w io =
  world :: 'w
  trace :: "api_event list"

type_synonym ('w, 'a) api = "('w io, 'a) state"

definition api_get :: "('w, 'z) reader_ops_scheme \<Rightarrow> kind \<Rightarrow> ObjectKey \<Rightarrow> ('w, api_error + api_object) api" where
  "api_get rd k key = State (\<lambda>s. let (r, w) = rdGet rd k key (world s) in
     (r, s\<lparr>world := w, trace := trace s @ [EvGet k key r]\<rparr>))"

definition api_list ::
    "('w, 'z) reader_ops_scheme \<Rightarrow> kind \<Rightarrow> list_selector \<Rightarrow> ('w, api_error + api_object list) api" where
  "api_list rd k sel = State (\<lambda>s. let (r, w) = rdList rd k sel (world s) in
     (r, s\<lparr>world := w, trace := trace s @ [EvList k sel r]\<rparr>))"

definition api_write :: "'w client_ops \<Rightarrow> write_request \<Rightarrow> ('w, api_error + api_object) api" where
  "api_write cl q = State (\<lambda>s. let (r, w) = clWrite cl q (world s) in
     (r, s\<lparr>world := w, trace := trace s @ [EvWrite q r]\<rparr>))"

text \<open>
  The client decodes the answer into an object of the type it was given; an answer of another
  type is a decoding error.
\<close>

definition decode_error :: api_error where
  "decode_error = OtherApiError ''unable to decode the response''"

fun as_ConfigMap :: "api_error + api_object \<Rightarrow> api_error + ConfigMap" where
  "as_ConfigMap (Inl e) = Inl e"
| "as_ConfigMap (Inr (OConfigMap x)) = Inr x"
| "as_ConfigMap (Inr _) = Inl decode_error"

fun as_Secret :: "api_error + api_object \<Rightarrow> api_error + Secret" where
  "as_Secret (Inl e) = Inl e"
| "as_Secret (Inr (OSecret x)) = Inr x"
| "as_Secret (Inr _) = Inl decode_error"

fun as_Deployment :: "api_error + api_object \<Rightarrow> api_error + Deployment" where
  "as_Deployment (Inl e) = Inl e"
| "as_Deployment (Inr (ODeployment x)) = Inr x"
| "as_Deployment (Inr _) = Inl decode_error"

fun as_Mutating :: "api_error + api_object \<Rightarrow> api_error + MutatingWebhookConfiguration" where
  "as_Mutating (Inl e) = Inl e"
| "as_Mutating (Inr (OMutating x)) = Inr x"
| "as_Mutating (Inr _) = Inl decode_error"

fun as_Validating :: "api_error + api_object \<Rightarrow> api_error + ValidatingWebhookConfiguration" where
  "as_Validating (Inl e) = Inl e"
| "as_Validating (Inr (OValidating x)) = Inr x"
| "as_Validating (Inr _) = Inl decode_error"

fun as_PolicyServer :: "api_error + api_object \<Rightarrow> api_error + PolicyServer" where
  "as_PolicyServer (Inl e) = Inl e"
| "as_PolicyServer (Inr (OPolicyServer x)) = Inr x"
| "as_PolicyServer (Inr _) = Inl decode_error"

fun as_ClusterAdmissionPolicy :: "api_error + api_object \<Rightarrow> api_error + ClusterAdmissionPolicy" where
  "as_ClusterAdmissionPolicy (Inl e) = Inl e"
| "as_ClusterAdmissionPolicy (Inr (OPolicy (ClusterPolicy x))) = Inr x"
| "as_ClusterAdmissionPolicy (Inr _) = Inl decode_error"

fun as_AdmissionPolicy :: "api_error + api_object \<Rightarrow> api_error + AdmissionPolicy" where
  "as_AdmissionPolicy (Inl e) = Inl e"
| "as_AdmissionPolicy (Inr (OPolicy (NamespacedPolicy x))) = Inr x"
| "as_AdmissionPolicy (Inr _) = Inl decode_error"

lemma as_ConfigMap_Inr: "as_ConfigMap res = Inr x \<longleftrightarrow> res = Inr (OConfigMap x)"
  by (cases res rule: as_ConfigMap.cases) auto

lemma as_Secret_Inr: "as_Secret res = Inr x \<longleftrightarrow> res = Inr (OSecret x)"
  by (cases res rule: as_Secret.cases) auto

lemma as_Deployment_Inr: "as_Deployment res = Inr x \<longleftrightarrow> res = Inr (ODeployment x)"
  by (cases res rule: as_Deployment.cases) auto

lemma as_Mutating_Inr: "as_Mutating res = Inr x \<longleftrightarrow> res = Inr (OMutating x)"
  by (cases res rule: as_Mutating.cases) auto

lemma as_Validating_Inr: "as_Validating res = Inr x \<longleftrightarrow> res = Inr (OValidating x)"
  by (cases res rule: as_Validating.cases) auto

lemma as_PolicyServer_Inr: "as_PolicyServer res = Inr x \<longleftrightarrow> res = Inr (OPolicyServer x)"
  by (cases res rule: as_PolicyServer.cases) auto

lemma as_ClusterAdmissionPolicy_Inr:
  "as_ClusterAdmissionPolicy res = Inr x \<longleftrightarrow> res = Inr (OPolicy (ClusterPolicy x))"
  by (cases res rule: as_ClusterAdmissionPolicy.cases) auto

lemma as_AdmissionPolicy_Inr:
  "as_AdmissionPolicy res = Inr x \<longleftrightarrow> res = Inr (OPolicy (NamespacedPolicy x))"
  by (cases res rule: as_AdmissionPolicy.cases) auto

lemmas as_Inr = as_ConfigMap_Inr as_Secret_Inr as_Deployment_Inr as_Mutating_Inr as_Validating_Inr
  as_PolicyServer_Inr as_ClusterAdmissionPolicy_Inr as_AdmissionPolicy_Inr

text \<open>The items of a list response that have the requested type.\<close>

definition cap_items :: "api_object list \<Rightarrow> ClusterAdmissionPolicy list" where
  "cap_items obs = List.map_filter (\<lambda>ob. case ob of OPolicy (ClusterPolicy p) \<Rightarrow> Some p | _ \<Rightarrow> None) obs"

definition ap_items :: "api_object list \<Rightarrow> AdmissionPolicy list" where
  "ap_items obs = List.map_filter (\<lambda>ob. case ob of OPolicy (NamespacedPolicy p) \<Rightarrow> Some p | _ \<Rightarrow> None) obs"

definition replica_set_items :: "api_object list \<Rightarrow> ReplicaSet list" where
  "replica_set_items obs = List.map_filter (\<lambda>ob. case ob of OReplicaSet r \<Rightarrow> Some r | _ \<Rightarrow> None) obs"

definition pod_items :: "api_object list \<Rightarrow> Pod list" where
  "pod_items obs = List.map_filter (\<lambda>ob. case ob of OPod p \<Rightarrow> Some p | _ \<Rightarrow> None) obs"

lemma decode_error_kind [simp]:
  "\<not> IsNotFound decode_error" "\<not> IsAlreadyExists decode_error" "\<not> IsConflict decode_error"
  by (simp_all add: decode_error_def)

section \<open>The Kubernetes libraries\<close>

record kube_lib =
  SetStatusCondition :: "Condition list \<Rightarrow> Condition \<Rightarrow> Condition list"
  AddFinalizer :: "string list \<Rightarrow> string \<Rightarrow> string list"
  RemoveFinalizer :: "string list \<Rightarrow> string \<Rightarrow> string list"
  RawMarshalJSON :: "RawExtension \<Rightarrow> string option"
  RawUnmarshalJSON :: "RawExtension \<Rightarrow> string \<Rightarrow> RawExtension option"

definition set_status_condition_law :: "kube_lib \<Rightarrow> bool" where
  "set_status_condition_law L \<longleftrightarrow>
     (\<forall>cs c. find_condition (condType c) (SetStatusCondition L cs c) = Some c) \<and>
     (\<forall>cs c t. t \<noteq> condType c \<longrightarrow>
        find_condition t (SetStatusCondition L cs c) = find_condition t cs)"

definition finalizer_law :: "kube_lib \<Rightarrow> bool" where
  "finalizer_law L \<longleftrightarrow>
     (\<forall>fs f. AddFinalizer L fs f = (if f \<in> set fs then fs else fs @ [f])) \<and>
     (\<forall>fs f. RemoveFinalizer L fs f = filter (\<lambda>g. g \<noteq> f) fs)"

definition raw_extension_law :: "kube_lib \<Rightarrow> bool" where
  "raw_extension_law L \<longleftrightarrow>
     RawMarshalJSON L None = Some ''null'' \<and>
     (\<forall>raw. RawMarshalJSON L (Some raw) = Some raw) \<and>
     (\<forall>old t. RawUnmarshalJSON L old t = Some (if t = ''null'' then old else Some t))"

text \<open>Functions with that behaviour, for the witnesses.\<close>

fun ref_set_condition :: "Condition list \<Rightarrow> Condition \<Rightarrow> Condition list" where
  "ref_set_condition [] c = [c]"
| "ref_set_condition (d # ds) c =
     (if condType d = condType c then c # ds else d # ref_set_condition ds c)"

definition ref_lib :: kube_lib where
  "ref_lib = \<lparr>SetStatusCondition = ref_set_condition,
     AddFinalizer = (\<lambda>fs f. if f \<in> set fs then fs else fs @ [f]),
     RemoveFinalizer = (\<lambda>fs f. filter (\<lambda>g. g \<noteq> f) fs),
     RawMarshalJSON = (\<lambda>x. Some (case x of None \<Rightarrow> ''null'' | Some raw \<Rightarrow> raw)),
     RawUnmarshalJSON = (\<lambda>old t. Some (if t = ''null'' then old else Some t))\<rparr>"

lemma ref_lib_conditions: "set_status_condition_law ref_lib"
proof -
  have "find_condition (condType c) (ref_set_condition cs c) = Some c" for cs c
    by (induction cs) (auto simp: find_condition_def)
  moreover have "find_condition t (ref_set_condition cs c) = find_condition t cs"
    if "t \<noteq> condType c" for cs c t
    using that by (induction cs) (auto simp: find_condition_def)
  ultimately show ?thesis by (simp add: set_status_condition_law_def ref_lib_def)
qed

lemma ref_lib_finalizers: "finalizer_law ref_lib"
  by (simp add: finalizer_law_def ref_lib_def)

lemma ref_lib_raw: "raw_extension_law ref_lib"
  by (simp add: raw_extension_law_def ref_lib_def)

lemma find_set_condition:
  assumes "set_status_condition_law L"
  shows "find_condition t (SetStatusCondition L cs c) =
     (if t = condType c then Some c else find_condition t cs)"
  using assms by (auto simp: set_status_condition_law_def)

section \<open>The Reconciler\<close>

text \<open>
  The struct \<open>admission.Reconciler\<close>, with the libraries its methods call and the package variable
  \<open>metricsPort\<close>.
\<close>

record 'w Reconciler =
  Client :: "'w client_ops"
  APIReader :: "'w reader_ops"
  DeploymentsNamespace :: string
  AlwaysAcceptAdmissionReviewsInDeploymentsNamespace :: bool
  Lib :: kube_lib
  metricsPort :: int32

section \<open>Running a computation\<close>

lemma run_api_get:
  "run_state (api_get rd k key) s =
     (let (r, w) = rdGet rd k key (world s) in (r, s\<lparr>world := w, trace := trace s @ [EvGet k key r]\<rparr>))"
  by (simp add: api_get_def)

lemma run_api_list:
  "run_state (api_list rd k sel) s =
     (let (r, w) = rdList rd k sel (world s) in (r, s\<lparr>world := w, trace := trace s @ [EvList k sel r]\<rparr>))"
  by (simp add: api_list_def)

lemma run_api_write:
  "run_state (api_write cl q) s =
     (let (r, w) = clWrite cl q (world s) in (r, s\<lparr>world := w, trace := trace s @ [EvWrite q r]\<rparr>))"
  by (simp add: api_write_def)

lemmas run_api = run_api_get run_api_list run_api_write

text \<open>
  \<open>emits m Q\<close>: whatever the world answers, the run of \<open>m\<close> appends events to the trace, and \<open>Q\<close>
  holds of its result and of those events.
\<close>

definition emits :: "('w, 'a) api \<Rightarrow> ('a \<Rightarrow> api_event list \<Rightarrow> bool) \<Rightarrow> bool" where
  "emits m Q \<longleftrightarrow>
     (\<forall>s. \<exists>es. trace (snd (run_state m s)) = trace s @ es \<and> Q (fst (run_state m s)) es)"

lemma emits_return [emits_rules]: "Q x [] \<Longrightarrow> emits (ret x) Q"
  by (simp add: emits_def)

lemma emits_bind:
  assumes "emits m P" and "\<And>x es. P x es \<Longrightarrow> emits (f x) (\<lambda>y es'. Q y (es @ es'))"
  shows "emits (State_Monad.bind m f) Q"
  unfolding emits_def
proof
  fix s
  obtain x s1 where m: "run_state m s = (x, s1)" by (cases "run_state m s")
  with assms(1) obtain es where es: "trace s1 = trace s @ es" "P x es"
    by (auto simp: emits_def dest: spec [of _ s])
  from assms(2) [OF es(2)] obtain es'
    where "trace (snd (run_state (f x) s1)) = trace s1 @ es'" "Q (fst (run_state (f x) s1)) (es @ es')"
    unfolding emits_def by blast
  with m es show "\<exists>es. trace (snd (run_state (State_Monad.bind m f) s)) = trace s @ es
      \<and> Q (fst (run_state (State_Monad.bind m f) s)) es"
    by auto
qed

lemma emits_get [emits_rules]:
  "(\<And>r. emits (f r) (\<lambda>y es. Q y (EvGet k key r # es))) \<Longrightarrow> emits (State_Monad.bind (api_get rd k key) f) Q"
  by (rule emits_bind [where P = "\<lambda>r es. es = [EvGet k key r]"])
    (auto simp: emits_def run_api split: prod.splits)

lemma emits_list [emits_rules]:
  "(\<And>r. emits (f r) (\<lambda>y es. Q y (EvList k sel r # es))) \<Longrightarrow> emits (State_Monad.bind (api_list rd k sel) f) Q"
  by (rule emits_bind [where P = "\<lambda>r es. es = [EvList k sel r]"])
    (auto simp: emits_def run_api split: prod.splits)

lemma emits_write [emits_rules]:
  "(\<And>r. emits (f r) (\<lambda>y es. Q y (EvWrite q r # es))) \<Longrightarrow> emits (State_Monad.bind (api_write cl q) f) Q"
  by (rule emits_bind [where P = "\<lambda>r es. es = [EvWrite q r]"])
    (auto simp: emits_def run_api split: prod.splits)

lemma emits_mono: "emits m P \<Longrightarrow> (\<And>x es. P x es \<Longrightarrow> Q x es) \<Longrightarrow> emits m Q"
  by (fastforce simp: emits_def)

lemma emits_post:
  "emits m P \<Longrightarrow> \<forall>x es. P x es \<longrightarrow> Q x es \<Longrightarrow> emits m Q"
  by (fastforce simp: emits_def)

lemma emits_conj: "emits m P \<Longrightarrow> emits m Q \<Longrightarrow> emits m (\<lambda>x es. P x es \<and> Q x es)"
  unfolding emits_def by (metis same_append_eq)

lemma emits_run:
  assumes "emits m Q" "run_state m s = (x, s')"
  obtains es where "trace s' = trace s @ es" "Q x es"
  using assms by (fastforce simp: emits_def dest: spec [of _ s])

text \<open>Reading a postcondition off \<open>emits\<close> for one run.\<close>

lemma emits_result: "emits m (\<lambda>x es. P x) \<Longrightarrow> P (fst (run_state m s))"
  by (auto simp: emits_def)

text \<open>The answer an event carries, and the requests that succeeded or found nothing to do.\<close>

definition gone :: "api_error + api_object \<Rightarrow> bool" where
  "gone r = (case r of Inl e \<Rightarrow> IsNotFound e | Inr ob \<Rightarrow> True)"

definition is_write :: "api_event \<Rightarrow> bool" where
  "is_write ev = (case ev of EvWrite q r \<Rightarrow> True | _ \<Rightarrow> False)"

lemma is_write_simps [simp]:
  "is_write (EvWrite q r)" "\<not> is_write (EvGet k key g)" "\<not> is_write (EvList k sel l)"
  by (simp_all add: is_write_def)

lemma gone_simps [simp]: "gone (Inr ob)" "gone (Inl e) = IsNotFound e"
  by (simp_all add: gone_def)

text \<open>
  The object of a kind that the API server is last known to have after a run: the object it
  answered with, or the one it accepted.
\<close>

fun seen :: "api_event \<Rightarrow> api_object option" where
  "seen (EvGet k key (Inr ob)) = Some ob"
| "seen (EvWrite (Create ob) (Inr res)) = Some ob"
| "seen (EvWrite (Update ob) (Inr res)) = Some ob"
| "seen (EvWrite (Patch ob base) (Inr res)) = Some ob"
| "seen ev = None"

fun last_seen :: "kind \<Rightarrow> api_event list \<Rightarrow> api_object option" where
  "last_seen k [] = None"
| "last_seen k (ev # es) =
     (case last_seen k es of
        Some ob \<Rightarrow> Some ob
      | None \<Rightarrow> (case seen ev of
            Some ob \<Rightarrow> if kind_of ob = k then Some ob else None
          | None \<Rightarrow> None))"

lemma last_seen_append:
  "last_seen k (es @ fs) = (case last_seen k fs of Some ob \<Rightarrow> Some ob | None \<Rightarrow> last_seen k es)"
  by (induction es) (auto split: option.splits)

section \<open>An API server that plays back answers\<close>

text \<open>
  The instance of the parameters that the examples use: the state of the world is the list of the
  answers to come.  An answer of the wrong sort is an error.
\<close>

datatype answer =
    AnObject api_object
  | AList "api_object list"
  | AnError api_error

type_synonym script = "answer list"

definition next_object :: "script \<Rightarrow> (api_error + api_object) \<times> script" where
  "next_object as = (case as of
     AnObject ob # rest \<Rightarrow> (Inr ob, rest)
   | AnError e # rest \<Rightarrow> (Inl e, rest)
   | AList obs # rest \<Rightarrow> (Inl decode_error, rest)
   | [] \<Rightarrow> (Inl (OtherApiError ''EOF''), []))"

definition next_list :: "script \<Rightarrow> (api_error + api_object list) \<times> script" where
  "next_list as = (case as of
     AList obs # rest \<Rightarrow> (Inr obs, rest)
   | AnError e # rest \<Rightarrow> (Inl e, rest)
   | AnObject ob # rest \<Rightarrow> (Inl decode_error, rest)
   | [] \<Rightarrow> (Inl (OtherApiError ''EOF''), []))"

lemma next_simps [simp]:
  "next_object (AnObject ob # rest) = (Inr ob, rest)" "next_object (AnError e # rest) = (Inl e, rest)"
  "next_list (AList obs # rest) = (Inr obs, rest)" "next_list (AnError e # rest) = (Inl e, rest)"
  by (simp_all add: next_object_def next_list_def)

definition script_reader :: "script reader_ops" where
  "script_reader = \<lparr>rdGet = (\<lambda>k key as. next_object as), rdList = (\<lambda>k sel as. next_list as)\<rparr>"

definition script_client :: "script client_ops" where
  "script_client = \<lparr>rdGet = (\<lambda>k key as. next_object as), rdList = (\<lambda>k sel as. next_list as),
     clWrite = (\<lambda>q as. next_object as)\<rparr>"

lemma script_ops_simps [simp]:
  "rdGet script_reader k key as = next_object as" "rdList script_reader k sel as = next_list as"
  "rdGet script_client k key as = next_object as" "rdList script_client k sel as = next_list as"
  "clWrite script_client q as = next_object as"
  by (simp_all add: script_reader_def script_client_def)

definition script_reconciler :: "script Reconciler" where
  "script_reconciler = \<lparr>Client = script_client, APIReader = script_reader,
     DeploymentsNamespace = ''kubewarden'', AlwaysAcceptAdmissionReviewsInDeploymentsNamespace = False,
     Lib = ref_lib, metricsPort = 8080\<rparr>"

lemma script_reconciler_simps [simp]:
  "Client script_reconciler = script_client" "APIReader script_reconciler = script_reader"
  "DeploymentsNamespace script_reconciler = ''kubewarden''" "Lib script_reconciler = ref_lib"
  "metricsPort script_reconciler = 8080"
  by (simp_all add: script_reconciler_def)

definition playing :: "script \<Rightarrow> script io" where
  "playing as = \<lparr>world = as, trace = []\<rparr>"

lemma playing_simps [simp]: "world (playing as) = as" "trace (playing as) = []"
  by (simp_all add: playing_def)

lemma emits_playing:
  "emits m Q \<Longrightarrow> Q (fst (run_state m (playing as))) (trace (snd (run_state m (playing as))))"
  by (auto simp: emits_def dest: spec [of _ "playing as"])

end
