(* ===== verification/Certificates.thy ===== *)
theory Certificates
  imports Api_Client
begin

text \<open>
  The certificates of the policy servers: \<open>internal/pkg/admissionregistration\<close>.

  The cryptography itself (RSA, X.509, PEM, the random source, the clock) is the record
  \<open>crypto_ops\<close> of arbitrary functions; what the package decides, which is the templates it signs,
  the keys it signs them with and the errors it returns, is defined here.
\<close>

section \<open>What the package takes from the standard library\<close>

type_synonym bytes = string
type_synonym PrivateKey = string
type_synonym PublicKey = string

text \<open>A civil date and the time within the day; \<open>AddDate(n, 0, 0)\<close> moves 29 February to 1 March.\<close>

record GoTime =
  tmYear :: int
  tmMonth :: nat
  tmDay :: nat
  tmNanos :: nat

definition leap_year :: "int \<Rightarrow> bool" where
  "leap_year y \<longleftrightarrow> 4 dvd y \<and> (\<not> 100 dvd y \<or> 400 dvd y)"

definition add_years :: "int \<Rightarrow> GoTime \<Rightarrow> GoTime" where
  "add_years n t =
     (let y = tmYear t + n in
      if tmMonth t = 2 \<and> tmDay t = 29 \<and> \<not> leap_year y
      then t\<lparr>tmYear := y, tmMonth := 3, tmDay := 1\<rparr> else t\<lparr>tmYear := y\<rparr>)"

datatype KeyUsage = KeyUsageDigitalSignature | KeyUsageCertSign
datatype ExtKeyUsage = ExtKeyUsageClientAuth | ExtKeyUsageServerAuth

record PkixName =
  pkCommonName :: string
  pkOrganization :: "string list"
  pkCountry :: "string list"
  pkProvince :: "string list"
  pkLocality :: "string list"
  pkStreetAddress :: "string list"
  pkPostalCode :: "string list"

record Certificate =
  crtSerialNumber :: nat
  crtSubject :: PkixName
  crtDNSNames :: "string list"
  crtIPAddresses :: "string list"
  crtNotBefore :: GoTime
  crtNotAfter :: GoTime
  crtSubjectKeyId :: "nat list"
  crtIsCA :: bool
  crtExtKeyUsage :: "ExtKeyUsage list"
  crtKeyUsage :: "KeyUsage set"
  crtBasicConstraintsValid :: bool

record 'w crypto_ops =
  rsaGenerateKey :: "nat \<Rightarrow> 'w \<Rightarrow> (string + PrivateKey) \<times> 'w"
  randInt :: "nat \<Rightarrow> 'w \<Rightarrow> (string + nat) \<times> 'w"
  timeNow :: "'w \<Rightarrow> GoTime \<times> 'w"
  x509CreateCertificate ::
    "Certificate \<Rightarrow> Certificate \<Rightarrow> PublicKey \<Rightarrow> PrivateKey \<Rightarrow> 'w \<Rightarrow> (string + bytes) \<times> 'w"
  x509ParseCertificate :: "bytes \<Rightarrow> string + Certificate"
  publicKeyOf :: "PrivateKey \<Rightarrow> PublicKey"
  MarshalPKIXPublicKey :: "PublicKey \<Rightarrow> string + bytes"
  MarshalPKCS1PrivateKey :: "PrivateKey \<Rightarrow> bytes"
  ParsePKCS1PrivateKey :: "bytes \<Rightarrow> string + PrivateKey"
  pemEncode :: "string \<Rightarrow> bytes \<Rightarrow> string + bytes"
  netParseIP :: "string \<Rightarrow> string option"

text \<open>The documented behaviour used: parsing a marshalled key gives the key back.\<close>

definition pkcs1_law :: "'w crypto_ops \<Rightarrow> bool" where
  "pkcs1_law K \<longleftrightarrow> (\<forall>k. ParsePKCS1PrivateKey K (MarshalPKCS1PrivateKey K k) = Inr k)"

definition effect :: "('w \<Rightarrow> 'a \<times> 'w) \<Rightarrow> ('w, 'a) api" where
  "effect f = State (\<lambda>s. let (x, w) = f (world s) in (x, s\<lparr>world := w\<rparr>))"

lemma run_effect: "run_state (effect f) s = (let (x, w) = f (world s) in (x, s\<lparr>world := w\<rparr>))"
  by (simp add: effect_def)

lemma emits_effect [emits_rules]:
  "(\<And>x. emits (f x) Q) \<Longrightarrow> emits (State_Monad.bind (effect g) f) Q"
  by (rule emits_bind [where P = "\<lambda>x es. es = []"]) (auto simp: emits_def run_effect split: prod.splits)

section \<open>Key pairs\<close>

record KeyPair =
  kpPublicKey :: string
  kpPrivateKey :: string
  kpKey :: PrivateKey

definition newPrivateKey :: "'w crypto_ops \<Rightarrow> nat \<Rightarrow> ('w, KeyPair result) api" where
  "newPrivateKey K keyBitSize = do {
     k \<leftarrow> effect (rsaGenerateKey K keyBitSize);
     ret (case k of
         Inl e \<Rightarrow> Err (Wrapped ''cannot create private key: '' (Plain e))
       | Inr key \<Rightarrow>
         (case MarshalPKIXPublicKey K (publicKeyOf K key) of
            Inl e \<Rightarrow> Err (Wrapped ''cannot marshal public key: '' (Plain e))
          | Inr publicKey \<Rightarrow>
            (case pemEncode K ''PUBLIC KEY'' publicKey of
               Inl e \<Rightarrow> Err (Wrapped ''cannot encode public key: '' (Plain e))
             | Inr publicKeyPEM \<Rightarrow>
               (case pemEncode K ''RSA PRIVATE KEY'' (MarshalPKCS1PrivateKey K key) of
                  Inl e \<Rightarrow> Err (Wrapped ''cannot encode private key: '' (Plain e))
                | Inr privateKeyPEM \<Rightarrow>
                  Ok \<lparr>kpPublicKey = publicKeyPEM, kpPrivateKey = privateKeyPEM, kpKey = key\<rparr>))))
   }"

section \<open>The certificate authority\<close>

record CA =
  CaCert :: bytes
  CaPrivateKey :: PrivateKey

definition blank_name :: "string \<Rightarrow> PkixName" where
  "blank_name cn = \<lparr>pkCommonName = cn, pkOrganization = [''''], pkCountry = [''''],
     pkProvince = [''''], pkLocality = [''''], pkStreetAddress = [''''], pkPostalCode = ['''']\<rparr>"

definition caTemplate :: "nat \<Rightarrow> GoTime \<Rightarrow> GoTime \<Rightarrow> Certificate" where
  "caTemplate serialNumber notBefore now =
     \<lparr>crtSerialNumber = serialNumber, crtSubject = blank_name '''',
      crtDNSNames = [], crtIPAddresses = [],
      crtNotBefore = notBefore, crtNotAfter = add_years 10 now, crtSubjectKeyId = [],
      crtIsCA = True, crtExtKeyUsage = [ExtKeyUsageClientAuth, ExtKeyUsageServerAuth],
      crtKeyUsage = {KeyUsageDigitalSignature, KeyUsageCertSign}, crtBasicConstraintsValid = True\<rparr>"

definition GenerateCA :: "'w crypto_ops \<Rightarrow> ('w, CA result) api" where
  "GenerateCA K = do {
     kp \<leftarrow> newPrivateKey K 1024;
     (case kp of
        Panic \<Rightarrow> ret Panic
      | Err e \<Rightarrow> ret (Err (Wrapped ''cannot create private key: '' e))
      | Ok privateKey \<Rightarrow> do {
          sn \<leftarrow> effect (randInt K (2 ^ 159));
          (case sn of
             Inl e \<Rightarrow> ret (Err (Wrapped ''cannot init serial number: '' (Plain e)))
           | Inr serialNumber \<Rightarrow> do {
               notBefore \<leftarrow> effect (timeNow K);
               now \<leftarrow> effect (timeNow K);
               let caCertificate = caTemplate serialNumber notBefore now;
               c \<leftarrow> effect (x509CreateCertificate K caCertificate caCertificate
                     (publicKeyOf K (kpKey privateKey)) (kpKey privateKey));
               ret (case c of
                   Inl e \<Rightarrow> Err (Wrapped ''cannot create certificate: '' (Plain e))
                 | Inr caCertificateBytes \<Rightarrow>
                     Ok \<lparr>CaCert = caCertificateBytes, CaPrivateKey = kpKey privateKey\<rparr>)
             })
        })
   }"

section \<open>Serving certificates\<close>

text \<open>The loop over the extra names: IP addresses on one side, host names on the other.\<close>

fun split_sans :: "(string \<Rightarrow> string option) \<Rightarrow> string list \<Rightarrow> string list \<Rightarrow> string list \<Rightarrow> string list \<times> string list" where
  "split_sans parseIP hosts ips [] = (hosts, ips)"
| "split_sans parseIP hosts ips (san # sans) =
     (case parseIP san of
        None \<Rightarrow> split_sans parseIP (hosts @ [san]) ips sans
      | Some ip \<Rightarrow> split_sans parseIP hosts (ips @ [ip]) sans)"

definition PemEncodeCertificate :: "'w crypto_ops \<Rightarrow> bytes \<Rightarrow> bytes result" where
  "PemEncodeCertificate K certificate =
     (case pemEncode K ''CERTIFICATE'' certificate of
        Inl e \<Rightarrow> Err (Wrapped ''PEM encode failure: '' (Plain e)) | Inr b \<Rightarrow> Ok b)"

definition pemEncodePrivateKey :: "'w crypto_ops \<Rightarrow> bytes \<Rightarrow> bytes result" where
  "pemEncodePrivateKey K privateKey =
     (case pemEncode K ''RSA PRIVATE KEY'' privateKey of
        Inl e \<Rightarrow> Err (Wrapped ''PEM encode failure: '' (Plain e)) | Inr b \<Rightarrow> Ok b)"

definition servingTemplate ::
    "nat \<Rightarrow> string \<Rightarrow> string list \<Rightarrow> string list \<Rightarrow> GoTime \<Rightarrow> GoTime \<Rightarrow> Certificate" where
  "servingTemplate serialNumber commonName hosts ips notBefore now =
     \<lparr>crtSerialNumber = serialNumber, crtSubject = blank_name commonName,
      crtDNSNames = hosts, crtIPAddresses = ips,
      crtNotBefore = notBefore, crtNotAfter = add_years 1 now, crtSubjectKeyId = [1, 2, 3, 4, 6],
      crtIsCA = False, crtExtKeyUsage = [ExtKeyUsageClientAuth, ExtKeyUsageServerAuth],
      crtKeyUsage = {KeyUsageDigitalSignature}, crtBasicConstraintsValid = False\<rparr>"

text \<open>The last steps of \<open>GenerateCert\<close>: the PEM text of the certificate and of its key.\<close>

definition encode_serving_pair :: "'w crypto_ops \<Rightarrow> bytes \<Rightarrow> PrivateKey \<Rightarrow> (bytes \<times> bytes) result" where
  "encode_serving_pair K servingCert servingPrivateKey =
     (case PemEncodeCertificate K servingCert of
        Panic \<Rightarrow> Panic
      | Err e \<Rightarrow> Err (Wrapped ''cannot encode certificate to PEM format: '' e)
      | Ok certPEM \<Rightarrow>
        (case pemEncodePrivateKey K (MarshalPKCS1PrivateKey K servingPrivateKey) of
           Panic \<Rightarrow> Panic
         | Err e \<Rightarrow> Err (Wrapped ''cannot encode private key to PEM format: '' e)
         | Ok keyPEM \<Rightarrow> Ok (certPEM, keyPEM)))"

definition GenerateCert ::
    "'w crypto_ops \<Rightarrow> bytes \<Rightarrow> string \<Rightarrow> string list \<Rightarrow> PrivateKey \<Rightarrow> ('w, (bytes \<times> bytes) result) api" where
  "GenerateCert K ca commonName extraSANs CAPrivateKey =
     (case x509ParseCertificate K ca of
        Inl e \<Rightarrow> ret (Err (Wrapped ''error parsing certificate: '' (Plain e)))
      | Inr caCertificate \<Rightarrow> do {
          sn \<leftarrow> effect (randInt K (2 ^ 159));
          (case sn of
             Inl e \<Rightarrow> ret (Err (Wrapped ''cannot generate serialNumber for cartificate: '' (Plain e)))
           | Inr serialNumber \<Rightarrow> do {
               k \<leftarrow> effect (rsaGenerateKey K 4096);
               (case k of
                  Inl e \<Rightarrow> ret (Err (Wrapped ''cannot generate private key: '' (Plain e)))
                | Inr servingPrivateKey \<Rightarrow> do {
                    let sans = split_sans (netParseIP K) [] [] extraSANs;
                    notBefore \<leftarrow> effect (timeNow K);
                    now \<leftarrow> effect (timeNow K);
                    c \<leftarrow> effect (x509CreateCertificate K
                          (servingTemplate serialNumber commonName (fst sans) (snd sans) notBefore now)
                          caCertificate (publicKeyOf K servingPrivateKey) CAPrivateKey);
                    ret (case c of
                        Inl e \<Rightarrow> Err (Wrapped ''cannot create certificate: '' (Plain e))
                      | Inr servingCert \<Rightarrow> encode_serving_pair K servingCert servingPrivateKey)
                  })
             })
        })"

section \<open>Lemmas\<close>

lemma split_sans_eq:
  "split_sans p hosts ips sans =
     (hosts @ filter (\<lambda>s. p s = None) sans, ips @ List.map_filter p sans)"
  by (induction sans arbitrary: hosts ips) (auto simp: List.map_filter_simps split: option.splits)

lemma newPrivateKey_no_panic: "fst (run_state (newPrivateKey K n) s) \<noteq> Panic"
  by (auto simp: newPrivateKey_def run_effect split: sum.splits prod.splits)

lemma PemEncodeCertificate_no_panic: "PemEncodeCertificate K c \<noteq> Panic"
  by (simp add: PemEncodeCertificate_def split: sum.splits)

lemma encode_serving_pair_no_panic: "encode_serving_pair K c k \<noteq> Panic"
  by (auto simp: encode_serving_pair_def PemEncodeCertificate_def pemEncodePrivateKey_def
      split: outcome.splits sum.splits)

lemma GenerateCA_no_panic: "fst (run_state (GenerateCA K) s) \<noteq> Panic"
  using newPrivateKey_no_panic [of K 1024 s]
  by (auto simp: GenerateCA_def run_effect Let_def split: outcome.splits sum.splits prod.splits)

lemma GenerateCert_no_panic: "fst (run_state (GenerateCert K ca cn sans key) s) \<noteq> Panic"
  by (auto simp: GenerateCert_def run_effect Let_def encode_serving_pair_no_panic
      split: outcome.splits sum.splits prod.splits)

text \<open>The generators send no request to the API server.\<close>

lemma emits_newPrivateKey: "emits (newPrivateKey K n) (\<lambda>x es. es = [])"
  unfolding newPrivateKey_def by (intro emits_rules) simp

lemma emits_GenerateCA: "emits (GenerateCA K) (\<lambda>x es. es = [])"
  unfolding GenerateCA_def
  by (rule emits_bind [OF emits_newPrivateKey])
    (auto intro!: emits_rules simp: Let_def split: outcome.splits sum.splits)

lemma emits_GenerateCert: "emits (GenerateCert K ca cn sans key) (\<lambda>x es. es = [])"
  unfolding GenerateCert_def
  by (auto intro!: emits_rules simp: Let_def split: sum.splits)

section \<open>Example libraries\<close>

text \<open>Functions with the types of the libraries, for the examples: keys and texts are constants.\<close>

definition demo_crypto :: "script crypto_ops" where
  "demo_crypto = \<lparr>rsaGenerateKey = (\<lambda>n w. (Inr ''key'', w)), randInt = (\<lambda>n w. (Inr 1, w)),
     timeNow = (\<lambda>w. (\<lparr>tmYear = 2022, tmMonth = 1, tmDay = 1, tmNanos = 0\<rparr>, w)),
     x509CreateCertificate = (\<lambda>t p pub priv w. (Inr ''cert'', w)),
     x509ParseCertificate = (\<lambda>b. Inl ''malformed certificate''),
     publicKeyOf = (\<lambda>k. k), MarshalPKIXPublicKey = (\<lambda>k. Inr k), MarshalPKCS1PrivateKey = (\<lambda>k. k),
     ParsePKCS1PrivateKey = (\<lambda>b. Inr b), pemEncode = (\<lambda>t b. Inr (t @ b)), netParseIP = (\<lambda>s. None)\<rparr>"

lemma demo_crypto_pkcs1: "pkcs1_law demo_crypto"
  by (simp add: pkcs1_law_def demo_crypto_def)

end
