(* ===== verification/Ca_Secret.thy ===== *)
theory Ca_Secret
  imports Certificates
begin

text \<open>
  The two secrets with the certificates of a policy server:
  \<open>internal/pkg/admission/policy-server-ca-secret.go\<close>.  The generators are arguments of these
  functions in the code too; \<open>Reconcile\<close> passes those of \<open>Certificates\<close>.
\<close>

type_synonym 'w generateCAFunc = "('w, CA result) api"
type_synonym pemEncodeCertificateFunc = "bytes \<Rightarrow> bytes result"
type_synonym 'w generateCertFunc =
  "bytes \<Rightarrow> string \<Rightarrow> string list \<Rightarrow> PrivateKey \<Rightarrow> ('w, (bytes \<times> bytes) result) api"

section \<open>Operations\<close>

text \<open>\<open>Create\<close> copies the stored object over the secret, which the caller goes on using.\<close>

definition reconcileCASecret :: "'w Reconciler \<Rightarrow> Secret \<Rightarrow> ('w, Secret result) api" where
  "reconcileCASecret r secret = do {
     res \<leftarrow> api_write (Client r) (Create (OSecret secret));
     ret (case as_Secret res of
         Inr stored \<Rightarrow> Ok stored
       | Inl err \<Rightarrow> if IsAlreadyExists err then Ok secret
                    else Err (Wrapped ''error reconciling policy-server CA Secret: '' (ApiErr err)))
   }"

definition extractCaFromSecret :: "'w crypto_ops \<Rightarrow> Secret \<Rightarrow> CA result" where
  "extractCaFromSecret K caSecret =
     (case fmlookup (secData caSecret) PolicyServerCARootCACert of
        None \<Rightarrow> Err (Plain (''CA could not be extracted from secret '' @ secKind caSecret))
      | Some caCert \<Rightarrow>
        (case fmlookup (secData caSecret) PolicyServerCARootPrivateKeyCertName of
           None \<Rightarrow> Err (Plain (''CA private key bytes could not be extracted from secret '' @ secKind caSecret))
         | Some caPrivateKeyBytes \<Rightarrow>
           (case ParsePKCS1PrivateKey K caPrivateKeyBytes of
              Inl e \<Rightarrow> Err (Plain (''CA private key could not be extracted from secret '' @ secKind caSecret))
            | Inr caPrivateKey \<Rightarrow> Ok \<lparr>CaCert = caCert, CaPrivateKey = caPrivateKey\<rparr>)))"

definition service_host :: "'w Reconciler \<Rightarrow> string \<Rightarrow> string" where
  "service_host r policyServerName = policyServerName @ ''.'' @ DeploymentsNamespace r @ ''.svc''"

definition buildPolicyServerCASecret ::
    "'w crypto_ops \<Rightarrow> 'w Reconciler \<Rightarrow> string \<Rightarrow> Secret \<Rightarrow> 'w generateCertFunc \<Rightarrow> ('w, Secret result) api" where
  "buildPolicyServerCASecret K r policyServerName caSecret generateCert =
     (case extractCaFromSecret K caSecret of
        Panic \<Rightarrow> ret Panic
      | Err e \<Rightarrow> ret (Err e)
      | Ok admissionregCA \<Rightarrow> do {
          c \<leftarrow> generateCert (CaCert admissionregCA) (service_host r policyServerName)
                [service_host r policyServerName] (CaPrivateKey admissionregCA);
          ret (case c of
              Panic \<Rightarrow> Panic
            | Err e \<Rightarrow> Err (Wrapped (''cannot generate policy-server '' @ policyServerName @ '' certificate: '') e)
            | Ok (servingCert, servingKey) \<Rightarrow>
                Ok \<lparr>secKind = '''', secMeta = metaNamed (DeploymentsNamespace r) policyServerName,
                    secData = fmempty,
                    secStringData = fmap_of_list
                      [(PolicyServerTLSCert, servingCert), (PolicyServerTLSKey, servingKey)],
                    secType = SecretTypeOpaque\<rparr>)
        })"

definition clear_resource_version :: "Secret \<Rightarrow> Secret" where
  "clear_resource_version s = s\<lparr>secMeta := (secMeta s)\<lparr>ResourceVersion := ''''\<rparr>\<rparr>"

definition fetchOrInitializePolicyServerCASecret ::
    "'w crypto_ops \<Rightarrow> 'w Reconciler \<Rightarrow> string \<Rightarrow> Secret \<Rightarrow> 'w generateCertFunc \<Rightarrow> ('w, Secret result) api" where
  "fetchOrInitializePolicyServerCASecret K r policyServerName caSecret generateCert = do {
     res \<leftarrow> api_get (Client r) KSecret (object_key (DeploymentsNamespace r) policyServerName);
     (case as_Secret res of
        Inr policyServerSecret \<Rightarrow> ret (Ok (clear_resource_version policyServerSecret))
      | Inl err \<Rightarrow>
          if IsNotFound err then do {
            b \<leftarrow> buildPolicyServerCASecret K r policyServerName caSecret generateCert;
            ret (map_err (Wrapped ''cannot fetch or initialize Policy Server CA secret: '') b)
          }
          else ret (Err (Wrapped ''cannot fetch or initialize Policy Server CA secret: '' (ApiErr err))))
   }"

definition buildPolicyServerCARootSecret ::
    "'w crypto_ops \<Rightarrow> 'w Reconciler \<Rightarrow> 'w generateCAFunc \<Rightarrow> pemEncodeCertificateFunc \<Rightarrow> ('w, Secret result) api" where
  "buildPolicyServerCARootSecret K r generateCA pemEncodeCertificate = do {
     c \<leftarrow> generateCA;
     ret (case c of
         Panic \<Rightarrow> Panic
       | Err e \<Rightarrow> Err (Wrapped ''cannot generate policy-server secret CA: '' e)
       | Ok caRoot \<Rightarrow>
         (case pemEncodeCertificate (CaCert caRoot) of
            Panic \<Rightarrow> Panic
          | Err e \<Rightarrow> Err (Wrapped ''cannot encode policy-server secret CA: '' e)
          | Ok caPEMEncoded \<Rightarrow>
            Ok \<lparr>secKind = '''',
                secMeta = metaNamed (DeploymentsNamespace r) PolicyServerCARootSecretName,
                secData = fmap_of_list
                  [(PolicyServerCARootCACert, CaCert caRoot),
                   (PolicyServerCARootPemName, caPEMEncoded),
                   (PolicyServerCARootPrivateKeyCertName, MarshalPKCS1PrivateKey K (CaPrivateKey caRoot))],
                secStringData = fmempty,
                secType = SecretTypeOpaque\<rparr>))
   }"

definition fetchOrInitializePolicyServerCARootSecret ::
    "'w crypto_ops \<Rightarrow> 'w Reconciler \<Rightarrow> 'w generateCAFunc \<Rightarrow> pemEncodeCertificateFunc \<Rightarrow> ('w, Secret result) api" where
  "fetchOrInitializePolicyServerCARootSecret K r generateCA pemEncodeCertificate = do {
     res \<leftarrow> api_get (Client r) KSecret (object_key (DeploymentsNamespace r) PolicyServerCARootSecretName);
     (case as_Secret res of
        Inr policyServerSecret \<Rightarrow> ret (Ok (clear_resource_version policyServerSecret))
      | Inl err \<Rightarrow>
          if IsNotFound err then buildPolicyServerCARootSecret K r generateCA pemEncodeCertificate
          else ret (Err (Wrapped ''cannot fetch or initialize Policy Server CA secret: '' (ApiErr err))))
   }"

section \<open>The root secret\<close>

text \<open>The certificate authority can be read back from the secret built from it.\<close>

lemma buildPolicyServerCARootSecret_Ok:
  assumes "run_state (buildPolicyServerCARootSecret K r gen pem) s = (Ok secret, s')"
  obtains ca cert where "run_state gen s = (Ok ca, s')" "pem (CaCert ca) = Ok cert"
    "fmlookup (secData secret) PolicyServerCARootCACert = Some (CaCert ca)"
    "fmlookup (secData secret) PolicyServerCARootPemName = Some cert"
    "fmlookup (secData secret) PolicyServerCARootPrivateKeyCertName =
       Some (MarshalPKCS1PrivateKey K (CaPrivateKey ca))"
    "secMeta secret = metaNamed (DeploymentsNamespace r) PolicyServerCARootSecretName"
  using assms
  by (auto simp: buildPolicyServerCARootSecret_def split: prod.splits outcome.splits)

lemma extract_built_CA:
  assumes "pkcs1_law K" "run_state (buildPolicyServerCARootSecret K r gen pem) s = (Ok secret, s')"
  shows "\<exists>ca. run_state gen s = (Ok ca, s') \<and> extractCaFromSecret K secret = Ok ca"
  using assms(2)
proof (rule buildPolicyServerCARootSecret_Ok)
  fix ca cert
  assume "run_state gen s = (Ok ca, s')"
    and "fmlookup (secData secret) PolicyServerCARootCACert = Some (CaCert ca)"
    and "fmlookup (secData secret) PolicyServerCARootPrivateKeyCertName =
       Some (MarshalPKCS1PrivateKey K (CaPrivateKey ca))"
  with assms(1) show ?thesis
    by (auto simp: extractCaFromSecret_def pkcs1_law_def)
qed

section \<open>When certificates are made\<close>

text \<open>
  A secret that could be read is returned as it is but for its resource version; a new one is
  made only when the API server answered that there is none.
\<close>

lemma fetch_root_found:
  assumes "rdGet (Client r) KSecret (object_key (DeploymentsNamespace r) PolicyServerCARootSecretName) (world s)
     = (Inr (OSecret secret), w)"
  shows "fst (run_state (fetchOrInitializePolicyServerCARootSecret K r gen pem) s)
     = Ok (clear_resource_version secret)"
  using assms by (simp add: fetchOrInitializePolicyServerCARootSecret_def run_api)

lemma fetch_serving_found:
  assumes "rdGet (Client r) KSecret (object_key (DeploymentsNamespace r) n) (world s) = (Inr (OSecret secret), w)"
  shows "fst (run_state (fetchOrInitializePolicyServerCASecret K r n ca gen) s)
     = Ok (clear_resource_version secret)"
  using assms by (simp add: fetchOrInitializePolicyServerCASecret_def run_api)

lemma fetch_root_error:
  assumes "rdGet (Client r) KSecret (object_key (DeploymentsNamespace r) PolicyServerCARootSecretName) (world s)
     = (Inl e, w)" "\<not> IsNotFound e"
  shows "fst (run_state (fetchOrInitializePolicyServerCARootSecret K r gen pem) s)
     = Err (Wrapped ''cannot fetch or initialize Policy Server CA secret: '' (ApiErr e))"
  using assms by (simp add: fetchOrInitializePolicyServerCARootSecret_def run_api)

section \<open>What the operations send\<close>

definition no_writes :: "api_event list \<Rightarrow> bool" where
  "no_writes es \<longleftrightarrow> (\<forall>ev \<in> set es. \<not> is_write ev)"

lemma no_writes_simps [simp]:
  "no_writes []" "no_writes (ev # es) \<longleftrightarrow> \<not> is_write ev \<and> no_writes es"
  "no_writes (es @ fs) \<longleftrightarrow> no_writes es \<and> no_writes fs"
  by (auto simp: no_writes_def)

lemma emits_reconcileCASecret:
  "emits (reconcileCASecret r secret) (\<lambda>x es. \<exists>res. es = [EvWrite (Create (OSecret secret)) res] \<and>
     x = (case as_Secret res of Inr stored \<Rightarrow> Ok stored
       | Inl err \<Rightarrow> if IsAlreadyExists err then Ok secret
                    else Err (Wrapped ''error reconciling policy-server CA Secret: '' (ApiErr err))))"
  unfolding reconcileCASecret_def by (auto intro!: emits_rules)

lemma emits_fetch_root:
  assumes "emits gen (\<lambda>x es. es = [])"
  shows "emits (fetchOrInitializePolicyServerCARootSecret K r gen pem) (\<lambda>x es. no_writes es)"
proof -
  have "emits (buildPolicyServerCARootSecret K r gen pem) (\<lambda>x es. es = [])"
    unfolding buildPolicyServerCARootSecret_def
    by (rule emits_bind [OF assms]) (auto intro!: emits_rules)
  then have "emits (buildPolicyServerCARootSecret K r gen pem) (\<lambda>x es. no_writes es)"
    by (rule emits_mono) simp
  then show ?thesis
    unfolding fetchOrInitializePolicyServerCARootSecret_def
    by (auto intro!: emits_rules split: sum.splits)
qed

lemma emits_build_serving:
  assumes "\<And>a b c d. emits (gen a b c d) (\<lambda>x es. es = [])"
  shows "emits (buildPolicyServerCASecret K r n ca gen) (\<lambda>x es. es = [])"
  unfolding buildPolicyServerCASecret_def
  by (auto split: outcome.splits intro!: emits_rules emits_bind [OF assms])

lemma emits_fetch_serving:
  assumes "\<And>a b c d. emits (gen a b c d) (\<lambda>x es. es = [])"
  shows "emits (fetchOrInitializePolicyServerCASecret K r n ca gen) (\<lambda>x es. no_writes es)"
  unfolding fetchOrInitializePolicyServerCASecret_def
  by (auto intro!: emits_rules emits_bind [OF emits_build_serving [OF assms]] split: sum.splits)

section \<open>Serving certificates\<close>

text \<open>
  \<open>serving_pair K ca cn sans (c, k)\<close>: \<open>c\<close> and \<open>k\<close> are the PEM texts of a certificate that the
  library signed with the key of \<open>ca\<close>, for the common name and the names given, and of its key.
\<close>

definition serving_pair :: "'w crypto_ops \<Rightarrow> CA \<Rightarrow> string \<Rightarrow> string list \<Rightarrow> bytes \<times> bytes \<Rightarrow> bool" where
  "serving_pair K ca cn sans pair \<longleftrightarrow>
     (\<exists>parent sn key notBefore now cert w w'. x509ParseCertificate K (CaCert ca) = Inr parent \<and>
        x509CreateCertificate K (servingTemplate sn cn (filter (\<lambda>x. netParseIP K x = None) sans)
          (List.map_filter (netParseIP K) sans) notBefore now) parent (publicKeyOf K key) (CaPrivateKey ca) w = (Inr cert, w') \<and>
        pemEncode K ''CERTIFICATE'' cert = Inr (fst pair) \<and>
        pemEncode K ''RSA PRIVATE KEY'' (MarshalPKCS1PrivateKey K key) = Inr (snd pair))"

lemma GenerateCert_Ok:
  assumes "run_state (GenerateCert K (CaCert ca) cn sans (CaPrivateKey ca)) s = (Ok pair, s')"
  shows "serving_pair K ca cn sans pair"
proof -
  from assms obtain parent sn w1 key w2 notBefore w3 now w4 cert w5 where
    "x509ParseCertificate K (CaCert ca) = Inr parent" "randInt K (2 ^ 159) (world s) = (Inr sn, w1)"
    "rsaGenerateKey K 4096 w1 = (Inr key, w2)" "timeNow K w2 = (notBefore, w3)" "timeNow K w3 = (now, w4)"
    and c: "x509CreateCertificate K (servingTemplate sn cn (filter (\<lambda>x. netParseIP K x = None) sans)
        (List.map_filter (netParseIP K) sans) notBefore now) parent (publicKeyOf K key) (CaPrivateKey ca) w4 = (Inr cert, w5)"
    and "encode_serving_pair K cert key = Ok pair"
    by (auto simp: GenerateCert_def run_effect Let_def split_sans_eq split: sum.splits prod.splits)
  then show ?thesis
    unfolding serving_pair_def
    by (intro exI [of _ parent] exI [of _ sn] exI [of _ key] exI [of _ notBefore] exI [of _ now] exI [of _ cert]
        exI [of _ w4] exI [of _ w5])
      (auto simp: encode_serving_pair_def PemEncodeCertificate_def pemEncodePrivateKey_def split: outcome.splits sum.splits)
qed

section \<open>Properties\<close>

text \<open>
  C21. The certificate authority survives storage: from the root secret that the controller builds,
  exactly the authority that was generated is read back, certificate and private key, and the entry
  that the webhooks of the policies trust is the PEM text of that certificate.
\<close>

theorem root_ca_roundtrip:
  assumes "pkcs1_law K"
    and "run_state (buildPolicyServerCARootSecret K r generateCA pem) s = (Ok secret, s')"
  shows "\<exists>ca. run_state generateCA s = (Ok ca, s') \<and> extractCaFromSecret K secret = Ok ca \<and>
     (\<exists>cert. pem (CaCert ca) = Ok cert \<and> fmlookup (secData secret) PolicyServerCARootPemName = Some cert)"
  using assms(2)
proof (rule buildPolicyServerCARootSecret_Ok)
  fix ca cert
  assume b: "run_state generateCA s = (Ok ca, s')" "pem (CaCert ca) = Ok cert"
    "fmlookup (secData secret) PolicyServerCARootPemName = Some cert"
  with extract_built_CA [OF assms] show ?thesis by auto
qed

theorem root_ca_roundtrip_witness:
  "\<exists>secret. fst (run_state (buildPolicyServerCARootSecret demo_crypto script_reconciler (GenerateCA demo_crypto)
       (PemEncodeCertificate demo_crypto)) (playing [])) = Ok secret \<and>
     extractCaFromSecret demo_crypto secret = Ok \<lparr>CaCert = ''cert'', CaPrivateKey = ''key''\<rparr>"
proof -
  let ?m = "buildPolicyServerCARootSecret demo_crypto script_reconciler (GenerateCA demo_crypto) (PemEncodeCertificate demo_crypto)"
  have g: "fst (run_state (GenerateCA demo_crypto) (playing [])) = Ok \<lparr>CaCert = ''cert'', CaPrivateKey = ''key''\<rparr>"
    by (simp add: GenerateCA_def newPrivateKey_def run_effect demo_crypto_def)
  then obtain secret s' where m: "run_state ?m (playing []) = (Ok secret, s')"
    by (cases "run_state (GenerateCA demo_crypto) (playing [])")
      (auto simp: buildPolicyServerCARootSecret_def PemEncodeCertificate_def demo_crypto_def)
  from root_ca_roundtrip [OF demo_crypto_pkcs1 m] g m show ?thesis by auto
qed



text \<open>
  C22. The serving certificate of a policy server is made with the authority of the root secret for
  exactly one name, the host name of the server's service in its namespace (unless that text is an
  IP address), as common name and as alternative name, and is stored with its key where the
  deployment mounts them.
\<close>

theorem serving_secret_for_service:
  assumes "run_state (buildPolicyServerCASecret K r n root (GenerateCert K)) s = (Ok secret, s')"
    and "netParseIP K (service_host r n) = None"
  shows "\<exists>ca cert key. extractCaFromSecret K root = Ok ca \<and>
     serving_pair K ca (service_host r n) [service_host r n] (cert, key) \<and>
     fmlookup (secStringData secret) PolicyServerTLSCert = Some cert \<and>
     fmlookup (secStringData secret) PolicyServerTLSKey = Some key \<and>
     key_of (OSecret secret) = object_key (DeploymentsNamespace r) n"
proof -
  from assms(1) obtain ca where ca: "extractCaFromSecret K root = Ok ca"
    by (cases "extractCaFromSecret K root") (auto simp: buildPolicyServerCASecret_def)
  with assms(1) obtain cert key s1 where
    g: "run_state (GenerateCert K (CaCert ca) (service_host r n) [service_host r n] (CaPrivateKey ca)) s = (Ok (cert, key), s1)"
    and "secret = \<lparr>secKind = '''', secMeta = metaNamed (DeploymentsNamespace r) n, secData = fmempty,
       secStringData = fmap_of_list [(PolicyServerTLSCert, cert), (PolicyServerTLSKey, key)], secType = SecretTypeOpaque\<rparr>"
    by (auto simp: buildPolicyServerCASecret_def split: prod.splits outcome.splits)
  with ca GenerateCert_Ok [OF g] show ?thesis
    by (auto simp: key_of_def const_defs)
qed

text \<open>A root secret and a library that can parse its certificate, for the example.\<close>

definition demo_root :: Secret where
  "demo_root = \<lparr>secKind = '''', secMeta = metaNamed ''kubewarden'' PolicyServerCARootSecretName,
     secData = fmap_of_list [(PolicyServerCARootCACert, ''ca''), (PolicyServerCARootPrivateKeyCertName, ''key'')],
     secStringData = fmempty, secType = SecretTypeOpaque\<rparr>"

definition demo_parsing_crypto :: "script crypto_ops" where
  "demo_parsing_crypto = demo_crypto\<lparr>x509ParseCertificate := (\<lambda>b. Inr (caTemplate 1
     \<lparr>tmYear = 2022, tmMonth = 1, tmDay = 1, tmNanos = 0\<rparr> \<lparr>tmYear = 2022, tmMonth = 1, tmDay = 1, tmNanos = 0\<rparr>))\<rparr>"

theorem serving_secret_for_service_witness:
  "\<exists>secret cert. fst (run_state (buildPolicyServerCASecret demo_parsing_crypto script_reconciler ''policy-server-default'' demo_root
       (GenerateCert demo_parsing_crypto)) (playing [])) = Ok secret \<and>
     fmlookup (secStringData secret) PolicyServerTLSCert = Some cert"
proof -
  let ?m = "buildPolicyServerCASecret demo_parsing_crypto script_reconciler ''policy-server-default'' demo_root
      (GenerateCert demo_parsing_crypto)"
  obtain secret s' where m: "run_state ?m (playing []) = (Ok secret, s')"
    by (simp add: buildPolicyServerCASecret_def extractCaFromSecret_def demo_root_def const_defs GenerateCert_def run_effect
        demo_parsing_crypto_def demo_crypto_def Let_def encode_serving_pair_def PemEncodeCertificate_def pemEncodePrivateKey_def)
  moreover have "netParseIP demo_parsing_crypto (service_host script_reconciler ''policy-server-default'') = None"
    by (simp add: demo_parsing_crypto_def demo_crypto_def)
  ultimately show ?thesis using serving_secret_for_service [OF m] by auto
qed

end
