(* ===== verification/Go_Json.thy ===== *)
theory Go_Json
  imports Go_Text
begin

text \<open>
  The part of Go's \<open>encoding/json\<close> that the controller relies on, on strings of bytes: the text
  of strings, arrays and objects that \<open>json.Marshal\<close> writes (with HTML escaping, as it does by
  default), \<open>compact\<close> as it is applied to the result of a \<open>MarshalJSON\<close> method, and the grammar
  \<open>json.Unmarshal\<close> accepts.  The reader keeps the text of the values inside arrays and objects,
  because a value of type \<open>runtime.RawExtension\<close> is that text.

  Not modelled: the limit of 10000 on the nesting depth, and the two non-ASCII letters that
  \<open>json\<close> folds to \<open>k\<close> and \<open>s\<close> when it looks for the field of a struct.
\<close>

abbreviation byte :: "char \<Rightarrow> nat" where
  "byte c \<equiv> of_char c"

section \<open>Writing\<close>

definition hex_digit :: "nat \<Rightarrow> char" where
  "hex_digit d = (if d < 10 then char_of (48 + d) else char_of (87 + d))"

definition u_escape :: "nat \<Rightarrow> string" where
  "u_escape b = CHR 0x5C # ''u00'' @ [hex_digit (b div 16), hex_digit (b mod 16)]"

text \<open>The text of one byte below 128 inside a string literal.\<close>

definition escape_ascii :: "char \<Rightarrow> string" where
  "escape_ascii c =
     (if c = CHR 0x5C \<or> c = CHR 0x22 then [CHR 0x5C, c]
      else if byte c = 10 then [CHR 0x5C, CHR ''n'']
      else if byte c = 13 then [CHR 0x5C, CHR ''r'']
      else if byte c = 9 then [CHR 0x5C, CHR ''t'']
      else if byte c < 32 \<or> c \<in> {CHR ''<'', CHR ''>'', CHR ''&''} then u_escape (byte c)
      else [c])"

text \<open>
  \<open>utf8_len\<close> is the length of the well-formed UTF-8 sequence at the start of a string, 0 when
  there is none.  As in \<open>utf8.DecodeRune\<close>, the first byte gives the length and the range of the
  second byte; the other bytes are continuation bytes.
\<close>

definition utf8_first :: "nat \<Rightarrow> nat \<times> nat \<times> nat" where
  "utf8_first b =
     (if b < 128 then (1, 0, 0)
      else if b < 194 then (0, 0, 0)
      else if b \<le> 223 then (2, 128, 191)
      else if b = 224 then (3, 160, 191)
      else if b = 237 then (3, 128, 159)
      else if b \<le> 239 then (3, 128, 191)
      else if b = 240 then (4, 144, 191)
      else if b \<le> 243 then (4, 128, 191)
      else if b = 244 then (4, 128, 143)
      else (0, 0, 0))"

definition cont_byte :: "char \<Rightarrow> bool" where
  "cont_byte c \<longleftrightarrow> 128 \<le> byte c \<and> byte c \<le> 191"

definition utf8_len :: "string \<Rightarrow> nat" where
  "utf8_len s =
     (case s of [] \<Rightarrow> 0
      | c # cs \<Rightarrow>
        (case utf8_first (byte c) of (sz, lo, hi) \<Rightarrow>
          if sz \<le> 1 then sz
          else case cs of [] \<Rightarrow> 0
            | x # ys \<Rightarrow>
                if lo \<le> byte x \<and> byte x \<le> hi \<and> sz - 2 \<le> length ys
                   \<and> list_all cont_byte (take (sz - 2) ys)
                then sz else 0))"

definition line_separator :: "string \<Rightarrow> string option" where
  "line_separator s =
     (if take 3 s = [CHR 0xE2, CHR 0x80, CHR 0xA8] then Some (CHR 0x5C # ''u2028'')
      else if take 3 s = [CHR 0xE2, CHR 0x80, CHR 0xA9] then Some (CHR 0x5C # ''u2029'')
      else None)"

fun escape :: "string \<Rightarrow> string" where
  "escape [] = []"
| "escape (c # cs) =
     (if byte c < 128 then escape_ascii c @ escape cs
      else case line_separator (c # cs) of
          Some u \<Rightarrow> u @ escape (drop 2 cs)
        | None \<Rightarrow>
            let n = utf8_len (c # cs) in
            if n = 0 then CHR 0x5C # ''ufffd'' @ escape cs
            else take n (c # cs) @ escape (drop (n - 1) cs))"

definition json_string :: "string \<Rightarrow> string" where
  "json_string s = CHR 0x22 # escape s @ [CHR 0x22]"

definition json_bool :: "bool \<Rightarrow> string" where
  "json_bool b = (if b then ''true'' else ''false'')"

definition json_array :: "string list \<Rightarrow> string" where
  "json_array vs = CHR ''['' # strings_Join vs '','' @ '']''"

definition json_object :: "(string \<times> string) list \<Rightarrow> string" where
  "json_object kvs =
     CHR ''{'' # strings_Join (map (\<lambda>(k, v). json_string k @ CHR '':'' # v) kvs) '','' @ ''}''"

section \<open>The grammar\<close>

definition is_space :: "char \<Rightarrow> bool" where
  "is_space c \<longleftrightarrow> byte c = 32 \<or> byte c = 9 \<or> byte c = 10 \<or> byte c = 13"

fun skip_ws :: "string \<Rightarrow> string" where
  "skip_ws [] = []"
| "skip_ws (c # cs) = (if is_space c then skip_ws cs else c # cs)"

definition starts_with :: "char \<Rightarrow> string \<Rightarrow> bool" where
  "starts_with c s = (case s of [] \<Rightarrow> False | d # _ \<Rightarrow> d = c)"

definition is_digit :: "char \<Rightarrow> bool" where
  "is_digit c \<longleftrightarrow> 48 \<le> byte c \<and> byte c \<le> 57"

definition hex_value :: "char \<Rightarrow> nat option" where
  "hex_value c =
     (let b = byte c in
      if 48 \<le> b \<and> b \<le> 57 then Some (b - 48)
      else if 97 \<le> b \<and> b \<le> 102 then Some (b - 87)
      else if 65 \<le> b \<and> b \<le> 70 then Some (b - 55)
      else None)"

text \<open>\<open>skip_string\<close> reads up to the closing quote of a string literal and returns what follows.\<close>

fun skip_string :: "string \<Rightarrow> string option" where
  "skip_string [] = None"
| "skip_string (c # cs) =
     (if c = CHR 0x22 then Some cs
      else if c = CHR 0x5C then
        (case cs of
           [] \<Rightarrow> None
         | e # r \<Rightarrow>
             if e = CHR ''u'' then
               (case r of
                  h1 # h2 # h3 # h4 # r' \<Rightarrow>
                    if hex_value h1 \<noteq> None \<and> hex_value h2 \<noteq> None \<and> hex_value h3 \<noteq> None
                       \<and> hex_value h4 \<noteq> None then skip_string r' else None
                | _ \<Rightarrow> None)
             else if e \<in> set [CHR ''b'', CHR ''f'', CHR ''n'', CHR ''r'', CHR ''t'',
                            CHR ''/'', CHR 0x5C, CHR 0x22] then skip_string r
             else None)
      else if byte c < 32 then None
      else skip_string cs)"

text \<open>Digits, the fraction and the exponent of a number literal.\<close>

fun skip_digits :: "string \<Rightarrow> string" where
  "skip_digits [] = []"
| "skip_digits (c # cs) = (if is_digit c then skip_digits cs else c # cs)"

definition skip_digits1 :: "string \<Rightarrow> string option" where
  "skip_digits1 s = (case s of c # cs \<Rightarrow> if is_digit c then Some (skip_digits cs) else None | [] \<Rightarrow> None)"

definition skip_fraction :: "string \<Rightarrow> string option" where
  "skip_fraction s = (if starts_with CHR ''.'' s then skip_digits1 (tl s) else Some s)"

definition skip_exponent :: "string \<Rightarrow> string option" where
  "skip_exponent s =
     (case s of
        e # cs \<Rightarrow>
          if e = CHR ''e'' \<or> e = CHR ''E'' then
            (case cs of
               sg # ds \<Rightarrow> if sg = CHR ''+'' \<or> sg = CHR ''-'' then skip_digits1 ds else skip_digits1 cs
             | [] \<Rightarrow> None)
          else Some s
      | [] \<Rightarrow> Some s)"

definition skip_integer :: "string \<Rightarrow> string option" where
  "skip_integer s =
     (case s of
        c # cs \<Rightarrow> if c = CHR ''0'' then Some cs else if is_digit c then Some (skip_digits cs) else None
      | [] \<Rightarrow> None)"

definition skip_number :: "string \<Rightarrow> string option" where
  "skip_number s =
     (let s' = (if starts_with CHR ''-'' s then tl s else s) in
      Option.bind (skip_integer s') (\<lambda>r. Option.bind (skip_fraction r) skip_exponent))"

definition skip_literal :: "string \<Rightarrow> string \<Rightarrow> string option" where
  "skip_literal lit s = (if take (length lit) s = lit then Some (drop (length lit) s) else None)"

section \<open>Reading\<close>

text \<open>The UTF-8 text of a code point, as \<open>utf8.EncodeRune\<close> writes it.\<close>

definition encode_rune :: "nat \<Rightarrow> string" where
  "encode_rune r =
     (if r < 128 then [char_of r]
      else if r < 2048 then [char_of (192 + r div 64), char_of (128 + r mod 64)]
      else if r > 1114111 \<or> (55296 \<le> r \<and> r \<le> 57343) then
        [CHR 0xEF, CHR 0xBF, CHR 0xBD]
      else if r < 65536 then
        [char_of (224 + r div 4096), char_of (128 + r div 64 mod 64), char_of (128 + r mod 64)]
      else
        [char_of (240 + r div 262144), char_of (128 + r div 4096 mod 64),
         char_of (128 + r div 64 mod 64), char_of (128 + r mod 64)])"

definition hex4 :: "char \<Rightarrow> char \<Rightarrow> char \<Rightarrow> char \<Rightarrow> nat" where
  "hex4 a b c d =
     (let v = (\<lambda>x. case hex_value x of None \<Rightarrow> 0 | Some n \<Rightarrow> n) in
      ((v a * 16 + v b) * 16 + v c) * 16 + v d)"

text \<open>The low half of a surrogate pair that follows a high half, if there is one.\<close>

definition low_surrogate :: "string \<Rightarrow> nat option" where
  "low_surrogate s =
     (case s of
        b # u # h1 # h2 # h3 # h4 # _ \<Rightarrow>
          if b = CHR 0x5C \<and> u = CHR ''u'' \<and> 56320 \<le> hex4 h1 h2 h3 h4 \<and> hex4 h1 h2 h3 h4 \<le> 57343
          then Some (hex4 h1 h2 h3 h4) else None
      | _ \<Rightarrow> None)"

definition unescape_char :: "char \<Rightarrow> char" where
  "unescape_char e =
     (if e = CHR ''b'' then CHR 0x08
      else if e = CHR ''f'' then CHR 0x0C
      else if e = CHR ''n'' then CHR 0x0A
      else if e = CHR ''r'' then CHR 0x0D
      else if e = CHR ''t'' then CHR 0x09
      else e)"

text \<open>\<open>unquote\<close> decodes the inside of a literal that \<open>skip_string\<close> accepts.\<close>

fun unquote :: "string \<Rightarrow> string" where
  "unquote [] = []"
| "unquote (c # cs) =
     (if c = CHR 0x22 then []
      else if c = CHR 0x5C then
        (case cs of
           [] \<Rightarrow> []
         | e # r \<Rightarrow>
             if e = CHR ''u'' then
               (case r of
                  h1 # h2 # h3 # h4 # r' \<Rightarrow>
                    let x = hex4 h1 h2 h3 h4 in
                    if 55296 \<le> x \<and> x \<le> 56319 then
                      (case low_surrogate r' of
                         Some y \<Rightarrow> encode_rune (65536 + (x - 55296) * 1024 + (y - 56320)) @ unquote (drop 6 r')
                       | None \<Rightarrow> encode_rune 65533 @ unquote r')
                    else encode_rune x @ unquote r'
                | _ \<Rightarrow> [])
             else unescape_char e # unquote r)
      else if byte c < 128 then c # unquote cs
      else let n = utf8_len (c # cs) in
        if n = 0 then encode_rune 65533 @ unquote cs
        else take n (c # cs) @ unquote (drop (n - 1) cs))"

text \<open>The text of the value read between two positions.\<close>

definition consumed :: "string \<Rightarrow> string \<Rightarrow> string" where
  "consumed s rest = take (length s - length rest) s"

text \<open>
  \<open>skip_value\<close> reads one value, \<open>elements\<close> the inside of an array and \<open>members\<close> the inside of an
  object, after the opening bracket.  Every call spends one unit of fuel and no value needs more
  than its length (\<open>json_fuel\<close>), so the fuel never runs out before the text does.
\<close>

fun skip_value :: "nat \<Rightarrow> string \<Rightarrow> string option"
  and elements :: "nat \<Rightarrow> string \<Rightarrow> (string list \<times> string) option"
  and members :: "nat \<Rightarrow> string \<Rightarrow> ((string \<times> string) list \<times> string) option"
where
  "skip_value 0 s = None"
| "skip_value (Suc n) s =
     (case skip_ws s of
        [] \<Rightarrow> None
      | c # cs \<Rightarrow>
          if c = CHR 0x22 then skip_string cs
          else if c = CHR ''['' then
            (if starts_with CHR '']'' (skip_ws cs) then Some (tl (skip_ws cs))
             else map_option snd (elements n (skip_ws cs)))
          else if c = CHR ''{'' then
            (if starts_with CHR ''}'' (skip_ws cs) then Some (tl (skip_ws cs))
             else map_option snd (members n (skip_ws cs)))
          else if c = CHR ''t'' then skip_literal ''true'' (c # cs)
          else if c = CHR ''f'' then skip_literal ''false'' (c # cs)
          else if c = CHR ''n'' then skip_literal ''null'' (c # cs)
          else skip_number (c # cs))"
| "elements 0 s = None"
| "elements (Suc n) s =
     (case skip_value n (skip_ws s) of
        None \<Rightarrow> None
      | Some r \<Rightarrow>
          let v = consumed (skip_ws s) r in
          (case skip_ws r of
             [] \<Rightarrow> None
           | c # r' \<Rightarrow>
               if c = CHR '','' then map_option (apfst (Cons v)) (elements n r')
               else if c = CHR '']'' then Some ([v], r')
               else None))"
| "members 0 s = None"
| "members (Suc n) s =
     (if \<not> starts_with CHR 0x22 (skip_ws s) then None
      else let cs = tl (skip_ws s) in
        (case skip_string cs of
           None \<Rightarrow> None
         | Some r \<Rightarrow>
             if \<not> starts_with CHR '':'' (skip_ws r) then None
             else let v = skip_ws (tl (skip_ws r)) in
               (case skip_value n v of
                  None \<Rightarrow> None
                | Some r2 \<Rightarrow>
                    let kv = (unquote cs, consumed v r2) in
                    (case skip_ws r2 of
                       [] \<Rightarrow> None
                     | c # r3 \<Rightarrow>
                         if c = CHR '','' then map_option (apfst (Cons kv)) (members n r3)
                         else if c = CHR ''}'' then Some ([kv], r3)
                         else None))))"

definition json_fuel :: "string \<Rightarrow> nat" where
  "json_fuel s = Suc (length s)"

text \<open>\<open>checkValid\<close>: one value and nothing but white space after it.\<close>

definition json_valid :: "string \<Rightarrow> bool" where
  "json_valid s = (case skip_value (json_fuel s) s of None \<Rightarrow> False | Some r \<Rightarrow> skip_ws r = [])"

text \<open>The members of a valid object text, the elements of a valid array text.\<close>

definition object_members :: "string \<Rightarrow> (string \<times> string) list" where
  "object_members s =
     (let r = skip_ws (tl (skip_ws s)) in
      if starts_with CHR ''}'' r then []
      else (case members (json_fuel s) r of None \<Rightarrow> [] | Some (kvs, _) \<Rightarrow> kvs))"

definition array_elements :: "string \<Rightarrow> string list" where
  "array_elements s =
     (let r = skip_ws (tl (skip_ws s)) in
      if starts_with CHR '']'' r then []
      else (case elements (json_fuel s) r of None \<Rightarrow> [] | Some (vs, _) \<Rightarrow> vs))"

text \<open>The kind of a valid value, by its first byte.\<close>

datatype json_shape = JNull | JBool bool | JNumber | JString string | JArray | JObject

definition json_kind :: "string \<Rightarrow> json_shape" where
  "json_kind s =
     (case skip_ws s of
        [] \<Rightarrow> JNumber
      | c # cs \<Rightarrow>
          if c = CHR 0x22 then JString (unquote cs)
          else if c = CHR ''['' then JArray
          else if c = CHR ''{'' then JObject
          else if c = CHR ''t'' then JBool True
          else if c = CHR ''f'' then JBool False
          else if c = CHR ''n'' then JNull
          else JNumber)"

text \<open>\<open>compact\<close>, as applied to the text a \<open>MarshalJSON\<close> method returns.\<close>

fun compact_text :: "bool \<Rightarrow> string \<Rightarrow> string" where
  "compact_text q [] = []"
| "compact_text q (c # cs) =
     (if c \<in> set ''<>&'' then u_escape (byte c) @ compact_text q cs
      else case line_separator (c # cs) of
          Some u \<Rightarrow> u @ compact_text q (drop 2 cs)
        | None \<Rightarrow>
            if q \<and> c = CHR 0x5C then
              (case cs of [] \<Rightarrow> [c] | e # r \<Rightarrow> c # e # compact_text q r)
            else if c = CHR 0x22 then c # compact_text (\<not> q) cs
            else if \<not> q \<and> is_space c then compact_text q cs
            else c # compact_text q cs)"

definition compact :: "string \<Rightarrow> string option" where
  "compact s = (if json_valid s then Some (compact_text False s) else None)"

text \<open>The field of a struct that a key belongs to: the exact name first, else ignoring case.\<close>

definition ascii_lower :: "char \<Rightarrow> char" where
  "ascii_lower c = (if 65 \<le> byte c \<and> byte c \<le> 90 then char_of (byte c + 32) else c)"

definition json_field :: "string list \<Rightarrow> string \<Rightarrow> string option" where
  "json_field fields k =
     (if k \<in> set fields then Some k
      else find (\<lambda>f. map ascii_lower f = map ascii_lower k) fields)"

end
