(* ===== verification/Config_Map.thy ===== *)
theory Config_Map
  imports Ca_Secret Go_Json "HOL-Library.Char_ord" "HOL-Library.List_Lexorder"
begin

text \<open>
  The config map a policy server reads its policies and sources from:
  \<open>internal/pkg/admission/policy-server-configmap.go\<close>.

  The two entries of the config map are JSON texts; their layout follows the field tags of the
  Go structs.  The texts of the errors of \<open>encoding/json\<close> are not modelled: such an error is
  \<open>json_marshal_error\<close> or \<open>json_unmarshal_error\<close>.
\<close>

section \<open>The data\<close>

record PolicyServerConfigEntry =
  entNamespacedName :: NamespacedName
  entURL :: string
  entPolicyMode :: string
  entAllowedToMutate :: bool
  entSettings :: RawExtension

type_synonym PolicyConfigEntryMap = "(string, PolicyServerConfigEntry) fmap"

definition Data :: string where [const_defs]: "Data = ''Data''"

record policyServerSourceAuthority =
  authType :: string
  authData :: string

record policyServerSourcesEntry =
  srcInsecureSources :: "string slice"
  srcAuthorities :: "(string, policyServerSourceAuthority slice) nilmap"

definition json_marshal_error :: go_error where
  "json_marshal_error = Plain ''json: error calling MarshalJSON''"

definition json_unmarshal_error :: go_error where
  "json_unmarshal_error = Plain ''json: cannot unmarshal''"

section \<open>Writing the entries\<close>

definition marshal_raw :: "kube_lib \<Rightarrow> RawExtension \<Rightarrow> string option" where
  "marshal_raw L x = Option.bind (RawMarshalJSON L x) compact"

definition marshal_namespaced_name :: "NamespacedName \<Rightarrow> string" where
  "marshal_namespaced_name n = json_object
     [(''Namespace'', json_string (nnNamespace n)), (''Name'', json_string (nnName n))]"

definition marshal_entry :: "kube_lib \<Rightarrow> PolicyServerConfigEntry \<Rightarrow> string option" where
  "marshal_entry L e = map_option (\<lambda>settings. json_object
     [(''namespacedName'', marshal_namespaced_name (entNamespacedName e)),
      (''url'', json_string (entURL e)),
      (''policyMode'', json_string (entPolicyMode e)),
      (''allowedToMutate'', json_bool (entAllowedToMutate e)),
      (''settings'', settings)]) (marshal_raw L (entSettings e))"

text \<open>The keys of a map are written in increasing order.\<close>

definition marshal_policies :: "kube_lib \<Rightarrow> PolicyConfigEntryMap \<Rightarrow> string option" where
  "marshal_policies L m = map_option json_object
     (those (map (\<lambda>(k, e). map_option (Pair k) (marshal_entry L e)) (sorted_list_of_fmap m)))"

definition marshal_authority :: "policyServerSourceAuthority \<Rightarrow> string" where
  "marshal_authority a = json_object [(''type'', json_string (authType a)), (''data'', json_string (authData a))]"

definition marshal_slice :: "('a \<Rightarrow> string) \<Rightarrow> 'a slice \<Rightarrow> string" where
  "marshal_slice f s = (case s of None \<Rightarrow> ''null'' | Some xs \<Rightarrow> json_array (map f xs))"

text \<open>Both fields have the option \<open>omitempty\<close>: an empty slice or map is not written.\<close>

definition marshal_sources :: "policyServerSourcesEntry \<Rightarrow> string" where
  "marshal_sources s = json_object
     ((if elems (srcInsecureSources s) = [] then []
       else [(''insecure_sources'', marshal_slice json_string (srcInsecureSources s))]) @
      (case srcAuthorities s of
         None \<Rightarrow> []
       | Some m \<Rightarrow> if m = fmempty then []
           else [(''source_authorities'',
                  json_object (map (apsnd (marshal_slice marshal_authority)) (sorted_list_of_fmap m)))]))"

section \<open>Reading the entries\<close>

definition decode_string :: "string \<Rightarrow> string \<Rightarrow> string option" where
  "decode_string old raw = (case json_kind raw of JString s \<Rightarrow> Some s | JNull \<Rightarrow> Some old | _ \<Rightarrow> None)"

definition decode_bool :: "bool \<Rightarrow> string \<Rightarrow> bool option" where
  "decode_bool old raw = (case json_kind raw of JBool b \<Rightarrow> Some b | JNull \<Rightarrow> Some old | _ \<Rightarrow> None)"

text \<open>The members of an object are stored into the fields of a struct one after the other.\<close>

fun decode_fields ::
    "string list \<Rightarrow> (string \<Rightarrow> 'a \<Rightarrow> string \<Rightarrow> 'a option) \<Rightarrow> 'a \<Rightarrow> (string \<times> string) list \<Rightarrow> 'a option" where
  "decode_fields fs upd acc [] = Some acc"
| "decode_fields fs upd acc ((k, v) # kvs) =
     (case json_field fs k of
        None \<Rightarrow> decode_fields fs upd acc kvs
      | Some f \<Rightarrow> Option.bind (upd f acc v) (\<lambda>acc'. decode_fields fs upd acc' kvs))"

definition decode_struct ::
    "string list \<Rightarrow> (string \<Rightarrow> 'a \<Rightarrow> string \<Rightarrow> 'a option) \<Rightarrow> 'a \<Rightarrow> string \<Rightarrow> 'a option" where
  "decode_struct fs upd old raw =
     (case json_kind raw of
        JObject \<Rightarrow> decode_fields fs upd old (object_members raw) | JNull \<Rightarrow> Some old | _ \<Rightarrow> None)"

definition decode_slice :: "(string \<Rightarrow> 'a option) \<Rightarrow> string \<Rightarrow> 'a slice option" where
  "decode_slice f raw =
     (case json_kind raw of
        JArray \<Rightarrow> map_option Some (those (map f (array_elements raw)))
      | JNull \<Rightarrow> Some None
      | _ \<Rightarrow> None)"

fun decode_entries :: "(string \<Rightarrow> 'v option) \<Rightarrow> (string, 'v) fmap \<Rightarrow> (string \<times> string) list \<Rightarrow> (string, 'v) fmap option" where
  "decode_entries f m [] = Some m"
| "decode_entries f m ((k, v) # kvs) = Option.bind (f v) (\<lambda>x. decode_entries f (fmupd k x m) kvs)"

definition decode_map :: "(string \<Rightarrow> 'v option) \<Rightarrow> (string, 'v) nilmap \<Rightarrow> string \<Rightarrow> (string, 'v) nilmap option" where
  "decode_map f old raw =
     (case json_kind raw of
        JObject \<Rightarrow> map_option Some
          (decode_entries f (case old of None \<Rightarrow> fmempty | Some m \<Rightarrow> m) (object_members raw))
      | JNull \<Rightarrow> Some None
      | _ \<Rightarrow> None)"

definition upd_namespaced_name :: "string \<Rightarrow> NamespacedName \<Rightarrow> string \<Rightarrow> NamespacedName option" where
  "upd_namespaced_name f n v =
     (if f = ''Namespace'' then map_option (\<lambda>x. n\<lparr>nnNamespace := x\<rparr>) (decode_string (nnNamespace n) v)
      else map_option (\<lambda>x. n\<lparr>nnName := x\<rparr>) (decode_string (nnName n) v))"

definition upd_entry :: "kube_lib \<Rightarrow> string \<Rightarrow> PolicyServerConfigEntry \<Rightarrow> string \<Rightarrow> PolicyServerConfigEntry option" where
  "upd_entry L f e v =
     (if f = ''namespacedName'' then
        map_option (\<lambda>x. e\<lparr>entNamespacedName := x\<rparr>)
          (decode_struct [''Namespace'', ''Name''] upd_namespaced_name (entNamespacedName e) v)
      else if f = ''url'' then map_option (\<lambda>x. e\<lparr>entURL := x\<rparr>) (decode_string (entURL e) v)
      else if f = ''policyMode'' then
        map_option (\<lambda>x. e\<lparr>entPolicyMode := x\<rparr>) (decode_string (entPolicyMode e) v)
      else if f = ''allowedToMutate'' then
        map_option (\<lambda>x. e\<lparr>entAllowedToMutate := x\<rparr>) (decode_bool (entAllowedToMutate e) v)
      else map_option (\<lambda>x. e\<lparr>entSettings := x\<rparr>) (RawUnmarshalJSON L (entSettings e) v))"

definition zero_entry :: PolicyServerConfigEntry where
  "zero_entry = \<lparr>entNamespacedName = object_key '''' '''', entURL = '''', entPolicyMode = '''',
     entAllowedToMutate = False, entSettings = None\<rparr>"

definition decode_entry :: "kube_lib \<Rightarrow> string \<Rightarrow> PolicyServerConfigEntry option" where
  "decode_entry L = decode_struct
     [''namespacedName'', ''url'', ''policyMode'', ''allowedToMutate'', ''settings''] (upd_entry L) zero_entry"

text \<open>\<open>json.Unmarshal\<close> into a policy map that may be nil.\<close>

definition unmarshal_policies ::
    "kube_lib \<Rightarrow> PolicyConfigEntryMap option \<Rightarrow> string \<Rightarrow> PolicyConfigEntryMap option option" where
  "unmarshal_policies L old text = (if json_valid text then decode_map (decode_entry L) old text else None)"

definition upd_authority ::
    "string \<Rightarrow> policyServerSourceAuthority \<Rightarrow> string \<Rightarrow> policyServerSourceAuthority option" where
  "upd_authority f a v =
     (if f = ''type'' then map_option (\<lambda>x. a\<lparr>authType := x\<rparr>) (decode_string (authType a) v)
      else map_option (\<lambda>x. a\<lparr>authData := x\<rparr>) (decode_string (authData a) v))"

definition decode_authority :: "string \<Rightarrow> policyServerSourceAuthority option" where
  "decode_authority = decode_struct [''type'', ''data''] upd_authority \<lparr>authType = '''', authData = ''''\<rparr>"

definition upd_sources ::
    "string \<Rightarrow> policyServerSourcesEntry \<Rightarrow> string \<Rightarrow> policyServerSourcesEntry option" where
  "upd_sources f s v =
     (if f = ''insecure_sources'' then
        map_option (\<lambda>x. s\<lparr>srcInsecureSources := x\<rparr>) (decode_slice (decode_string '''') v)
      else map_option (\<lambda>x. s\<lparr>srcAuthorities := x\<rparr>)
        (decode_map (decode_slice decode_authority) (srcAuthorities s) v))"

definition zero_sources :: policyServerSourcesEntry where
  "zero_sources = \<lparr>srcInsecureSources = None, srcAuthorities = None\<rparr>"

definition unmarshal_sources :: "string \<Rightarrow> policyServerSourcesEntry option" where
  "unmarshal_sources text =
     (if json_valid text
      then decode_struct [''insecure_sources'', ''source_authorities''] upd_sources zero_sources text
      else None)"

section \<open>The contents of the config map\<close>

definition config_entry :: "Policy \<Rightarrow> PolicyServerConfigEntry" where
  "config_entry admissionPolicy =
     \<lparr>entNamespacedName = object_key (GetNamespace admissionPolicy) (GetName admissionPolicy),
      entURL = GetModule admissionPolicy,
      entPolicyMode = GetPolicyMode admissionPolicy,
      entAllowedToMutate = IsMutating admissionPolicy,
      entSettings = GetSettings admissionPolicy\<rparr>"

fun add_policies :: "PolicyConfigEntryMap \<Rightarrow> Policy list \<Rightarrow> PolicyConfigEntryMap" where
  "add_policies policies [] = policies"
| "add_policies policies (p # ps) = add_policies (fmupd (GetUniqueName p) (config_entry p) policies) ps"

definition createPoliciesMap :: "Policy list \<Rightarrow> PolicyConfigEntryMap" where
  "createPoliciesMap admissionPolicies = add_policies fmempty admissionPolicies"

definition createSourcesMap :: "PolicyServer \<Rightarrow> policyServerSourcesEntry" where
  "createSourcesMap policyServer =
     \<lparr>srcInsecureSources =
        (case psInsecureSources (psSpec policyServer) of None \<Rightarrow> Some [] | Some xs \<Rightarrow> Some xs),
      srcAuthorities =
        Some (fmmap (\<lambda>certs. Some (map (\<lambda>cert. \<lparr>authType = Data, authData = cert\<rparr>) certs))
          (case psSourceAuthorities (psSpec policyServer) of None \<Rightarrow> fmempty | Some m \<Rightarrow> m))\<rparr>"

definition shouldUpdatePolicyMap :: "kube_lib \<Rightarrow> string \<Rightarrow> PolicyConfigEntryMap \<Rightarrow> bool result" where
  "shouldUpdatePolicyMap L currentPoliciesYML newPoliciesMap =
     (case unmarshal_policies L None currentPoliciesYML of
        None \<Rightarrow> Err (Wrapped ''cannot unmarshal policies: '' json_unmarshal_error)
      | Some currentPoliciesMap \<Rightarrow> Ok (currentPoliciesMap \<noteq> Some newPoliciesMap))"

definition shouldUpdateSourcesList :: "string \<Rightarrow> policyServerSourcesEntry \<Rightarrow> bool result" where
  "shouldUpdateSourcesList currentSourcesYML newSources =
     (case unmarshal_sources currentSourcesYML of
        None \<Rightarrow> Err (Wrapped ''cannot unmarshal insecureSources: '' json_unmarshal_error)
      | Some currentSources \<Rightarrow> Ok (currentSources \<noteq> newSources))"

section \<open>Reconciling the config map\<close>

text \<open>\<open>patch.Data[k] = v\<close> panics when the map is nil.\<close>

definition write_data :: "string \<Rightarrow> string \<Rightarrow> ConfigMap \<Rightarrow> ConfigMap result" where
  "write_data k v cm = (case cmData cm of None \<Rightarrow> Panic | Some d \<Rightarrow> Ok (cm\<lparr>cmData := Some (fmupd k v d)\<rparr>))"

definition patch_policies :: "kube_lib \<Rightarrow> bool \<Rightarrow> PolicyConfigEntryMap \<Rightarrow> ConfigMap \<Rightarrow> ConfigMap result" where
  "patch_policies L shouldUpdatePolicies newPoliciesMap patch =
     (if shouldUpdatePolicies then
        (case marshal_policies L newPoliciesMap of
           None \<Rightarrow> Err (Wrapped ''cannot marshal policies: '' json_marshal_error)
         | Some newPoliciesYML \<Rightarrow> write_data PolicyServerConfigPoliciesEntry newPoliciesYML patch)
      else Ok patch)"

definition patch_sources :: "bool \<Rightarrow> policyServerSourcesEntry \<Rightarrow> ConfigMap \<Rightarrow> ConfigMap result" where
  "patch_sources shouldUpdateSources newSourcesList patch =
     (if shouldUpdateSources
      then write_data PolicyServerConfigSourcesEntry (marshal_sources newSourcesList) patch
      else Ok patch)"

definition updateIfNeeded ::
    "'w Reconciler \<Rightarrow> ConfigMap \<Rightarrow> Policy list \<Rightarrow> PolicyServer \<Rightarrow> ('w, unit result) api" where
  "updateIfNeeded r cfg policies policyServer =
     (let newPoliciesMap = createPoliciesMap policies;
          newSourcesList = createSourcesMap policyServer
      in case shouldUpdatePolicyMap (Lib r) (nil_get (cmData cfg) PolicyServerConfigPoliciesEntry) newPoliciesMap of
           Panic \<Rightarrow> ret Panic
         | Err e \<Rightarrow> ret (Err (Wrapped ''cannot compare policies: '' e))
         | Ok shouldUpdatePolicies \<Rightarrow>
           (case shouldUpdateSourcesList (nil_get (cmData cfg) PolicyServerConfigSourcesEntry) newSourcesList of
              Panic \<Rightarrow> ret Panic
            | Err e \<Rightarrow> ret (Err (Wrapped ''cannot compare insecureSources: '' e))
            | Ok shouldUpdateSources \<Rightarrow>
              if \<not> (shouldUpdatePolicies \<or> shouldUpdateSources) then ret (Ok ())
              else
                (case patch_policies (Lib r) shouldUpdatePolicies newPoliciesMap cfg of
                   Panic \<Rightarrow> ret Panic
                 | Err e \<Rightarrow> ret (Err e)
                 | Ok patch1 \<Rightarrow>
                   (case patch_sources shouldUpdateSources newSourcesList patch1 of
                      Panic \<Rightarrow> ret Panic
                    | Err e \<Rightarrow> ret (Err e)
                    | Ok patch \<Rightarrow> do {
                        res \<leftarrow> api_write (Client r) (Patch (OConfigMap patch) (OConfigMap cfg));
                        ret (case res of
                            Inl err \<Rightarrow> Err (Wrapped ''cannot patch PolicyServer Configmap: '' (ApiErr err))
                          | Inr _ \<Rightarrow> Ok ())
                      }))))"

definition new_config_map :: "'w Reconciler \<Rightarrow> PolicyServer \<Rightarrow> string \<Rightarrow> string \<Rightarrow> ConfigMap" where
  "new_config_map r policyServer policiesYML sourcesYML =
     \<lparr>cmMeta = (metaNamed (DeploymentsNamespace r) (NameWithPrefix policyServer))
        \<lparr>Labels := fmap_of_list [(PolicyServerLabelKey, Name (psMeta policyServer))]\<rparr>,
      cmData = Some (fmap_of_list
        [(PolicyServerConfigPoliciesEntry, policiesYML), (PolicyServerConfigSourcesEntry, sourcesYML)])\<rparr>"

definition createPolicyServerConfigMap ::
    "'w Reconciler \<Rightarrow> PolicyServer \<Rightarrow> Policy list \<Rightarrow> ('w, unit result) api" where
  "createPolicyServerConfigMap r policyServer policies =
     (case marshal_policies (Lib r) (createPoliciesMap policies) of
        None \<Rightarrow> ret (Err (Wrapped ''cannot marshal policies: '' json_marshal_error))
      | Some policiesYML \<Rightarrow> do {
          let sourcesYML = marshal_sources (createSourcesMap policyServer);
          res \<leftarrow> api_write (Client r)
                 (Create (OConfigMap (new_config_map r policyServer policiesYML sourcesYML)));
          ret (case res of Inl err \<Rightarrow> Err (ApiErr err) | Inr _ \<Rightarrow> Ok ())
        })"

definition reconcilePolicyServerConfigMap ::
    "'w Reconciler \<Rightarrow> PolicyServer \<Rightarrow> Policy list \<Rightarrow> ('w, unit result) api" where
  "reconcilePolicyServerConfigMap r policyServer policies = do {
     res \<leftarrow> api_get (Client r) KConfigMap (object_key (DeploymentsNamespace r) (NameWithPrefix policyServer));
     (case as_ConfigMap res of
        Inr cfg \<Rightarrow> updateIfNeeded r cfg policies policyServer
      | Inl err \<Rightarrow>
          if IsNotFound err then createPolicyServerConfigMap r policyServer policies
          else ret (Err (Wrapped ''cannot lookup Policy server ConfigMap: '' (ApiErr err))))
   }"

text \<open>The version is read through the API reader, which does not use the client's cache.\<close>

definition policyServerConfigMapVersion :: "'w Reconciler \<Rightarrow> PolicyServer \<Rightarrow> ('w, string result) api" where
  "policyServerConfigMapVersion r policyServer = do {
     res \<leftarrow> api_get (APIReader r) KConfigMap (object_key (DeploymentsNamespace r) (NameWithPrefix policyServer));
     ret (case as_ConfigMap res of
         Inl err \<Rightarrow> Err (Wrapped ''cannot retrieve existing policies ConfigMap: '' (ApiErr err))
       | Inr cm \<Rightarrow> Ok (ResourceVersion (cmMeta cm)))
   }"

section \<open>From the config map back to the policies\<close>

text \<open>
  Go ranges over a map in an order that is not specified: the two functions take the entries in
  the order of the loop, and \<open>enumerates\<close> says that a list is such an order.
\<close>

fun ToAdmissionPolicyReconcileRequests :: "(string \<times> PolicyServerConfigEntry) list \<Rightarrow> NamespacedName list" where
  "ToAdmissionPolicyReconcileRequests [] = []"
| "ToAdmissionPolicyReconcileRequests ((_, policy) # rest) =
     (if nnNamespace (entNamespacedName policy) = '''' then ToAdmissionPolicyReconcileRequests rest
      else object_key (nnNamespace (entNamespacedName policy)) (nnName (entNamespacedName policy))
           # ToAdmissionPolicyReconcileRequests rest)"

fun ToClusterAdmissionPolicyReconcileRequests :: "(string \<times> PolicyServerConfigEntry) list \<Rightarrow> NamespacedName list" where
  "ToClusterAdmissionPolicyReconcileRequests [] = []"
| "ToClusterAdmissionPolicyReconcileRequests ((_, policy) # rest) =
     (if nnNamespace (entNamespacedName policy) \<noteq> '''' then ToClusterAdmissionPolicyReconcileRequests rest
      else object_key '''' (nnName (entNamespacedName policy)) # ToClusterAdmissionPolicyReconcileRequests rest)"

definition enumerates :: "(string \<times> 'v) list \<Rightarrow> (string, 'v) fmap \<Rightarrow> bool" where
  "enumerates kvs m \<longleftrightarrow> distinct (map fst kvs) \<and> fmap_of_list kvs = m"

end
