(* ===== verification/Server_Deployment.thy ===== *)
theory Server_Deployment
  imports Config_Map
begin

text \<open>
  The deployment that runs a policy server: \<open>internal/pkg/admission/policy-server-deployment.go\<close>.
  Reading through a nil pointer, indexing past the end of a slice and writing into a nil map are
  the outcome \<open>Panic\<close>.
\<close>

definition certsVolumeName :: string where [const_defs]: "certsVolumeName = ''certs''"
definition policiesConfigContainerPath :: string where [const_defs]: "policiesConfigContainerPath = ''/config''"
definition policiesFilename :: string where [const_defs]: "policiesFilename = ''policies.yml''"
definition sourcesFilename :: string where [const_defs]: "sourcesFilename = ''sources.yml''"
definition verificationFilename :: string where [const_defs]: "verificationFilename = ''verification.yml''"
definition policiesVolumeName :: string where [const_defs]: "policiesVolumeName = ''policies''"
definition sourcesVolumeName :: string where [const_defs]: "sourcesVolumeName = ''sources''"
definition verificationConfigVolumeName :: string where [const_defs]:
  "verificationConfigVolumeName = ''verification''"
definition secretsContainerPath :: string where [const_defs]: "secretsContainerPath = ''/pki''"
definition imagePullSecretVolumeName :: string where [const_defs]:
  "imagePullSecretVolumeName = ''imagepullsecret''"
definition dockerConfigJSONPolicyServerPath :: string where [const_defs]:
  "dockerConfigJSONPolicyServerPath = ''/home/kubewarden/.docker''"
definition policyStoreVolume :: string where [const_defs]: "policyStoreVolume = ''policy-store''"
definition policyStoreVolumePath :: string where [const_defs]: "policyStoreVolumePath = ''/tmp''"
definition sigstoreCacheDirPath :: string where [const_defs]: "sigstoreCacheDirPath = ''/tmp/sigstore-data''"
definition RollingUpdateDeploymentStrategyType :: string where [const_defs]:
  "RollingUpdateDeploymentStrategyType = ''RollingUpdate''"
definition URISchemeHTTPS :: string where [const_defs]: "URISchemeHTTPS = ''HTTPS''"

section \<open>The wanted deployment\<close>

definition env_var :: "string \<Rightarrow> string \<Rightarrow> EnvVar" where
  "env_var n v = \<lparr>envName = n, envValue = v, envValueFrom = None\<rparr>"

definition volume_mount :: "string \<Rightarrow> bool \<Rightarrow> string \<Rightarrow> VolumeMount" where
  "volume_mount n ro p = \<lparr>vmName = n, vmReadOnly = ro, vmMountPath = p\<rparr>"

definition volume :: "string \<Rightarrow> VolumeSource \<Rightarrow> Volume" where
  "volume n src = \<lparr>volName = n, volSource = src\<rparr>"

definition has_sources :: "PolicyServer \<Rightarrow> bool" where
  "has_sources policyServer \<longleftrightarrow>
     elems (psInsecureSources (psSpec policyServer)) \<noteq> [] \<or>
     (case psSourceAuthorities (psSpec policyServer) of None \<Rightarrow> False | Some m \<Rightarrow> m \<noteq> fmempty)"

definition adaptDeploymentSettingsForPolicyServer :: "Deployment \<Rightarrow> PolicyServer \<Rightarrow> Deployment" where
  "adaptDeploymentSettingsForPolicyServer d policyServer =
     (let spec = psSpec policyServer;
          verification = (if psVerificationConfig spec \<noteq> '''' then
            [volume verificationConfigVolumeName (ConfigMapVolumeSource (psVerificationConfig spec)
               (Some [\<lparr>ktpKey = PolicyServerVerificationConfigEntry, ktpPath = verificationFilename\<rparr>]))]
            else []);
          imagePull = (if psImagePullSecret spec \<noteq> '''' then
            [volume imagePullSecretVolumeName (SecretVolumeSource (psImagePullSecret spec))] else []);
          sources = (if has_sources policyServer then
            [volume sourcesVolumeName (ConfigMapVolumeSource (NameWithPrefix policyServer) None)] else [])
      in d\<lparr>depTemplate := (depTemplate d)
           \<lparr>tplVolumes := tplVolumes (depTemplate d) @ verification @ imagePull @ sources\<rparr>\<rparr>)"

definition default_env :: "EnvVar list" where
  "default_env =
     [env_var ''KUBEWARDEN_CERT_FILE'' (filepath_Join [secretsContainerPath, PolicyServerTLSCert]),
      env_var ''KUBEWARDEN_KEY_FILE'' (filepath_Join [secretsContainerPath, PolicyServerTLSKey]),
      env_var ''KUBEWARDEN_PORT'' (decimal (unat PolicyServerPort)),
      env_var ''KUBEWARDEN_POLICIES_DOWNLOAD_DIR'' policyStoreVolumePath,
      env_var ''KUBEWARDEN_POLICIES'' (filepath_Join [policiesConfigContainerPath, policiesFilename]),
      env_var ''KUBEWARDEN_SIGSTORE_CACHE_DIR'' sigstoreCacheDirPath]"

definition optional_env :: "'w Reconciler \<Rightarrow> PolicyServer \<Rightarrow> EnvVar list" where
  "optional_env r policyServer =
     (if AlwaysAcceptAdmissionReviewsInDeploymentsNamespace r then
        [env_var ''KUBEWARDEN_ALWAYS_ACCEPT_ADMISSION_REVIEWS_ON_NAMESPACE'' (DeploymentsNamespace r)]
      else []) @
     (if psVerificationConfig (psSpec policyServer) \<noteq> '''' then
        [env_var ''KUBEWARDEN_VERIFICATION_CONFIG_PATH''
           (filepath_Join [PolicyServerVerificationConfigContainerPath, verificationFilename])]
      else []) @
     (if psImagePullSecret (psSpec policyServer) \<noteq> '''' then
        [env_var ''KUBEWARDEN_DOCKER_CONFIG_JSON_PATH''
           (filepath_Join [dockerConfigJSONPolicyServerPath, ''.dockerconfigjson''])]
      else []) @
     (if has_sources policyServer then
        [env_var ''KUBEWARDEN_SOURCES_PATH''
           (filepath_Join [PolicyServerSourcesConfigContainerPath, sourcesFilename])]
      else [])"

definition container_mounts :: "PolicyServer \<Rightarrow> VolumeMount list" where
  "container_mounts policyServer =
     [volume_mount certsVolumeName True secretsContainerPath,
      volume_mount policiesVolumeName True policiesConfigContainerPath,
      volume_mount policyStoreVolume False policyStoreVolumePath] @
     (if psVerificationConfig (psSpec policyServer) \<noteq> '''' then
        [volume_mount verificationConfigVolumeName True PolicyServerVerificationConfigContainerPath] else []) @
     (if psImagePullSecret (psSpec policyServer) \<noteq> '''' then
        [volume_mount imagePullSecretVolumeName True dockerConfigJSONPolicyServerPath] else []) @
     (if has_sources policyServer then
        [volume_mount sourcesVolumeName True PolicyServerSourcesConfigContainerPath] else [])"

definition admissionContainer :: "'w Reconciler \<Rightarrow> PolicyServer \<Rightarrow> Container" where
  "admissionContainer r policyServer =
     \<lparr>ctName = NameWithPrefix policyServer,
      ctImage = psImage (psSpec policyServer),
      ctVolumeMounts = container_mounts policyServer,
      ctEnv = Some (default_env @ psEnv (psSpec policyServer) @ optional_env r policyServer),
      ctReadinessProbe = Some \<lparr>hgPath = PolicyServerReadinessProbe,
        hgPort = FromInt PolicyServerPort, hgScheme = URISchemeHTTPS\<rparr>,
      ctReadOnlyRootFilesystem = Some True\<rparr>"

definition base_volumes :: "PolicyServer \<Rightarrow> Volume list" where
  "base_volumes policyServer =
     [volume policyStoreVolume EmptyDirVolumeSource,
      volume certsVolumeName (SecretVolumeSource (NameWithPrefix policyServer)),
      volume policiesVolumeName (ConfigMapVolumeSource (NameWithPrefix policyServer)
        (Some [\<lparr>ktpKey = PolicyServerConfigPoliciesEntry, ktpPath = policiesFilename\<rparr>]))]"

definition deployment :: "'w Reconciler \<Rightarrow> string \<Rightarrow> PolicyServer \<Rightarrow> Deployment" where
  "deployment r configMapVersion policyServer =
     (let templateAnnotations =
            Some (or_empty (psAnnotations (psSpec policyServer)))
      in adaptDeploymentSettingsForPolicyServer
       \<lparr>depMeta = (metaNamed (DeploymentsNamespace r) (NameWithPrefix policyServer))
          \<lparr>Annotations := Some (fmap_of_list [(PolicyServerDeploymentConfigVersionAnnotation, configMapVersion)]),
           Labels := fmap_of_list [(AppLabelKey, AppLabel policyServer),
             (PolicyServerLabelKey, Name (psMeta policyServer))]\<rparr>,
        depReplicas = Some (psReplicas (psSpec policyServer)),
        depSelector = fmap_of_list [(AppLabelKey, AppLabel policyServer)],
        depStrategy = RollingUpdateDeploymentStrategyType,
        depTemplate =
          \<lparr>tplMeta = metaZero
             \<lparr>Labels := fmap_of_list [(AppLabelKey, AppLabel policyServer),
                (PolicyServerDeploymentPodSpecConfigVersionLabel, configMapVersion),
                (PolicyServerLabelKey, Name (psMeta policyServer))],
              Annotations := templateAnnotations\<rparr>,
           tplContainers = [admissionContainer r policyServer],
           tplServiceAccountName = psServiceAccountName (psSpec policyServer),
           tplVolumes = base_volumes policyServer\<rparr>\<rparr> policyServer)"

section \<open>When to update\<close>

fun image_of_container :: "string \<Rightarrow> Container list \<Rightarrow> string result" where
  "image_of_container n [] = Err (Plain ''cannot find policy server container'')"
| "image_of_container n (c # cs) = (if ctName c = n then Ok (ctImage c) else image_of_container n cs)"

definition getPolicyServerImageFromDeployment :: "PolicyServer \<Rightarrow> Deployment \<Rightarrow> string result" where
  "getPolicyServerImageFromDeployment policyServer d =
     image_of_container (NameWithPrefix policyServer) (tplContainers (depTemplate d))"

definition isPolicyServerImageChanged :: "PolicyServer \<Rightarrow> Deployment \<Rightarrow> Deployment \<Rightarrow> bool result" where
  "isPolicyServerImageChanged policyServer originalDeployment newDeployment =
     (case getPolicyServerImageFromDeployment policyServer originalDeployment of
        Panic \<Rightarrow> Panic
      | Err e \<Rightarrow> Err e
      | Ok oldImage \<Rightarrow>
        (case getPolicyServerImageFromDeployment policyServer newDeployment of
           Panic \<Rightarrow> Panic
         | Err e \<Rightarrow> Err e
         | Ok newImage \<Rightarrow> Ok (oldImage \<noteq> newImage)))"

definition haveEqualAnnotationsWithoutRestart :: "Deployment \<Rightarrow> Deployment \<Rightarrow> bool" where
  "haveEqualAnnotationsWithoutRestart originalDeployment newDeployment =
     (let old = Annotations (tplMeta (depTemplate originalDeployment));
          new = Annotations (tplMeta (depTemplate newDeployment))
      in if old = None \<and> new = None then True
         else Some (fmfilter (\<lambda>k. k \<noteq> PolicyServerDeploymentRestartAnnotation) (or_empty old)) = new)"

abbreviation config_version :: "Deployment \<Rightarrow> string" where
  "config_version d \<equiv> nil_get (Annotations (depMeta d)) PolicyServerDeploymentConfigVersionAnnotation"

definition shouldUpdatePolicyServerDeployment :: "PolicyServer \<Rightarrow> Deployment \<Rightarrow> Deployment \<Rightarrow> bool result" where
  "shouldUpdatePolicyServerDeployment policyServer originalDeployment newDeployment =
     (case isPolicyServerImageChanged policyServer originalDeployment newDeployment of
        Panic \<Rightarrow> Panic
      | Err e \<Rightarrow> Err e
      | Ok containerImageChanged \<Rightarrow>
        (case (depReplicas originalDeployment, depReplicas newDeployment) of
           (Some a, Some b) \<Rightarrow>
             if a \<noteq> b \<or> containerImageChanged \<or>
                tplServiceAccountName (depTemplate originalDeployment)
                  \<noteq> tplServiceAccountName (depTemplate newDeployment) \<or>
                config_version originalDeployment \<noteq> config_version newDeployment
             then Ok True
             else (case (tplContainers (depTemplate originalDeployment), tplContainers (depTemplate newDeployment)) of
                 (c # _, c' # _) \<Rightarrow>
                   Ok (ctEnv c \<noteq> ctEnv c' \<or>
                       \<not> haveEqualAnnotationsWithoutRestart originalDeployment newDeployment)
               | _ \<Rightarrow> Panic)
         | _ \<Rightarrow> Panic))"

section \<open>Reconciling the deployment\<close>

definition patch_deployment :: "Deployment \<Rightarrow> Deployment \<Rightarrow> Deployment result" where
  "patch_deployment originalDeployment newDeployment =
     (case Annotations (depMeta originalDeployment) of
        None \<Rightarrow> Panic
      | Some m \<Rightarrow> Ok (originalDeployment
          \<lparr>depReplicas := depReplicas newDeployment,
           depTemplate := depTemplate newDeployment,
           depMeta := (depMeta originalDeployment)
             \<lparr>Annotations := Some (fmupd PolicyServerDeploymentConfigVersionAnnotation
                 (config_version newDeployment) m)\<rparr>\<rparr>))"

definition updatePolicyServerDeployment ::
    "'w Reconciler \<Rightarrow> PolicyServer \<Rightarrow> Deployment \<Rightarrow> ('w, unit result) api" where
  "updatePolicyServerDeployment r policyServer newDeployment = do {
     res \<leftarrow> api_get (Client r) KDeployment (object_key (DeploymentsNamespace r) (NameWithPrefix policyServer));
     (case as_Deployment res of
        Inl err \<Rightarrow> ret (Err (Wrapped ''cannot retrieve existing policy-server Deployment: '' (ApiErr err)))
      | Inr originalDeployment \<Rightarrow>
        (case shouldUpdatePolicyServerDeployment policyServer originalDeployment newDeployment of
           Panic \<Rightarrow> ret Panic
         | Err e \<Rightarrow> ret (Err (Wrapped
             ''cannot check if it is necessary to update the policy server deployment: '' e))
         | Ok shouldUpdate \<Rightarrow>
             if shouldUpdate then
               (case patch_deployment originalDeployment newDeployment of
                  Panic \<Rightarrow> ret Panic
                | Err e \<Rightarrow> ret (Err e)
                | Ok patch \<Rightarrow> do {
                    w \<leftarrow> api_write (Client r) (Patch (ODeployment patch) (ODeployment originalDeployment));
                    ret (case w of
                        Inl err \<Rightarrow> Err (Wrapped ''cannot patch policy-server Deployment: '' (ApiErr err))
                      | Inr _ \<Rightarrow> Ok ())
                  })
             else ret (Ok ())))
   }"

definition policyServerImagePullSecretPresent :: "'w Reconciler \<Rightarrow> PolicyServer \<Rightarrow> ('w, unit result) api" where
  "policyServerImagePullSecretPresent r policyServer = do {
     res \<leftarrow> api_get (Client r) KSecret
       (object_key (DeploymentsNamespace r) (psImagePullSecret (psSpec policyServer)));
     ret (case res of
         Inl err \<Rightarrow> Err (Wrapped ''cannot get spec.ImagePullSecret: '' (ApiErr err))
       | Inr ob \<Rightarrow>
         (case ob of
            OSecret secret \<Rightarrow>
              if secType secret \<noteq> ''kubernetes.io/dockerconfigjson'' then
                Err (Plain (''spec.ImagePullSecret secret '' @ [CHR 0x22] @ Name (secMeta secret) @ [CHR 0x22] @
                  '' is not of type kubernetes.io/dockerconfigjson''))
              else Ok ()
          | _ \<Rightarrow> Err (Wrapped ''spec.ImagePullSecret is not of Kind Secret: '' (ApiErr decode_error))))
   }"

definition create_or_update_deployment ::
    "'w Reconciler \<Rightarrow> PolicyServer \<Rightarrow> string \<Rightarrow> ('w, unit result) api" where
  "create_or_update_deployment r policyServer configMapVersion = do {
     let d = deployment r configMapVersion policyServer;
     res \<leftarrow> api_write (Client r) (Create (ODeployment d));
     (case res of
        Inr _ \<Rightarrow> ret (Ok ())
      | Inl err \<Rightarrow>
          if IsAlreadyExists err then updatePolicyServerDeployment r policyServer d
          else ret (Err (Wrapped ''error reconciling policy-server deployment: '' (ApiErr err))))
   }"

definition reconcilePolicyServerDeployment :: "'w Reconciler \<Rightarrow> PolicyServer \<Rightarrow> ('w, unit result) api" where
  "reconcilePolicyServerDeployment r policyServer = do {
     v \<leftarrow> policyServerConfigMapVersion r policyServer;
     (case v of
        Panic \<Rightarrow> ret Panic
      | Err e \<Rightarrow> ret (Err (Wrapped ''cannot get policy-server ConfigMap version: '' e))
      | Ok configMapVersion \<Rightarrow>
          if psImagePullSecret (psSpec policyServer) \<noteq> '''' then do {
            p \<leftarrow> policyServerImagePullSecretPresent r policyServer;
            (case p of
               Panic \<Rightarrow> ret Panic
             | Err e \<Rightarrow> ret (Err e)
             | Ok _ \<Rightarrow> create_or_update_deployment r policyServer configMapVersion)
          }
          else create_or_update_deployment r policyServer configMapVersion)
   }"

section \<open>The volumes and the files\<close>

lemma mounts_names:
  "map vmName (container_mounts ps) =
     [certsVolumeName, policiesVolumeName, policyStoreVolume] @
     (if psVerificationConfig (psSpec ps) \<noteq> '''' then [verificationConfigVolumeName] else []) @
     (if psImagePullSecret (psSpec ps) \<noteq> '''' then [imagePullSecretVolumeName] else []) @
     (if has_sources ps then [sourcesVolumeName] else [])"
  by (simp add: container_mounts_def volume_mount_def)

lemma deployment_volumes:
  "map volName (tplVolumes (depTemplate (deployment r v ps))) =
     [policyStoreVolume, certsVolumeName, policiesVolumeName] @
     (if psVerificationConfig (psSpec ps) \<noteq> '''' then [verificationConfigVolumeName] else []) @
     (if psImagePullSecret (psSpec ps) \<noteq> '''' then [imagePullSecretVolumeName] else []) @
     (if has_sources ps then [sourcesVolumeName] else [])"
  by (simp add: deployment_def adaptDeploymentSettingsForPolicyServer_def base_volumes_def volume_def Let_def)

lemma deployment_simps [simp]:
  "tplContainers (depTemplate (deployment r v ps)) = [admissionContainer r ps]"
  "depReplicas (deployment r v ps) = Some (psReplicas (psSpec ps))"
  "depSelector (deployment r v ps) = fmap_of_list [(AppLabelKey, AppLabel ps)]"
  "Labels (tplMeta (depTemplate (deployment r v ps))) = fmap_of_list [(AppLabelKey, AppLabel ps),
     (PolicyServerDeploymentPodSpecConfigVersionLabel, v), (PolicyServerLabelKey, Name (psMeta ps))]"
  "Annotations (tplMeta (depTemplate (deployment r v ps))) =
     Some (or_empty (psAnnotations (psSpec ps)))"
  "tplServiceAccountName (depTemplate (deployment r v ps)) = psServiceAccountName (psSpec ps)"
  "config_version (deployment r v ps) = v"
  "Name (depMeta (deployment r v ps)) = NameWithPrefix ps"
  "Namespace (depMeta (deployment r v ps)) = DeploymentsNamespace r"
  by (simp_all add: deployment_def adaptDeploymentSettingsForPolicyServer_def Let_def map_get_def split: option.splits)

lemma mount_names_distinct: "distinct (map vmName (container_mounts ps))"
  unfolding mounts_names by (simp add: const_defs)

lemma mount_paths_distinct: "distinct (map vmMountPath (container_mounts ps))"
  by (simp add: container_mounts_def volume_mount_def const_defs)

lemma volume_names_distinct: "distinct (map volName (tplVolumes (depTemplate (deployment r v ps))))"
  unfolding deployment_volumes by (simp add: const_defs)

lemma mounts_volumes:
  "set (map vmName (container_mounts ps)) = set (map volName (tplVolumes (depTemplate (deployment r v ps))))"
  unfolding deployment_volumes mounts_names by auto

text \<open>
  The files a volume shows in the container: the keys of the secret or config map, or the items
  chosen from it.  The serving secret and the config map of the policy server have the keys that
  \<open>buildPolicyServerCASecret\<close> and \<open>new_config_map\<close> give them.
\<close>

definition volume_files :: "PolicyServer \<Rightarrow> VolumeSource \<Rightarrow> string set" where
  "volume_files ps src = (case src of
     EmptyDirVolumeSource \<Rightarrow> {}
   | SecretVolumeSource n \<Rightarrow>
       (if n = NameWithPrefix ps then {PolicyServerTLSCert, PolicyServerTLSKey} else {}) \<union>
       (if n = psImagePullSecret (psSpec ps) then {''.dockerconfigjson''} else {})
   | ConfigMapVolumeSource n items \<Rightarrow>
       (case items of Some its \<Rightarrow> set (map ktpPath its)
        | None \<Rightarrow> {PolicyServerConfigPoliciesEntry, PolicyServerConfigSourcesEntry}))"

definition file_variables :: "string list" where
  "file_variables = [''KUBEWARDEN_CERT_FILE'', ''KUBEWARDEN_KEY_FILE'', ''KUBEWARDEN_POLICIES'',
     ''KUBEWARDEN_VERIFICATION_CONFIG_PATH'', ''KUBEWARDEN_DOCKER_CONFIG_JSON_PATH'', ''KUBEWARDEN_SOURCES_PATH'']"

definition mounted_file :: "PolicyServer \<Rightarrow> Deployment \<Rightarrow> Container \<Rightarrow> string \<Rightarrow> bool" where
  "mounted_file ps d c path \<longleftrightarrow>
     (\<exists>m \<in> set (ctVolumeMounts c). \<exists>v \<in> set (tplVolumes (depTemplate d)). volName v = vmName m \<and>
        (\<exists>f \<in> volume_files ps (volSource v). path = vmMountPath m @ CHR ''/'' # f))"

lemma env_paths:
  "filepath_Join [secretsContainerPath, PolicyServerTLSCert] = secretsContainerPath @ CHR ''/'' # PolicyServerTLSCert"
  "filepath_Join [secretsContainerPath, PolicyServerTLSKey] = secretsContainerPath @ CHR ''/'' # PolicyServerTLSKey"
  "filepath_Join [policiesConfigContainerPath, policiesFilename] = policiesConfigContainerPath @ CHR ''/'' # policiesFilename"
  "filepath_Join [PolicyServerVerificationConfigContainerPath, verificationFilename] =
     PolicyServerVerificationConfigContainerPath @ CHR ''/'' # verificationFilename"
  "filepath_Join [dockerConfigJSONPolicyServerPath, ''.dockerconfigjson''] =
     dockerConfigJSONPolicyServerPath @ CHR ''/'' # ''.dockerconfigjson''"
  "filepath_Join [PolicyServerSourcesConfigContainerPath, sourcesFilename] =
     PolicyServerSourcesConfigContainerPath @ CHR ''/'' # sourcesFilename"
  by (simp_all add: const_defs filepath_Clean_def)

lemma mounted_fileI:
  "volume_mount n ro p \<in> set (ctVolumeMounts c) \<Longrightarrow> volume n src \<in> set (tplVolumes (depTemplate d)) \<Longrightarrow>
   f \<in> volume_files ps src \<Longrightarrow> mounted_file ps d c (p @ CHR ''/'' # f)"
  unfolding mounted_file_def by (force simp: volume_mount_def volume_def)

lemma deployment_tplVolumes:
  "tplVolumes (depTemplate (deployment r v ps)) = base_volumes ps @
     (if psVerificationConfig (psSpec ps) \<noteq> '''' then
        [volume verificationConfigVolumeName (ConfigMapVolumeSource (psVerificationConfig (psSpec ps))
           (Some [\<lparr>ktpKey = PolicyServerVerificationConfigEntry, ktpPath = verificationFilename\<rparr>]))] else []) @
     (if psImagePullSecret (psSpec ps) \<noteq> '''' then
        [volume imagePullSecretVolumeName (SecretVolumeSource (psImagePullSecret (psSpec ps)))] else []) @
     (if has_sources ps then [volume sourcesVolumeName (ConfigMapVolumeSource (NameWithPrefix ps) None)] else [])"
  by (simp add: deployment_def adaptDeploymentSettingsForPolicyServer_def Let_def)

lemma container_files:
  "mounted_file ps (deployment r v ps) (admissionContainer r ps) (secretsContainerPath @ CHR ''/'' # PolicyServerTLSCert)"
  "mounted_file ps (deployment r v ps) (admissionContainer r ps) (secretsContainerPath @ CHR ''/'' # PolicyServerTLSKey)"
  "mounted_file ps (deployment r v ps) (admissionContainer r ps) (policiesConfigContainerPath @ CHR ''/'' # policiesFilename)"
  "psVerificationConfig (psSpec ps) \<noteq> '''' \<Longrightarrow>
   mounted_file ps (deployment r v ps) (admissionContainer r ps)
     (PolicyServerVerificationConfigContainerPath @ CHR ''/'' # verificationFilename)"
  "psImagePullSecret (psSpec ps) \<noteq> '''' \<Longrightarrow>
   mounted_file ps (deployment r v ps) (admissionContainer r ps)
     (dockerConfigJSONPolicyServerPath @ CHR ''/'' # ''.dockerconfigjson'')"
  "has_sources ps \<Longrightarrow>
   mounted_file ps (deployment r v ps) (admissionContainer r ps)
     (PolicyServerSourcesConfigContainerPath @ CHR ''/'' # sourcesFilename)"
proof -
  have s: "sourcesFilename = PolicyServerConfigSourcesEntry" by (simp add: const_defs)
  show "has_sources ps \<Longrightarrow> mounted_file ps (deployment r v ps) (admissionContainer r ps)
     (PolicyServerSourcesConfigContainerPath @ CHR ''/'' # sourcesFilename)"
    by (rule mounted_fileI [of sourcesVolumeName True _ _ "ConfigMapVolumeSource (NameWithPrefix ps) None"])
      (auto simp: admissionContainer_def container_mounts_def deployment_tplVolumes volume_files_def s)
qed (auto simp: admissionContainer_def container_mounts_def deployment_tplVolumes base_volumes_def volume_files_def
      intro!: mounted_fileI)

section \<open>When the deployment is up to date\<close>

lemma image_of_admissionContainer [simp]:
  "getPolicyServerImageFromDeployment ps (deployment r v ps) = Ok (psImage (psSpec ps))"
  by (simp add: getPolicyServerImageFromDeployment_def admissionContainer_def)

lemma fmfilter_id: "fmfilter (\<lambda>k. k \<noteq> a) m = m \<longleftrightarrow> fmlookup m a = None"
proof
  assume "fmfilter (\<lambda>k. k \<noteq> a) m = m"
  then have "fmlookup (fmfilter (\<lambda>k. k \<noteq> a) m) a = fmlookup m a" by simp
  then show "fmlookup m a = None" by simp
qed (auto intro!: fmap_ext)

definition restart_requested :: "PolicyServer \<Rightarrow> bool" where
  "restart_requested ps \<longleftrightarrow> nil_lookup (psAnnotations (psSpec ps)) PolicyServerDeploymentRestartAnnotation \<noteq> None"

lemma own_annotations:
  "Annotations (tplMeta (depTemplate d)) = Annotations (tplMeta (depTemplate (deployment r v ps))) \<Longrightarrow>
   haveEqualAnnotationsWithoutRestart d (deployment r v' ps) \<longleftrightarrow> \<not> restart_requested ps"
  by (cases "psAnnotations (psSpec ps)")
    (auto simp: haveEqualAnnotationsWithoutRestart_def restart_requested_def fmfilter_id Let_def cong del: fmfilter_cong)

definition deployment_current :: "'w Reconciler \<Rightarrow> PolicyServer \<Rightarrow> string \<Rightarrow> Deployment \<Rightarrow> bool" where
  "deployment_current r ps v d \<longleftrightarrow>
     depReplicas d = Some (psReplicas (psSpec ps)) \<and>
     getPolicyServerImageFromDeployment ps d = Ok (psImage (psSpec ps)) \<and>
     tplServiceAccountName (depTemplate d) = psServiceAccountName (psSpec ps) \<and>
     config_version d = v \<and>
     (\<exists>c cs. tplContainers (depTemplate d) = c # cs \<and> ctEnv c = ctEnv (admissionContainer r ps)) \<and>
     (\<forall>k. k \<noteq> PolicyServerDeploymentRestartAnnotation \<longrightarrow>
        nil_lookup (Annotations (tplMeta (depTemplate d))) k = nil_lookup (psAnnotations (psSpec ps)) k)"

lemma equal_annotations_lookup:
  assumes "haveEqualAnnotationsWithoutRestart d d'" "k \<noteq> PolicyServerDeploymentRestartAnnotation"
  shows "nil_lookup (Annotations (tplMeta (depTemplate d))) k = nil_lookup (Annotations (tplMeta (depTemplate d'))) k"
proof (cases "Annotations (tplMeta (depTemplate d)) = None \<and> Annotations (tplMeta (depTemplate d')) = None")
  case False
  with assms(1) obtain m' where m': "Annotations (tplMeta (depTemplate d')) = Some m'"
      "fmfilter (\<lambda>k. k \<noteq> PolicyServerDeploymentRestartAnnotation)
        (or_empty (Annotations (tplMeta (depTemplate d)))) = m'"
    unfolding haveEqualAnnotationsWithoutRestart_def Let_def by metis
  with assms(2) show ?thesis
    by (auto simp: nil_lookup_def split: option.splits)
qed simp

lemma spec_annotations:
  "nil_lookup (Annotations (tplMeta (depTemplate (deployment r v ps)))) k = nil_lookup (psAnnotations (psSpec ps)) k"
  by (cases "psAnnotations (psSpec ps)") simp_all

lemma no_update_current:
  assumes "shouldUpdatePolicyServerDeployment ps d (deployment r v ps) = Ok False"
  shows "deployment_current r ps v d"
  using assms equal_annotations_lookup [of d "deployment r v ps"] spec_annotations
  by (auto simp: shouldUpdatePolicyServerDeployment_def isPolicyServerImageChanged_def deployment_current_def
      split: outcome.splits option.splits if_splits list.splits)

lemma own_deployment_current: "deployment_current r ps v (deployment r v ps)"
  by (simp add: deployment_current_def spec_annotations del: deployment_simps(5))
    
lemma patched_current: "patch_deployment old (deployment r v ps) = Ok d \<Longrightarrow> deployment_current r ps v d"
  using own_deployment_current [of r ps v]
  by (auto simp: patch_deployment_def deployment_current_def getPolicyServerImageFromDeployment_def split: option.splits)

lemma emits_updatePolicyServerDeployment:
  "emits (updatePolicyServerDeployment r ps (deployment r v ps)) (\<lambda>x es. x = Ok () \<longrightarrow>
     (\<exists>d. last_seen KDeployment es = Some (ODeployment d) \<and> deployment_current r ps v d) \<and> last_seen KConfigMap es = None)"
  unfolding updatePolicyServerDeployment_def
  by (auto intro!: emits_rules simp: as_Deployment_Inr no_update_current patched_current
      split: sum.splits outcome.splits if_splits)

lemma emits_create_or_update:
  "emits (create_or_update_deployment r ps v) (\<lambda>x es. x = Ok () \<longrightarrow>
     (\<exists>d. last_seen KDeployment es = Some (ODeployment d) \<and> deployment_current r ps v d) \<and> last_seen KConfigMap es = None)"
  unfolding create_or_update_deployment_def
  by (auto intro!: emits_rules emits_post [OF emits_updatePolicyServerDeployment] own_deployment_current
     split: sum.splits simp: Let_def)

lemma emits_create_or_update_after:
  assumes "last_seen KConfigMap pre = Some (OConfigMap cm)"
  shows "emits (create_or_update_deployment r ps (ResourceVersion (cmMeta cm))) (\<lambda>x es. x = Ok () \<longrightarrow>
     (\<exists>d. last_seen KDeployment (pre @ es) = Some (ODeployment d) \<and>
        last_seen KConfigMap (pre @ es) = Some (OConfigMap cm) \<and>
        deployment_current r ps (ResourceVersion (cmMeta cm)) d))"
  by (rule emits_post [OF emits_create_or_update]) (auto simp: last_seen_append assms)

lemma emits_pull_secret_sees:
  "emits (policyServerImagePullSecretPresent r ps) (\<lambda>x es. x = Ok () \<longrightarrow> last_seen KConfigMap es = None)"
  unfolding policyServerImagePullSecretPresent_def
  by (auto intro!: emits_rules split: sum.splits api_object.splits)

section \<open>Properties\<close>

text \<open>
  C25. The deployment is well-formed: its selector matches the labels of its pods, the names of the
  volumes, the mounts and the mount paths are pairwise different, and the container mounts exactly
  the volumes that are declared.
\<close>

theorem deployment_wellformed:
  "let d = deployment r v ps; c = admissionContainer r ps in
     tplContainers (depTemplate d) = [c] \<and>
     depSelector d \<subseteq>\<^sub>f Labels (tplMeta (depTemplate d)) \<and>
     distinct (map volName (tplVolumes (depTemplate d))) \<and>
     distinct (map vmName (ctVolumeMounts c)) \<and> distinct (map vmMountPath (ctVolumeMounts c)) \<and>
     set (map vmName (ctVolumeMounts c)) = set (map volName (tplVolumes (depTemplate d)))"
  by (simp add: Let_def admissionContainer_def fmsubset_alt_def fmpred_iff mount_names_distinct
      mount_paths_distinct volume_names_distinct mounts_volumes del: set_map)

text \<open>
  Every environment variable that gives the policy server the path of a file (certificate, key,
  policies, verification config, docker config, sources) names a file that exists in a volume the
  container mounts.
\<close>

theorem env_files_are_mounted:
  assumes "e \<in> set (default_env @ optional_env r ps)" "envName e \<in> set file_variables"
  shows "mounted_file ps (deployment r v ps) (admissionContainer r ps) (envValue e)"
  using assms
  by (auto simp: default_env_def optional_env_def env_var_def env_paths file_variables_def container_files
      simp del: filepath_Join.simps split: if_splits)


theorem env_files_are_mounted_witness:
  "mounted_file demo_server (deployment script_reconciler ''1'' demo_server)
     (admissionContainer script_reconciler demo_server) ''/config/policies.yml''"
  using env_files_are_mounted [of "env_var ''KUBEWARDEN_POLICIES'' ''/config/policies.yml''"
      script_reconciler demo_server "''1''"]
  by (simp add: default_env_def env_var_def file_variables_def const_defs filepath_Clean_def)

text \<open>
  C26. A deployment the controller made needs no update for the same policy server, unless the
  version of the config map changed or the policy server itself asks for the annotation that
  \<open>kubectl rollout restart\<close> uses; with that annotation it is updated on every reconciliation.
\<close>

theorem deployment_update_needed:
  "shouldUpdatePolicyServerDeployment ps (deployment r v ps) (deployment r v' ps) =
     Ok (if v = v' then restart_requested ps else True)"
  using own_annotations [of "deployment r v ps" r v ps v']
  by (auto simp: shouldUpdatePolicyServerDeployment_def isPolicyServerImageChanged_def)


text \<open>
  The patch reaches its goal: after it no further update is needed (but for the restart
  annotation again), and it leaves the selector, the labels and all other annotations of the
  existing deployment as they were.
\<close>

theorem patched_deployment_is_current:
  assumes "patch_deployment old (deployment r v ps) = Ok d"
  shows "shouldUpdatePolicyServerDeployment ps d (deployment r v ps) = Ok (restart_requested ps) \<and>
     depSelector d = depSelector old \<and> Labels (depMeta d) = Labels (depMeta old) \<and>
     (\<forall>k. k \<noteq> PolicyServerDeploymentConfigVersionAnnotation \<longrightarrow>
        nil_lookup (Annotations (depMeta d)) k = nil_lookup (Annotations (depMeta old)) k)"
  using assms own_annotations [of d r v ps v]
  by (auto simp: patch_deployment_def shouldUpdatePolicyServerDeployment_def isPolicyServerImageChanged_def
      getPolicyServerImageFromDeployment_def admissionContainer_def split: option.splits)


theorem patched_deployment_is_current_witness:
  "shouldUpdatePolicyServerDeployment demo_server (deployment script_reconciler ''2'' demo_server)
     (deployment script_reconciler ''2'' demo_server) = Ok False"
proof -
  have "patch_deployment (deployment script_reconciler ''2'' demo_server)
      (deployment script_reconciler ''2'' demo_server) = Ok (deployment script_reconciler ''2'' demo_server)"
    by (auto simp: patch_deployment_def deployment_def adaptDeploymentSettingsForPolicyServer_def Let_def
        map_get_def intro!: fmap_ext)
  from patched_deployment_is_current [OF this] show ?thesis
    by (simp add: restart_requested_def demo_server_def)
qed

text \<open>
  C13. When reconciling the deployment succeeds, the deployment the API server then has runs the
  policy server as its resource asks: the image, the replicas, the service account, the
  environment and the annotations of the resource, and the version of the config map that was
  read.
\<close>

theorem deployment_up_to_date:
  "emits (reconcilePolicyServerDeployment r ps) (\<lambda>x es. x = Ok () \<longrightarrow>
     (\<exists>d cm. last_seen KConfigMap es = Some (OConfigMap cm) \<and>
        last_seen KDeployment es = Some (ODeployment d) \<and>
        deployment_current r ps (ResourceVersion (cmMeta cm)) d))"
proof -
  have "emits (policyServerConfigMapVersion r ps) (\<lambda>v es. \<forall>n. v = Ok n \<longrightarrow>
      (\<exists>cm. last_seen KConfigMap es = Some (OConfigMap cm) \<and> ResourceVersion (cmMeta cm) = n))"
    unfolding policyServerConfigMapVersion_def
    by (auto intro!: emits_rules simp: as_ConfigMap_Inr split: sum.splits)
  then show ?thesis
    unfolding reconcilePolicyServerDeployment_def
  proof (rule emits_bind, goal_cases)
    case (1 v pre)
    show ?case
    proof (cases v)
      case (Ok n)
      with 1 obtain cm where cm: "last_seen KConfigMap pre = Some (OConfigMap cm)" "n = ResourceVersion (cmMeta cm)"
        by auto
      show ?thesis
      proof (cases "psImagePullSecret (psSpec ps) = ''''")
        case True
        with Ok cm show ?thesis
          by (auto intro!: emits_post [OF emits_create_or_update_after [OF cm(1)]])
      next
        case False
        have "emits (policyServerImagePullSecretPresent r ps \<bind> (\<lambda>p. case p of Ok _ \<Rightarrow> create_or_update_deployment r ps n
            | Err e \<Rightarrow> ret (Err e) | Panic \<Rightarrow> ret Panic))
          (\<lambda>y es. y = Ok () \<longrightarrow> (\<exists>d cm. last_seen KConfigMap (pre @ es) = Some (OConfigMap cm) \<and>
             last_seen KDeployment (pre @ es) = Some (ODeployment d) \<and>
             deployment_current r ps (ResourceVersion (cmMeta cm)) d))"
        proof (rule emits_bind [OF emits_pull_secret_sees], goal_cases)
          case (1 p es)
          show ?case
          proof (cases p)
            case (Ok u)
            with 1 cm have "last_seen KConfigMap (pre @ es) = Some (OConfigMap cm)" by (simp add: last_seen_append)
            with Ok cm show ?thesis
              by (auto intro!: emits_post [OF emits_create_or_update_after [of "pre @ es" cm]])
          qed (auto intro!: emits_rules)
        qed
        with False Ok show ?thesis by simp
      qed
    qed (auto intro!: emits_rules)
  qed
qed


theorem deployment_up_to_date_witness:
  "let run = run_state (reconcilePolicyServerDeployment script_reconciler demo_server)
       (playing [AnObject (OConfigMap \<lparr>cmMeta = (metaNamed ''kubewarden'' ''policy-server-default'')\<lparr>ResourceVersion := ''7''\<rparr>,
           cmData = None\<rparr>), AnObject (ODeployment (deployment script_reconciler ''7'' demo_server))])
   in fst run = Ok () \<and> (\<exists>d. last_seen KDeployment (trace (snd run)) = Some (ODeployment d) \<and>
        deployment_current script_reconciler demo_server ''7'' d)"
proof -
  let ?cm = "\<lparr>cmMeta = (metaNamed ''kubewarden'' ''policy-server-default'')\<lparr>ResourceVersion := ''7''\<rparr>, cmData = None\<rparr>"
  let ?m = "reconcilePolicyServerDeployment script_reconciler demo_server"
  let ?s = "playing [AnObject (OConfigMap ?cm), AnObject (ODeployment (deployment script_reconciler ''7'' demo_server))]"
  have ok: "fst (run_state ?m ?s) = Ok ()"
    "last_seen KConfigMap (trace (snd (run_state ?m ?s))) = Some (OConfigMap ?cm)"
    by (simp_all add: reconcilePolicyServerDeployment_def policyServerConfigMapVersion_def create_or_update_deployment_def
        run_api Let_def demo_server_def)
  with emits_playing [OF deployment_up_to_date] show ?thesis by (fastforce simp: Let_def)
qed

text \<open>
  C38. A deployment that has no annotations at all makes the update panic (it writes into a nil
  map) as soon as an update is needed.
\<close>

theorem update_panics_without_annotations:
  assumes "rdGet (Client r) KDeployment (object_key (DeploymentsNamespace r) (NameWithPrefix ps)) (world s)
       = (Inr (ODeployment old), w)"
    and "Annotations (depMeta old) = None"
    and "shouldUpdatePolicyServerDeployment ps old new = Ok True"
  shows "fst (run_state (updatePolicyServerDeployment r ps new) s) = Panic"
  using assms by (simp add: updatePolicyServerDeployment_def run_api patch_deployment_def)

theorem update_panics_without_annotations_witness:
  "\<exists>old. fst (run_state (updatePolicyServerDeployment script_reconciler demo_server
     (deployment script_reconciler ''2'' demo_server)) (playing [AnObject (ODeployment old)])) = Panic"
proof -
  let ?new = "deployment script_reconciler ''2'' demo_server"
  let ?old = "?new\<lparr>depMeta := metaNamed ''kubewarden'' ''policy-server-default''\<rparr>"
  have "shouldUpdatePolicyServerDeployment demo_server ?old ?new = Ok True"
    by (simp add: shouldUpdatePolicyServerDeployment_def isPolicyServerImageChanged_def
        getPolicyServerImageFromDeployment_def admissionContainer_def)
  then have "fst (run_state (updatePolicyServerDeployment script_reconciler demo_server ?new)
      (playing [AnObject (ODeployment ?old)])) = Panic"
    by (intro update_panics_without_annotations [of _ _ _ ?old "[]"]) simp_all
  then show ?thesis by blast
qed

end
