(* ===== verification/Server_Service.thy ===== *)
theory Server_Service
  imports Server_Deployment
begin

text \<open>
  The service in front of a policy server: \<open>internal/pkg/admission/policy-server-service.go\<close>.

  The package's \<open>init\<close> sets the metrics port from an environment variable; \<open>init_metricsPort\<close>
  takes the value of the variable (the empty string when it is not set) and returns \<open>Inl\<close> where
  the process exits.
\<close>

definition init_metricsPort :: "string \<Rightarrow> num_error + int32" where
  "init_metricsPort envMetricsPort =
     (if envMetricsPort \<noteq> '''' then
        (case ParseInt32 envMetricsPort of
           Inl err \<Rightarrow> Inl err
         | Inr metricsPortInt32 \<Rightarrow> Inr (word_of_int metricsPortInt32))
      else Inr PolicyServerMetricsPort)"

definition ProtocolTCP :: string where [const_defs]: "ProtocolTCP = ''TCP''"

fun env_declares :: "string \<Rightarrow> EnvVar list \<Rightarrow> bool" where
  "env_declares n [] = False"
| "env_declares n (e # es) = (if envName e = n then True else env_declares n es)"

definition metricsEnabled :: "PolicyServer \<Rightarrow> bool" where
  "metricsEnabled policyServer = env_declares PolicyServerEnableMetricsEnvVar (psEnv (psSpec policyServer))"

definition service :: "'w Reconciler \<Rightarrow> PolicyServer \<Rightarrow> Service" where
  "service r policyServer =
     \<lparr>svcMeta = (metaNamed (DeploymentsNamespace r) (NameWithPrefix policyServer))
        \<lparr>Labels := fmap_of_list [(AppLabelKey, AppLabel policyServer)]\<rparr>,
      svcPorts =
        [\<lparr>svcPortName = ''policy-server'', svcPort = PolicyServerPort,
          svcTargetPort = FromInt PolicyServerPort, svcProtocol = ProtocolTCP\<rparr>] @
        (if metricsEnabled policyServer then
           [\<lparr>svcPortName = ''metrics'', svcPort = metricsPort r,
             svcTargetPort = FromInt 0, svcProtocol = ProtocolTCP\<rparr>]
         else []),
      svcSelector = fmap_of_list [(AppLabelKey, AppLabel policyServer)]\<rparr>"

definition reconcilePolicyServerService :: "'w Reconciler \<Rightarrow> PolicyServer \<Rightarrow> ('w, unit result) api" where
  "reconcilePolicyServerService r policyServer = do {
     res \<leftarrow> api_write (Client r) (Create (OService (service r policyServer)));
     ret (case res of
         Inr _ \<Rightarrow> Ok ()
       | Inl err \<Rightarrow> if IsAlreadyExists err then Ok ()
                    else Err (Wrapped ''cannot reconcile policy-server service: '' (ApiErr err)))
   }"

lemma env_declares_iff: "env_declares n es \<longleftrightarrow> (\<exists>e \<in> set es. envName e = n)"
  by (induction es) auto

lemma emits_service:
  "emits (reconcilePolicyServerService r ps) (\<lambda>x es. \<exists>res. es = [EvWrite (Create (OService (service r ps))) res] \<and>
     x \<noteq> Panic \<and> (x = Ok () \<longleftrightarrow> (case res of Inr _ \<Rightarrow> True | Inl e \<Rightarrow> IsAlreadyExists e)))"
  unfolding reconcilePolicyServerService_def
  by (rule emits_write, rule emits_return, simp, simp split: sum.split)

section \<open>Properties\<close>

lemma sint_int32: "- (2 ^ 31) \<le> v \<Longrightarrow> v < 2 ^ 31 \<Longrightarrow> sint (word_of_int v :: int32) = v"
  by (simp add: signed_of_int signed_take_bit_int_eq_self)

lemma ParseInt32_minus_one: "ParseInt32 ''-1'' = Inr (- 1)"
  by (simp add: ParseInt32_def ParseUint32_def digit_value_def)

text \<open>
  C31. The metrics port is the number the environment variable spells, with no wrap-around, or the
  default when the variable is empty; every other text ends the process.  Every decimal number
  below 2^31 is accepted, and so is a negative number.
\<close>

theorem metrics_port_parsed:
  "(case init_metricsPort s of
      Inr p \<Rightarrow> if s = '''' then p = PolicyServerMetricsPort else ParseInt32 s = Inr (sint p)
    | Inl e \<Rightarrow> s \<noteq> '''' \<and> ParseInt32 s = Inl e) \<and>
   (\<forall>n. n < 2 ^ 31 \<longrightarrow> init_metricsPort (decimal n) = Inr (word_of_nat n)) \<and>
   init_metricsPort ''-1'' = Inr (- 1)"
proof -
  have "case init_metricsPort s of
      Inr p \<Rightarrow> if s = '''' then p = PolicyServerMetricsPort else ParseInt32 s = Inr (sint p)
    | Inl e \<Rightarrow> s \<noteq> '''' \<and> ParseInt32 s = Inl e"
    using ParseInt32_bounds [of s] by (auto simp: init_metricsPort_def sint_int32 split: sum.splits)
  moreover have "init_metricsPort (decimal n) = Inr (word_of_nat n)" if "n < 2 ^ 31" for n
    using ParseInt32_decimal [OF that] by (simp add: init_metricsPort_def)
  moreover have "init_metricsPort ''-1'' = Inr (- 1)"
    by (simp add: init_metricsPort_def ParseInt32_minus_one)
  ultimately show ?thesis by blast
qed

theorem metrics_port_parsed_witness:
  "init_metricsPort (decimal 8080) = Inr (8080 :: int32)"
  using metrics_port_parsed [of "decimal 8080"] by simp

end
