(* ===== verification/Webhook_Config.thy ===== *)
theory Webhook_Config
  imports Server_Deployment
begin

text \<open>
  The webhook configurations that make the API server call a policy:
  \<open>internal/pkg/admission/mutating-webhook.go\<close> and \<open>validating-webhook.go\<close>.
\<close>

section \<open>The wanted webhook\<close>

definition webhook_service :: "'w Reconciler \<Rightarrow> Policy \<Rightarrow> string \<Rightarrow> ServiceReference" where
  "webhook_service r policy policyServerName =
     \<lparr>srNamespace = DeploymentsNamespace r, srName = policyServerName,
      srPath = Some (filepath_Join [''/validate'', GetUniqueName policy]),
      srPort = Some PolicyServerPort\<rparr>"

definition webhook_side_effects :: "Policy \<Rightarrow> string option" where
  "webhook_side_effects policy =
     (case GetSideEffects policy of None \<Rightarrow> Some SideEffectClassNone | Some s \<Rightarrow> Some s)"

definition policy_webhook :: "'w Reconciler \<Rightarrow> Policy \<Rightarrow> Secret \<Rightarrow> string \<Rightarrow> AdmissionWebhook" where
  "policy_webhook r policy admissionSecret policyServerName =
     \<lparr>whName = GetUniqueName policy @ ''.kubewarden.admission'',
      whService = Some (webhook_service r policy policyServerName),
      whCABundle = fmlookup (secData admissionSecret) PolicyServerCARootPemName,
      whRules = GetRules policy,
      whFailurePolicy = GetFailurePolicy policy,
      whMatchPolicy = GetMatchPolicy policy,
      whNamespaceSelector = GetNamespaceSelector policy,
      whObjectSelector = GetObjectSelector policy,
      whSideEffects = webhook_side_effects policy,
      whTimeoutSeconds = GetTimeoutSeconds policy,
      whAdmissionReviewVersions = Some [''v1'']\<rparr>"

definition webhook_meta :: "Policy \<Rightarrow> ObjectMeta" where
  "webhook_meta policy = (metaNamed '''' (GetUniqueName policy))
     \<lparr>Labels := fmap_of_list [(''kubewarden'', ''true'')]\<rparr>"

definition mutatingWebhookConfiguration ::
    "'w Reconciler \<Rightarrow> Policy \<Rightarrow> Secret \<Rightarrow> string \<Rightarrow> MutatingWebhookConfiguration" where
  "mutatingWebhookConfiguration r policy admissionSecret policyServerName =
     \<lparr>mwcMeta = webhook_meta policy,
      mwcWebhooks = Some [AdmissionWebhook.extend (policy_webhook r policy admissionSecret policyServerName)
        (MutatingWebhook.fields None)]\<rparr>"

definition validatingWebhookConfiguration ::
    "'w Reconciler \<Rightarrow> Policy \<Rightarrow> Secret \<Rightarrow> string \<Rightarrow> ValidatingWebhookConfiguration" where
  "validatingWebhookConfiguration r policy admissionSecret policyServerName =
     \<lparr>vwcMeta = webhook_meta policy,
      vwcWebhooks = Some [policy_webhook r policy admissionSecret policyServerName]\<rparr>"

section \<open>Creating and updating\<close>

text \<open>
  The read before an update only stops at a NotFound error.  After any other error the code goes
  on with the zero value of the configuration, as the variable it read into holds it.
\<close>

definition zero_mutating :: MutatingWebhookConfiguration where
  "zero_mutating = \<lparr>mwcMeta = metaZero, mwcWebhooks = None\<rparr>"

definition zero_validating :: ValidatingWebhookConfiguration where
  "zero_validating = \<lparr>vwcMeta = metaZero, vwcWebhooks = None\<rparr>"

definition patch_mutating_if_different ::
    "'w Reconciler \<Rightarrow> MutatingWebhookConfiguration \<Rightarrow> MutatingWebhookConfiguration \<Rightarrow> ('w, unit result) api" where
  "patch_mutating_if_different r originalWebhook newWebhook =
     (if mwcWebhooks originalWebhook \<noteq> mwcWebhooks newWebhook then do {
        w \<leftarrow> api_write (Client r)
          (Patch (OMutating (originalWebhook\<lparr>mwcWebhooks := mwcWebhooks newWebhook\<rparr>)) (OMutating originalWebhook));
        ret (case w of
            Inl err \<Rightarrow> Err (Wrapped ''cannot patch mutating webhook: '' (ApiErr err))
          | Inr _ \<Rightarrow> Ok ())
      } else ret (Ok ()))"

definition updateMutatingWebhook ::
    "'w Reconciler \<Rightarrow> Policy \<Rightarrow> MutatingWebhookConfiguration \<Rightarrow> ('w, unit result) api" where
  "updateMutatingWebhook r policy newWebhook = do {
     res \<leftarrow> api_get (Client r) KMutatingWebhookConfiguration (object_key '''' (GetUniqueName policy));
     (case as_Mutating res of
        Inl err \<Rightarrow>
          if IsNotFound err then ret (Err (Wrapped ''cannot retrieve mutating webhook: '' (ApiErr err)))
          else patch_mutating_if_different r zero_mutating newWebhook
      | Inr originalWebhook \<Rightarrow> patch_mutating_if_different r originalWebhook newWebhook)
   }"

definition ReconcileMutatingWebhookConfiguration ::
    "'w Reconciler \<Rightarrow> Policy \<Rightarrow> Secret \<Rightarrow> string \<Rightarrow> ('w, unit result) api" where
  "ReconcileMutatingWebhookConfiguration r policy admissionSecret policyServerNameWithPrefix = do {
     let webhook = mutatingWebhookConfiguration r policy admissionSecret policyServerNameWithPrefix;
     res \<leftarrow> api_write (Client r) (Create (OMutating webhook));
     (case res of
        Inr _ \<Rightarrow> ret (Ok ())
      | Inl err \<Rightarrow>
          if IsAlreadyExists err then updateMutatingWebhook r policy webhook
          else ret (Err (Wrapped ''cannot reconcile mutating webhook: '' (ApiErr err))))
   }"

definition patch_validating_if_different ::
    "'w Reconciler \<Rightarrow> ValidatingWebhookConfiguration \<Rightarrow> ValidatingWebhookConfiguration \<Rightarrow> ('w, unit result) api" where
  "patch_validating_if_different r originalWebhook newWebhook =
     (if vwcWebhooks originalWebhook \<noteq> vwcWebhooks newWebhook then do {
        w \<leftarrow> api_write (Client r)
          (Patch (OValidating (originalWebhook\<lparr>vwcWebhooks := vwcWebhooks newWebhook\<rparr>)) (OValidating originalWebhook));
        ret (case w of
            Inl err \<Rightarrow> Err (Wrapped ''cannot patch validating webhook: '' (ApiErr err))
          | Inr _ \<Rightarrow> Ok ())
      } else ret (Ok ()))"

definition updateValidatingWebhook ::
    "'w Reconciler \<Rightarrow> Policy \<Rightarrow> ValidatingWebhookConfiguration \<Rightarrow> ('w, unit result) api" where
  "updateValidatingWebhook r policy newWebhook = do {
     res \<leftarrow> api_get (Client r) KValidatingWebhookConfiguration (object_key '''' (GetUniqueName policy));
     (case as_Validating res of
        Inl err \<Rightarrow>
          if IsNotFound err then ret (Err (Wrapped ''cannot retrieve validating webhook: '' (ApiErr err)))
          else patch_validating_if_different r zero_validating newWebhook
      | Inr originalWebhook \<Rightarrow> patch_validating_if_different r originalWebhook newWebhook)
   }"

definition ReconcileValidatingWebhookConfiguration ::
    "'w Reconciler \<Rightarrow> Policy \<Rightarrow> Secret \<Rightarrow> string \<Rightarrow> ('w, unit result) api" where
  "ReconcileValidatingWebhookConfiguration r policy admissionSecret policyServerNameWithPrefix = do {
     let webhook = validatingWebhookConfiguration r policy admissionSecret policyServerNameWithPrefix;
     res \<leftarrow> api_write (Client r) (Create (OValidating webhook));
     (case res of
        Inr _ \<Rightarrow> ret (Ok ())
      | Inl err \<Rightarrow>
          if IsAlreadyExists err then updateValidatingWebhook r policy webhook
          else ret (Err (Wrapped ''cannot reconcile validating webhook: '' (ApiErr err))))
   }"

section \<open>The registry of webhooks\<close>

text \<open>
  What the policy controllers rely on: registering a policy either fails with an error, or the
  API server has the webhooks wanted for the policy.  Both handlers provide it.
\<close>

locale webhook_registry =
  fixes register :: "'w Reconciler \<Rightarrow> Policy \<Rightarrow> Secret \<Rightarrow> string \<Rightarrow> ('w, unit result) api"
    and hooks :: "'w Reconciler \<Rightarrow> Policy \<Rightarrow> Secret \<Rightarrow> string \<Rightarrow> 'h"
    and stored :: "api_event list \<Rightarrow> 'h option"
  assumes registers: "emits (register r p s n) (\<lambda>x es. x = Ok () \<longrightarrow> stored es = Some (hooks r p s n))"
    and no_panic: "emits (register r p s n) (\<lambda>x es. x \<noteq> Panic)"
begin

lemma registers_wrapped:
  "emits (register r p s n \<bind> (\<lambda>x. ret (map_err f x)))
     (\<lambda>x es. x \<noteq> Panic \<and> (x = Ok () \<longrightarrow> stored es = Some (hooks r p s n)))"
  by (rule emits_bind [OF emits_conj [OF registers no_panic]]) (auto intro!: emits_rules)

end

text \<open>The webhooks of the configuration the API server is last known to have.\<close>

definition stored_mutating :: "api_event list \<Rightarrow> MutatingWebhook slice option" where
  "stored_mutating es = (case last_seen KMutatingWebhookConfiguration es of
     Some (OMutating m) \<Rightarrow> Some (mwcWebhooks m) | _ \<Rightarrow> None)"

definition stored_validating :: "api_event list \<Rightarrow> AdmissionWebhook slice option" where
  "stored_validating es = (case last_seen KValidatingWebhookConfiguration es of
     Some (OValidating v) \<Rightarrow> Some (vwcWebhooks v) | _ \<Rightarrow> None)"

lemma stored_simps [simp]:
  "stored_mutating [EvGet k key (Inr (OMutating m))] = Some (mwcWebhooks m)"
  "stored_mutating [EvWrite (Create (OMutating m)) (Inr res)] = Some (mwcWebhooks m)"
  "stored_mutating [EvWrite (Patch (OMutating m) b) (Inr res)] = Some (mwcWebhooks m)"
  "stored_validating [EvGet k key (Inr (OValidating v))] = Some (vwcWebhooks v)"
  "stored_validating [EvWrite (Create (OValidating v)) (Inr res)] = Some (vwcWebhooks v)"
  "stored_validating [EvWrite (Patch (OValidating v) c) (Inr res)] = Some (vwcWebhooks v)"
  by (simp_all add: stored_mutating_def stored_validating_def)

lemma emits_patch_mutating:
  "emits (patch_mutating_if_different r old new) (\<lambda>x es. x \<noteq> Panic \<and> (x = Ok () \<longrightarrow>
     stored_mutating es = Some (mwcWebhooks new) \<or> (es = [] \<and> mwcWebhooks old = mwcWebhooks new)))"
  unfolding patch_mutating_if_different_def
  by (auto intro!: emits_rules split: sum.splits)

lemma emits_patch_validating:
  "emits (patch_validating_if_different r old new) (\<lambda>x es. x \<noteq> Panic \<and> (x = Ok () \<longrightarrow>
     stored_validating es = Some (vwcWebhooks new) \<or> (es = [] \<and> vwcWebhooks old = vwcWebhooks new)))"
  unfolding patch_validating_if_different_def
  by (auto intro!: emits_rules split: sum.splits)

lemma stored_mutating_cons:
  "stored_mutating es = Some h \<Longrightarrow> stored_mutating (ev # es) = Some h"
  by (auto simp: stored_mutating_def split: option.splits)

lemma stored_validating_cons:
  "stored_validating es = Some h \<Longrightarrow> stored_validating (ev # es) = Some h"
  by (auto simp: stored_validating_def split: option.splits)

lemma wanted_not_nil [simp]:
  "None \<noteq> mwcWebhooks (mutatingWebhookConfiguration r p s n)"
  "None \<noteq> vwcWebhooks (validatingWebhookConfiguration r p s n)"
  by (simp_all add: mutatingWebhookConfiguration_def validatingWebhookConfiguration_def)

lemma emits_updateMutating:
  "emits (updateMutatingWebhook r p (mutatingWebhookConfiguration r p s n)) (\<lambda>x es. x \<noteq> Panic \<and> (x = Ok () \<longrightarrow>
     stored_mutating es = Some (mwcWebhooks (mutatingWebhookConfiguration r p s n))))"
  unfolding updateMutatingWebhook_def
  by (auto intro!: emits_rules emits_post [OF emits_patch_mutating] intro: stored_mutating_cons
      simp: as_Mutating_Inr zero_mutating_def split: sum.splits)

lemma emits_ReconcileMutating:
  "emits (ReconcileMutatingWebhookConfiguration r p s n) (\<lambda>x es. x \<noteq> Panic \<and> (x = Ok () \<longrightarrow>
     stored_mutating es = Some (mwcWebhooks (mutatingWebhookConfiguration r p s n))))"
  unfolding ReconcileMutatingWebhookConfiguration_def Let_def
  by (auto intro!: emits_rules emits_post [OF emits_updateMutating] intro: stored_mutating_cons split: sum.splits)

lemma emits_updateValidating:
  "emits (updateValidatingWebhook r p (validatingWebhookConfiguration r p s n)) (\<lambda>x es. x \<noteq> Panic \<and> (x = Ok () \<longrightarrow>
     stored_validating es = Some (vwcWebhooks (validatingWebhookConfiguration r p s n))))"
  unfolding updateValidatingWebhook_def
  by (auto intro!: emits_rules emits_post [OF emits_patch_validating] intro: stored_validating_cons
      simp: as_Validating_Inr zero_validating_def split: sum.splits)

lemma emits_ReconcileValidating:
  "emits (ReconcileValidatingWebhookConfiguration r p s n) (\<lambda>x es. x \<noteq> Panic \<and> (x = Ok () \<longrightarrow>
     stored_validating es = Some (vwcWebhooks (validatingWebhookConfiguration r p s n))))"
  unfolding ReconcileValidatingWebhookConfiguration_def Let_def
  by (auto intro!: emits_rules emits_post [OF emits_updateValidating] intro: stored_validating_cons split: sum.splits)


interpretation mutating: webhook_registry ReconcileMutatingWebhookConfiguration
    "\<lambda>r p s n. mwcWebhooks (mutatingWebhookConfiguration r p s n)" stored_mutating
  by unfold_locales (auto intro: emits_post [OF emits_ReconcileMutating])

interpretation validating: webhook_registry ReconcileValidatingWebhookConfiguration
    "\<lambda>r p s n. vwcWebhooks (validatingWebhookConfiguration r p s n)" stored_validating
  by unfold_locales (auto intro: emits_post [OF emits_ReconcileValidating])


section \<open>Properties\<close>

text \<open>
  C15. When registering a policy succeeds, the configuration the API server is last known to have
  (created, found or patched) holds exactly the webhooks wanted for the policy; registering never
  panics.
\<close>

theorem registered_webhooks_are_stored:
  "emits (ReconcileMutatingWebhookConfiguration r p s n) (\<lambda>x es. x \<noteq> Panic \<and> (x = Ok () \<longrightarrow>
     stored_mutating es = Some (mwcWebhooks (mutatingWebhookConfiguration r p s n)))) \<and>
   emits (ReconcileValidatingWebhookConfiguration r' p' s' n') (\<lambda>x es. x \<noteq> Panic \<and> (x = Ok () \<longrightarrow>
     stored_validating es = Some (vwcWebhooks (validatingWebhookConfiguration r' p' s' n'))))"
  by (simp add: emits_ReconcileMutating emits_ReconcileValidating)

definition demo_secret :: Secret where
  "demo_secret = \<lparr>secKind = '''', secMeta = metaNamed ''kubewarden'' PolicyServerCARootSecretName,
     secData = fmap_of_list [(PolicyServerCARootPemName, ''PEM'')], secStringData = fmempty,
     secType = SecretTypeOpaque\<rparr>"

theorem registered_webhooks_are_stored_witness:
  "emits (ReconcileValidatingWebhookConfiguration script_reconciler (demo_policy ''s'' ''protect'' ''a'')
     demo_secret ''policy-server-s'')
     (\<lambda>x es. x \<noteq> Panic)"
  using registered_webhooks_are_stored [of script_reconciler "demo_policy ''s'' ''protect'' ''a''" demo_secret "''policy-server-s''"
      script_reconciler "demo_policy ''s'' ''protect'' ''a''" demo_secret "''policy-server-s''"]
  by (auto elim: emits_post)



end
