(* ===== verification/Server_Reconciler.thy ===== *)
theory Server_Reconciler
  imports Server_Service Webhook_Config
begin

text \<open>
  The reconciliation of one policy server: \<open>internal/pkg/admission/reconciler.go\<close>.  The methods
  write conditions into the policy server they are given; they return it with their result.
\<close>

section \<open>Status conditions\<close>

definition setFalseConditionType :: "kube_lib \<Rightarrow> string \<Rightarrow> string \<Rightarrow> PolicyServer \<Rightarrow> PolicyServer" where
  "setFalseConditionType L conditionType message ps = ps\<lparr>psConditions := SetStatusCondition L (psConditions ps)
     \<lparr>condType = conditionType, condStatus = ConditionFalse, condReason = ReconciliationFailed,
      condMessage = message\<rparr>\<rparr>"

definition setTrueConditionType :: "kube_lib \<Rightarrow> string \<Rightarrow> PolicyServer \<Rightarrow> PolicyServer" where
  "setTrueConditionType L conditionType ps = ps\<lparr>psConditions := SetStatusCondition L (psConditions ps)
     \<lparr>condType = conditionType, condStatus = ConditionTrue, condReason = ReconciliationSucceeded,
      condMessage = ''''\<rparr>\<rparr>"

section \<open>ReconcileDeletion\<close>

text \<open>One of the four deletions: the error, if it counts, is added to the list.\<close>

definition delete_resource ::
    "'w Reconciler \<Rightarrow> kind \<Rightarrow> string \<Rightarrow> PolicyServer \<Rightarrow> go_error list \<Rightarrow> ('w, PolicyServer \<times> go_error list) api" where
  "delete_resource r k conditionType policyServer errors = do {
     res \<leftarrow> api_write (Client r) (Delete k (object_key (DeploymentsNamespace r) (NameWithPrefix policyServer)));
     ret (case res of
         Inr _ \<Rightarrow> (setFalseConditionType (Lib r) conditionType ''Policy Server has been deleted'' policyServer, errors)
       | Inl err \<Rightarrow> (policyServer, if IsNotFound err then errors else errors @ [ApiErr err]))
   }"

definition ReconcileDeletion :: "'w Reconciler \<Rightarrow> PolicyServer \<Rightarrow> ('w, PolicyServer \<times> unit result) api" where
  "ReconcileDeletion r policyServer = do {
     (ps1, errors1) \<leftarrow> delete_resource r KDeployment PolicyServerDeploymentReconciled policyServer [];
     (ps2, errors2) \<leftarrow> delete_resource r KSecret PolicyServerCASecretReconciled ps1 errors1;
     (ps3, errors3) \<leftarrow> delete_resource r KService PolicyServerServiceReconciled ps2 errors2;
     (ps4, errors4) \<leftarrow> delete_resource r KConfigMap PolicyServerConfigMapReconciled ps3 errors3;
     ret (ps4, if errors4 = [] then Ok () else Err (ReconcilerErrors errors4))
   }"

section \<open>Reconcile\<close>

text \<open>
  The pattern of the method: run a step; when it fails, write the step's condition with the
  text of the error and return the error, else go on.
\<close>

definition on_error ::
    "kube_lib \<Rightarrow> string \<Rightarrow> string \<Rightarrow> PolicyServer \<Rightarrow> ('w, 'a result) api \<Rightarrow>
     ('a \<Rightarrow> ('w, PolicyServer \<times> unit result) api) \<Rightarrow> ('w, PolicyServer \<times> unit result) api" where
  "on_error L conditionType what ps m k = do {
     x \<leftarrow> m;
     (case x of
        Panic \<Rightarrow> ret (ps, Panic)
      | Err e \<Rightarrow> ret (setFalseConditionType L conditionType
                  (''error reconciling '' @ what @ '': '' @ Error e) ps, Err e)
      | Ok v \<Rightarrow> k v)
   }"

definition Reconcile ::
    "'w crypto_ops \<Rightarrow> 'w Reconciler \<Rightarrow> PolicyServer \<Rightarrow> Policy list \<Rightarrow> ('w, PolicyServer \<times> unit result) api" where
  "Reconcile K r ps0 policies = (let L = Lib r in
     on_error L PolicyServerCARootSecretReconciled ''secret'' ps0
       (fetchOrInitializePolicyServerCARootSecret K r (GenerateCA K) (PemEncodeCertificate K)) (\<lambda>rootSecret.
     on_error L PolicyServerCARootSecretReconciled ''secret'' ps0
       (reconcileCASecret r rootSecret) (\<lambda>policyServerCARootSecret.
     let ps1 = setTrueConditionType L PolicyServerCARootSecretReconciled ps0 in
     on_error L PolicyServerCASecretReconciled ''secret'' ps1
       (fetchOrInitializePolicyServerCASecret K r (NameWithPrefix ps1) policyServerCARootSecret
          (GenerateCert K)) (\<lambda>policyServerCASecret.
     on_error L PolicyServerCASecretReconciled ''secret'' ps1
       (reconcileCASecret r policyServerCASecret) (\<lambda>_.
     let ps2 = setTrueConditionType L PolicyServerCASecretReconciled ps1 in
     on_error L PolicyServerConfigMapReconciled ''configmap'' ps2
       (reconcilePolicyServerConfigMap r ps2 policies) (\<lambda>_.
     let ps3 = setTrueConditionType L PolicyServerConfigMapReconciled ps2 in
     on_error L PolicyServerDeploymentReconciled ''deployment'' ps3
       (reconcilePolicyServerDeployment r ps3) (\<lambda>_.
     let ps4 = setTrueConditionType L PolicyServerDeploymentReconciled ps3 in
     on_error L PolicyServerServiceReconciled ''service'' ps4
       (reconcilePolicyServerService r ps4) (\<lambda>_.
     ret (setTrueConditionType L PolicyServerServiceReconciled ps4, Ok ())))))))))"

section \<open>GetPolicies\<close>

datatype GetPoliciesBehavior = SkipDeleted | IncludeDeleted

fun bound_cluster_policies ::
    "GetPoliciesBehavior \<Rightarrow> ClusterAdmissionPolicy list \<Rightarrow> Policy list \<Rightarrow> Policy list" where
  "bound_cluster_policies b [] policies = policies"
| "bound_cluster_policies b (p # ps) policies =
     (if b = SkipDeleted \<and> DeletionTimestamp (capMeta p) \<noteq> None then bound_cluster_policies b ps policies
      else bound_cluster_policies b ps (policies @ [ClusterPolicy p]))"

fun bound_namespaced_policies ::
    "GetPoliciesBehavior \<Rightarrow> AdmissionPolicy list \<Rightarrow> Policy list \<Rightarrow> Policy list" where
  "bound_namespaced_policies b [] policies = policies"
| "bound_namespaced_policies b (p # ps) policies =
     (if b = SkipDeleted \<and> DeletionTimestamp (apMeta p) \<noteq> None then bound_namespaced_policies b ps policies
      else bound_namespaced_policies b ps (policies @ [NamespacedPolicy p]))"

text \<open>
  The test \<open>err != nil && apierrors.IsNotFound(err)\<close> after a list request: any other error is
  ignored, and the list variable keeps its zero value.
\<close>

definition not_found_error :: "api_error + 'a \<Rightarrow> api_error option" where
  "not_found_error res = (case res of Inl err \<Rightarrow> if IsNotFound err then Some err else None | Inr _ \<Rightarrow> None)"

definition listed :: "api_error + 'a list \<Rightarrow> 'a list" where
  "listed res = (case res of Inl _ \<Rightarrow> [] | Inr items \<Rightarrow> items)"

definition GetPolicies ::
    "'w Reconciler \<Rightarrow> PolicyServer \<Rightarrow> GetPoliciesBehavior \<Rightarrow> ('w, Policy list result) api" where
  "GetPolicies r policyServer getPoliciesBehavior = do {
     clusterAdmissionPolicies \<leftarrow> api_list (Client r) KClusterAdmissionPolicy
       (MatchingFields PolicyServerIndexKey (Name (psMeta policyServer)));
     (case not_found_error clusterAdmissionPolicies of
        Some err \<Rightarrow> ret (Err (Wrapped ''failed obtaining ClusterAdmissionPolicies: '' (ApiErr err)))
      | None \<Rightarrow> do {
          admissionPolicies \<leftarrow> api_list (Client r) KAdmissionPolicy
            (MatchingFields PolicyServerIndexKey (Name (psMeta policyServer)));
          ret (case not_found_error admissionPolicies of
              Some err \<Rightarrow> Err (Wrapped ''failed obtaining ClusterAdmissionPolicies: '' (ApiErr err))
            | None \<Rightarrow> Ok (bound_namespaced_policies getPoliciesBehavior (ap_items (listed admissionPolicies))
                (bound_cluster_policies getPoliciesBehavior (cap_items (listed clusterAdmissionPolicies)) [])))
        })
   }"

section \<open>The stages of a reconciliation\<close>

datatype stage = CARootStage | CASecretStage | ConfigMapStage | DeploymentStage | ServiceStage

fun stage_index :: "stage \<Rightarrow> nat" where
  "stage_index CARootStage = 0"
| "stage_index CASecretStage = 1"
| "stage_index ConfigMapStage = 2"
| "stage_index DeploymentStage = 3"
| "stage_index ServiceStage = 4"

instantiation stage :: linorder
begin

definition less_eq_stage :: "stage \<Rightarrow> stage \<Rightarrow> bool" where
  "a \<le> b \<longleftrightarrow> stage_index a \<le> stage_index b"

definition less_stage :: "stage \<Rightarrow> stage \<Rightarrow> bool" where
  "a < b \<longleftrightarrow> stage_index a < stage_index (b :: stage)"

instance
proof
  fix a b :: stage
  show "a \<le> b \<Longrightarrow> b \<le> a \<Longrightarrow> a = b"
    by (cases a; cases b) (simp_all add: less_eq_stage_def)
qed (auto simp: less_eq_stage_def less_stage_def)

end

fun stage_condition :: "stage \<Rightarrow> string" where
  "stage_condition CARootStage = PolicyServerCARootSecretReconciled"
| "stage_condition CASecretStage = PolicyServerCASecretReconciled"
| "stage_condition ConfigMapStage = PolicyServerConfigMapReconciled"
| "stage_condition DeploymentStage = PolicyServerDeploymentReconciled"
| "stage_condition ServiceStage = PolicyServerServiceReconciled"

lemma stage_condition_inject [simp]: "stage_condition a = stage_condition b \<longleftrightarrow> a = b"
  by (cases a; cases b) (simp_all add: const_defs)

text \<open>The stage an object belongs to.\<close>

fun object_stage :: "api_object \<Rightarrow> stage" where
  "object_stage (OSecret s) = CARootStage"
| "object_stage (OConfigMap c) = ConfigMapStage"
| "object_stage (ODeployment d) = DeploymentStage"
| "object_stage ob = ServiceStage"

fun write_stage :: "write_request \<Rightarrow> stage" where
  "write_stage (Create ob) = object_stage ob"
| "write_stage (Update ob) = object_stage ob"
| "write_stage (StatusUpdate ob) = object_stage ob"
| "write_stage (Patch ob base) = object_stage ob"
| "write_stage (Delete k key) = ServiceStage"

fun written :: "api_event list \<Rightarrow> write_request list" where
  "written [] = []"
| "written (EvWrite q res # es) = q # written es"
| "written (ev # es) = written es"

lemma written_append [simp]: "written (es @ fs) = written es @ written fs"
  by (induction es rule: written.induct) auto

lemma written_no_writes: "no_writes es \<longleftrightarrow> written es = []"
  by (induction es rule: written.induct) auto

definition in_order :: "stage \<Rightarrow> api_event list \<Rightarrow> bool" where
  "in_order st es \<longleftrightarrow> sorted (map write_stage (written es)) \<and> (\<forall>q \<in> set (written es). st \<le> write_stage q)"

lemma in_order_mono: "in_order st' es \<Longrightarrow> st \<le> st' \<Longrightarrow> in_order st es"
  by (auto simp: in_order_def intro: order_trans)

lemma sorted_constant: "\<forall>x \<in> set xs. f x = c \<Longrightarrow> sorted (map f xs)"
  by (induction xs) (auto)

text \<open>
  \<open>settled ps0 st ps\<close>: starting from \<open>ps0\<close>, the stages before \<open>st\<close> have their condition true and
  the others the condition they had.  \<open>failed_at\<close> adds the false condition of the stage that
  failed.  \<open>reconcile_outcome\<close> says this of the end of a run, and that nothing was written for a
  later stage than the one that failed.
\<close>

definition true_condition :: "stage \<Rightarrow> Condition" where
  "true_condition st = \<lparr>condType = stage_condition st, condStatus = ConditionTrue,
     condReason = ReconciliationSucceeded, condMessage = ''''\<rparr>"

fun stage_what :: "stage \<Rightarrow> string" where
  "stage_what ConfigMapStage = ''configmap''"
| "stage_what DeploymentStage = ''deployment''"
| "stage_what ServiceStage = ''service''"
| "stage_what st = ''secret''"

definition false_condition :: "stage \<Rightarrow> go_error \<Rightarrow> Condition" where
  "false_condition st e = \<lparr>condType = stage_condition st, condStatus = ConditionFalse,
     condReason = ReconciliationFailed,
     condMessage = ''error reconciling '' @ stage_what st @ '': '' @ Error e\<rparr>"

definition cond_of :: "PolicyServer \<Rightarrow> stage \<Rightarrow> Condition option" where
  "cond_of ps st = find_condition (stage_condition st) (psConditions ps)"

definition settled :: "PolicyServer \<Rightarrow> stage \<Rightarrow> PolicyServer \<Rightarrow> bool" where
  "settled ps0 st ps \<longleftrightarrow> psMeta ps = psMeta ps0 \<and> psSpec ps = psSpec ps0 \<and>
     (\<forall>t. cond_of ps t = (if t < st then Some (true_condition t) else cond_of ps0 t))"

definition failed_at :: "PolicyServer \<Rightarrow> stage \<Rightarrow> go_error \<Rightarrow> PolicyServer \<Rightarrow> bool" where
  "failed_at ps0 st e ps \<longleftrightarrow> psMeta ps = psMeta ps0 \<and> psSpec ps = psSpec ps0 \<and>
     (\<forall>t. cond_of ps t = (if t < st then Some (true_condition t)
        else if t = st then Some (false_condition st e) else cond_of ps0 t))"

definition all_settled :: "PolicyServer \<Rightarrow> PolicyServer \<Rightarrow> bool" where
  "all_settled ps0 ps \<longleftrightarrow> psMeta ps = psMeta ps0 \<and> psSpec ps = psSpec ps0 \<and>
     (\<forall>t. cond_of ps t = Some (true_condition t))"

definition reconcile_outcome ::
    "PolicyServer \<Rightarrow> stage \<Rightarrow> PolicyServer \<times> unit result \<Rightarrow> api_event list \<Rightarrow> bool" where
  "reconcile_outcome ps0 lo y es \<longleftrightarrow> (case y of (ps, x) \<Rightarrow> (case x of
      Ok _ \<Rightarrow> all_settled ps0 ps
    | Err e \<Rightarrow> \<exists>st. lo \<le> st \<and> failed_at ps0 st e ps \<and> (\<forall>q \<in> set (written es). write_stage q \<le> st)
    | Panic \<Rightarrow> \<exists>st. lo \<le> st \<and> settled ps0 st ps \<and> (\<forall>q \<in> set (written es). write_stage q \<le> st)))"

lemma reconcile_outcome_mono:
  "reconcile_outcome ps0 lo' y es \<Longrightarrow> lo \<le> lo' \<Longrightarrow> reconcile_outcome ps0 lo y es"
  by (cases y; cases "snd y") (auto simp: reconcile_outcome_def intro: order_trans)

lemma settled_start: "settled ps CARootStage ps"
  by (auto simp: settled_def less_stage_def)

lemma stage_less_Suc:
  "t < CASecretStage \<longleftrightarrow> t < CARootStage \<or> t = CARootStage"
  "t < ConfigMapStage \<longleftrightarrow> t < CASecretStage \<or> t = CASecretStage"
  "t < DeploymentStage \<longleftrightarrow> t < ConfigMapStage \<or> t = ConfigMapStage"
  "t < ServiceStage \<longleftrightarrow> t < DeploymentStage \<or> t = DeploymentStage"
  "t < ServiceStage \<or> t = ServiceStage"
  by (cases t; simp add: less_stage_def)+

lemma cond_of_setTrue:
  assumes "set_status_condition_law L"
  shows "cond_of (setTrueConditionType L (stage_condition st) ps) t =
     (if t = st then Some (true_condition st) else cond_of ps t)"
  by (simp add: cond_of_def setTrueConditionType_def find_set_condition [OF assms] true_condition_def)

lemma setTrue_meta [simp]:
  "psMeta (setTrueConditionType L c ps) = psMeta ps" "psSpec (setTrueConditionType L c ps) = psSpec ps"
  by (simp_all add: setTrueConditionType_def)

lemma settled_next:
  assumes "set_status_condition_law L" "settled ps0 st ps" "\<And>t. t < st' \<longleftrightarrow> t < st \<or> t = st"
  shows "settled ps0 st' (setTrueConditionType L (stage_condition st) ps)"
  using assms by (auto simp: settled_def cond_of_setTrue simp del: stage_condition.simps)

lemma settled_all:
  assumes "set_status_condition_law L" "settled ps0 ServiceStage ps"
  shows "all_settled ps0 (setTrueConditionType L (stage_condition ServiceStage) ps)"
  using assms stage_less_Suc(5) by (auto simp: settled_def all_settled_def cond_of_setTrue simp del: stage_condition.simps)

lemma settled_failed:
  assumes "set_status_condition_law L" "settled ps0 st ps"
  shows "failed_at ps0 st e (setFalseConditionType L (stage_condition st)
     (''error reconciling '' @ stage_what st @ '': '' @ Error e) ps)"
  using assms
  by (auto simp: settled_def failed_at_def cond_of_def setFalseConditionType_def false_condition_def
      find_set_condition [OF assms(1)])

text \<open>
  A step of the reconciliation writes only objects of its own stage.  That is all \<open>Reconcile\<close>
  relies on to write in order: \<open>then_continue\<close> adds one step in front of the rest of the method,
  with the conditions that the policy server then has.
\<close>

locale reconcile_step =
  fixes step :: "('w, 'a result) api" and st :: stage
  assumes writes_own_stage: "emits step (\<lambda>x es. \<forall>q \<in> set (written es). write_stage q = st)"
begin

lemma then_continue:
  assumes "set_status_condition_law L" "settled ps0 cst ps" "st \<le> cst"
    and "\<And>v. emits (k v) (\<lambda>y es. in_order st es \<and> reconcile_outcome ps0 cst y es)"
  shows "emits (on_error L (stage_condition cst) (stage_what cst) ps step k)
     (\<lambda>y es. in_order st es \<and> reconcile_outcome ps0 cst y es)"
  unfolding on_error_def
proof (rule emits_bind [OF writes_own_stage], goal_cases)
  case (1 x es)
  have own: "in_order st (es @ es')" if "in_order st es'" for es'
    using 1 that sorted_constant [of "written es" write_stage st] by (auto simp: in_order_def sorted_append)
  from own [of "[]"] have o: "in_order st es" by (simp add: in_order_def)
  show ?case
  proof (cases x)
    case (Ok v)
    have "reconcile_outcome ps0 cst y (es @ es')" if "reconcile_outcome ps0 cst y es'" for y es'
      using that 1 assms(3)
      by (cases y; cases "snd y") (auto simp: reconcile_outcome_def intro: order_trans)
    with Ok own show ?thesis by (auto intro!: emits_post [OF assms(4)])
  next
    case (Err e)
    let ?ps = "setFalseConditionType L (stage_condition cst)
      (''error reconciling '' @ stage_what cst @ '': '' @ Error e) ps"
    have "reconcile_outcome ps0 cst (?ps, Err e) es"
      unfolding reconcile_outcome_def using 1 assms(3) settled_failed [OF assms(1,2)]
      by (simp only: prod.case outcome.case) (intro exI [of _ cst], auto)
    with Err o show ?thesis by (auto intro!: emits_rules)
  next
    case Panic
    have "reconcile_outcome ps0 cst (ps, Panic) es"
      unfolding reconcile_outcome_def using 1 assms(2,3)
      by (simp only: prod.case outcome.case) (intro exI [of _ cst], auto)
    with Panic o show ?thesis by (auto intro!: emits_rules)
  qed
qed

end


lemma emits_nothing_own: "emits m (\<lambda>x es. no_writes es) \<Longrightarrow> reconcile_step m st"
  by unfold_locales (auto simp: written_no_writes elim: emits_post)

interpretation fetch_root: reconcile_step
    "fetchOrInitializePolicyServerCARootSecret K r (GenerateCA K) (PemEncodeCertificate K)" CARootStage for K r
  by (rule emits_nothing_own, rule emits_fetch_root, rule emits_GenerateCA)

interpretation fetch_serving: reconcile_step
    "fetchOrInitializePolicyServerCASecret K r n ca (GenerateCert K)" CARootStage for K r n ca
  by (rule emits_nothing_own, rule emits_fetch_serving, rule emits_GenerateCert)

interpretation ca_secret: reconcile_step "reconcileCASecret r secret" CARootStage for r secret
  by unfold_locales (auto intro: emits_post [OF emits_reconcileCASecret])

interpretation config_map: reconcile_step "reconcilePolicyServerConfigMap r ps policies" ConfigMapStage for r ps policies
  unfolding reconcilePolicyServerConfigMap_def updateIfNeeded_def createPolicyServerConfigMap_def Let_def
  by unfold_locales (auto intro!: emits_rules split: sum.splits outcome.split option.split)

interpretation deployment: reconcile_step "reconcilePolicyServerDeployment r ps" DeploymentStage for r ps
proof unfold_locales
  have u: "emits (updatePolicyServerDeployment r ps d) (\<lambda>x es. \<forall>q \<in> set (written es). write_stage q = DeploymentStage)" for d
    unfolding updatePolicyServerDeployment_def by (auto intro!: emits_rules split: sum.splits outcome.split)
  have c: "emits (create_or_update_deployment r ps v) (\<lambda>x es. \<forall>q \<in> set (written es). write_stage q = DeploymentStage)" for v
    unfolding create_or_update_deployment_def Let_def
    by (auto intro!: emits_rules emits_post [OF u] split: sum.splits)
  have p: "emits (policyServerImagePullSecretPresent r ps) (\<lambda>x es. written es = [])"
    unfolding policyServerImagePullSecretPresent_def by (auto intro!: emits_rules)
  have v: "emits (policyServerConfigMapVersion r ps) (\<lambda>x es. written es = [])"
    unfolding policyServerConfigMapVersion_def by (auto intro!: emits_rules)
  show "emits (reconcilePolicyServerDeployment r ps) (\<lambda>x es. \<forall>q \<in> set (written es). write_stage q = DeploymentStage)"
    unfolding reconcilePolicyServerDeployment_def
    by (rule emits_bind [OF v])
      (auto intro!: emits_rules emits_bind [OF p] emits_post [OF c] split: outcome.split)
qed

interpretation service: reconcile_step "reconcilePolicyServerService r ps" ServiceStage for r ps
  by unfold_locales (auto intro: emits_post [OF emits_service])


lemma Reconcile_stages:
  "Reconcile K r ps0 policies = (let L = Lib r; C = stage_condition; W = stage_what in
     on_error L (C CARootStage) (W CARootStage) ps0
       (fetchOrInitializePolicyServerCARootSecret K r (GenerateCA K) (PemEncodeCertificate K)) (\<lambda>rootSecret.
     on_error L (C CARootStage) (W CARootStage) ps0 (reconcileCASecret r rootSecret) (\<lambda>caRoot.
     let ps1 = setTrueConditionType L (C CARootStage) ps0 in
     on_error L (C CASecretStage) (W CASecretStage) ps1
       (fetchOrInitializePolicyServerCASecret K r (NameWithPrefix ps1) caRoot (GenerateCert K)) (\<lambda>secret.
     on_error L (C CASecretStage) (W CASecretStage) ps1 (reconcileCASecret r secret) (\<lambda>_.
     let ps2 = setTrueConditionType L (C CASecretStage) ps1 in
     on_error L (C ConfigMapStage) (W ConfigMapStage) ps2 (reconcilePolicyServerConfigMap r ps2 policies) (\<lambda>_.
     let ps3 = setTrueConditionType L (C ConfigMapStage) ps2 in
     on_error L (C DeploymentStage) (W DeploymentStage) ps3 (reconcilePolicyServerDeployment r ps3) (\<lambda>_.
     let ps4 = setTrueConditionType L (C DeploymentStage) ps3 in
     on_error L (C ServiceStage) (W ServiceStage) ps4 (reconcilePolicyServerService r ps4) (\<lambda>_.
     ret (setTrueConditionType L (C ServiceStage) ps4, Ok ())))))))))"
  by (simp add: Reconcile_def Let_def)

lemma stage_le [simp]:
  "CARootStage \<le> st" "st \<le> ServiceStage" "CASecretStage \<le> ConfigMapStage" "CASecretStage \<le> DeploymentStage"
  "ConfigMapStage \<le> DeploymentStage" "(st :: stage) \<le> st"
  by (cases st; simp add: less_eq_stage_def)+

lemma later_stage:
  "emits m (\<lambda>y es. in_order st' es \<and> reconcile_outcome ps0 cst' y es) \<Longrightarrow> st \<le> st' \<Longrightarrow> cst \<le> cst' \<Longrightarrow>
   emits m (\<lambda>y es. in_order st es \<and> reconcile_outcome ps0 cst y es)"
  by (erule emits_post) (auto intro: in_order_mono reconcile_outcome_mono)

lemma emits_Reconcile:
  assumes "set_status_condition_law (Lib r)"
  shows "emits (Reconcile K r ps0 policies) (\<lambda>y es. in_order CARootStage es \<and> reconcile_outcome ps0 CARootStage y es)"
proof -
  let ?L = "Lib r"
  define ps1 where "ps1 = setTrueConditionType ?L (stage_condition CARootStage) ps0"
  define ps2 where "ps2 = setTrueConditionType ?L (stage_condition CASecretStage) ps1"
  define ps3 where "ps3 = setTrueConditionType ?L (stage_condition ConfigMapStage) ps2"
  define ps4 where "ps4 = setTrueConditionType ?L (stage_condition DeploymentStage) ps3"
  note L = assms
  have s1: "settled ps0 CASecretStage ps1"
    unfolding ps1_def by (rule settled_next [OF L settled_start stage_less_Suc(1)])
  have s2: "settled ps0 ConfigMapStage ps2"
    unfolding ps2_def by (rule settled_next [OF L s1 stage_less_Suc(2)])
  have s3: "settled ps0 DeploymentStage ps3"
    unfolding ps3_def by (rule settled_next [OF L s2 stage_less_Suc(3)])
  have s4: "settled ps0 ServiceStage ps4"
    unfolding ps4_def by (rule settled_next [OF L s3 stage_less_Suc(4)])
  have done_: "emits (ret (setTrueConditionType ?L (stage_condition ServiceStage) ps4, Ok ()))
      (\<lambda>y es. in_order ServiceStage es \<and> reconcile_outcome ps0 ServiceStage y es)"
    using settled_all [OF L s4] by (auto intro!: emits_rules simp: in_order_def reconcile_outcome_def simp del: stage_condition.simps)
  show ?thesis
    unfolding Reconcile_stages Let_def ps1_def [symmetric] ps2_def [symmetric] ps3_def [symmetric] ps4_def [symmetric]
    apply (rule fetch_root.then_continue [OF L settled_start], simp)
    apply (rule ca_secret.then_continue [OF L settled_start], simp)
    apply (rule later_stage [where cst' = CASecretStage and st' = CARootStage], rule fetch_serving.then_continue [OF L s1], simp)
      apply (rule ca_secret.then_continue [OF L s1], simp)
      apply (rule later_stage [where cst' = ConfigMapStage and st' = ConfigMapStage], rule config_map.then_continue [OF L s2], simp)
        apply (rule later_stage [where cst' = DeploymentStage and st' = DeploymentStage], rule deployment.then_continue [OF L s3], simp)
          apply (rule later_stage [where cst' = ServiceStage and st' = ServiceStage], rule service.then_continue [OF L s4], simp)
            apply (rule done_)
           apply simp_all
    done
qed

section \<open>Deletion\<close>

lemma NameWithPrefix_setFalse [simp]: "NameWithPrefix (setFalseConditionType L c m ps) = NameWithPrefix ps"
  by (simp add: setFalseConditionType_def)

lemma psMeta_setFalse [simp]: "psMeta (setFalseConditionType L c m ps) = psMeta ps"
  by (simp add: setFalseConditionType_def)

definition failure :: "api_error + api_object \<Rightarrow> go_error list" where
  "failure res = (case res of Inr _ \<Rightarrow> [] | Inl err \<Rightarrow> if IsNotFound err then [] else [ApiErr err])"

lemma failure_gone: "failure res = [] \<longleftrightarrow> gone res"
  by (simp add: failure_def gone_def split: sum.split)

lemma emits_delete_resource:
  "emits (delete_resource r k c ps errs) (\<lambda>y es. \<exists>res.
     es = [EvWrite (Delete k (object_key (DeploymentsNamespace r) (NameWithPrefix ps))) res] \<and>
     snd y = errs @ failure res \<and> psMeta (fst y) = psMeta ps)"
  unfolding delete_resource_def
  by (rule emits_write, rule emits_return, simp, simp add: failure_def split: sum.split)

lemma NameWithPrefix_meta: "psMeta p = psMeta q \<Longrightarrow> NameWithPrefix p = NameWithPrefix q"
  by (simp add: NameWithPrefix_def)

definition deletions :: "'w Reconciler \<Rightarrow> PolicyServer \<Rightarrow> (api_error + api_object) list \<Rightarrow> api_event list" where
  "deletions r ps answers =
     map2 (\<lambda>k res. EvWrite (Delete k (object_key (DeploymentsNamespace r) (NameWithPrefix ps))) res)
       [KDeployment, KSecret, KService, KConfigMap] answers"

lemma emits_ReconcileDeletion:
  "emits (ReconcileDeletion r ps) (\<lambda>y es. psMeta (fst y) = psMeta ps \<and>
     (\<exists>answers. length answers = 4 \<and> es = deletions r ps answers \<and>
        snd y = (if \<forall>res \<in> set answers. gone res then Ok ()
             else Err (ReconcilerErrors (concat (map failure answers))))))"
  unfolding ReconcileDeletion_def
proof (rule emits_bind [OF emits_delete_resource], goal_cases)
  case (1 y1 es1)
  then obtain a where a: "es1 = [EvWrite (Delete KDeployment (object_key (DeploymentsNamespace r) (NameWithPrefix ps))) a]"
    "snd y1 = failure a" "psMeta (fst y1) = psMeta ps" by auto
  show ?case
    unfolding case_prod_beta
  proof (rule emits_bind [OF emits_delete_resource], goal_cases)
    case (1 y2 es2)
    with a obtain b where b: "es2 = [EvWrite (Delete KSecret (object_key (DeploymentsNamespace r) (NameWithPrefix ps))) b]"
      "snd y2 = failure a @ failure b" "psMeta (fst y2) = psMeta ps" by (auto simp: NameWithPrefix_meta [OF a(3)])
    show ?case
      unfolding case_prod_beta
    proof (rule emits_bind [OF emits_delete_resource], goal_cases)
      case (1 y3 es3)
      with b obtain c where c: "es3 = [EvWrite (Delete KService (object_key (DeploymentsNamespace r) (NameWithPrefix ps))) c]"
        "snd y3 = failure a @ failure b @ failure c" "psMeta (fst y3) = psMeta ps" by (auto simp: NameWithPrefix_meta [OF b(3)])
      show ?case
        unfolding case_prod_beta
      proof (rule emits_bind [OF emits_delete_resource], goal_cases)
        case (1 y4 es4)
        with c obtain d where d: "es4 = [EvWrite (Delete KConfigMap (object_key (DeploymentsNamespace r) (NameWithPrefix ps))) d]"
          "snd y4 = failure a @ failure b @ failure c @ failure d" "psMeta (fst y4) = psMeta ps"
          by (auto simp: NameWithPrefix_meta [OF c(3)])
        have e: "es1 @ es2 @ es3 @ es4 @ [] = deletions r ps [a, b, c, d]"
          using a b c d by (simp add: deletions_def)
        have f: "snd y4 = concat (map failure [a, b, c, d])" using d by simp
        have g: "snd y4 = [] \<longleftrightarrow> (\<forall>res \<in> set [a, b, c, d]. gone res)" using d by (simp add: failure_gone)
        show ?case
          unfolding case_prod_beta
          by (rule emits_return, simp only: fst_conv snd_conv, intro conjI exI [of _ "[a, b, c, d]"])
            (use d e f g in simp_all)
      qed
    qed
  qed
qed

section \<open>GetPolicies\<close>

definition live :: "GetPoliciesBehavior \<Rightarrow> Policy \<Rightarrow> bool" where
  "live b p \<longleftrightarrow> b = IncludeDeleted \<or> DeletionTimestamp (GetObjectMeta p) = None"

lemma bound_cluster_policies_eq:
  "bound_cluster_policies b caps acc = acc @ filter (live b) (map ClusterPolicy caps)"
  by (induction b caps acc rule: bound_cluster_policies.induct)
    (simp_all add: live_def split: GetPoliciesBehavior.splits, metis GetPoliciesBehavior.exhaust)

lemma bound_namespaced_policies_eq:
  "bound_namespaced_policies b aps acc = acc @ filter (live b) (map NamespacedPolicy aps)"
  by (induction b aps acc rule: bound_namespaced_policies.induct)
    (simp_all add: live_def split: GetPoliciesBehavior.splits, metis GetPoliciesBehavior.exhaust)

definition server_field :: "PolicyServer \<Rightarrow> list_selector" where
  "server_field ps = MatchingFields PolicyServerIndexKey (Name (psMeta ps))"

definition listing_failed :: "api_error \<Rightarrow> go_error" where
  "listing_failed err = Wrapped ''failed obtaining ClusterAdmissionPolicies: '' (ApiErr err)"

text \<open>The policies of the two answers, in their order, without those the caller does not want.\<close>

definition policies_of ::
    "GetPoliciesBehavior \<Rightarrow> api_error + api_object list \<Rightarrow> api_error + api_object list \<Rightarrow> Policy list" where
  "policies_of b caps aps = filter (live b) (map ClusterPolicy (cap_items (listed caps))) @
     filter (live b) (map NamespacedPolicy (ap_items (listed aps)))"

definition policies_result ::
    "GetPoliciesBehavior \<Rightarrow> api_error + api_object list \<Rightarrow> api_error + api_object list \<Rightarrow> Policy list result" where
  "policies_result b caps aps = (case not_found_error aps of
     Some err \<Rightarrow> Err (listing_failed err) | None \<Rightarrow> Ok (policies_of b caps aps))"

lemma GetPolicies_eq:
  "GetPolicies r ps b = do {
     caps \<leftarrow> api_list (Client r) KClusterAdmissionPolicy (server_field ps);
     (case not_found_error caps of
        Some err \<Rightarrow> ret (Err (listing_failed err))
      | None \<Rightarrow> do {
          aps \<leftarrow> api_list (Client r) KAdmissionPolicy (server_field ps);
          ret (policies_result b caps aps)
        })
   }"
  unfolding GetPolicies_def server_field_def policies_result_def policies_of_def listing_failed_def
    bound_cluster_policies_eq bound_namespaced_policies_eq append_Nil by (rule refl)

lemma emits_GetPolicies:
  "emits (GetPolicies r ps b) (\<lambda>x es.
     (\<exists>caps err. es = [EvList KClusterAdmissionPolicy (server_field ps) caps] \<and> not_found_error caps = Some err \<and>
        x = Err (listing_failed err)) \<or>
     (\<exists>caps aps. not_found_error caps = None \<and>
        es = [EvList KClusterAdmissionPolicy (server_field ps) caps, EvList KAdmissionPolicy (server_field ps) aps] \<and>
        x = policies_result b caps aps))"
  unfolding GetPolicies_eq by (auto intro!: emits_rules split: option.splits)

section \<open>Properties\<close>

text \<open>
  C7. Whatever the API server answers, a reconciliation writes secrets first, then the config map,
  then the deployment, then the service.  When it succeeds all five conditions are true; when it
  fails, the conditions of the stages before the failing one are true, the condition of the
  failing one is false with the text of the error, those after it are unchanged, and nothing was
  written for them.
\<close>

theorem Reconcile_in_order:
  assumes "set_status_condition_law (Lib r)"
  shows "emits (Reconcile K r ps0 policies) (\<lambda>y es.
     in_order CARootStage es \<and> reconcile_outcome ps0 CARootStage y es)"
  by (rule emits_Reconcile [OF assms])

theorem Reconcile_in_order_witness:
  "emits (Reconcile demo_crypto script_reconciler demo_server []) (\<lambda>y es. in_order CARootStage es)"
  using Reconcile_in_order [of script_reconciler demo_crypto demo_server "[]"] ref_lib_conditions
  by (auto elim: emits_post)

text \<open>
  Deleting the resources of a policy server always asks for all four deletions, in order, even
  after one failed; it succeeds exactly when each resource was deleted or did not exist, and
  otherwise returns the errors of the others, in order.
\<close>

theorem ReconcileDeletion_complete:
  "emits (ReconcileDeletion r ps) (\<lambda>y es.
     \<exists>answers. length answers = 4 \<and> es = deletions r ps answers \<and>
        snd y = (if \<forall>res \<in> set answers. gone res then Ok ()
             else Err (ReconcilerErrors (concat (map failure answers)))))"
  by (rule emits_post [OF emits_ReconcileDeletion]) blast

theorem ReconcileDeletion_complete_witness:
  "emits (ReconcileDeletion script_reconciler demo_server) (\<lambda>y es. length es = 4)"
  by (rule emits_post [OF ReconcileDeletion_complete]) (auto simp: deletions_def)

text \<open>
  C39. The deletion of a policy server deletes the secret with the root certificate authority, which
  all policy servers share, exactly when the policy server is named \<open>root-ca\<close>.
\<close>

theorem root_ca_deleted:
  "emits (ReconcileDeletion r ps) (\<lambda>y es.
     Delete KSecret (object_key (DeploymentsNamespace r) PolicyServerCARootSecretName) \<in> set (written es) \<longleftrightarrow>
     Name (psMeta ps) = ''root-ca'')"
proof (rule emits_post [OF emits_ReconcileDeletion], intro allI impI, elim conjE exE, goal_cases)
  case (1 y es answers)
  have n: "PolicyServerCARootSecretName = NameWithPrefix ps \<longleftrightarrow> Name (psMeta ps) = ''root-ca''"
    by (auto simp: NameWithPrefix_def const_defs)
  from 1 obtain a b c d where "answers = [a, b, c, d]"
    by (auto simp: length_Suc_conv eval_nat_numeral)
  with 1 n show ?case by (simp add: deletions_def)
qed

text \<open>
  The policies of a server are those in the answers of the two list requests, cluster policies
  first, without the ones being deleted if the caller asked for that.  A failed request counts as
  an empty list unless its error is NotFound, which is the only error returned.
\<close>

theorem GetPolicies_functional:
  "emits (GetPolicies r ps b) (\<lambda>x es.
     (\<exists>caps err. es = [EvList KClusterAdmissionPolicy (server_field ps) caps] \<and> not_found_error caps = Some err \<and>
        x = Err (listing_failed err)) \<or>
     (\<exists>caps aps. not_found_error caps = None \<and>
        es = [EvList KClusterAdmissionPolicy (server_field ps) caps, EvList KAdmissionPolicy (server_field ps) aps] \<and>
        x = policies_result b caps aps))"
  by (rule emits_GetPolicies)

end
