(* ===== verification/Policy_Status.thy ===== *)
theory Policy_Status
  imports Server_Reconciler
begin

text \<open>
  What a policy's status says about the policy server it runs on:
  \<open>controllers/policystatus_utils.go\<close>.
\<close>

section \<open>The policies in a config map\<close>

definition getPolicyMapFromConfigMap :: "kube_lib \<Rightarrow> ConfigMap \<Rightarrow> PolicyConfigEntryMap option result" where
  "getPolicyMapFromConfigMap L configMap =
     (case nil_lookup (cmData configMap) PolicyServerConfigPoliciesEntry of
        Some policies \<Rightarrow>
          (case unmarshal_policies L (Some fmempty) policies of
             None \<Rightarrow> Err (Wrapped ''failed to unmarshal policy mapping: '' json_unmarshal_error)
           | Some policyMap \<Rightarrow> Ok policyMap)
      | None \<Rightarrow> Ok (Some fmempty))"

definition isPolicyInConfigMap :: "kube_lib \<Rightarrow> ConfigMap \<Rightarrow> string \<Rightarrow> bool" where
  "isPolicyInConfigMap L configMap policyName =
     (case getPolicyMapFromConfigMap L configMap of
        Ok policies \<Rightarrow> nil_lookup policies policyName \<noteq> None
      | _ \<Rightarrow> False)"

section \<open>The condition PolicyServerConfigurationUpToDate\<close>

definition configuration_condition :: "string \<Rightarrow> string \<Rightarrow> string \<Rightarrow> Condition" where
  "configuration_condition st reason message =
     \<lparr>condType = PolicyServerConfigurationUpToDate, condStatus = st, condReason = reason,
      condMessage = message\<rparr>"

definition SetPolicyConfigurationCondition ::
    "kube_lib \<Rightarrow> ConfigMap \<Rightarrow> Deployment \<Rightarrow> Condition list \<Rightarrow> Condition list" where
  "SetPolicyConfigurationCondition L policyServerConfigMap policyServerDeployment conditions =
     (case nil_lookup (Annotations (depMeta policyServerDeployment)) PolicyServerDeploymentConfigVersionAnnotation of
        Some configAnnotation \<Rightarrow>
          if configAnnotation = ResourceVersion (cmMeta policyServerConfigMap) then
            SetStatusCondition L conditions (configuration_condition ConditionTrue
              ''ConfigurationVersionMatch'' ''Configuration for this policy is up to date'')
          else
            SetStatusCondition L conditions (configuration_condition ConditionFalse
              ''ConfigurationVersionMismatch'' ''Configuration for this policy is not up to date'')
      | None \<Rightarrow>
          SetStatusCondition L conditions (configuration_condition ConditionFalse
            ''UnknownConfigurationVersion''
            (''Configuration version annotation ('' @ PolicyServerDeploymentConfigVersionAnnotation @
             '') in deployment '' @ Name (depMeta policyServerDeployment) @ '' is missing'')))"

section \<open>Unique reachability\<close>

definition isLatestReplicaSetFromPolicyServerDeployment :: "ReplicaSet \<Rightarrow> Deployment \<Rightarrow> string \<Rightarrow> bool" where
  "isLatestReplicaSetFromPolicyServerDeployment replicaSet policyServerDeployment configMapVersion \<longleftrightarrow>
     nil_get (Annotations (rsMeta replicaSet)) KubernetesRevisionAnnotation =
       nil_get (Annotations (depMeta policyServerDeployment)) KubernetesRevisionAnnotation \<and>
     nil_get (Annotations (rsMeta replicaSet)) PolicyServerDeploymentConfigVersionAnnotation = configMapVersion"

definition DefaultDeploymentUniqueLabelKey :: string where [const_defs]:
  "DefaultDeploymentUniqueLabelKey = ''pod-template-hash''"

text \<open>The first condition of type Ready decides.\<close>

fun pod_ready :: "PodCondition list \<Rightarrow> bool" where
  "pod_ready [] = False"
| "pod_ready (c # cs) = (if pcType c = ''Ready'' then pcStatus c = ''True'' else pod_ready cs)"

definition isPodReady :: "Pod \<Rightarrow> bool" where
  "isPodReady pod = pod_ready (podConditions pod)"

text \<open>The loop over the replica sets stops at the first that is the latest.\<close>

fun latest_template_hash :: "Deployment \<Rightarrow> string \<Rightarrow> ReplicaSet list \<Rightarrow> string" where
  "latest_template_hash d version [] = ''''"
| "latest_template_hash d version (rs # rest) =
     (if isLatestReplicaSetFromPolicyServerDeployment rs d version
      then map_get (Labels (rsMeta rs)) DefaultDeploymentUniqueLabelKey
      else latest_template_hash d version rest)"

fun all_pods_latest :: "string \<Rightarrow> Pod list \<Rightarrow> bool" where
  "all_pods_latest podTemplateHash [] = True"
| "all_pods_latest podTemplateHash (pod # pods) =
     (if map_get (Labels (podMeta pod)) DefaultDeploymentUniqueLabelKey \<noteq> podTemplateHash \<or> \<not> isPodReady pod
      then False else all_pods_latest podTemplateHash pods)"

definition server_label :: "Deployment \<Rightarrow> list_selector" where
  "server_label d = MatchingLabels PolicyServerLabelKey (map_get (Labels (depMeta d)) PolicyServerLabelKey)"

definition isPolicyUniquelyReachable ::
    "kube_lib \<Rightarrow> ('w, 'z) reader_ops_scheme \<Rightarrow> Deployment \<Rightarrow> string \<Rightarrow> ('w, bool) api" where
  "isPolicyUniquelyReachable L apiReader policyServerDeployment policyName = do {
     res \<leftarrow> api_get apiReader KConfigMap
       (object_key (Namespace (depMeta policyServerDeployment)) (Name (depMeta policyServerDeployment)));
     (case as_ConfigMap res of
        Inl err \<Rightarrow> ret False
      | Inr configMap \<Rightarrow>
          if \<not> isPolicyInConfigMap L configMap policyName then ret False
          else do {
            rss \<leftarrow> api_list apiReader KReplicaSet (server_label policyServerDeployment);
            (case rss of
               Inl err \<Rightarrow> ret False
             | Inr replicaSets \<Rightarrow>
                 let podTemplateHash = latest_template_hash policyServerDeployment
                       (ResourceVersion (cmMeta configMap)) (replica_set_items replicaSets)
                 in if podTemplateHash = '''' then ret False
                    else do {
                      ps \<leftarrow> api_list apiReader KPod (server_label policyServerDeployment);
                      ret (case ps of
                          Inl err \<Rightarrow> False
                        | Inr pods \<Rightarrow>
                            if pod_items pods = [] then False
                            else all_pods_latest podTemplateHash (pod_items pods))
                    })
          })
   }"

section \<open>Lemmas\<close>

lemma all_pods_latest_iff:
  "all_pods_latest h pods \<longleftrightarrow>
     (\<forall>pod \<in> set pods. map_get (Labels (podMeta pod)) DefaultDeploymentUniqueLabelKey = h \<and> isPodReady pod)"
  by (induction pods) auto

lemma pod_ready_iff:
  "pod_ready cs \<longleftrightarrow> (\<exists>c. find (\<lambda>c. pcType c = ''Ready'') cs = Some c \<and> pcStatus c = ''True'')"
  by (induction cs) auto

lemma latest_template_hash_find:
  "latest_template_hash d v rss =
     (case find (\<lambda>rs. isLatestReplicaSetFromPolicyServerDeployment rs d v) rss of
        None \<Rightarrow> '''' | Some rs \<Rightarrow> map_get (Labels (rsMeta rs)) DefaultDeploymentUniqueLabelKey)"
  by (induction rss) auto

text \<open>
  What the answers of the API server have to be for a policy to be uniquely reachable: the config
  map has the policy, one of the replica sets is the latest, there are pods, and every pod is
  ready and belongs to that replica set.
\<close>

definition rollout_complete :: "Deployment \<Rightarrow> string \<Rightarrow> ReplicaSet list \<Rightarrow> Pod list \<Rightarrow> bool" where
  "rollout_complete d version rss pods \<longleftrightarrow>
     (\<exists>rs. find (\<lambda>rs. isLatestReplicaSetFromPolicyServerDeployment rs d version) rss = Some rs \<and>
        map_get (Labels (rsMeta rs)) DefaultDeploymentUniqueLabelKey \<noteq> '''' \<and>
        pods \<noteq> [] \<and>
        (\<forall>pod \<in> set pods. isPodReady pod \<and>
           map_get (Labels (podMeta pod)) DefaultDeploymentUniqueLabelKey =
           map_get (Labels (rsMeta rs)) DefaultDeploymentUniqueLabelKey))"

definition reachable_answers :: "kube_lib \<Rightarrow> Deployment \<Rightarrow> string \<Rightarrow> api_event list \<Rightarrow> bool" where
  "reachable_answers L d policyName es \<longleftrightarrow>
     (\<exists>cm rss pods. es =
        [EvGet KConfigMap (object_key (Namespace (depMeta d)) (Name (depMeta d))) (Inr (OConfigMap cm)),
         EvList KReplicaSet (server_label d) (Inr rss), EvList KPod (server_label d) (Inr pods)] \<and>
        isPolicyInConfigMap L cm policyName \<and>
        rollout_complete d (ResourceVersion (cmMeta cm)) (replica_set_items rss) (pod_items pods))"

lemma rollout_complete_code:
  "rollout_complete d v rss pods \<longleftrightarrow>
     latest_template_hash d v rss \<noteq> '''' \<and> pods \<noteq> [] \<and> all_pods_latest (latest_template_hash d v rss) pods"
  by (auto simp: rollout_complete_def latest_template_hash_find all_pods_latest_iff split: option.splits)

lemma emits_isPolicyUniquelyReachable:
  "emits (isPolicyUniquelyReachable L rd d n)
     (\<lambda>ok es. no_writes es \<and> (ok \<longleftrightarrow> reachable_answers L d n es))"
  unfolding isPolicyUniquelyReachable_def
  by (auto intro!: emits_rules simp: reachable_answers_def rollout_complete_code as_ConfigMap_Inr Let_def
      split: sum.splits)

end
