(* ===== verification/Policy_Controller.thy ===== *)
theory Policy_Controller
  imports Policy_Status
begin

text \<open>
  The two policy controllers: \<open>controllers/policy_utils.go\<close>,
  \<open>controllers/admissionpolicy_controller.go\<close> and
  \<open>controllers/clusteradmissionpolicy_controller.go\<close>.

  The functions work on a policy through a pointer; they return the policy they leave behind with
  their result.  A pair of a \<open>ctrl.Result\<close> and an error is an outcome: whenever the code returns
  an error it returns the zero \<open>ctrl.Result\<close>.
\<close>

section \<open>Results and conditions\<close>

record ctrl_result =
  Requeue :: bool
  RequeueAfter :: int

definition time_Second :: int where "time_Second = 1000000000"

definition no_requeue :: ctrl_result where
  "no_requeue = \<lparr>Requeue = False, RequeueAfter = 0\<rparr>"

definition requeue_now :: ctrl_result where
  "requeue_now = \<lparr>Requeue = True, RequeueAfter = 0\<rparr>"

definition requeue_after :: "int \<Rightarrow> ctrl_result" where
  "requeue_after seconds = \<lparr>Requeue = True, RequeueAfter = seconds * time_Second\<rparr>"

definition policy_condition :: "string \<Rightarrow> string \<Rightarrow> string \<Rightarrow> string \<Rightarrow> Condition" where
  "policy_condition t st reason message =
     \<lparr>condType = t, condStatus = st, condReason = reason, condMessage = message\<rparr>"

definition set_condition :: "kube_lib \<Rightarrow> Condition \<Rightarrow> Policy \<Rightarrow> Policy" where
  "set_condition L c = UpdateConditions (\<lambda>cs. SetStatusCondition L cs c)"

definition not_created :: Condition where
  "not_created = policy_condition PolicyActive ConditionFalse ''PolicyActive''
     ''The policy webhook has not been created''"

definition created :: Condition where
  "created = policy_condition PolicyActive ConditionTrue ''PolicyActive''
     ''The policy webhook has been created''"

definition not_reachable :: Condition where
  "not_reachable = policy_condition PolicyUniquelyReachable ConditionFalse
     ''LatestReplicaSetIsNotUniquelyReachable'' ''The latest replica set is not uniquely reachable''"

definition reachable :: Condition where
  "reachable = policy_condition PolicyUniquelyReachable ConditionTrue
     ''LatestReplicaSetIsUniquelyReachable'' ''The latest replica set is uniquely reachable''"

definition setPolicyAsActive :: "kube_lib \<Rightarrow> Policy \<Rightarrow> Policy" where
  "setPolicyAsActive L policy = set_condition L created (SetStatus PolicyStatusActive policy)"

section \<open>The status of a policy\<close>

definition deployment_key :: "string \<Rightarrow> Policy \<Rightarrow> ObjectKey" where
  "deployment_key deploymentsNamespace policy = object_key deploymentsNamespace
     (PolicyServerDeploymentNameForPolicyServerName (GetPolicyServer policy))"

definition mode_in_config_map :: "kube_lib \<Rightarrow> ConfigMap \<Rightarrow> string \<Rightarrow> PolicyModeStatus" where
  "mode_in_config_map L configMap policyName =
     (case getPolicyMapFromConfigMap L configMap of
        Ok policyMap \<Rightarrow>
          (case nil_lookup policyMap policyName of
             Some policyConfig \<Rightarrow> entPolicyMode policyConfig
           | None \<Rightarrow> PolicyModeStatusUnknown)
      | _ \<Rightarrow> PolicyModeStatusUnknown)"

definition setPolicyStatus ::
    "kube_lib \<Rightarrow> string \<Rightarrow> ('w, 'z) reader_ops_scheme \<Rightarrow> Policy \<Rightarrow> ('w, Policy \<times> unit result) api" where
  "setPolicyStatus L deploymentsNamespace apiReader policy = do {
     d \<leftarrow> api_get apiReader KDeployment (deployment_key deploymentsNamespace policy);
     (case as_Deployment d of
        Inl err \<Rightarrow> ret (policy, Err (Wrapped ''could not get policy server deployment: '' (ApiErr err)))
      | Inr policyServerDeployment \<Rightarrow> do {
          c \<leftarrow> api_get apiReader KConfigMap (deployment_key deploymentsNamespace policy);
          ret (case as_ConfigMap c of
              Inl err \<Rightarrow> (policy, Err (Wrapped ''could not get configmap: '' (ApiErr err)))
            | Inr policyServerConfigMap \<Rightarrow>
                (UpdateConditions
                   (SetPolicyConfigurationCondition L policyServerConfigMap policyServerDeployment)
                   (SetPolicyModeStatus
                      (mode_in_config_map L policyServerConfigMap (GetUniqueName policy)) policy),
                 Ok ()))
        })
   }"

section \<open>Reconciling a policy\<close>

definition getPolicyServer :: "('w, 'z) reader_ops_scheme \<Rightarrow> Policy \<Rightarrow> ('w, PolicyServer result) api" where
  "getPolicyServer cl policy = do {
     res \<leftarrow> api_get cl KPolicyServer (object_key '''' (GetPolicyServer policy));
     ret (case as_PolicyServer res of
         Inl err \<Rightarrow> Err (Wrapped ''could not get policy server: '' (ApiErr err))
       | Inr policyServer \<Rightarrow> Ok policyServer)
   }"

text \<open>The call at the end of the function: the webhook of the kind the policy asks for.\<close>

definition reconcile_webhook ::
    "'w Reconciler \<Rightarrow> Policy \<Rightarrow> Secret \<Rightarrow> string \<Rightarrow> ('w, unit result) api" where
  "reconcile_webhook reconciler policy secret policyServerName =
     (if IsMutating policy then do {
        x \<leftarrow> ReconcileMutatingWebhookConfiguration reconciler policy secret policyServerName;
        ret (map_err (Wrapped ''error reconciling mutating webhook: '') x)
      } else do {
        x \<leftarrow> ReconcileValidatingWebhookConfiguration reconciler policy secret policyServerName;
        ret (map_err (Wrapped ''error reconciling validating webhook: '') x)
      })"

text \<open>The part of the function after the policy was found to be reachable.\<close>

definition register_webhook ::
    "'w client_ops \<Rightarrow> 'w Reconciler \<Rightarrow> PolicyServer \<Rightarrow> Policy \<Rightarrow> ('w, Policy \<times> ctrl_result result) api" where
  "register_webhook cl reconciler policyServer policy = do {
     s \<leftarrow> api_get cl KSecret (object_key (DeploymentsNamespace reconciler) PolicyServerCARootSecretName);
     (case as_Secret s of
        Inl err \<Rightarrow> ret (policy, Err (Wrapped ''cannot find policy server secret: '' (ApiErr err)))
      | Inr secret \<Rightarrow> do {
          x \<leftarrow> reconcile_webhook reconciler policy secret (NameWithPrefix policyServer);
          ret (case x of
              Panic \<Rightarrow> (policy, Panic)
            | Err e \<Rightarrow> (policy, Err e)
            | Ok _ \<Rightarrow> (setPolicyAsActive (Lib reconciler) policy, Ok no_requeue))
        })
   }"

text \<open>The part after the policy server was read.\<close>

definition reconcile_scheduled ::
    "'w client_ops \<Rightarrow> 'w Reconciler \<Rightarrow> PolicyServer \<Rightarrow> Policy \<Rightarrow> ('w, Policy \<times> ctrl_result result) api" where
  "reconcile_scheduled cl reconciler policyServer policy = do {
     d \<leftarrow> api_get (APIReader reconciler) KDeployment (deployment_key (DeploymentsNamespace reconciler) policy);
     (case as_Deployment d of
        Inl err \<Rightarrow>
          ret (policy, if IsNotFound err then Ok requeue_now
                       else Err (Wrapped ''could not read policy server Deployment: '' (ApiErr err)))
      | Inr policyServerDeployment \<Rightarrow> do {
          ok \<leftarrow> isPolicyUniquelyReachable (Lib reconciler) cl policyServerDeployment (GetUniqueName policy);
          (if \<not> ok then ret (set_condition (Lib reconciler) not_reachable policy, Ok (requeue_after 2))
           else register_webhook cl reconciler policyServer (set_condition (Lib reconciler) reachable policy))
        })
   }"

definition mark_pending :: "Policy \<Rightarrow> Policy" where
  "mark_pending policy =
     (if statPolicyStatus (GetStatus policy) \<noteq> PolicyStatusActive
      then SetStatus PolicyStatusPending policy else policy)"

definition reconcilePolicy ::
    "'w client_ops \<Rightarrow> 'w Reconciler \<Rightarrow> Policy \<Rightarrow> ('w, Policy \<times> ctrl_result result) api" where
  "reconcilePolicy cl reconciler policy0 = (
     let policy = set_condition (Lib reconciler) not_created policy0
     in if GetPolicyServer policy = '''' then ret (SetStatus PolicyStatusUnscheduled policy, Ok no_requeue)
        else do {
          p \<leftarrow> getPolicyServer cl policy;
          (case p of
             Panic \<Rightarrow> ret (policy, Panic)
           | Err e \<Rightarrow> ret (SetStatus PolicyStatusScheduled policy, Ok no_requeue)
           | Ok policyServer \<Rightarrow> reconcile_scheduled cl reconciler policyServer (mark_pending policy))
        })"

section \<open>Deleting a policy\<close>

definition reconcileValidatingWebhook :: "'w client_ops \<Rightarrow> Policy \<Rightarrow> ('w, unit result) api" where
  "reconcileValidatingWebhook cl admissionPolicy = do {
     res \<leftarrow> api_get cl KValidatingWebhookConfiguration (object_key '''' (GetUniqueName admissionPolicy));
     (case as_Validating res of
        Inr webhook \<Rightarrow> do {
          d \<leftarrow> api_write cl (Delete KValidatingWebhookConfiguration (key_of (OValidating webhook)));
          ret (case d of
              Inl err \<Rightarrow> if IsNotFound err then Ok ()
                         else Err (Wrapped ''cannot delete validating webhook: '' (ApiErr err))
            | Inr _ \<Rightarrow> Ok ())
        }
      | Inl err \<Rightarrow> ret (if IsNotFound err then Ok ()
                       else Err (Wrapped ''cannot retrieve validating webhook: '' (ApiErr err))))
   }"

definition reconcileMutatingWebhook :: "'w client_ops \<Rightarrow> Policy \<Rightarrow> ('w, unit result) api" where
  "reconcileMutatingWebhook cl admissionPolicy = do {
     res \<leftarrow> api_get cl KMutatingWebhookConfiguration (object_key '''' (GetUniqueName admissionPolicy));
     (case as_Mutating res of
        Inr webhook \<Rightarrow> do {
          d \<leftarrow> api_write cl (Delete KMutatingWebhookConfiguration (key_of (OMutating webhook)));
          ret (case d of
              Inl err \<Rightarrow> if IsNotFound err then Ok ()
                         else Err (Wrapped ''cannot delete mutating webhook: '' (ApiErr err))
            | Inr _ \<Rightarrow> Ok ())
        }
      | Inl err \<Rightarrow> ret (if IsNotFound err then Ok ()
                       else Err (Wrapped ''cannot retrieve mutating webhook: '' (ApiErr err))))
   }"

definition remove_finalizer :: "kube_lib \<Rightarrow> ObjectMeta \<Rightarrow> ObjectMeta" where
  "remove_finalizer L m = m\<lparr>Finalizers := RemoveFinalizer L (Finalizers m) KubewardenFinalizer\<rparr>"

definition reconcilePolicyDeletion ::
    "kube_lib \<Rightarrow> 'w client_ops \<Rightarrow> Policy \<Rightarrow> ('w, ctrl_result result) api" where
  "reconcilePolicyDeletion L cl policy = do {
     x \<leftarrow> (if IsMutating policy then reconcileMutatingWebhook cl policy
          else reconcileValidatingWebhook cl policy);
     (case x of
        Panic \<Rightarrow> ret Panic
      | Err e \<Rightarrow> ret (Err e)
      | Ok _ \<Rightarrow> do {
          u \<leftarrow> api_write cl (Update (OPolicy (UpdateMeta (remove_finalizer L) policy)));
          ret (case u of
              Inl err \<Rightarrow> Err (Wrapped ''cannot update admission policy: '' (ApiErr err))
            | Inr _ \<Rightarrow> Ok no_requeue)
        })
   }"

section \<open>The entry points\<close>

definition startReconciling :: "'w client_ops \<Rightarrow> 'w Reconciler \<Rightarrow> Policy \<Rightarrow> ('w, ctrl_result result) api" where
  "startReconciling cl reconciler policy =
     (if DeletionTimestamp (GetObjectMeta policy) \<noteq> None
      then reconcilePolicyDeletion (Lib reconciler) cl policy
      else do {
        (policy1, reconcileResult) \<leftarrow> reconcilePolicy cl reconciler policy;
        (case reconcileResult of
           Panic \<Rightarrow> ret Panic
         | _ \<Rightarrow> do {
             (policy2, _) \<leftarrow> setPolicyStatus (Lib reconciler) (DeploymentsNamespace reconciler)
                (APIReader reconciler) policy1;
             u \<leftarrow> api_write cl (StatusUpdate (OPolicy policy2));
             ret (case u of
                 Inl err \<Rightarrow> Err (Wrapped ''update admission policy status error: '' (ApiErr err))
               | Inr _ \<Rightarrow> reconcileResult)
           })
      })"

definition ap_Reconcile :: "'w Reconciler \<Rightarrow> NamespacedName \<Rightarrow> ('w, ctrl_result result) api" where
  "ap_Reconcile reconciler req = do {
     res \<leftarrow> api_get (APIReader reconciler) KAdmissionPolicy req;
     (case as_AdmissionPolicy res of
        Inl err \<Rightarrow> ret (if IsNotFound err then Ok no_requeue
                       else Err (Wrapped ''cannot retrieve admission policy: '' (ApiErr err)))
      | Inr admissionPolicy \<Rightarrow>
          startReconciling (Client reconciler) reconciler (NamespacedPolicy admissionPolicy))
   }"

definition cap_Reconcile :: "'w Reconciler \<Rightarrow> NamespacedName \<Rightarrow> ('w, ctrl_result result) api" where
  "cap_Reconcile reconciler req = do {
     res \<leftarrow> api_get (APIReader reconciler) KClusterAdmissionPolicy req;
     (case as_ClusterAdmissionPolicy res of
        Inl err \<Rightarrow> ret (if IsNotFound err then Ok no_requeue
                       else Err (Wrapped ''cannot retrieve admission policy: '' (ApiErr err)))
      | Inr clusterAdmissionPolicy \<Rightarrow>
          startReconciling (Client reconciler) reconciler (ClusterPolicy clusterAdmissionPolicy))
   }"

end
