(* ===== verification/Policy_Server_Controller.thy ===== *)
theory Policy_Server_Controller
  imports Policy_Controller
begin

text \<open>
  The controller of the custom resource \<open>PolicyServer\<close>: \<open>controllers/policyserver_controller.go\<close>,
  with the index and watch functions its \<open>SetupWithManager\<close> registers.
\<close>

section \<open>Reconciling\<close>

definition ps_reconcile ::
    "'w crypto_ops \<Rightarrow> 'w Reconciler \<Rightarrow> PolicyServer \<Rightarrow> Policy list \<Rightarrow> ('w, PolicyServer \<times> ctrl_result result) api" where
  "ps_reconcile K r policyServer policies = do {
     (policyServer', x) \<leftarrow> Reconcile K r policyServer policies;
     ret (policyServer', case x of
         Panic \<Rightarrow> Panic
       | Err err \<Rightarrow> if IsPolicyServerNotReady err then Ok (requeue_after 5)
                    else Err (Wrapped ''reconciliation error: '' err)
       | Ok _ \<Rightarrow> Ok no_requeue)
   }"

text \<open>The loop that deletes the policies: \<open>True\<close> when some deletion failed.\<close>

definition policy_kind :: "Policy \<Rightarrow> kind" where
  "policy_kind p = kind_of (OPolicy p)"

fun delete_policies :: "'w client_ops \<Rightarrow> bool \<Rightarrow> Policy list \<Rightarrow> ('w, bool) api" where
  "delete_policies cl someDeletionFailed [] = ret someDeletionFailed"
| "delete_policies cl someDeletionFailed (policy # policies) = do {
     d \<leftarrow> api_write cl (Delete (policy_kind policy) (key_of (OPolicy policy)));
     (case d of
        Inl err \<Rightarrow> delete_policies cl (if IsNotFound err then someDeletionFailed else True) policies
      | Inr _ \<Rightarrow> delete_policies cl someDeletionFailed policies)
   }"

definition ps_reconcileDeletion ::
    "'w Reconciler \<Rightarrow> PolicyServer \<Rightarrow> Policy list \<Rightarrow> ('w, ctrl_result result) api" where
  "ps_reconcileDeletion r policyServer policies = do {
     someDeletionFailed \<leftarrow> delete_policies (Client r) False policies;
     (if someDeletionFailed then
        ret (Err (Plain (''could not remove all policies bound to policy server '' @ Name (psMeta policyServer))))
      else if policies = [] then do {
        (policyServer1, x) \<leftarrow> ReconcileDeletion r policyServer;
        (case x of
           Panic \<Rightarrow> ret Panic
         | Err err \<Rightarrow> ret (Err (Wrapped ''could not reconcile policy server deletion: '' err))
         | Ok _ \<Rightarrow> do {
             let policyServer2 = policyServer1\<lparr>psMeta := remove_finalizer (Lib r) (psMeta policyServer1)\<rparr>;
             u \<leftarrow> api_write (Client r) (Update (OPolicyServer policyServer2));
             ret (case u of
                 Inl err \<Rightarrow> if IsConflict err then Ok no_requeue
                            else Err (Wrapped ''cannot update policy server: '' (ApiErr err))
               | Inr _ \<Rightarrow> Ok no_requeue)
           })
      }
      else ret (Ok requeue_now))
   }"

definition ps_Reconcile :: "'w crypto_ops \<Rightarrow> 'w Reconciler \<Rightarrow> NamespacedName \<Rightarrow> ('w, ctrl_result result) api" where
  "ps_Reconcile K r req = do {
     res \<leftarrow> api_get (Client r) KPolicyServer req;
     (case as_PolicyServer res of
        Inl err \<Rightarrow> ret (if IsNotFound err then Ok no_requeue
                       else Err (Wrapped ''cannot retrieve policy server: '' (ApiErr err)))
      | Inr policyServer \<Rightarrow> do {
          p \<leftarrow> GetPolicies r policyServer SkipDeleted;
          (case p of
             Panic \<Rightarrow> ret Panic
           | Err err \<Rightarrow> ret (Err (Wrapped ''could not get policies: '' err))
           | Ok policies \<Rightarrow>
               if DeletionTimestamp (psMeta policyServer) \<noteq> None
               then ps_reconcileDeletion r policyServer policies
               else do {
                 (policyServer', reconcileResult) \<leftarrow> ps_reconcile K r policyServer policies;
                 (case reconcileResult of
                    Panic \<Rightarrow> ret Panic
                  | _ \<Rightarrow> do {
                      u \<leftarrow> api_write (Client r) (StatusUpdate (OPolicyServer policyServer'));
                      ret (case u of
                          Inl err \<Rightarrow> Err (Wrapped ''update policy server status error: '' (ApiErr err))
                        | Inr _ \<Rightarrow> reconcileResult)
                    })
               })
        })
   }"

section \<open>Index and watches\<close>

definition cap_index :: "api_object \<Rightarrow> string list" where
  "cap_index object = (case object of OPolicy (ClusterPolicy policy) \<Rightarrow> [specPolicyServer (capSpec policy)] | _ \<Rightarrow> [])"

definition ap_index :: "api_object \<Rightarrow> string list" where
  "ap_index object = (case object of OPolicy (NamespacedPolicy policy) \<Rightarrow> [specPolicyServer (apSpec policy)] | _ \<Rightarrow> [])"

definition ap_watch :: "api_object \<Rightarrow> NamespacedName list" where
  "ap_watch object = (case object of
     OPolicy (NamespacedPolicy policy) \<Rightarrow> [object_key '''' (specPolicyServer (apSpec policy))] | _ \<Rightarrow> [])"

definition cap_watch :: "api_object \<Rightarrow> NamespacedName list" where
  "cap_watch object = (case object of
     OPolicy (ClusterPolicy policy) \<Rightarrow> [object_key '''' (specPolicyServer (capSpec policy))] | _ \<Rightarrow> [])"

end
