(* ===== verification/Policy_Watches.thy ===== *)
theory Policy_Watches
  imports Policy_Controller
begin

text \<open>
  Which policies are reconciled again when a pod, a config map or a policy server changes: the
  \<open>find...\<close> methods of the two policy controllers.

  \<open>order\<close> is the order in which a Go \<open>range\<close> visits a map, which the language leaves open; the
  theorems assume only that it lists the map (\<open>enumerates\<close>).
\<close>

type_synonym map_order = "PolicyConfigEntryMap \<Rightarrow> (string \<times> PolicyServerConfigEntry) list"

definition range_over :: "map_order \<Rightarrow> PolicyConfigEntryMap option \<Rightarrow> (string \<times> PolicyServerConfigEntry) list" where
  "range_over order m = (case m of None \<Rightarrow> [] | Some f \<Rightarrow> order f)"

section \<open>AdmissionPolicyReconciler\<close>

definition findAdmissionPoliciesForConfigMap :: "kube_lib \<Rightarrow> map_order \<Rightarrow> api_object \<Rightarrow> NamespacedName list" where
  "findAdmissionPoliciesForConfigMap L order object =
     (case object of
        OConfigMap configMap \<Rightarrow>
          if fmlookup (Labels (cmMeta configMap)) PolicyServerLabelKey = None then []
          else (case getPolicyMapFromConfigMap L configMap of
              Ok policyMap \<Rightarrow> ToAdmissionPolicyReconcileRequests (range_over order policyMap)
            | _ \<Rightarrow> [])
      | _ \<Rightarrow> [])"

definition findAdmissionPoliciesForPod ::
    "'w Reconciler \<Rightarrow> map_order \<Rightarrow> api_object \<Rightarrow> ('w, NamespacedName list) api" where
  "findAdmissionPoliciesForPod r order object =
     (case object of
        OPod pod \<Rightarrow>
          (case fmlookup (Labels (podMeta pod)) PolicyServerLabelKey of
             None \<Rightarrow> ret []
           | Some policyServerName \<Rightarrow>
               if DeletionTimestamp (podMeta pod) \<noteq> None then ret []
               else do {
                 res \<leftarrow> api_get (APIReader r) KConfigMap (object_key (Namespace (podMeta pod))
                   (PolicyServerDeploymentNameForPolicyServerName policyServerName));
                 ret (case as_ConfigMap res of
                     Inl err \<Rightarrow> []
                   | Inr configMap \<Rightarrow> findAdmissionPoliciesForConfigMap (Lib r) order (OConfigMap configMap))
               })
      | _ \<Rightarrow> ret [])"

definition findAdmissionPoliciesForPolicyServer ::
    "'w Reconciler \<Rightarrow> map_order \<Rightarrow> api_object \<Rightarrow> ('w, NamespacedName list) api" where
  "findAdmissionPoliciesForPolicyServer r order object =
     (case object of
        OPolicyServer policyServer \<Rightarrow> do {
          res \<leftarrow> api_get (APIReader r) KConfigMap (object_key (DeploymentsNamespace r)
            (PolicyServerDeploymentNameForPolicyServerName (Name (psMeta policyServer))));
          ret (case as_ConfigMap res of
              Inl err \<Rightarrow> []
            | Inr configMap \<Rightarrow> findAdmissionPoliciesForConfigMap (Lib r) order (OConfigMap configMap))
        }
      | _ \<Rightarrow> ret [])"

section \<open>ClusterAdmissionPolicyReconciler\<close>

definition findClusterAdmissionPoliciesForConfigMap ::
    "kube_lib \<Rightarrow> map_order \<Rightarrow> api_object \<Rightarrow> NamespacedName list" where
  "findClusterAdmissionPoliciesForConfigMap L order object =
     (case object of
        OConfigMap configMap \<Rightarrow>
          (case getPolicyMapFromConfigMap L configMap of
             Ok policyMap \<Rightarrow> ToClusterAdmissionPolicyReconcileRequests (range_over order policyMap)
           | _ \<Rightarrow> [])
      | _ \<Rightarrow> [])"

definition findClusterAdmissionPoliciesForPod ::
    "'w Reconciler \<Rightarrow> map_order \<Rightarrow> api_object \<Rightarrow> ('w, NamespacedName list) api" where
  "findClusterAdmissionPoliciesForPod r order object =
     (case object of
        OPod pod \<Rightarrow>
          (case fmlookup (Labels (podMeta pod)) PolicyServerLabelKey of
             None \<Rightarrow> ret []
           | Some policyServerName \<Rightarrow> do {
               res \<leftarrow> api_get (APIReader r) KConfigMap (object_key (Namespace (podMeta pod))
                 (PolicyServerDeploymentNameForPolicyServerName policyServerName));
               ret (case as_ConfigMap res of
                   Inl err \<Rightarrow> []
                 | Inr configMap \<Rightarrow>
                     findClusterAdmissionPoliciesForConfigMap (Lib r) order (OConfigMap configMap))
             })
      | _ \<Rightarrow> ret [])"

definition findClusterAdmissionPoliciesForPolicyServer ::
    "'w Reconciler \<Rightarrow> map_order \<Rightarrow> api_object \<Rightarrow> ('w, NamespacedName list) api" where
  "findClusterAdmissionPoliciesForPolicyServer r order object =
     (case object of
        OPolicyServer policyServer \<Rightarrow> do {
          res \<leftarrow> api_get (APIReader r) KConfigMap (object_key (DeploymentsNamespace r)
            (PolicyServerDeploymentNameForPolicyServerName (Name (psMeta policyServer))));
          ret (case as_ConfigMap res of
              Inl err \<Rightarrow> []
            | Inr configMap \<Rightarrow>
                findClusterAdmissionPoliciesForConfigMap (Lib r) order (OConfigMap configMap))
        }
      | _ \<Rightarrow> ret [])"

end
