(* ===== verification/Policy_Admission.thy ===== *)
theory Policy_Admission
  imports Api_Client
begin

text \<open>
  The admission webhooks of the custom resources: the defaulters and validators in
  \<open>apis/policies/v1/*_webhook.go\<close>.  A validator returns \<open>None\<close> for a nil error.
\<close>

section \<open>Defaulting\<close>

definition add_kubewarden_finalizer :: "kube_lib \<Rightarrow> ObjectMeta \<Rightarrow> ObjectMeta" where
  "add_kubewarden_finalizer L m = m\<lparr>Finalizers := AddFinalizer L (Finalizers m) KubewardenFinalizer\<rparr>"

definition cap_Default :: "kube_lib \<Rightarrow> string \<Rightarrow> ClusterAdmissionPolicy \<Rightarrow> ClusterAdmissionPolicy" where
  "cap_Default L DefaultPolicyServer r =
     (let r1 = (if specPolicyServer (capSpec r) = ''''
                then r\<lparr>capSpec := (capSpec r)\<lparr>specPolicyServer := DefaultPolicyServer\<rparr>\<rparr> else r)
      in if DeletionTimestamp (capMeta r1) = None
         then r1\<lparr>capMeta := add_kubewarden_finalizer L (capMeta r1)\<rparr> else r1)"

definition ap_Default :: "kube_lib \<Rightarrow> string \<Rightarrow> AdmissionPolicy \<Rightarrow> AdmissionPolicy" where
  "ap_Default L DefaultPolicyServer r =
     (let r1 = (if specPolicyServer (apSpec r) = ''''
                then r\<lparr>apSpec := (apSpec r)\<lparr>specPolicyServer := DefaultPolicyServer\<rparr>\<rparr> else r)
      in if DeletionTimestamp (apMeta r1) = None
         then r1\<lparr>apMeta := add_kubewarden_finalizer L (apMeta r1)\<rparr> else r1)"

fun Default :: "kube_lib \<Rightarrow> string \<Rightarrow> Policy \<Rightarrow> Policy" where
  "Default L d (ClusterPolicy r) = ClusterPolicy (cap_Default L d r)"
| "Default L d (NamespacedPolicy r) = NamespacedPolicy (ap_Default L d r)"

definition ps_Default :: "kube_lib \<Rightarrow> PolicyServer \<Rightarrow> PolicyServer" where
  "ps_Default L ps =
     (if DeletionTimestamp (psMeta ps) = None
      then ps\<lparr>psMeta := add_kubewarden_finalizer L (psMeta ps)\<rparr> else ps)"

section \<open>Validation\<close>

record field_error =
  fePath :: "string list"
  feDetail :: string

text \<open>\<open>apierrors.NewInvalid\<close> with its group, kind, name and field errors, and \<open>NewInternalError\<close>.\<close>

datatype validation_error =
    Invalid string string string "field_error list"
  | InternalError string

definition group_name :: string where [const_defs]:
  "group_name = ''policies.kubewarden.io''"

definition validatePolicyUpdate :: "Policy \<Rightarrow> Policy \<Rightarrow> validation_error option" where
  "validatePolicyUpdate oldPolicy newPolicy =
     (if GetPolicyServer newPolicy \<noteq> GetPolicyServer oldPolicy then
        Some (Invalid group_name ''ClusterAdmissionPolicy'' (GetName newPolicy)
          [\<lparr>fePath = [''spec'', ''policyServer''], feDetail = ''the field is immutable''\<rparr>])
      else if GetPolicyMode newPolicy = ''monitor'' \<and> GetPolicyMode oldPolicy = ''protect'' then
        Some (Invalid group_name ''ClusterAdmissionPolicy'' (GetName newPolicy)
          [\<lparr>fePath = [''spec'', ''mode''],
             feDetail = ''field cannot transition from protect to monitor. Recreate instead.''\<rparr>])
      else None)"

text \<open>The old object comes from the API server as a value of the type \<open>runtime.Object\<close>.\<close>

definition cap_ValidateUpdate :: "ClusterAdmissionPolicy \<Rightarrow> api_object \<Rightarrow> validation_error option" where
  "cap_ValidateUpdate r old =
     (case old of
        OPolicy (ClusterPolicy oldPolicy) \<Rightarrow> validatePolicyUpdate (ClusterPolicy oldPolicy) (ClusterPolicy r)
      | _ \<Rightarrow> Some (InternalError ''object is not of type ClusterAdmissionPolicy''))"

definition ap_ValidateUpdate :: "AdmissionPolicy \<Rightarrow> api_object \<Rightarrow> validation_error option" where
  "ap_ValidateUpdate r old =
     (case old of
        OPolicy (NamespacedPolicy oldPolicy) \<Rightarrow>
          validatePolicyUpdate (NamespacedPolicy oldPolicy) (NamespacedPolicy r)
      | _ \<Rightarrow> Some (InternalError ''object is not of type AdmissionPolicy''))"

definition cap_ValidateCreate :: "ClusterAdmissionPolicy \<Rightarrow> validation_error option" where
  "cap_ValidateCreate r = None"

definition cap_ValidateDelete :: "ClusterAdmissionPolicy \<Rightarrow> validation_error option" where
  "cap_ValidateDelete r = None"

definition ap_ValidateCreate :: "AdmissionPolicy \<Rightarrow> validation_error option" where
  "ap_ValidateCreate r = None"

definition ap_ValidateDelete :: "AdmissionPolicy \<Rightarrow> validation_error option" where
  "ap_ValidateDelete r = None"

fun ValidateUpdate :: "Policy \<Rightarrow> api_object \<Rightarrow> validation_error option" where
  "ValidateUpdate (ClusterPolicy r) old = cap_ValidateUpdate r old"
| "ValidateUpdate (NamespacedPolicy r) old = ap_ValidateUpdate r old"

section \<open>What an accepted update may change\<close>

lemma validatePolicyUpdate_None:
  "validatePolicyUpdate p q = None \<longleftrightarrow>
     GetPolicyServer q = GetPolicyServer p \<and>
     \<not> (GetPolicyMode q = ''monitor'' \<and> GetPolicyMode p = ''protect'')"
  by (auto simp: validatePolicyUpdate_def)

fun same_kind :: "Policy \<Rightarrow> Policy \<Rightarrow> bool" where
  "same_kind (ClusterPolicy p) (ClusterPolicy q) = True"
| "same_kind (NamespacedPolicy p) (NamespacedPolicy q) = True"
| "same_kind p q = False"

lemma ValidateUpdate_None:
  "ValidateUpdate q (OPolicy p) = None \<longleftrightarrow> same_kind p q \<and> validatePolicyUpdate p q = None"
  by (cases p; cases q) (simp_all add: cap_ValidateUpdate_def ap_ValidateUpdate_def)

text \<open>
  The versions of one policy over its life: each is admitted as an update of the one before, and
  its mode is one of the values the CRD schema allows (an empty mode is defaulted to \<open>protect\<close>
  by the API server before admission).
\<close>

definition mode_enum :: "Policy \<Rightarrow> bool" where
  "mode_enum p \<longleftrightarrow> GetPolicyMode p \<in> {''protect'', ''monitor''}"

inductive policy_history :: "Policy \<Rightarrow> Policy \<Rightarrow> bool" where
  created: "mode_enum p \<Longrightarrow> policy_history p p"
| updated: "policy_history p q \<Longrightarrow> mode_enum r \<Longrightarrow> ValidateUpdate r (OPolicy q) = None \<Longrightarrow>
     policy_history p r"

inductive_cases policy_historyE: "policy_history p q"

lemma policy_history_server:
  "policy_history p q \<Longrightarrow> GetPolicyServer q = GetPolicyServer p"
  by (induction rule: policy_history.induct) (auto simp: ValidateUpdate_None validatePolicyUpdate_None)

lemma same_kind_trans: "same_kind p q \<Longrightarrow> same_kind q r \<Longrightarrow> same_kind p r"
  by (cases p; cases q; cases r) simp_all

lemma policy_history_kind: "policy_history p q \<Longrightarrow> same_kind p q"
proof (induction rule: policy_history.induct)
  case (created p)
  then show ?case by (cases p) simp_all
next
  case (updated p q r)
  from updated.hyps(3) have "same_kind q r" by (simp add: ValidateUpdate_None)
  with updated.IH show ?case by (rule same_kind_trans)
qed

lemma policy_history_protect:
  "policy_history p q \<Longrightarrow> GetPolicyMode p = ''protect'' \<Longrightarrow> GetPolicyMode q = ''protect''"
proof (induction rule: policy_history.induct)
  case (updated p q r)
  then show ?case
    by (auto simp: ValidateUpdate_None validatePolicyUpdate_None mode_enum_def)
qed simp

section \<open>Defaulted objects\<close>

lemma finalizer_add_mem:
  "finalizer_law L \<Longrightarrow> f \<in> set (AddFinalizer L fs f)"
  by (simp add: finalizer_law_def)

lemma finalizer_add_idem:
  "finalizer_law L \<Longrightarrow> AddFinalizer L (AddFinalizer L fs f) f = AddFinalizer L fs f"
  by (simp add: finalizer_law_def)

lemma finalizer_remove_mem:
  "finalizer_law L \<Longrightarrow> g \<in> set (RemoveFinalizer L fs f) \<longleftrightarrow> g \<in> set fs \<and> g \<noteq> f"
  by (simp add: finalizer_law_def)

lemma Default_policy_server:
  "GetPolicyServer (Default L d p) = (if GetPolicyServer p = '''' then d else GetPolicyServer p)"
  by (cases p) (simp_all add: cap_Default_def ap_Default_def cap_method_defs ap_method_defs Let_def)

lemma Default_meta:
  "GetObjectMeta (Default L d p) =
     (if DeletionTimestamp (GetObjectMeta p) = None
      then add_kubewarden_finalizer L (GetObjectMeta p) else GetObjectMeta p)"
  by (cases p) (simp_all add: cap_Default_def ap_Default_def Let_def)

lemma Default_idem:
  assumes "finalizer_law L"
  shows "Default L d (Default L d p) = Default L d p"
  using finalizer_add_idem [OF assms]
  by (cases p) (simp_all add: cap_Default_def ap_Default_def Let_def add_kubewarden_finalizer_def)

lemma same_kind_Default [simp]: "same_kind p (Default L d q) = same_kind p q"
  by (cases p; cases q) simp_all

lemma Default_mode [simp]: "GetPolicyMode (Default L d q) = GetPolicyMode q"
  by (cases q) (simp_all add: cap_Default_def ap_Default_def cap_method_defs ap_method_defs Let_def)

section \<open>Properties\<close>

text \<open>
  C17. Over its whole life a policy stays bound to the policy server it was created with, keeps its
  kind, and once its mode is \<open>protect\<close> it is never again \<open>monitor\<close>, whatever updates are accepted.
\<close>

theorem policy_history_invariant:
  assumes "policy_history p q"
  shows "same_kind p q \<and> GetPolicyServer q = GetPolicyServer p \<and>
     (GetPolicyMode p = ''protect'' \<longrightarrow> GetPolicyMode q = ''protect'')"
  using policy_history_kind [OF assms] policy_history_server [OF assms] policy_history_protect [OF assms]
  by simp

lemma demo_history:
  "policy_history (demo_policy ''s'' ''monitor'' ''a'') (demo_policy ''s'' ''protect'' ''a'')"
proof (rule policy_history.updated)
  show "policy_history (demo_policy ''s'' ''monitor'' ''a'') (demo_policy ''s'' ''monitor'' ''a'')"
    by (rule policy_history.created) (simp add: mode_enum_def demo_defs cap_method_defs)
qed (simp_all add: mode_enum_def demo_defs cap_method_defs cap_ValidateUpdate_def validatePolicyUpdate_def)

theorem policy_history_invariant_witness:
  "same_kind (demo_policy ''s'' ''monitor'' ''a'') (demo_policy ''s'' ''protect'' ''a'') \<and>
   GetPolicyServer (demo_policy ''s'' ''protect'' ''a'') = ''s''"
  using policy_history_invariant [OF demo_history] by (simp add: demo_defs cap_method_defs)

text \<open>
  The two webhooks together: an update that went through the defaulter is accepted exactly
  when the kind is the same, the mode does not go from \<open>protect\<close> to \<open>monitor\<close>, and the policy
  server is the old one, an empty field counting as the default policy server (so dropping the
  field from a policy bound to another server is rejected).
\<close>

theorem update_through_webhooks:
  "ValidateUpdate (Default L d q) (OPolicy p) = None \<longleftrightarrow>
     same_kind p q \<and>
     GetPolicyServer p = (if GetPolicyServer q = '''' then d else GetPolicyServer q) \<and>
     \<not> (GetPolicyMode q = ''monitor'' \<and> GetPolicyMode p = ''protect'')"
  by (auto simp: ValidateUpdate_None validatePolicyUpdate_None Default_policy_server)

text \<open>
  Defaulting is idempotent; it gives every policy that is not being deleted the finalizer
  that makes the controller clean up its webhook, keeps the finalizers that are there, and leaves
  the metadata of a policy being deleted alone (so that the finalizer can be removed).
\<close>

theorem Default_finalizer:
  assumes "finalizer_law L"
  shows "Default L d (Default L d p) = Default L d p \<and>
     set (Finalizers (GetObjectMeta p)) \<subseteq> set (Finalizers (GetObjectMeta (Default L d p))) \<and>
     (if DeletionTimestamp (GetObjectMeta p) = None
      then KubewardenFinalizer \<in> set (Finalizers (GetObjectMeta (Default L d p)))
      else GetObjectMeta (Default L d p) = GetObjectMeta p)"
  using Default_idem [OF assms] assms
  by (auto simp: Default_meta add_kubewarden_finalizer_def finalizer_law_def)

theorem Default_finalizer_witness:
  "KubewardenFinalizer \<in> set (Finalizers (GetObjectMeta
     (Default ref_lib ''default'' (demo_policy '''' ''monitor'' ''a''))))"
  using Default_finalizer [OF ref_lib_finalizers, of "''default''" "demo_policy '''' ''monitor'' ''a''"]
  by (simp add: demo_defs)

end
