(* ===== verification/Manager_Setup.thy ===== *)
theory Manager_Setup
  imports Policy_Server_Controller Policy_Watches Policy_Admission
begin

text \<open>
  The rest of the program: the environment and the table of webhooks of \<open>main.go\<close> and
  \<open>environment.go\<close>, the labels of the policy counter (\<open>internal/pkg/metrics\<close>) and
  \<open>UpdateAdmissionPolicyStatus\<close>.
\<close>

section \<open>The environment\<close>

record environment =
  env_deploymentsNamespace :: string
  env_developmentMode :: bool
  env_webhookHostListen :: string
  env_webhookHostAdvertise :: string

text \<open>
  \<open>getenv\<close> is \<open>os.Getenv\<close>, which returns the empty string for a variable that is not set.
  \<open>Inl\<close> is the message of \<open>log.Fatal\<close>, which ends the process.
\<close>

definition readEnvironment :: "(string \<Rightarrow> string) \<Rightarrow> string + environment" where
  "readEnvironment getenv =
     (let mode = getenv ''KUBEWARDEN_DEVELOPMENT_MODE'';
          res = \<lparr>env_deploymentsNamespace = getenv ''NAMESPACE'',
                 env_developmentMode = (mode = ''1'' \<or> mode = ''true''),
                 env_webhookHostListen = getenv ''WEBHOOK_HOST_LISTEN'',
                 env_webhookHostAdvertise = getenv ''WEBHOOK_HOST_ADVERTISE''\<rparr>
      in if env_developmentMode res then
           if env_webhookHostListen res = '''' \<and> env_webhookHostAdvertise res = '''' then
             Inl ''Either WEBHOOK_HOST_LISTEN or WEBHOOK_HOST_ADVERTISE has to be provided along with KUBEWARDEN_DEVELOPMENT_MODE''
           else if env_webhookHostListen res = '''' \<and> env_webhookHostAdvertise res \<noteq> '''' then
             Inr (res\<lparr>env_webhookHostListen := env_webhookHostAdvertise res\<rparr>)
           else if env_webhookHostListen res \<noteq> '''' \<and> env_webhookHostAdvertise res = '''' then
             Inr (res\<lparr>env_webhookHostAdvertise := env_webhookHostListen res\<rparr>)
           else Inr res
         else Inr res)"

text \<open>The flag \<open>-deployments-namespace\<close> wins over the variable \<open>NAMESPACE\<close>.\<close>

definition deployments_namespace :: "string \<Rightarrow> environment \<Rightarrow> string" where
  "deployments_namespace flag e = (if flag = '''' then env_deploymentsNamespace e else flag)"

section \<open>The table of webhooks\<close>

datatype registrator = PolicyServerRegistrator | ClusterAdmissionPolicyRegistrator | AdmissionPolicyRegistrator

record WebhookRegistrator =
  regRegistrator :: registrator
  regName :: string
  regRules :: "RuleWithOperations list"
  regPath :: string
  regMutating :: bool

definition GroupVersion_Version :: string where [const_defs]: "GroupVersion_Version = ''v1''"

definition webhook_rule :: "string list \<Rightarrow> string \<Rightarrow> RuleWithOperations" where
  "webhook_rule operations resource =
     \<lparr>ruleOperations = Some operations, ruleAPIGroups = Some [group_name],
      ruleAPIVersions = Some [GroupVersion_Version], ruleResources = Some [resource], ruleScope = None\<rparr>"

definition webhooks :: "WebhookRegistrator list" where
  "webhooks =
     [\<lparr>regRegistrator = PolicyServerRegistrator, regName = ''mutate-policyservers.kubewarden.dev'',
       regRules = [webhook_rule [''CREATE'', ''UPDATE''] ''policyservers''],
       regPath = ''/mutate-policies-kubewarden-io-v1-policyserver'', regMutating = True\<rparr>,
      \<lparr>regRegistrator = ClusterAdmissionPolicyRegistrator,
       regName = ''mutate-clusteradmissionpolicies.kubewarden.dev'',
       regRules = [webhook_rule [''CREATE'', ''UPDATE''] ''clusteradmissionpolicies''],
       regPath = ''/mutate-policies-kubewarden-io-v1-clusteradmissionpolicy'', regMutating = True\<rparr>,
      \<lparr>regRegistrator = ClusterAdmissionPolicyRegistrator,
       regName = ''validate-clusteradmissionpolicies.kubewarden.dev'',
       regRules = [webhook_rule [''CREATE'', ''UPDATE''] ''clusteradmissionpolicies''],
       regPath = ''/validate-policies-kubewarden-io-v1-clusteradmissionpolicy'', regMutating = False\<rparr>,
      \<lparr>regRegistrator = AdmissionPolicyRegistrator, regName = ''mutate-admissionpolicies.kubewarden.dev'',
       regRules = [webhook_rule [''CREATE'', ''UPDATE''] ''admissionpolicies''],
       regPath = ''/mutate-policies-kubewarden-io-v1-admissionpolicy'', regMutating = True\<rparr>,
      \<lparr>regRegistrator = AdmissionPolicyRegistrator, regName = ''validate-admissionpolicies.kubewarden.dev'',
       regRules = [webhook_rule [''UPDATE''] ''admissionpolicies''],
       regPath = ''/validate-policies-kubewarden-io-v1-admissionpolicy'', regMutating = False\<rparr>]"

section \<open>Metrics\<close>

datatype attribute = AttrString string string | AttrBool string bool

definition policy_count_labels :: "Policy \<Rightarrow> attribute list" where
  "policy_count_labels policy =
     [AttrString ''name'' (GetUniqueName policy),
      AttrString ''policy_server'' (GetPolicyServer policy),
      AttrString ''module'' (GetModule policy),
      AttrBool ''mutating'' (IsMutating policy),
      AttrString ''namespace'' (GetNamespace policy),
      AttrString ''failure_policy'' (case GetFailurePolicy policy of None \<Rightarrow> '''' | Some f \<Rightarrow> f),
      AttrString ''policy_status'' (statPolicyStatus (GetStatus policy))]"

text \<open>
  The counter of the OpenTelemetry library is a parameter: \<open>create\<close> makes it or fails, \<open>add\<close> adds
  one with the labels.
\<close>

definition RecordPolicyCount ::
    "('w \<Rightarrow> (string + unit) \<times> 'w) \<Rightarrow> (attribute list \<Rightarrow> 'w \<Rightarrow> unit \<times> 'w) \<Rightarrow> Policy \<Rightarrow> ('w, unit result) api" where
  "RecordPolicyCount create add policy = do {
     c \<leftarrow> effect create;
     (case c of
        Inl err \<Rightarrow> ret (Err (Wrapped ''cannot create the instrument: '' (Plain err)))
      | Inr _ \<Rightarrow> do {
          _ \<leftarrow> effect (add (policy_count_labels policy));
          ret (Ok ())
        })
   }"

text \<open>\<open>quoted\<close> is the text that the verb \<open>%q\<close> prints for the metadata of the policy.\<close>

definition UpdateAdmissionPolicyStatus ::
    "('w \<Rightarrow> (string + unit) \<times> 'w) \<Rightarrow> (attribute list \<Rightarrow> 'w \<Rightarrow> unit \<times> 'w) \<Rightarrow> (ObjectMeta \<Rightarrow> string) \<Rightarrow>
     'w Reconciler \<Rightarrow> Policy \<Rightarrow> ('w, unit result) api" where
  "UpdateAdmissionPolicyStatus create add quoted r policy = do {
     u \<leftarrow> api_write (Client r) (StatusUpdate (OPolicy policy));
     (case u of
        Inl err \<Rightarrow> ret (Err (Wrapped (''failed to update status of Policy '' @ quoted (GetObjectMeta policy) @ '', '')
          (ApiErr err)))
      | Inr _ \<Rightarrow> do {
          m \<leftarrow> RecordPolicyCount create add policy;
          ret (map_err (Wrapped ''failed to record policy mestrics: '') m)
        })
   }"

section \<open>Properties\<close>

text \<open>
  The environment: in development mode the program either stops, when neither webhook host is
  given, or has both hosts, the one that is given standing for the other; otherwise it takes the
  variables as they are.
\<close>

theorem readEnvironment_hosts:
  "case readEnvironment getenv of
     Inl msg \<Rightarrow> getenv ''KUBEWARDEN_DEVELOPMENT_MODE'' \<in> {''1'', ''true''} \<and>
       getenv ''WEBHOOK_HOST_LISTEN'' = '''' \<and> getenv ''WEBHOOK_HOST_ADVERTISE'' = ''''
   | Inr e \<Rightarrow> env_deploymentsNamespace e = getenv ''NAMESPACE'' \<and>
       (env_developmentMode e \<longleftrightarrow> getenv ''KUBEWARDEN_DEVELOPMENT_MODE'' \<in> {''1'', ''true''}) \<and>
       (if env_developmentMode e
        then env_webhookHostListen e \<noteq> '''' \<and> env_webhookHostAdvertise e \<noteq> '''' \<and>
          env_webhookHostListen e \<in> {getenv ''WEBHOOK_HOST_LISTEN'', getenv ''WEBHOOK_HOST_ADVERTISE''} \<and>
          env_webhookHostAdvertise e \<in> {getenv ''WEBHOOK_HOST_LISTEN'', getenv ''WEBHOOK_HOST_ADVERTISE''} \<and>
          (getenv ''WEBHOOK_HOST_LISTEN'' = '''' \<or> env_webhookHostListen e = getenv ''WEBHOOK_HOST_LISTEN'')
        else env_webhookHostListen e = getenv ''WEBHOOK_HOST_LISTEN'' \<and>
          env_webhookHostAdvertise e = getenv ''WEBHOOK_HOST_ADVERTISE'')"
  by (simp add: readEnvironment_def Let_def)

text \<open>The path that the library serves a webhook of the kind on.\<close>

definition webhook_path :: "bool \<Rightarrow> string \<Rightarrow> string" where
  "webhook_path mutating lower_kind = (if mutating then ''/mutate-'' else ''/validate-'') @
     map (\<lambda>c. if c = CHR ''.'' then CHR ''-'' else c) group_name @ ''-'' @ GroupVersion_Version @ ''-'' @ lower_kind"

fun lower_kind :: "registrator \<Rightarrow> string" where
  "lower_kind PolicyServerRegistrator = ''policyserver''"
| "lower_kind ClusterAdmissionPolicyRegistrator = ''clusteradmissionpolicy''"
| "lower_kind AdmissionPolicyRegistrator = ''admissionpolicy''"

text \<open>
  The table of webhooks is consistent: names and paths are pairwise different, the path of each
  is the one of its kind and sort, every kind is defaulted when it is created and when it is
  updated, and the two kinds of policy, and no other, are validated when they are updated.
\<close>

theorem webhooks_consistent:
  "distinct (map regName webhooks) \<and> distinct (map regPath webhooks) \<and>
   list_all (\<lambda>w. regPath w = webhook_path (regMutating w) (lower_kind (regRegistrator w))) webhooks \<and>
   (\<forall>k. \<exists>w \<in> set webhooks. regRegistrator w = k \<and> regMutating w \<and>
      map ruleOperations (regRules w) = [Some [''CREATE'', ''UPDATE'']]) \<and>
   map regRegistrator (filter (\<lambda>w. \<not> regMutating w \<and>
      list_ex (\<lambda>rule. ''UPDATE'' \<in> set (elems (ruleOperations rule))) (regRules w)) webhooks)
     = [ClusterAdmissionPolicyRegistrator, AdmissionPolicyRegistrator]"
proof (intro conjI allI)
  show "\<exists>w \<in> set webhooks. regRegistrator w = k \<and> regMutating w \<and> map ruleOperations (regRules w) = [Some [''CREATE'', ''UPDATE'']]" for k
    by (cases k) (simp_all add: webhooks_def webhook_rule_def)
qed (auto simp: webhooks_def webhook_path_def webhook_rule_def group_name_def GroupVersion_Version_def)

end
