(* ===== verification/Program_Start.thy ===== *)
theory Program_Start
  imports Manager_Setup Server_Service
begin

text \<open>
  The start of the program: \<open>main\<close> with its flags, \<open>metrics.New\<close>, and the methods \<open>SetupWithManager\<close>
  of the three controllers.

  The libraries that the start calls (the manager and its builder, the exporter of the metrics) are
  one arbitrary function: for each step it says whether the step fails and with which text.  The
  steps are recorded, so that theorems can speak of what was set up before what.
\<close>

section \<open>Steps\<close>

text \<open>
  A controller as the builder of the library gets it: the kind it reconciles, the kinds it watches
  besides with the function that maps an object to requests, and its \<open>Reconcile\<close> method.
\<close>

record 'w controller =
  ctlFor :: kind
  ctlWatches :: "(kind \<times> (api_object \<Rightarrow> ('w, NamespacedName list) api)) list"
  ctlReconcile :: "NamespacedName \<Rightarrow> ('w, ctrl_result result) api"

record manager_options =
  optMetricsBindAddress :: string
  optHost :: string
  optPort :: nat
  optHealthProbeBindAddress :: string
  optLeaderElection :: bool
  optLeaderElectionID :: string
  optClientDisableCacheFor :: "kind list"
  optDevelopmentMode :: bool
  optWebhookAdvertiseHost :: string
  optWebhooks :: "WebhookRegistrator list"

datatype 'w setup_step =
    NewMetricExporter string
  | StartMetricController
  | NewManager manager_options
  | IndexField kind string "api_object \<Rightarrow> string list"
  | CompleteController "'w controller"
  | CompleteWebhook kind
  | AddHealthzCheck string
  | AddReadyzCheck string
  | StartManager

type_synonym ('w, 's) library = "'w setup_step \<Rightarrow> 's \<Rightarrow> string option \<times> 's"
type_synonym ('w, 's, 'a) startup = "('s \<times> ('w setup_step \<times> string option) list, 'a) state"

definition perform :: "('w, 's) library \<Rightarrow> 'w setup_step \<Rightarrow> ('w, 's, string option) startup" where
  "perform lib a = State (\<lambda>(s, steps). let (err, s') = lib a s in (err, (s', steps @ [(a, err)])))"

text \<open>The text of \<open>errors.Wrap(err, msg)\<close> and of \<open>fmt.Errorf(msg + ": %w", err)\<close>.\<close>

definition wrap_text :: "string \<Rightarrow> string \<Rightarrow> string" where
  "wrap_text msg err = msg @ '': '' @ err"

section \<open>Metrics\<close>

text \<open>Making the client and setting the global meter provider cannot fail and leave no trace.\<close>

definition metrics_New :: "('w, 's) library \<Rightarrow> string \<Rightarrow> ('w, 's, string option) startup" where
  "metrics_New lib openTelemetryEndpoint = do {
     err \<leftarrow> perform lib (NewMetricExporter openTelemetryEndpoint);
     (case err of
        Some e \<Rightarrow> ret (Some (wrap_text ''cannot start metric exporter'' e))
      | None \<Rightarrow> do {
          err \<leftarrow> perform lib StartMetricController;
          (case err of
             Some e \<Rightarrow> ret (Some (wrap_text ''cannot start metric controller'' e))
           | None \<Rightarrow> ret None)
        })
   }"

section \<open>Setting up the controllers\<close>

definition ps_controller :: "'w crypto_ops \<Rightarrow> 'w Reconciler \<Rightarrow> 'w controller" where
  "ps_controller K r = \<lparr>ctlFor = KPolicyServer,
     ctlWatches = [(KAdmissionPolicy, \<lambda>object. ret (ap_watch object)),
       (KClusterAdmissionPolicy, \<lambda>object. ret (cap_watch object))],
     ctlReconcile = ps_Reconcile K r\<rparr>"

definition ps_SetupWithManager :: "('w, 's) library \<Rightarrow> 'w crypto_ops \<Rightarrow> 'w Reconciler \<Rightarrow> ('w, 's, string option) startup" where
  "ps_SetupWithManager lib K r = do {
     err \<leftarrow> perform lib (IndexField KClusterAdmissionPolicy PolicyServerIndexKey cap_index);
     (case err of
        Some e \<Rightarrow> ret (Some (wrap_text ''failed enrolling controller with manager'' e))
      | None \<Rightarrow> do {
          err \<leftarrow> perform lib (IndexField KAdmissionPolicy PolicyServerIndexKey ap_index);
          (case err of
             Some e \<Rightarrow> ret (Some (wrap_text ''failed enrolling controller with manager'' e))
           | None \<Rightarrow> do {
               err \<leftarrow> perform lib (CompleteController (ps_controller K r));
               ret (map_option (wrap_text ''failed enrolling controller with manager'') err)
             })
        })
   }"

definition ap_controller :: "map_order \<Rightarrow> 'w Reconciler \<Rightarrow> 'w controller" where
  "ap_controller order r = \<lparr>ctlFor = KAdmissionPolicy,
     ctlWatches = [(KPod, findAdmissionPoliciesForPod r order),
       (KPolicyServer, findAdmissionPoliciesForPolicyServer r order)],
     ctlReconcile = ap_Reconcile r\<rparr>"

definition ap_SetupWithManager :: "('w, 's) library \<Rightarrow> map_order \<Rightarrow> 'w Reconciler \<Rightarrow> ('w, 's, string option) startup" where
  "ap_SetupWithManager lib order r = do {
     err \<leftarrow> perform lib (CompleteController (ap_controller order r));
     ret (map_option (wrap_text ''failed enrolling controller with manager'') err)
   }"

definition cap_controller :: "map_order \<Rightarrow> 'w Reconciler \<Rightarrow> 'w controller" where
  "cap_controller order r = \<lparr>ctlFor = KClusterAdmissionPolicy,
     ctlWatches = [(KPod, findClusterAdmissionPoliciesForPod r order),
       (KPolicyServer, findClusterAdmissionPoliciesForPolicyServer r order)],
     ctlReconcile = cap_Reconcile r\<rparr>"

definition cap_SetupWithManager :: "('w, 's) library \<Rightarrow> map_order \<Rightarrow> 'w Reconciler \<Rightarrow> ('w, 's, string option) startup" where
  "cap_SetupWithManager lib order r = do {
     err \<leftarrow> perform lib (CompleteController (cap_controller order r));
     ret (map_option (wrap_text ''failed enrolling controller with manager'') err)
   }"

section \<open>The function main\<close>

text \<open>The variables that the flags set, with their defaults; parsing the command line is the library's.\<close>

record flags =
  metricsAddr :: string
  enableLeaderElection :: bool
  deploymentsNamespaceFlag :: string
  alwaysAcceptAdmissionReviewsOnDeploymentsNamespace :: bool
  probeAddr :: string
  enableMetrics :: bool
  openTelemetryEndpoint :: string
  defaultPolicyServerFlag :: string

definition default_flags :: flags where
  "default_flags = \<lparr>metricsAddr = '':8088'', enableLeaderElection = False, deploymentsNamespaceFlag = '''',
     alwaysAcceptAdmissionReviewsOnDeploymentsNamespace = False, probeAddr = '':8081'', enableMetrics = False,
     openTelemetryEndpoint = ''127.0.0.1:4317'', defaultPolicyServerFlag = ''''\<rparr>"

definition manager_opts :: "flags \<Rightarrow> environment \<Rightarrow> manager_options" where
  "manager_opts f e = \<lparr>optMetricsBindAddress = metricsAddr f, optHost = env_webhookHostListen e, optPort = 9443,
     optHealthProbeBindAddress = probeAddr f, optLeaderElection = enableLeaderElection f,
     optLeaderElectionID = ''a4ddbf36.kubewarden.io'', optClientDisableCacheFor = [KConfigMap, KDeployment],
     optDevelopmentMode = env_developmentMode e, optWebhookAdvertiseHost = env_webhookHostAdvertise e,
     optWebhooks = webhooks\<rparr>"

text \<open>
  The client and the reader of the manager, the libraries and the port of the metrics, which the
  package \<open>admission\<close> reads when it is initialised, are arguments.  \<open>Exited\<close> is \<open>os.Exit\<close> (or
  \<open>log.Fatal\<close>, which exits with status 1).
\<close>

datatype exit_status = Exited nat | Returned

definition new_reconciler :: "'w client_ops \<Rightarrow> 'w reader_ops \<Rightarrow> kube_lib \<Rightarrow> int32 \<Rightarrow> flags \<Rightarrow> environment \<Rightarrow> 'w Reconciler" where
  "new_reconciler cl rd L port f e = \<lparr>Client = cl, APIReader = rd,
     DeploymentsNamespace = deployments_namespace (deploymentsNamespaceFlag f) e,
     AlwaysAcceptAdmissionReviewsInDeploymentsNamespace = alwaysAcceptAdmissionReviewsOnDeploymentsNamespace f,
     Lib = L, metricsPort = port\<rparr>"

definition or_exit :: "('w, 's, string option) startup \<Rightarrow> ('w, 's, exit_status) startup \<Rightarrow> ('w, 's, exit_status) startup" where
  "or_exit m k = do { err \<leftarrow> m; (case err of Some e \<Rightarrow> ret (Exited 1) | None \<Rightarrow> k) }"

definition main :: "('w, 's) library \<Rightarrow> (string \<Rightarrow> string) \<Rightarrow> flags \<Rightarrow> 'w client_ops \<Rightarrow> 'w reader_ops \<Rightarrow> kube_lib \<Rightarrow>
    'w crypto_ops \<Rightarrow> map_order \<Rightarrow> int32 \<Rightarrow> ('w, 's, exit_status) startup" where
  "main lib getenv f cl rd L K order port =
     (case readEnvironment getenv of
        Inl msg \<Rightarrow> ret (Exited 1)
      | Inr environment \<Rightarrow>
          or_exit (if enableMetrics f then metrics_New lib (openTelemetryEndpoint f) else ret None) (
          or_exit (perform lib (NewManager (manager_opts f environment))) (
          let reconciler = new_reconciler cl rd L port f environment in
          or_exit (ps_SetupWithManager lib K reconciler) (
          or_exit (ap_SetupWithManager lib order reconciler) (
          or_exit (cap_SetupWithManager lib order reconciler) (
          or_exit (perform lib (AddHealthzCheck ''healthz'')) (
          or_exit (perform lib (AddReadyzCheck ''readyz'')) (
          or_exit (perform lib StartManager) (
          ret Returned)))))))))"

section \<open>The order of the start\<close>

text \<open>Performing a list of steps until one fails.\<close>

fun perform_all :: "('w, 's) library \<Rightarrow> 'w setup_step list \<Rightarrow> ('w, 's, exit_status) startup \<Rightarrow> ('w, 's, exit_status) startup" where
  "perform_all lib [] k = k"
| "perform_all lib (a # as) k = or_exit (perform lib a) (perform_all lib as k)"

definition startup_steps :: "flags \<Rightarrow> environment \<Rightarrow> 'w crypto_ops \<Rightarrow> map_order \<Rightarrow> 'w Reconciler \<Rightarrow> 'w setup_step list" where
  "startup_steps f e K order r =
     (if enableMetrics f then [NewMetricExporter (openTelemetryEndpoint f), StartMetricController] else []) @
     [NewManager (manager_opts f e),
      IndexField KClusterAdmissionPolicy PolicyServerIndexKey cap_index,
      IndexField KAdmissionPolicy PolicyServerIndexKey ap_index,
      CompleteController (ps_controller K r), CompleteController (ap_controller order r),
      CompleteController (cap_controller order r),
      AddHealthzCheck ''healthz'', AddReadyzCheck ''readyz'', StartManager]"

lemma state_bind_assoc:
  "State_Monad.bind (State_Monad.bind m f) g = State_Monad.bind m (\<lambda>x. State_Monad.bind (f x) g)"
  by (rule state_ext) (simp split: prod.splits)

lemma state_bind_ret: "State_Monad.bind (ret x) f = f x"
  by (rule state_ext) simp

lemma or_exit_ret: "or_exit (ret None) k = k"
  by (simp add: or_exit_def state_bind_ret)

lemma or_exit_wrapped:
  "or_exit (do { err \<leftarrow> m; ret (map_option g err) }) k = or_exit m k"
  by (simp add: or_exit_def state_bind_assoc state_bind_ret) (rule state_ext; simp split: prod.splits option.splits)

lemma or_exit_case:
  "or_exit (do { err \<leftarrow> m; (case err of Some e \<Rightarrow> ret (Some (g e)) | None \<Rightarrow> n) }) k = or_exit m (or_exit n k)"
  by (simp add: or_exit_def state_bind_assoc state_bind_ret) (rule state_ext; simp split: prod.splits option.splits)

lemma main_eq:
  "main lib getenv f cl rd L K order port = (case readEnvironment getenv of
     Inl msg \<Rightarrow> ret (Exited 1)
   | Inr e \<Rightarrow> perform_all lib (startup_steps f e K order (new_reconciler cl rd L port f e)) (ret Returned))"
  by (simp add: main_def startup_steps_def metrics_New_def ps_SetupWithManager_def ap_SetupWithManager_def
      cap_SetupWithManager_def or_exit_wrapped or_exit_case or_exit_ret Let_def split: sum.split)

lemma run_perform_all:
  assumes "run_state (perform_all lib as (ret Returned)) (s, pre) = (status, (s', steps))"
  shows "\<exists>new. steps = pre @ new \<and>
    ((status = Returned \<and> map fst new = as \<and> list_all (\<lambda>(a, err). err = None) new) \<or>
     (\<exists>a err later. status = Exited 1 \<and> as = map fst new @ later \<and> new \<noteq> [] \<and> last new = (a, Some err) \<and>
        list_all (\<lambda>(a, err). err = None) (butlast new)))"
  using assms
proof (induction as arbitrary: s pre)
  case (Cons a as)
  obtain err s1 where a: "lib a s = (err, s1)" by (cases "lib a s")
  show ?case
  proof (cases err)
    case (Some e)
    with Cons.prems a show ?thesis
      by (auto simp: or_exit_def perform_def intro!: exI [of _ "[(a, Some e)]"])
  next
    case None
    with Cons.prems a have "run_state (perform_all lib as (ret Returned)) (s1, pre @ [(a, None)]) = (status, (s', steps))"
      by (simp add: or_exit_def perform_def)
    from Cons.IH [OF this] obtain new where new: "steps = pre @ (a, None) # new"
      "(status = Returned \<and> map fst new = as \<and> list_all (\<lambda>(a, err). err = None) new) \<or>
       (\<exists>a err later. status = Exited 1 \<and> as = map fst new @ later \<and> new \<noteq> [] \<and> last new = (a, Some err) \<and>
          list_all (\<lambda>(a, err). err = None) (butlast new))" by auto
    then show ?thesis by (intro exI [of _ "(a, None) # new"]) auto
  qed
qed simp

section \<open>Properties\<close>

text \<open>
  C40. The start is in order: the process runs the manager only after the manager was created with the
  table of webhooks, both kinds of policy were indexed by their policy server, the three controllers
  were set up with the same settings, and both health checks were added.  The first step that fails
  ends the process with status 1 and is the last one; without a valid environment there is none.
\<close>

theorem startup_in_order:
  "case run_state (main lib getenv f cl rd L K order port) (s, []) of (status, (s', steps)) \<Rightarrow>
     (case readEnvironment getenv of
        Inl msg \<Rightarrow> status = Exited 1 \<and> steps = []
      | Inr e \<Rightarrow>
          (status = Returned \<and> map fst steps = startup_steps f e K order (new_reconciler cl rd L port f e) \<and>
             list_all (\<lambda>(a, err). err = None) steps) \<or>
          (\<exists>a err later. status = Exited 1 \<and> steps \<noteq> [] \<and> last steps = (a, Some err) \<and>
             startup_steps f e K order (new_reconciler cl rd L port f e) = map fst steps @ later \<and>
             list_all (\<lambda>(a, err). err = None) (butlast steps)))"
proof (cases "readEnvironment getenv")
  case (Inr e)
  obtain status s' steps where run: "run_state (main lib getenv f cl rd L K order port) (s, []) = (status, (s', steps))"
    by (cases "run_state (main lib getenv f cl rd L K order port) (s, [])") auto
  with Inr run_perform_all [of lib "startup_steps f e K order (new_reconciler cl rd L port f e)" s "[]" status s' steps]
  show ?thesis by (auto simp: main_eq)
qed (simp add: main_eq)

lemma started_steps:
  assumes "run_state (main lib getenv f cl rd L K order port) (s, []) = (status, (s', steps))"
    and "StartManager \<in> fst ` set steps"
  shows "\<exists>e. map fst steps = startup_steps f e K order (new_reconciler cl rd L port f e)"
proof (cases "readEnvironment getenv")
  case (Inl msg)
  with assms show ?thesis by (simp add: main_eq)
next
  case (Inr e)
  let ?all = "startup_steps f e K order (new_reconciler cl rd L port f e)"
  have last: "?all = butlast ?all @ [StartManager]" "StartManager \<notin> set (butlast ?all)"
    by (simp_all add: startup_steps_def)
  from Inr assms(1) run_perform_all [of lib ?all s "[]" status s' steps]
  have "\<exists>later. ?all = map fst steps @ later" by (force simp: main_eq)
  then obtain later where later: "?all = map fst steps @ later" by blast
  have "later = []"
  proof (rule ccontr)
    assume "later \<noteq> []"
    with later have "butlast ?all = map fst steps @ butlast later" by (simp add: butlast_append)
    with last(2) assms(2) show False by auto
  qed
  with later show ?thesis by (intro exI [of _ e]) simp
qed

text \<open>
  The contract of a field index, for the client of the manager: a list request that selects a field
  value gives the objects of the kind for which the registered function has that value, and changes
  none.  \<open>objects\<close> is what the cache of the client holds.
\<close>

definition field_index_law :: "'w setup_step list \<Rightarrow> 'w client_ops \<Rightarrow> ('w \<Rightarrow> api_object list) \<Rightarrow> bool" where
  "field_index_law steps cl objects \<longleftrightarrow>
     (\<forall>k key idx v w. IndexField k key idx \<in> set steps \<longrightarrow>
        (case rdList cl k (MatchingFields key v) w of (answer, w') \<Rightarrow> objects w' = objects w \<and>
          (case answer of Inl err \<Rightarrow> True
           | Inr obs \<Rightarrow> obs = filter (\<lambda>ob. kind_of ob = k \<and> v \<in> set (idx ob)) (objects w))))"

definition list_failed :: "api_event \<Rightarrow> bool" where
  "list_failed ev = (case ev of EvList k sel (Inl err) \<Rightarrow> True | _ \<Rightarrow> False)"

lemma field_indexD:
  assumes "field_index_law steps cl objects" "IndexField k key idx \<in> set steps"
    and "rdList cl k (MatchingFields key v) w = (answer, w')"
  shows "objects w' = objects w"
    and "answer = Inr obs \<Longrightarrow> obs = filter (\<lambda>ob. kind_of ob = k \<and> v \<in> set (idx ob)) (objects w)"
proof -
  have "case rdList cl k (MatchingFields key v) w of (answer, w') \<Rightarrow> objects w' = objects w \<and>
      (case answer of Inl err \<Rightarrow> True | Inr obs \<Rightarrow> obs = filter (\<lambda>ob. kind_of ob = k \<and> v \<in> set (idx ob)) (objects w))"
    using assms(1) [unfolded field_index_law_def, THEN spec, THEN spec, THEN spec, THEN spec, THEN spec, THEN mp, OF assms(2)] .
  with assms(3) show "objects w' = objects w"
    "answer = Inr obs \<Longrightarrow> obs = filter (\<lambda>ob. kind_of ob = k \<and> v \<in> set (idx ob)) (objects w)" by simp_all
qed

lemma set_policy_items:
  "p \<in> set (cap_items obs) \<longleftrightarrow> OPolicy (ClusterPolicy p) \<in> set obs"
  "q \<in> set (ap_items obs) \<longleftrightarrow> OPolicy (NamespacedPolicy q) \<in> set obs"
  by (induction obs) (auto simp: cap_items_def ap_items_def map_filter_simps split: api_object.splits Policy.splits)

lemma policy_index:
  "v \<in> set (cap_index (OPolicy (ClusterPolicy p))) \<longleftrightarrow> GetPolicyServer (ClusterPolicy p) = v"
  "v \<in> set (ap_index (OPolicy (NamespacedPolicy q))) \<longleftrightarrow> GetPolicyServer (NamespacedPolicy q) = v"
  by (auto simp: cap_index_def ap_index_def cap_GetPolicyServer_def ap_GetPolicyServer_def)

text \<open>
  C27. The policies of a policy server are found: once the manager was started, the controller lists, of
  the objects in the cache of its client, exactly the policies of both kinds whose specification names
  the policy server (without those being deleted, if it asked for that), provided no request failed.
\<close>

theorem GetPolicies_lists_bound_policies:
  assumes start: "run_state (main lib getenv f cl rd L K order port) (s, []) = (status, (s', steps))"
      "StartManager \<in> fst ` set steps"
    and index: "field_index_law (map fst steps) cl objects" and client: "Client r = cl"
    and run: "run_state (GetPolicies r ps b) t = (Ok policies, t')"
    and answered: "\<not> list_ex list_failed (drop (length (trace t)) (trace t'))"
  shows "set policies = {p. OPolicy p \<in> set (objects (world t)) \<and> GetPolicyServer p = Name (psMeta ps) \<and> live b p}"
proof -
  from started_steps [OF start] obtain e
    where e: "map fst steps = startup_steps f e K order (new_reconciler cl rd L port f e)" by blast
  have steps: "IndexField KClusterAdmissionPolicy PolicyServerIndexKey cap_index \<in> set (map fst steps)"
    "IndexField KAdmissionPolicy PolicyServerIndexKey ap_index \<in> set (map fst steps)"
    unfolding e by (simp_all add: startup_steps_def)
  obtain caps w1 where caps: "rdList cl KClusterAdmissionPolicy (server_field ps) (world t) = (caps, w1)"
    by (cases "rdList cl KClusterAdmissionPolicy (server_field ps) (world t)")
  obtain aps w2 where aps: "rdList cl KAdmissionPolicy (server_field ps) w1 = (aps, w2)"
    by (cases "rdList cl KAdmissionPolicy (server_field ps) w1")
  from run client caps aps have none: "not_found_error caps = None"
    by (auto simp: GetPolicies_eq run_api split: option.splits)
  with run client caps aps have t': "drop (length (trace t)) (trace t') =
      [EvList KClusterAdmissionPolicy (server_field ps) caps, EvList KAdmissionPolicy (server_field ps) aps]"
    and res: "policies_result b caps aps = Ok policies"
    by (auto simp: GetPolicies_eq run_api)
  from answered t' obtain cobs aobs where obs: "caps = Inr cobs" "aps = Inr aobs"
    by (auto simp: list_failed_def split: sum.splits)
  have "cobs = filter (\<lambda>ob. kind_of ob = KClusterAdmissionPolicy \<and> Name (psMeta ps) \<in> set (cap_index ob)) (objects (world t))"
    "aobs = filter (\<lambda>ob. kind_of ob = KAdmissionPolicy \<and> Name (psMeta ps) \<in> set (ap_index ob)) (objects (world t))"
    using field_indexD [OF index steps(1) caps [unfolded server_field_def]]
      field_indexD [OF index steps(2) aps [unfolded server_field_def]] obs by auto
  with res obs have policies: "p \<in> set policies \<longleftrightarrow> OPolicy p \<in> set (objects (world t)) \<and>
      GetPolicyServer p = Name (psMeta ps) \<and> live b p" for p
    by (cases p) (auto simp: policies_result_def not_found_error_def policies_of_def listed_def set_policy_items policy_index)
  then show ?thesis by blast
qed

section \<open>An example start\<close>

text \<open>Every step succeeds; the cache holds two policies of the policy server and one of another.\<close>

definition demo_objects :: "api_object list" where
  "demo_objects = map (\<lambda>(s, n). OPolicy (demo_policy s ''protect'' n)) [(''default'', ''a''), (''other'', ''b''), (''default'', ''c'')]"

definition demo_index :: "kind \<Rightarrow> list_selector \<Rightarrow> api_object list \<Rightarrow> (api_error + api_object list) \<times> api_object list" where
  "demo_index k sel w = (case sel of
     MatchingFields key v \<Rightarrow> (Inr (filter (\<lambda>ob. kind_of ob = k \<and> v \<in> set (cap_index ob @ ap_index ob)) w), w)
   | MatchingLabels l v \<Rightarrow> (Inr [], w))"

definition demo_cache_reader :: "api_object list reader_ops" where
  "demo_cache_reader = \<lparr>rdGet = (\<lambda>k key w. (Inl (NotFound ''''), w)), rdList = demo_index\<rparr>"

definition demo_cache_client :: "api_object list client_ops" where
  "demo_cache_client = reader_ops.extend demo_cache_reader (client_ops.fields (\<lambda>q w. (Inl (OtherApiError ''''), w)))"

definition demo_cache_crypto :: "api_object list crypto_ops" where
  "demo_cache_crypto = \<lparr>rsaGenerateKey = (\<lambda>n w. (Inr ''key'', w)), randInt = (\<lambda>n w. (Inr 1, w)),
     timeNow = (\<lambda>w. (\<lparr>tmYear = 2022, tmMonth = 1, tmDay = 1, tmNanos = 0\<rparr>, w)),
     x509CreateCertificate = (\<lambda>t p pub priv w. (Inr ''cert'', w)),
     x509ParseCertificate = (\<lambda>b. Inl ''malformed certificate''),
     publicKeyOf = (\<lambda>k. k), MarshalPKIXPublicKey = (\<lambda>k. Inr k), MarshalPKCS1PrivateKey = (\<lambda>k. k),
     ParsePKCS1PrivateKey = (\<lambda>b. Inr b), pemEncode = (\<lambda>t b. Inr (t @ b)), netParseIP = (\<lambda>s. None)\<rparr>"

definition demo_cache_reconciler :: "api_object list Reconciler" where
  "demo_cache_reconciler = new_reconciler demo_cache_client demo_cache_reader ref_lib 8080 default_flags
     \<lparr>env_deploymentsNamespace = ''kubewarden'', env_developmentMode = False, env_webhookHostListen = '''',
      env_webhookHostAdvertise = ''''\<rparr>"

definition demo_start :: "exit_status \<times> unit \<times> (api_object list setup_step \<times> string option) list" where
  "demo_start = run_state (main (\<lambda>a s. (None, s)) (\<lambda>v. if v = ''NAMESPACE'' then ''kubewarden'' else '''') default_flags
     demo_cache_client demo_cache_reader ref_lib demo_cache_crypto (\<lambda>m. []) 8080) ((), [])"

lemma demo_start_steps:
  "demo_start = (Returned, (), map (\<lambda>a. (a, None)) (startup_steps default_flags
     \<lparr>env_deploymentsNamespace = ''kubewarden'', env_developmentMode = False, env_webhookHostListen = '''',
      env_webhookHostAdvertise = ''''\<rparr> demo_cache_crypto (\<lambda>m. []) demo_cache_reconciler))"
  by (simp add: demo_start_def main_eq readEnvironment_def Let_def startup_steps_def or_exit_def perform_def
      default_flags_def demo_cache_reconciler_def)

lemma demo_cache_index: "field_index_law (map fst (snd (snd demo_start))) demo_cache_client (\<lambda>w. w)"
proof -
  have "kind_of ob = KClusterAdmissionPolicy \<Longrightarrow> ap_index ob = []" "kind_of ob = KAdmissionPolicy \<Longrightarrow> cap_index ob = []" for ob
    by (cases ob rule: kind_of.cases; simp add: cap_index_def ap_index_def)+
  then show ?thesis
    unfolding demo_start_steps field_index_law_def
    by (auto simp: startup_steps_def default_flags_def demo_cache_client_def demo_cache_reader_def reader_ops.defs
        client_ops.defs demo_index_def intro!: filter_cong)
qed

theorem GetPolicies_lists_bound_policies_witness:
  "case run_state (GetPolicies demo_cache_reconciler demo_server SkipDeleted) \<lparr>world = demo_objects, trace = []\<rparr> of
     (Ok policies, t') \<Rightarrow> set policies = {demo_policy ''default'' ''protect'' ''a'', demo_policy ''default'' ''protect'' ''c''}
   | _ \<Rightarrow> False"
proof -
  let ?t = "\<lparr>world = demo_objects, trace = []\<rparr>"
  obtain x t' where run: "run_state (GetPolicies demo_cache_reconciler demo_server SkipDeleted) ?t = (x, t')"
    by (cases "run_state (GetPolicies demo_cache_reconciler demo_server SkipDeleted) ?t")
  then have res: "(\<exists>policies. x = Ok policies) \<and> \<not> list_ex list_failed (trace t')"
    by (auto simp: GetPolicies_eq run_api demo_cache_reconciler_def new_reconciler_def demo_cache_client_def
        demo_cache_reader_def reader_ops.defs client_ops.defs demo_index_def server_field_def not_found_error_def
        policies_result_def list_failed_def)
  then obtain policies where x: "x = Ok policies" by blast
  have start: "run_state (main (\<lambda>a s. (None, s)) (\<lambda>v. if v = ''NAMESPACE'' then ''kubewarden'' else '''') default_flags
     demo_cache_client demo_cache_reader ref_lib demo_cache_crypto (\<lambda>m. []) 8080) ((), []) =
     (fst demo_start, (fst (snd demo_start), snd (snd demo_start)))"
    by (simp only: demo_start_def prod.collapse)
  have "set policies = {p. OPolicy p \<in> set demo_objects \<and> GetPolicyServer p = ''default'' \<and> live SkipDeleted p}"
    using GetPolicies_lists_bound_policies [OF start _ demo_cache_index _ run [unfolded x]] res
    by (simp add: demo_start_steps startup_steps_def demo_server_def demo_cache_reconciler_def new_reconciler_def)
  also have "\<dots> = {demo_policy ''default'' ''protect'' ''a'', demo_policy ''default'' ''protect'' ''c''}"
    by (auto simp: demo_objects_def demo_policy_def live_def cap_GetPolicyServer_def demo_spec_def PolicySpec.defs
        ClusterAdmissionPolicySpec.defs)
  finally show ?thesis by (simp add: run x)
qed

end
