(* ===== verification/Json_Roundtrip.thy ===== *)
theory Json_Roundtrip
  imports Go_Json
begin

text \<open>
  What \<open>json.Unmarshal\<close> makes of a text that \<open>json.Marshal\<close> wrote: strings of well-formed UTF-8,
  arrays and objects are read back as they were.  \<open>lexes\<close> is the interface to the reader: a text
  that is read as one value before any of the bytes that can follow a value.
\<close>

section \<open>Well-formed text\<close>

fun valid_utf8 :: "string \<Rightarrow> bool" where
  "valid_utf8 [] = True"
| "valid_utf8 (c # cs) =
     (if byte c < 128 then valid_utf8 cs
      else let n = utf8_len (c # cs) in n \<noteq> 0 \<and> valid_utf8 (drop (n - 1) cs))"

lemma utf8_first_bounds:
  "utf8_first b = (n, lo, hi) \<Longrightarrow> 128 \<le> b \<Longrightarrow> n = 0 \<or> (2 \<le> n \<and> 128 \<le> lo)"
  by (auto simp: utf8_first_def split: if_splits)

lemma utf8_len_multi:
  assumes "\<not> byte c < 128" "utf8_len (c # cs) = Suc n"
  shows "1 \<le> n \<and> n \<le> length cs \<and> (\<forall>x \<in> set (take n cs). 128 \<le> byte x) \<and>
     utf8_len (c # take n cs @ zs) = Suc n"
proof -
  obtain m lo hi where f: "utf8_first (byte c) = (m, lo, hi)" by (cases "utf8_first (byte c)")
  with assms utf8_first_bounds [OF f] have m: "m = Suc n" "2 \<le> m" "128 \<le> lo"
    by (auto simp: utf8_len_def split: if_splits list.splits)
  with assms f obtain x ys where "cs = x # ys" "lo \<le> byte x" "byte x \<le> hi" "m - 2 \<le> length ys"
      "list_all cont_byte (take (m - 2) ys)"
    by (auto simp: utf8_len_def split: if_splits list.splits)
  moreover from m obtain k where "m = Suc (Suc k)" by (cases m; cases "m - 1") auto
  ultimately show ?thesis using m f
    by (auto simp: utf8_len_def list_all_iff cont_byte_def)
qed

section \<open>String literals\<close>

lemma hex_value_hex_digit: "d < 16 \<Longrightarrow> hex_value (hex_digit d) = Some d"
  by (auto simp: hex_value_def hex_digit_def Let_def)

lemma hex_value_0: "hex_value CHR ''0'' = Some 0"
  by (simp add: hex_value_def)

lemma skip_string_u: "h < 16 \<Longrightarrow> l < 16 \<Longrightarrow>
  skip_string (CHR 0x5C # CHR ''u'' # CHR ''0'' # CHR ''0'' # hex_digit h # hex_digit l # t) = skip_string t"
  by (simp add: hex_value_hex_digit hex_value_0)

lemma hex4_byte: "b < 128 \<Longrightarrow> hex4 CHR ''0'' CHR ''0'' (hex_digit (b div 16)) (hex_digit (b mod 16)) = b"
  by (simp add: hex4_def hex_value_hex_digit hex_value_0)

lemma unquote_u: "b < 128 \<Longrightarrow>
  unquote (CHR 0x5C # CHR ''u'' # CHR ''0'' # CHR ''0'' # hex_digit (b div 16) # hex_digit (b mod 16) # t)
   = char_of b # unquote t"
  by (simp add: hex4_byte encode_rune_def)

declare skip_string.simps [simp del] unquote.simps [simp del]

lemma skip_string_plain:
  "c \<noteq> CHR 0x22 \<Longrightarrow> c \<noteq> CHR 0x5C \<Longrightarrow> 32 \<le> byte c \<Longrightarrow> skip_string (c # cs) = skip_string cs"
  by (subst skip_string.simps) simp

lemma unquote_plain:
  "c \<noteq> CHR 0x22 \<Longrightarrow> c \<noteq> CHR 0x5C \<Longrightarrow> byte c < 128 \<Longrightarrow> unquote (c # cs) = c # unquote cs"
  by (subst unquote.simps) simp

lemma skip_string_esc:
  "e \<in> set [CHR ''b'', CHR ''f'', CHR ''n'', CHR ''r'', CHR ''t'', CHR ''/'', CHR 0x5C, CHR 0x22] \<Longrightarrow>
   skip_string (CHR 0x5C # e # cs) = skip_string cs"
  by (subst skip_string.simps) auto

lemma unquote_esc:
  "e \<noteq> CHR ''u'' \<Longrightarrow> unquote (CHR 0x5C # e # cs) = unescape_char e # unquote cs"
  by (subst unquote.simps) simp

lemma char_of_eq: "byte c = n \<Longrightarrow> c = char_of n"
  by (metis char_of_char)

lemma control_chars:
  "char_of (10 :: nat) = CHR 0x0A" "char_of (13 :: nat) = CHR 0x0D" "char_of (9 :: nat) = CHR 0x09"
  by (simp_all add: char_of_def bit_0)

lemma high_byte: "\<not> byte c < 128 \<Longrightarrow> c \<noteq> CHR 0x22 \<and> c \<noteq> CHR 0x5C"
  by auto

lemma escape_ascii_steps:
  assumes "byte c < 128"
  shows "skip_string (escape_ascii c @ t) = skip_string t \<and> unquote (escape_ascii c @ t) = c # unquote t"
proof -
  consider "c = CHR 0x5C \<or> c = CHR 0x22" | "byte c = 10" | "byte c = 13" | "byte c = 9"
    | "byte c \<noteq> 10" "byte c \<noteq> 13" "byte c \<noteq> 9" "c \<noteq> CHR 0x5C" "c \<noteq> CHR 0x22"
      "byte c < 32 \<or> c \<in> {CHR ''<'', CHR ''>'', CHR ''&''}"
    | "c \<noteq> CHR 0x5C" "c \<noteq> CHR 0x22" "32 \<le> byte c" "c \<notin> {CHR ''<'', CHR ''>'', CHR ''&''}"
    by (cases "byte c < 32") auto
  then show ?thesis
  proof cases
    case 5
    then have "escape_ascii c = u_escape (byte c)" by (simp add: escape_ascii_def)
    moreover have "byte c div 16 < 16" "byte c mod 16 < 16" using assms by auto
    ultimately show ?thesis
      using assms by (simp add: u_escape_def skip_string_u unquote_u)
  next
    case 6
    then have "escape_ascii c = [c]" by (auto simp: escape_ascii_def)
    with 6 assms show ?thesis by (simp add: skip_string_plain unquote_plain)
  qed (auto simp: escape_ascii_def skip_string_esc unquote_esc unescape_char_def control_chars dest!: char_of_eq)
qed

lemma hex_values: "hex_value CHR ''2'' = Some 2" "hex_value CHR ''8'' = Some 8" "hex_value CHR ''9'' = Some 9"
  by (simp_all add: hex_value_def)

lemma hex4_separators: "hex4 CHR ''2'' CHR ''0'' CHR ''2'' CHR ''8'' = 8232" "hex4 CHR ''2'' CHR ''0'' CHR ''2'' CHR ''9'' = 8233"
  by (simp_all add: hex4_def hex_value_0 hex_values)

lemma rune_separators: "encode_rune 8232 = [CHR 0xE2, CHR 0x80, CHR 0xA8]" "encode_rune 8233 = [CHR 0xE2, CHR 0x80, CHR 0xA9]"
  by (simp_all add: encode_rune_def char_of_def bit_0)

lemma separator_steps:
  "skip_string (CHR 0x5C # ''u2028'' @ t) = skip_string t"
  "skip_string (CHR 0x5C # ''u2029'' @ t) = skip_string t"
  "unquote (CHR 0x5C # ''u2028'' @ t) = [CHR 0xE2, CHR 0x80, CHR 0xA8] @ unquote t"
  "unquote (CHR 0x5C # ''u2029'' @ t) = [CHR 0xE2, CHR 0x80, CHR 0xA9] @ unquote t"
  by (simp_all add: skip_string.simps unquote.simps hex_value_0 hex_values hex4_separators rune_separators)

lemma utf8_len_separator:
  "utf8_len (CHR 0xE2 # CHR 0x80 # CHR 0xA8 # r) = 3" "utf8_len (CHR 0xE2 # CHR 0x80 # CHR 0xA9 # r) = 3"
  by (simp_all add: utf8_len_def utf8_first_def cont_byte_def)

lemma line_separator_Some:
  assumes "line_separator s = Some u"
  obtains l r where "s = CHR 0xE2 # CHR 0x80 # l # r" "utf8_len s = 3"
    "\<And>t. skip_string (u @ t) = skip_string t"
    "\<And>t. unquote (u @ t) = CHR 0xE2 # CHR 0x80 # l # unquote t"
proof -
  have "s = take 3 s @ drop 3 s" by simp
  with assms consider "s = CHR 0xE2 # CHR 0x80 # CHR 0xA8 # drop 3 s" "u = CHR 0x5C # ''u2028''"
      | "s = CHR 0xE2 # CHR 0x80 # CHR 0xA9 # drop 3 s" "u = CHR 0x5C # ''u2029''"
    unfolding line_separator_def by (metis append_Cons append_Nil option.distinct(1) option.inject)
  then show thesis
    by cases (metis that separator_steps utf8_len_separator append_Cons append_Nil)+
qed

lemma skip_high:
  "\<forall>x \<in> set xs. 128 \<le> byte x \<Longrightarrow> skip_string (xs @ t) = skip_string t"
proof (induction xs)
  case (Cons x xs)
  then have "x \<noteq> CHR 0x22" "x \<noteq> CHR 0x5C" by auto
  with Cons show ?case by (simp add: skip_string_plain)
qed simp

lemma unquote_high:
  assumes "\<not> byte c < 128" "utf8_len (c # cs) = Suc n"
  shows "unquote (c # take n cs @ t) = c # take n cs @ unquote t"
proof -
  from utf8_len_multi [OF assms] have "utf8_len (c # take n cs @ t) = Suc n" "n \<le> length cs" by auto
  with high_byte [OF assms(1)] assms(1) show ?thesis
    by (subst unquote.simps) (simp add: Let_def)
qed

lemma skip_string_ufffd: "skip_string (CHR 0x5C # ''ufffd'' @ t) = skip_string t"
  by (simp add: skip_string.simps hex_value_def)

lemma skip_string_escape: "skip_string (escape s @ CHR 0x22 # t) = Some t"
proof (induction s rule: escape.induct)
  case 1
  then show ?case by (simp add: skip_string.simps)
next
  case (2 c cs)
  note IH = 2
  consider "byte c < 128" | u where "\<not> byte c < 128" "line_separator (c # cs) = Some u"
    | "\<not> byte c < 128" "line_separator (c # cs) = None" "utf8_len (c # cs) = 0"
    | n where "\<not> byte c < 128" "line_separator (c # cs) = None" "utf8_len (c # cs) = Suc n"
    by (cases "line_separator (c # cs)"; cases "utf8_len (c # cs)") auto
  then show ?case
  proof cases
    case 1
    with IH show ?thesis by (simp add: escape_ascii_steps)
  next
    case (2 u)
    from line_separator_Some [OF this(2)] have "skip_string (u @ r) = skip_string r" for r by metis
    with 2 IH(4) show ?thesis by simp
  next
    case 3
    with IH(2) skip_string_ufffd show ?thesis by simp
  next
    case (4 n)
    with utf8_len_multi [OF this(1) this(3)] have "\<forall>x \<in> set (c # take n cs). 128 \<le> byte x" by simp
    from skip_high [OF this] 4 IH(3) show ?thesis by simp
  qed
qed

lemma unquote_escape: "valid_utf8 s \<Longrightarrow> unquote (escape s @ CHR 0x22 # t) = s"
proof (induction s rule: escape.induct)
  case 1
  then show ?case by (simp add: unquote.simps)
next
  case (2 c cs)
  note IH = 2
  consider "byte c < 128" | u where "\<not> byte c < 128" "line_separator (c # cs) = Some u"
    | n where "\<not> byte c < 128" "line_separator (c # cs) = None" "utf8_len (c # cs) = Suc n"
    using 2(5) by (cases "line_separator (c # cs)"; cases "utf8_len (c # cs)") (auto split: if_splits)
  then show ?case
  proof cases
    case 1
    with IH show ?thesis by (simp add: escape_ascii_steps)
  next
    case (2 u)
    from line_separator_Some [OF this(2)] obtain l r where u: "c # cs = CHR 0xE2 # CHR 0x80 # l # r"
      "utf8_len (c # cs) = 3" "\<And>t. unquote (u @ t) = CHR 0xE2 # CHR 0x80 # l # unquote t"
      by metis
    with 2 IH(5) have "valid_utf8 (drop 2 cs)" by (simp add: Let_def)
    with 2 IH(4) u show ?thesis by simp
  next
    case (3 n)
    with IH(5) have "valid_utf8 (drop n cs)" by (simp add: Let_def)
    with 3 IH(3) unquote_high [OF 3(1) 3(3)] show ?thesis by simp
  qed
qed

section \<open>Values\<close>

definition delimiter :: "string \<Rightarrow> bool" where
  "delimiter s \<longleftrightarrow> s = [] \<or> hd s = CHR '','' \<or> hd s = CHR '']'' \<or> hd s = CHR ''}''"

definition lexes :: "string \<Rightarrow> bool" where
  "lexes v \<longleftrightarrow> v \<noteq> [] \<and> \<not> is_space (hd v) \<and> hd v \<noteq> CHR '']'' \<and> hd v \<noteq> CHR ''}'' \<and>
     (\<forall>n t. length v < n \<longrightarrow> delimiter t \<longrightarrow> skip_value n (v @ t) = Some t)"

lemma delimiter_simps [simp]: "delimiter []" "delimiter (CHR '','' # t)" "delimiter (CHR '']'' # t)" "delimiter (CHR ''}'' # t)"
  by (simp_all add: delimiter_def)

lemma skip_ws_nonspace: "v \<noteq> [] \<Longrightarrow> \<not> is_space (hd v) \<Longrightarrow> skip_ws (v @ t) = v @ t"
  by (cases v) auto

lemma lexes_skip_ws: "lexes v \<Longrightarrow> skip_ws (v @ t) = v @ t"
  by (simp add: lexes_def skip_ws_nonspace)

lemma lexes_skip: "lexes v \<Longrightarrow> length v < n \<Longrightarrow> delimiter t \<Longrightarrow> skip_value n (v @ t) = Some t"
  by (simp add: lexes_def)

lemma consumed_append [simp]: "consumed (v @ t) t = v"
  by (simp add: consumed_def)

lemma lexes_json_string [simp]: "lexes (json_string s)"
proof -
  have "skip_value n (json_string s @ t) = Some t" if "length (json_string s) < n" for n t
    using that by (cases n) (simp_all add: json_string_def is_space_def skip_string_escape)
  then show ?thesis by (simp add: lexes_def json_string_def is_space_def)
qed

lemma lexes_json_bool [simp]: "lexes (json_bool b)"
proof -
  have "skip_value n (json_bool b @ t) = Some t" if "length (json_bool b) < n" for n t
    using that by (cases n) (auto simp: json_bool_def is_space_def skip_literal_def)
  then show ?thesis by (auto simp: lexes_def json_bool_def is_space_def)
qed

lemma lexes_null [simp]: "lexes ''null''"
proof -
  have "skip_value n (''null'' @ t) = Some t" if "length ''null'' < n" for n t
    using that by (cases n) (auto simp: is_space_def skip_literal_def)
  then show ?thesis by (auto simp: lexes_def is_space_def)
qed

lemma spaces [simp]: "\<not> is_space CHR '',''" "\<not> is_space CHR '']''" "\<not> is_space CHR ''}''" "\<not> is_space CHR '':''"
  "\<not> is_space CHR ''[''" "\<not> is_space CHR ''{''" "\<not> is_space CHR 0x22"
  by (simp_all add: is_space_def)

lemma lexes_length: "lexes v \<Longrightarrow> 0 < length v"
  by (simp add: lexes_def)

lemma elements_join:
  "vs \<noteq> [] \<Longrightarrow> \<forall>v \<in> set vs. lexes v \<Longrightarrow> length (strings_Join vs '','') + 1 < n \<Longrightarrow>
   elements n (strings_Join vs '','' @ CHR '']'' # t) = Some (vs, t)"
proof (induction vs arbitrary: n)
  case (Cons v vs)
  then obtain m where n: "n = Suc m" by (cases n) auto
  from Cons.prems have v: "lexes v" by simp
  show ?case
  proof (cases vs)
    case Nil
    with Cons.prems n have "length v < m" by simp
    with v n Nil lexes_skip [of v m "CHR '']'' # t"] show ?thesis
      by (simp add: lexes_skip_ws)
  next
    case (Cons w ws)
    let ?r = "strings_Join vs '','' @ CHR '']'' # t"
    have j: "strings_Join (v # vs) '','' = v @ CHR '','' # strings_Join vs '',''"
      using Cons by simp
    from Cons.prems n j lexes_length [OF v] have l: "length v < m" "length (strings_Join vs '','') + 1 < m" by simp_all
    with Cons.IH [of m] Cons Cons.prems have "elements m ?r = Some (vs, t)" by simp
    with v n l(1) j lexes_skip [of v m "CHR '','' # ?r"] show ?thesis
      by (simp add: lexes_skip_ws)
  qed
qed simp

abbreviation member_text :: "string \<times> string \<Rightarrow> string" where
  "member_text \<equiv> (\<lambda>(k, v). json_string k @ CHR '':'' # v)"

lemma members_step:
  assumes "valid_utf8 k" "lexes v" "length v < m" "delimiter t" "t \<noteq> []"
  shows "members (Suc m) (member_text (k, v) @ t) =
     (if hd t = CHR '','' then map_option (apfst (Cons (k, v))) (members m (tl t))
      else if hd t = CHR ''}'' then Some ([(k, v)], tl t) else None)"
proof -
  obtain c r where t: "t = c # r" using assms(5) by (cases t) auto
  with assms(4) have c: "\<not> is_space c" by (auto simp: delimiter_def)
  have q: "json_string k @ u = CHR 0x22 # escape k @ CHR 0x22 # u" for u
    by (simp add: json_string_def)
  from assms show ?thesis
    using t c by (simp add: q starts_with_def Let_def skip_string_escape lexes_skip_ws lexes_skip unquote_escape)
qed

lemma members_join:
  "kvs \<noteq> [] \<Longrightarrow> \<forall>(k, v) \<in> set kvs. valid_utf8 k \<and> lexes v \<Longrightarrow>
   length (strings_Join (map member_text kvs) '','') < n \<Longrightarrow>
   members n (strings_Join (map member_text kvs) '','' @ CHR ''}'' # t) = Some (kvs, t)"
proof (induction kvs arbitrary: n)
  case (Cons kv kvs)
  obtain k v where kv: "kv = (k, v)" by (cases kv)
  from Cons.prems obtain m where n: "n = Suc m" by (cases n) auto
  from Cons.prems kv have v: "valid_utf8 k" "lexes v" by simp_all
  show ?case
  proof (cases kvs)
    case Nil
    with Cons.prems n kv have "length v < m" by (simp add: json_string_def)
    with members_step [OF v this, of "CHR ''}'' # t"] n kv Nil show ?thesis by simp
  next
    case (Cons w ws)
    let ?r = "strings_Join (map member_text kvs) '',''"
    have j: "strings_Join (map member_text (kv # kvs)) '','' = member_text (k, v) @ CHR '','' # ?r"
      using Cons kv by (cases w) simp
    from Cons.prems n j have l: "length v < m" "length ?r < m"
      by (simp_all add: json_string_def)
    with Cons.IH [of m] Cons Cons.prems have "members m (?r @ CHR ''}'' # t) = Some (kvs, t)" by simp
    with members_step [OF v l(1), of "CHR '','' # ?r @ CHR ''}'' # t"] n j kv show ?thesis
      by simp
  qed
qed simp

lemma skip_value_array:
  "skip_value (Suc n) (CHR ''['' # s) =
     (if starts_with CHR '']'' (skip_ws s) then Some (tl (skip_ws s)) else map_option snd (elements n (skip_ws s)))"
  by simp

lemma skip_value_object:
  "skip_value (Suc n) (CHR ''{'' # s) =
     (if starts_with CHR ''}'' (skip_ws s) then Some (tl (skip_ws s)) else map_option snd (members n (skip_ws s)))"
  by simp

lemma array_body:
  assumes "vs \<noteq> []" "\<forall>v \<in> set vs. lexes v"
  shows "skip_ws (strings_Join vs '','' @ t) = strings_Join vs '','' @ t \<and>
     \<not> starts_with CHR '']'' (strings_Join vs '','' @ t)"
proof -
  obtain v ws where "vs = v # ws" using assms(1) by (cases vs) auto
  then obtain r where "strings_Join vs '','' = v @ r" by (cases ws) simp_all
  moreover from assms(2) \<open>vs = v # ws\<close> have "lexes v" by simp
  ultimately show ?thesis by (cases v) (auto simp: lexes_def starts_with_def)
qed

lemma object_body:
  assumes "kvs \<noteq> []"
  shows "\<exists>r. strings_Join (map member_text kvs) '','' = CHR 0x22 # r"
  using assms by (cases kvs; cases "tl kvs") (auto simp: json_string_def)

lemma lexes_json_array [simp]:
  assumes "\<forall>v \<in> set vs. lexes v"
  shows "lexes (json_array vs)"
proof -
  have "skip_value n (json_array vs @ t) = Some t" if "length (json_array vs) < n" for n t
  proof (cases "vs = []")
    case True
    with that show ?thesis by (cases n) (simp_all add: json_array_def starts_with_def)
  next
    case False
    from that obtain m where "n = Suc m" by (cases n) auto
    with that False assms show ?thesis
      by (simp add: json_array_def skip_value_array array_body elements_join del: skip_value.simps)
  qed
  then show ?thesis by (simp add: lexes_def json_array_def)
qed

lemma lexes_json_object [simp]:
  assumes "\<forall>(k, v) \<in> set kvs. valid_utf8 k \<and> lexes v"
  shows "lexes (json_object kvs)"
proof -
  have "skip_value n (json_object kvs @ t) = Some t" if "length (json_object kvs) < n" for n t
  proof (cases "kvs = []")
    case True
    with that show ?thesis by (cases n) (simp_all add: json_object_def starts_with_def)
  next
    case False
    from that obtain m where n: "n = Suc m" by (cases n) auto
    from object_body [OF False] obtain r where r: "strings_Join (map member_text kvs) '','' = CHR 0x22 # r" ..
    from members_join [OF False assms, of m t] that n r
    have "members m (CHR 0x22 # r @ CHR ''}'' # t) = Some (kvs, t)" by (simp add: json_object_def)
    with n r show ?thesis
      by (simp add: json_object_def skip_value_object starts_with_def del: skip_value.simps members.simps)
  qed
  then show ?thesis by (simp add: lexes_def json_object_def)
qed

lemma lexes_valid: "lexes v \<Longrightarrow> json_valid v"
  using lexes_skip [of v "json_fuel v" "[]"] by (simp add: json_valid_def json_fuel_def)

lemma array_elements_json_array [simp]:
  assumes "\<forall>v \<in> set vs. lexes v"
  shows "array_elements (json_array vs) = vs"
proof (cases "vs = []")
  case True
  then show ?thesis by (simp add: array_elements_def json_array_def starts_with_def)
next
  case False
  with assms show ?thesis
    by (simp add: array_elements_def json_array_def array_body elements_join json_fuel_def Let_def
        del: elements.simps)
qed

lemma object_members_json_object [simp]:
  assumes "\<forall>(k, v) \<in> set kvs. valid_utf8 k \<and> lexes v"
  shows "object_members (json_object kvs) = kvs"
proof (cases "kvs = []")
  case True
  then show ?thesis by (simp add: object_members_def json_object_def starts_with_def)
next
  case False
  from object_body [OF this] obtain r where r: "strings_Join (map member_text kvs) '','' = CHR 0x22 # r" ..
  from members_join [OF False assms, of "json_fuel (json_object kvs)" "[]"] r
  have "members (json_fuel (json_object kvs)) (CHR 0x22 # r @ ''}'') = Some (kvs, [])"
    by (simp add: json_object_def json_fuel_def)
  with r show ?thesis
    by (simp add: object_members_def json_object_def starts_with_def del: members.simps)
qed

lemma json_kind_simps [simp]:
  "json_kind (json_object kvs) = JObject" "json_kind (json_array vs) = JArray"
  "json_kind (json_bool b) = JBool b" "json_kind ''null'' = JNull"
  by (auto simp: json_kind_def json_object_def json_array_def json_bool_def is_space_def)

lemma json_kind_string [simp]: "valid_utf8 s \<Longrightarrow> json_kind (json_string s) = JString s"
  using unquote_escape [of s "[]"] by (simp add: json_kind_def json_string_def)

end
