(* ===== verification/Config_Document.thy ===== *)
theory Config_Document
  imports Config_Map Json_Roundtrip
begin

text \<open>
  The two documents in the config map of a policy server: what a policy server reads is what the
  controller wrote, and the controller rewrites a document exactly when it changed.  The locale
  \<open>config_document\<close> is the contract, interpreted on the policies and on the sources.
\<close>

section \<open>Reading back structs, slices and maps\<close>

declare skip_value.simps [simp del] elements.simps [simp del] members.simps [simp del]

lemma decode_string_json [simp]: "valid_utf8 s \<Longrightarrow> decode_string old (json_string s) = Some s"
  by (simp add: decode_string_def)

lemma decode_bool_json [simp]: "decode_bool old (json_bool b) = Some b"
  by (simp add: decode_bool_def)

lemma decode_struct_json:
  assumes "\<forall>(k, v) \<in> set kvs. valid_utf8 k \<and> lexes v"
  shows "decode_struct fs upd old (json_object kvs) = decode_fields fs upd old kvs"
  using assms by (simp add: decode_struct_def)

lemma those_map: "(\<forall>x \<in> set xs. f (g x) = Some (h x)) \<Longrightarrow> those (map f (map g xs)) = Some (map h xs)"
  by (induction xs) auto

lemma decode_slice_json:
  assumes "\<forall>v \<in> set vs. lexes (enc v) \<and> f (enc v) = Some v"
  shows "decode_slice f (json_array (map enc vs)) = Some (Some vs)"
proof -
  have "array_elements (json_array (map enc vs)) = map enc vs" using assms by simp
  moreover have "those (map f (map enc vs)) = Some (map id vs)" by (rule those_map) (use assms in simp)
  ultimately show ?thesis by (simp add: decode_slice_def del: map_map)
qed

lemma decode_slice_null [simp]: "decode_slice f ''null'' = Some None"
  by (simp add: decode_slice_def)

lemma decode_entries_map:
  "\<forall>(k, x) \<in> set kvs. f (enc x) = Some x \<Longrightarrow>
   decode_entries f m (map (apsnd enc) kvs) = Some (m ++\<^sub>f fmap_of_list (rev kvs))"
proof (induction kvs arbitrary: m)
  case (Cons kv kvs)
  then show ?case by (cases kv) (auto simp: fmap_of_list_app intro!: fmap_ext split: option.splits)
qed simp

lemma fmap_of_sorted_list [simp]: "fmap_of_list (sorted_list_of_fmap m) = m"
  by (rule fmap_ext) simp

lemma sorted_list_of_fmap_mem: "(k, x) \<in> set (sorted_list_of_fmap m) \<longleftrightarrow> fmlookup m k = Some x"
  by (auto simp: sorted_list_of_fmap_def fmlookup_dom_iff image_iff)

lemma distinct_sorted_list [simp]: "distinct (map fst (sorted_list_of_fmap m))"
  by (simp add: sorted_list_of_fmap_def comp_def sorted_list_of_fset.rep_eq)

lemma fmap_of_rev_sorted_list [simp]: "fmap_of_list (rev (sorted_list_of_fmap m)) = m"
proof (rule fmap_ext)
  fix k
  have "distinct (map fst (rev (sorted_list_of_fmap m)))" by (simp add: rev_map [symmetric])
  then have "map_of (rev (sorted_list_of_fmap m)) k = Some x \<longleftrightarrow> fmlookup m k = Some x" for x
    by (simp add: map_of_eq_Some_iff sorted_list_of_fmap_mem)
  then show "fmlookup (fmap_of_list (rev (sorted_list_of_fmap m))) k = fmlookup m k"
    by (cases "fmlookup m k"; cases "map_of (rev (sorted_list_of_fmap m)) k") auto
qed

lemma decode_map_json:
  assumes "\<forall>k x. fmlookup m k = Some x \<longrightarrow> valid_utf8 k \<and> lexes (enc x) \<and> f (enc x) = Some x"
  shows "decode_map f None (json_object (map (apsnd enc) (sorted_list_of_fmap m))) = Some (Some m)"
proof -
  have "object_members (json_object (map (apsnd enc) (sorted_list_of_fmap m))) = map (apsnd enc) (sorted_list_of_fmap m)"
    using assms by (intro object_members_json_object) (auto simp: sorted_list_of_fmap_mem)
  moreover have "decode_entries f fmempty (map (apsnd enc) (sorted_list_of_fmap m)) = Some (fmempty ++\<^sub>f m)"
    using assms by (subst decode_entries_map) (auto simp: sorted_list_of_fmap_mem)
  ultimately show ?thesis by (simp add: decode_map_def)
qed


section \<open>Documents that survive\<close>

text \<open>
  A policy map or a sources entry is stable when the text written for it is read back as the same
  value: its strings are well-formed UTF-8, the settings are one compact JSON value other than
  \<open>null\<close> (which reads back as no settings), and no slice or map that is left out when empty is
  empty but not nil.
\<close>

definition stable_raw :: "RawExtension \<Rightarrow> bool" where
  "stable_raw x = (case x of None \<Rightarrow> True
     | Some raw \<Rightarrow> lexes raw \<and> compact_text False raw = raw \<and> raw \<noteq> ''null'')"

definition stable_name :: "NamespacedName \<Rightarrow> bool" where
  "stable_name n \<longleftrightarrow> valid_utf8 (nnNamespace n) \<and> valid_utf8 (nnName n)"

definition stable_entry :: "PolicyServerConfigEntry \<Rightarrow> bool" where
  "stable_entry e \<longleftrightarrow> stable_name (entNamespacedName e) \<and> valid_utf8 (entURL e) \<and>
     valid_utf8 (entPolicyMode e) \<and> stable_raw (entSettings e)"

lemma valid_utf8_keys [simp]:
  "valid_utf8 ''Namespace''" "valid_utf8 ''Name''" "valid_utf8 ''namespacedName''" "valid_utf8 ''url''"
  "valid_utf8 ''policyMode''" "valid_utf8 ''allowedToMutate''" "valid_utf8 ''settings''" "valid_utf8 ''type''"
  "valid_utf8 ''data''" "valid_utf8 ''insecure_sources''" "valid_utf8 ''source_authorities''"
  by simp_all

declare valid_utf8.simps [simp del]

lemma json_field_mem: "k \<in> set fs \<Longrightarrow> json_field fs k = Some k"
  by (simp add: json_field_def)

lemma lexes_namespaced_name [simp]: "lexes (marshal_namespaced_name n)"
  by (simp add: marshal_namespaced_name_def)

lemma decode_namespaced_name:
  assumes "stable_name n"
  shows "decode_struct [''Namespace'', ''Name''] upd_namespaced_name old (marshal_namespaced_name n) = Some n"
  using assms
  by (simp add: marshal_namespaced_name_def decode_struct_json json_field_mem upd_namespaced_name_def stable_name_def)

lemma compact_null: "compact ''null'' = Some ''null''"
  using lexes_valid [OF lexes_null] by (simp add: compact_def line_separator_def is_space_def)

lemma marshal_raw_stable:
  assumes "raw_extension_law L" "stable_raw x"
  shows "\<exists>t. marshal_raw L x = Some t \<and> lexes t \<and> RawUnmarshalJSON L None t = Some x"
proof (cases x)
  case None
  with assms(1) compact_null show ?thesis by (simp add: marshal_raw_def raw_extension_law_def)
next
  case (Some raw)
  with assms lexes_valid [of raw] show ?thesis
    by (simp add: marshal_raw_def raw_extension_law_def compact_def stable_raw_def)
qed

lemma marshal_entry_stable:
  assumes "raw_extension_law L" "stable_entry e"
  shows "\<exists>t. marshal_entry L e = Some t \<and> lexes t \<and> decode_entry L t = Some e"
proof -
  from assms obtain t where t: "marshal_raw L (entSettings e) = Some t" "lexes t"
      "RawUnmarshalJSON L None t = Some (entSettings e)"
    using marshal_raw_stable by (auto simp: stable_entry_def)
  let ?kvs = "[(''namespacedName'', marshal_namespaced_name (entNamespacedName e)),
      (''url'', json_string (entURL e)), (''policyMode'', json_string (entPolicyMode e)),
      (''allowedToMutate'', json_bool (entAllowedToMutate e)), (''settings'', t)]"
  have l: "\<forall>(k, v) \<in> set ?kvs. valid_utf8 k \<and> lexes v" using t by simp
  have "decode_entry L (json_object ?kvs) = Some e"
    unfolding decode_entry_def using assms t
    by (simp add: decode_struct_json [OF l] json_field_mem upd_entry_def decode_namespaced_name
        stable_entry_def zero_entry_def)
  with t lexes_json_object [OF l] show ?thesis by (simp add: marshal_entry_def)
qed

definition stable_policies :: "kube_lib \<Rightarrow> PolicyConfigEntryMap \<Rightarrow> bool" where
  "stable_policies L m \<longleftrightarrow> raw_extension_law L \<and>
     (\<forall>k e. fmlookup m k = Some e \<longrightarrow> valid_utf8 k \<and> stable_entry e)"

lemma those_pairs:
  "\<forall>(k, e) \<in> set kvs. f e = Some (g e) \<Longrightarrow>
   those (map (\<lambda>(k, e). map_option (Pair k) (f e)) kvs) = Some (map (apsnd g) kvs)"
  by (induction kvs) auto

lemma policies_roundtrip:
  assumes "stable_policies L m"
  shows "\<exists>t. marshal_policies L m = Some t \<and> unmarshal_policies L None t = Some (Some m)"
proof -
  from assms have L: "raw_extension_law L"
    and e: "fmlookup m k = Some e \<Longrightarrow> valid_utf8 k \<and> stable_entry e" for k e
    by (auto simp: stable_policies_def)
  let ?enc = "\<lambda>e. the (marshal_entry L e)"
  have m: "valid_utf8 k \<and> marshal_entry L e = Some (?enc e) \<and> lexes (?enc e) \<and> decode_entry L (?enc e) = Some e"
    if "fmlookup m k = Some e" for k e
    using e [OF that] marshal_entry_stable [OF L] by force
  have "marshal_policies L m = Some (json_object (map (apsnd ?enc) (sorted_list_of_fmap m)))"
    unfolding marshal_policies_def
    by (subst those_pairs [where g = ?enc]) (auto simp: sorted_list_of_fmap_mem dest: m)
  moreover have "lexes (json_object (map (apsnd ?enc) (sorted_list_of_fmap m)))"
    by (rule lexes_json_object) (auto simp: sorted_list_of_fmap_mem dest: m)
  moreover have "decode_map (decode_entry L) None (json_object (map (apsnd ?enc) (sorted_list_of_fmap m)))
      = Some (Some m)"
    by (rule decode_map_json) (auto dest: m)
  ultimately show ?thesis
    by (simp add: unmarshal_policies_def lexes_valid)
qed

definition stable_authority :: "policyServerSourceAuthority \<Rightarrow> bool" where
  "stable_authority a \<longleftrightarrow> valid_utf8 (authType a) \<and> valid_utf8 (authData a)"

definition stable_sources :: "policyServerSourcesEntry \<Rightarrow> bool" where
  "stable_sources s \<longleftrightarrow>
     srcInsecureSources s \<noteq> Some [] \<and> srcAuthorities s \<noteq> Some fmempty \<and>
     (\<forall>x \<in> set (elems (srcInsecureSources s)). valid_utf8 x) \<and>
     (\<forall>m k as. srcAuthorities s = Some m \<longrightarrow> fmlookup m k = Some as \<longrightarrow>
        valid_utf8 k \<and> (\<forall>a \<in> set (elems as). stable_authority a))"

lemma lexes_authority [simp]: "lexes (marshal_authority a)"
  by (simp add: marshal_authority_def)

lemma decode_marshal_authority:
  "stable_authority a \<Longrightarrow> decode_authority (marshal_authority a) = Some a"
  by (simp add: decode_authority_def marshal_authority_def decode_struct_json json_field_mem upd_authority_def
      stable_authority_def)

lemma lexes_slice:
  "\<forall>v \<in> set (elems s). lexes (f v) \<Longrightarrow> lexes (marshal_slice f s)"
  by (auto simp: marshal_slice_def split: option.splits)

lemma decode_marshal_slice:
  assumes "\<forall>v \<in> set (elems s). lexes (enc v) \<and> f (enc v) = Some v"
  shows "decode_slice f (marshal_slice enc s) = Some s"
  using assms by (cases s) (simp_all add: marshal_slice_def decode_slice_json)

definition authorities_text :: "(string, policyServerSourceAuthority slice) fmap \<Rightarrow> string" where
  "authorities_text m = json_object (map (apsnd (marshal_slice marshal_authority)) (sorted_list_of_fmap m))"

lemma authorities_roundtrip:
  assumes "\<And>k as. fmlookup m k = Some as \<Longrightarrow> valid_utf8 k \<and> (\<forall>a \<in> set (elems as). stable_authority a)"
  shows "lexes (authorities_text m) \<and>
     decode_map (decode_slice decode_authority) None (authorities_text m) = Some (Some m)"
  unfolding authorities_text_def
proof
  show "lexes (json_object (map (apsnd (marshal_slice marshal_authority)) (sorted_list_of_fmap m)))"
    by (rule lexes_json_object) (auto simp: sorted_list_of_fmap_mem lexes_slice dest: assms)
  show "decode_map (decode_slice decode_authority) None
      (json_object (map (apsnd (marshal_slice marshal_authority)) (sorted_list_of_fmap m))) = Some (Some m)"
    by (rule decode_map_json)
      (auto dest: assms intro!: lexes_slice decode_marshal_slice decode_marshal_authority)
qed

lemma sources_roundtrip:
  assumes "stable_sources s"
  shows "unmarshal_sources (marshal_sources s) = Some s"
proof -
  let ?ins = "if elems (srcInsecureSources s) = [] then []
       else [(''insecure_sources'', marshal_slice json_string (srcInsecureSources s))]"
  let ?aut = "case srcAuthorities s of None \<Rightarrow> []
       | Some m \<Rightarrow> if m = fmempty then [] else [(''source_authorities'', authorities_text m)]"
  have l: "lexes (marshal_slice json_string (srcInsecureSources s))" by (rule lexes_slice) simp
  have a: "lexes (authorities_text m) \<and>
      decode_map (decode_slice decode_authority) None (authorities_text m) = Some (Some m)"
    if "srcAuthorities s = Some m" for m
    using assms that by (intro authorities_roundtrip) (auto simp: stable_sources_def)
  have i: "decode_slice (decode_string '''') (marshal_slice json_string (srcInsecureSources s))
      = Some (srcInsecureSources s)"
    using assms by (intro decode_marshal_slice) (simp add: stable_sources_def)
  define kvs where "kvs = ?ins @ ?aut"
  have l: "\<forall>(k, v) \<in> set kvs. valid_utf8 k \<and> lexes v"
    using l a by (auto simp: kvs_def split: option.splits if_splits)
  have "decode_fields [''insecure_sources'', ''source_authorities''] upd_sources zero_sources kvs = Some s"
    using i a assms unfolding kvs_def
    by (cases "srcInsecureSources s"; cases "srcAuthorities s")
      (auto simp: json_field_mem upd_sources_def zero_sources_def stable_sources_def)
  moreover have "marshal_sources s = json_object kvs"
    unfolding kvs_def by (cases "srcAuthorities s") (simp_all add: marshal_sources_def authorities_text_def)
  ultimately show ?thesis
    using lexes_valid [OF lexes_json_object [OF l]] by (simp add: unmarshal_sources_def decode_struct_json [OF l])
qed

lemma empty_sources_text:
  assumes "elems (srcInsecureSources s) = []" "srcAuthorities s = Some fmempty \<or> srcAuthorities s = None"
  shows "marshal_sources s = ''{}'' \<and> unmarshal_sources (marshal_sources s) = Some zero_sources"
proof -
  have m: "marshal_sources s = json_object []"
    using assms by (auto simp: marshal_sources_def)
  moreover have "unmarshal_sources (json_object []) = Some zero_sources"
    unfolding unmarshal_sources_def
    using lexes_valid [OF lexes_json_object [of "[]"]] decode_struct_json [of "[]"] by simp
  ultimately show ?thesis by (simp add: json_object_def)
qed

section \<open>The interface of a document\<close>

text \<open>
  Both documents in the config map are used in the same way: encoded into the config map, and
  compared with what the config map holds to find out whether to write.
\<close>

locale config_document =
  fixes encode :: "'d \<Rightarrow> string option"
    and decode :: "string \<Rightarrow> 'd option"
    and stable :: "'d \<Rightarrow> bool"
    and differs :: "string \<Rightarrow> 'd \<Rightarrow> bool result"
  assumes roundtrip: "stable d \<Longrightarrow> \<exists>t. encode d = Some t \<and> decode t = Some d"
    and differs_decoded: "decode t = Some d' \<Longrightarrow> differs t d = Ok (d' \<noteq> d)"
begin

lemma encode_decode: "stable d \<Longrightarrow> encode d = Some t \<Longrightarrow> decode t = Some d"
  using roundtrip by fastforce

lemma written_is_current: "stable d \<Longrightarrow> encode d = Some t \<Longrightarrow> differs t d = Ok False"
  using encode_decode differs_decoded by fastforce

lemma change_is_noticed:
  "stable d \<Longrightarrow> encode d = Some t \<Longrightarrow> d' \<noteq> d \<Longrightarrow> differs t d' = Ok True"
  using encode_decode differs_decoded by fastforce

lemma encode_inject: "stable d \<Longrightarrow> stable d' \<Longrightarrow> encode d = encode d' \<Longrightarrow> d = d'"
  using roundtrip by (metis option.inject)

end

definition read_policies :: "kube_lib \<Rightarrow> string \<Rightarrow> PolicyConfigEntryMap option" where
  "read_policies L t = (case unmarshal_policies L None t of Some (Some m) \<Rightarrow> Some m | _ \<Rightarrow> None)"

interpretation policies_doc: config_document "marshal_policies L" "read_policies L" "stable_policies L"
    "shouldUpdatePolicyMap L" for L
  using policies_roundtrip
  by unfold_locales (fastforce simp: read_policies_def shouldUpdatePolicyMap_def split: option.splits)+

interpretation sources_doc: config_document "\<lambda>s. Some (marshal_sources s)" unmarshal_sources stable_sources
    shouldUpdateSourcesList
  by unfold_locales (simp_all add: sources_roundtrip shouldUpdateSourcesList_def)

text \<open>What remains of a sources entry when its empty fields are left out.\<close>

definition without_empty :: "policyServerSourcesEntry \<Rightarrow> policyServerSourcesEntry" where
  "without_empty s =
     \<lparr>srcInsecureSources = (if elems (srcInsecureSources s) = [] then None else srcInsecureSources s),
      srcAuthorities = (if srcAuthorities s = Some fmempty then None else srcAuthorities s)\<rparr>"

definition text_sources :: "policyServerSourcesEntry \<Rightarrow> bool" where
  "text_sources s \<longleftrightarrow>
     (\<forall>x \<in> set (elems (srcInsecureSources s)). valid_utf8 x) \<and>
     (\<forall>m k as. srcAuthorities s = Some m \<longrightarrow> fmlookup m k = Some as \<longrightarrow>
        valid_utf8 k \<and> (\<forall>a \<in> set (elems as). stable_authority a))"

lemma marshal_without_empty: "marshal_sources (without_empty s) = marshal_sources s"
  by (cases "srcInsecureSources s"; cases "srcAuthorities s") (simp_all add: marshal_sources_def without_empty_def)

lemma stable_without_empty: "text_sources s \<Longrightarrow> stable_sources (without_empty s)"
  by (auto simp: stable_sources_def text_sources_def without_empty_def)

lemma without_empty_fixed:
  "without_empty s = s \<longleftrightarrow> srcInsecureSources s \<noteq> Some [] \<and> srcAuthorities s \<noteq> Some fmempty"
  by (cases "srcInsecureSources s"; cases s) (auto simp: without_empty_def)

lemma sources_reread:
  assumes "text_sources s"
  shows "shouldUpdateSourcesList (marshal_sources s) s = Ok (without_empty s \<noteq> s)"
  using sources_roundtrip [OF stable_without_empty [OF assms]]
  by (simp add: shouldUpdateSourcesList_def marshal_without_empty)

lemma without_empty_createSourcesMap:
  "without_empty (createSourcesMap ps) = createSourcesMap ps \<longleftrightarrow>
     elems (psInsecureSources (psSpec ps)) \<noteq> [] \<and>
     (\<exists>m. psSourceAuthorities (psSpec ps) = Some m \<and> m \<noteq> fmempty)"
proof -
  have fm: "fmmap f m = fmempty \<longleftrightarrow> m = fmempty" for f :: "'a \<Rightarrow> 'b" and m :: "('k, 'a) fmap"
    by (metis fmap_ext fmempty_lookup fmlookup_map option.map_disc_iff)
  show ?thesis
    by (auto simp: without_empty_fixed createSourcesMap_def fm split: option.splits)
qed


section \<open>The policies of a server\<close>

lemma add_policies_lookup:
  "fmlookup (add_policies m ps) n =
     (case find (\<lambda>p. GetUniqueName p = n) (rev ps) of Some p \<Rightarrow> Some (config_entry p) | None \<Rightarrow> fmlookup m n)"
  by (induction ps arbitrary: m) (auto simp: find_append split: option.splits)

lemma createPoliciesMap_lookup:
  "fmlookup (createPoliciesMap ps) n =
     map_option config_entry (find (\<lambda>p. GetUniqueName p = n) (rev ps))"
  by (simp add: createPoliciesMap_def add_policies_lookup split: option.splits)

lemma createPoliciesMap_distinct:
  assumes "distinct (map GetUniqueName ps)"
  shows "fmlookup (createPoliciesMap ps) n = Some e \<longleftrightarrow> (\<exists>p \<in> set ps. GetUniqueName p = n \<and> config_entry p = e)"
  using find_distinct [OF assms] by (auto simp: createPoliciesMap_lookup)

lemma enumerates_mem: "enumerates kvs m \<Longrightarrow> (k, v) \<in> set kvs \<longleftrightarrow> fmlookup m k = Some v"
  by (auto simp: enumerates_def map_of_eq_Some_iff)

lemma ToAdmission_eq:
  "ToAdmissionPolicyReconcileRequests kvs =
     map (\<lambda>(k, e). object_key (nnNamespace (entNamespacedName e)) (nnName (entNamespacedName e)))
       (filter (\<lambda>(k, e). nnNamespace (entNamespacedName e) \<noteq> '''') kvs)"
  by (induction kvs rule: ToAdmissionPolicyReconcileRequests.induct) auto

lemma ToCluster_eq:
  "ToClusterAdmissionPolicyReconcileRequests kvs =
     map (\<lambda>(k, e). object_key '''' (nnName (entNamespacedName e)))
       (filter (\<lambda>(k, e). nnNamespace (entNamespacedName e) = '''') kvs)"
  by (induction kvs rule: ToClusterAdmissionPolicyReconcileRequests.induct) auto

lemma shouldUpdatePolicyMap_Ok:
  "shouldUpdatePolicyMap L t m = Ok b \<Longrightarrow> \<not> b \<Longrightarrow> read_policies L t = Some m"
  by (auto simp: shouldUpdatePolicyMap_def read_policies_def split: option.splits)

lemma entries_distinct: "PolicyServerConfigPoliciesEntry \<noteq> PolicyServerConfigSourcesEntry"
  by (simp add: const_defs)

lemma patch_steps:
  assumes "patch_policies L b m cfg = Ok p1" "patch_sources b' s p1 = Ok p2"
    and "b \<or> read_policies L (nil_get (cmData cfg) PolicyServerConfigPoliciesEntry) = Some m"
    and "stable_policies L m"
  shows "read_policies L (nil_get (cmData p2) PolicyServerConfigPoliciesEntry) = Some m"
proof -
  have "read_policies L (nil_get (cmData p1) PolicyServerConfigPoliciesEntry) = Some m"
    using assms(1,3) policies_doc.encode_decode [OF assms(4)]
    by (auto simp: patch_policies_def write_data_def split: if_splits option.splits)
  moreover have "nil_get (cmData p2) PolicyServerConfigPoliciesEntry = nil_get (cmData p1) PolicyServerConfigPoliciesEntry"
    using assms(2) entries_distinct by (auto simp: patch_sources_def write_data_def split: if_splits option.splits)
  ultimately show ?thesis by simp
qed

lemma emits_updateIfNeeded:
  assumes "stable_policies (Lib r) (createPoliciesMap policies)"
  shows "emits (updateIfNeeded r cfg policies ps) (\<lambda>x es. x = Ok () \<longrightarrow>
     (es = [] \<and> read_policies (Lib r) (nil_get (cmData cfg) PolicyServerConfigPoliciesEntry) = Some (createPoliciesMap policies)) \<or>
     (\<exists>cm ob. es = [EvWrite (Patch (OConfigMap cm) (OConfigMap cfg)) (Inr ob)] \<and>
        read_policies (Lib r) (nil_get (cmData cm) PolicyServerConfigPoliciesEntry) = Some (createPoliciesMap policies)))"
proof (cases "shouldUpdatePolicyMap (Lib r) (nil_get (cmData cfg) PolicyServerConfigPoliciesEntry) (createPoliciesMap policies)")
  case (Ok b)
  note b = this
  show ?thesis
  proof (cases "shouldUpdateSourcesList (nil_get (cmData cfg) PolicyServerConfigSourcesEntry) (createSourcesMap ps)")
    case (Ok b')
    note b' = this
    show ?thesis
    proof (cases "b \<or> b'")
      case True
      have "read_policies (Lib r) (nil_get (cmData p2) PolicyServerConfigPoliciesEntry) = Some (createPoliciesMap policies)"
        if "patch_policies (Lib r) b (createPoliciesMap policies) cfg = Ok p1"
          "patch_sources b' (createSourcesMap ps) p1 = Ok p2" for p1 p2
        using patch_steps [OF that _ assms] shouldUpdatePolicyMap_Ok [OF b] by blast
      with True show ?thesis
        by (cases "patch_policies (Lib r) b (createPoliciesMap policies) cfg")
          (auto simp: updateIfNeeded_def Let_def b b' intro!: emits_rules split: outcome.split sum.splits)
    next
      case False
      with shouldUpdatePolicyMap_Ok [OF b] show ?thesis
        by (auto simp: updateIfNeeded_def Let_def b b' intro!: emits_rules)
    qed
  qed (auto simp: updateIfNeeded_def Let_def b intro!: emits_rules)
qed (auto simp: updateIfNeeded_def Let_def intro!: emits_rules)

lemma emits_createPolicyServerConfigMap:
  assumes "stable_policies (Lib r) (createPoliciesMap policies)"
  shows "emits (createPolicyServerConfigMap r ps policies) (\<lambda>x es. x = Ok () \<longrightarrow>
     (\<exists>cm ob. es = [EvWrite (Create (OConfigMap cm)) (Inr ob)] \<and>
        read_policies (Lib r) (nil_get (cmData cm) PolicyServerConfigPoliciesEntry) = Some (createPoliciesMap policies)))"
proof -
  obtain t where t: "marshal_policies (Lib r) (createPoliciesMap policies) = Some t"
      "read_policies (Lib r) t = Some (createPoliciesMap policies)"
    using policies_doc.roundtrip [OF assms] by blast
  then show ?thesis
    by (auto simp: createPolicyServerConfigMap_def new_config_map_def map_get_def entries_distinct
        intro!: emits_rules split: sum.splits)
qed

lemma unmarshal_empty: "unmarshal_policies L old '''' = None"
  by (simp add: unmarshal_policies_def json_valid_def json_fuel_def skip_value.simps)

lemma updateIfNeeded_no_panic: "emits (updateIfNeeded r cfg policies ps) (\<lambda>x es. x \<noteq> Panic)"
proof (cases "cmData cfg")
  case None
  then show ?thesis
    by (auto simp: updateIfNeeded_def Let_def shouldUpdatePolicyMap_def unmarshal_empty intro!: emits_rules)
next
  case (Some d)
  have p: "patch_policies (Lib r) b m cfg \<noteq> Panic"
    "patch_policies (Lib r) b m cfg = Ok p1 \<Longrightarrow> patch_sources b' s p1 \<noteq> Panic" for b b' m s p1
    using Some by (auto simp: patch_policies_def patch_sources_def write_data_def split: if_splits option.splits)
  show ?thesis
    unfolding updateIfNeeded_def Let_def
    using p by (auto simp: shouldUpdatePolicyMap_def shouldUpdateSourcesList_def intro!: emits_rules
        split: option.split outcome.split sum.splits)
qed


section \<open>Properties\<close>


lemma requests_of_policies:
  assumes "enumerates kvs (createPoliciesMap ps)" "distinct (map GetUniqueName ps)"
  shows "set (ToAdmissionPolicyReconcileRequests kvs) =
       {object_key (GetNamespace p) (GetName p) | p. p \<in> set ps \<and> GetNamespace p \<noteq> ''''} \<and>
     set (ToClusterAdmissionPolicyReconcileRequests kvs) =
       {object_key '''' (GetName p) | p. p \<in> set ps \<and> GetNamespace p = ''''} \<and>
     length (ToAdmissionPolicyReconcileRequests kvs) + length (ToClusterAdmissionPolicyReconcileRequests kvs) = length kvs"
proof -
  have m: "(k, e) \<in> set kvs \<longleftrightarrow> (\<exists>p \<in> set ps. GetUniqueName p = k \<and> config_entry p = e)" for k e
    using enumerates_mem [OF assms(1)] createPoliciesMap_distinct [OF assms(2)] by simp
  have "length (filter P kvs) + length (filter (\<lambda>x. \<not> P x) kvs) = length kvs" for P :: "_ \<Rightarrow> bool"
    by (rule sum_length_filter_compl)
  from this [of "\<lambda>(k, e). nnNamespace (entNamespacedName e) \<noteq> ''''"]
  show ?thesis
    by (auto simp: ToAdmission_eq ToCluster_eq m config_entry_def case_prod_unfold image_iff)
      (force simp: m config_entry_def)+
qed

text \<open>
  From the map in the config map the controllers get back exactly the policies it was made
  from: a request for every namespaced policy and one for every cluster policy, none twice.
\<close>

theorem reconcile_requests_of_policies:
  assumes "enumerates kvs (createPoliciesMap ps)" "distinct (map GetUniqueName ps)"
  shows "set (ToAdmissionPolicyReconcileRequests kvs) =
       {object_key (GetNamespace p) (GetName p) | p. p \<in> set ps \<and> GetNamespace p \<noteq> ''''} \<and>
     set (ToClusterAdmissionPolicyReconcileRequests kvs) =
       {object_key '''' (GetName p) | p. p \<in> set ps \<and> GetNamespace p = ''''} \<and>
     length (ToAdmissionPolicyReconcileRequests kvs) + length (ToClusterAdmissionPolicyReconcileRequests kvs) = length kvs"
  using assms by (rule requests_of_policies)


theorem reconcile_requests_of_policies_witness:
  "set (ToClusterAdmissionPolicyReconcileRequests
      [(''clusterwide-a'', config_entry (demo_policy ''s'' ''protect'' ''a''))]) = {object_key '''' ''a''}"
proof -
  have "enumerates [(''clusterwide-a'', config_entry (demo_policy ''s'' ''protect'' ''a''))]
      (createPoliciesMap [demo_policy ''s'' ''protect'' ''a''])"
    by (simp add: enumerates_def createPoliciesMap_def demo_defs cap_GetUniqueName_def)
  from reconcile_requests_of_policies [OF this] show ?thesis
    by (simp add: demo_defs)
qed

lemma emits_reconcilePolicyServerConfigMap:
  assumes "stable_policies (Lib r) (createPoliciesMap policies)"
  shows "emits (reconcilePolicyServerConfigMap r ps policies) (\<lambda>x es. x \<noteq> Panic \<and> (x = Ok () \<longrightarrow>
     (\<exists>cm. last_seen KConfigMap es = Some (OConfigMap cm) \<and>
        read_policies (Lib r) (nil_get (cmData cm) PolicyServerConfigPoliciesEntry) = Some (createPoliciesMap policies))))"
proof (rule emits_conj)
  show "emits (reconcilePolicyServerConfigMap r ps policies) (\<lambda>x es. x \<noteq> Panic)"
    unfolding reconcilePolicyServerConfigMap_def createPolicyServerConfigMap_def
    by (auto intro!: emits_rules updateIfNeeded_no_panic split: sum.splits option.splits)
next
  show "emits (reconcilePolicyServerConfigMap r ps policies) (\<lambda>x es. x = Ok () \<longrightarrow>
     (\<exists>cm. last_seen KConfigMap es = Some (OConfigMap cm) \<and>
        read_policies (Lib r) (nil_get (cmData cm) PolicyServerConfigPoliciesEntry) = Some (createPoliciesMap policies)))"
    unfolding reconcilePolicyServerConfigMap_def
  proof (rule emits_get, goal_cases)
    case (1 res)
    show ?case
    proof (cases res)
      case (Inl e)
      show ?thesis
        by (auto simp: Inl intro!: emits_rules emits_post [OF emits_createPolicyServerConfigMap [OF assms]])
    next
      case (Inr ob)
      show ?thesis
        by (cases ob) (auto simp: Inr decode_error_kind intro!: emits_rules emits_post [OF emits_updateIfNeeded [OF assms]])
    qed
  qed
qed

text \<open>
  C9. Reconciling the config map never panics, and when it succeeds the config map that the API
  server then has (the one read, the one created or the one patched) holds, in the entry the
  policy server reads, a text that decodes to exactly the policies given.
\<close>

theorem config_map_holds_policies:
  assumes "stable_policies (Lib r) (createPoliciesMap policies)"
  shows "emits (reconcilePolicyServerConfigMap r ps policies) (\<lambda>x es. x \<noteq> Panic \<and> (x = Ok () \<longrightarrow>
     (\<exists>cm. last_seen KConfigMap es = Some (OConfigMap cm) \<and>
        read_policies (Lib r) (nil_get (cmData cm) PolicyServerConfigPoliciesEntry) = Some (createPoliciesMap policies))))"
  using assms by (rule emits_reconcilePolicyServerConfigMap)

lemma demo_stable: "stable_policies ref_lib (createPoliciesMap [demo_policy ''s'' ''protect'' ''a''])"
  by (simp add: stable_policies_def ref_lib_raw createPoliciesMap_def demo_defs config_entry_def
      stable_entry_def stable_name_def stable_raw_def cap_method_defs valid_utf8.simps)

theorem config_map_holds_policies_witness:
  "emits (reconcilePolicyServerConfigMap script_reconciler demo_server [demo_policy ''s'' ''protect'' ''a''])
     (\<lambda>x es. x \<noteq> Panic)"
  using config_map_holds_policies [of script_reconciler "[demo_policy ''s'' ''protect'' ''a'']" demo_server] demo_stable
  by (auto elim!: emits_post)

text \<open>
  The comparison with the stored policies is exact: the config map written for some policies
  needs an update for other policies exactly when their entries differ.
\<close>

theorem written_policies_are_current:
  assumes "stable_policies (Lib r) (createPoliciesMap policies)"
    and "marshal_policies (Lib r) (createPoliciesMap policies) = Some text"
    and "cm = new_config_map r ps text sources"
  shows "read_policies (Lib r) (nil_get (cmData cm) PolicyServerConfigPoliciesEntry) = Some (createPoliciesMap policies) \<and>
     (\<forall>policies'. shouldUpdatePolicyMap (Lib r) (nil_get (cmData cm) PolicyServerConfigPoliciesEntry) (createPoliciesMap policies')
        = Ok (createPoliciesMap policies \<noteq> createPoliciesMap policies'))"
proof -
  have t: "nil_get (cmData cm) PolicyServerConfigPoliciesEntry = text"
    using assms(3) by (simp add: new_config_map_def map_get_def)
  show ?thesis
    unfolding t
    using policies_doc.encode_decode [OF assms(1) assms(2)]
    by (simp add: policies_doc.differs_decoded)
qed


theorem written_policies_are_current_witness:
  "\<exists>text. shouldUpdatePolicyMap ref_lib text (createPoliciesMap []) = Ok True"
proof -
  let ?ps = "[demo_policy ''s'' ''protect'' ''a'']"
  obtain t where t: "marshal_policies ref_lib (createPoliciesMap ?ps) = Some t"
    using policies_doc.roundtrip [OF demo_stable] by blast
  have "createPoliciesMap ?ps \<noteq> createPoliciesMap []"
    by (simp add: createPoliciesMap_def)
  with written_policies_are_current [of script_reconciler ?ps t "new_config_map script_reconciler demo_server t ''''"
      demo_server "''''"] t demo_stable
  have "shouldUpdatePolicyMap ref_lib (nil_get (cmData (new_config_map script_reconciler demo_server t ''''))
      PolicyServerConfigPoliciesEntry) (createPoliciesMap []) = Ok True" by simp
  then show ?thesis by blast
qed

text \<open>
  C24. On the config map the controller has just written, for the same policies and the same policy
  server, the update sends nothing, but only if the policy server has both insecure sources and
  source authorities; otherwise it sends, every time, a patch that changes nothing.
\<close>

theorem updateIfNeeded_own_config_map:
  assumes "stable_policies (Lib r) (createPoliciesMap policies)" "text_sources (createSourcesMap ps)"
    and "marshal_policies (Lib r) (createPoliciesMap policies) = Some text"
    and "cm = new_config_map r ps text (marshal_sources (createSourcesMap ps))"
  shows "emits (updateIfNeeded r cm policies ps) (\<lambda>x es.
     if elems (psInsecureSources (psSpec ps)) = [] \<or>
         psSourceAuthorities (psSpec ps) = None \<or> psSourceAuthorities (psSpec ps) = Some fmempty
     then \<exists>res. es = [EvWrite (Patch (OConfigMap cm) (OConfigMap cm)) res]
     else x = Ok () \<and> es = [])"
proof -
  have t: "nil_get (cmData cm) PolicyServerConfigPoliciesEntry = text"
    "nil_get (cmData cm) PolicyServerConfigSourcesEntry = marshal_sources (createSourcesMap ps)"
    using assms(4) by (simp_all add: new_config_map_def map_get_def const_defs)
  have p: "shouldUpdatePolicyMap (Lib r) text (createPoliciesMap policies) = Ok False"
    by (rule policies_doc.written_is_current [OF assms(1,3)])
  have d: "write_data PolicyServerConfigSourcesEntry (marshal_sources (createSourcesMap ps)) cm = Ok cm"
    using assms(4) by (auto simp: write_data_def new_config_map_def intro!: fmap_ext)
  show ?thesis
    unfolding updateIfNeeded_def Let_def t p sources_reread [OF assms(2)]
    using without_empty_createSourcesMap [of ps] d
    by (auto simp: patch_policies_def patch_sources_def intro!: emits_rules)
qed

theorem updateIfNeeded_own_config_map_witness:
  "\<exists>cm. emits (updateIfNeeded script_reconciler cm [demo_policy ''s'' ''protect'' ''a''] demo_server)
     (\<lambda>x es. \<exists>res. es = [EvWrite (Patch (OConfigMap cm) (OConfigMap cm)) res])"
proof -
  let ?ps = "[demo_policy ''s'' ''protect'' ''a'']"
  obtain t where t: "marshal_policies ref_lib (createPoliciesMap ?ps) = Some t"
    using policies_doc.roundtrip [OF demo_stable] by blast
  have "text_sources (createSourcesMap demo_server)"
    by (simp add: text_sources_def createSourcesMap_def demo_server_def)
  with updateIfNeeded_own_config_map [of script_reconciler ?ps demo_server t] t demo_stable
  show ?thesis by (auto simp: demo_server_def)
qed

end
