(* ===== verification/Custom_Resource_Json.thy ===== *)
theory Custom_Resource_Json
  imports Policy_Server_Types Config_Document Policy_Interface
begin

text \<open>
  The custom resources of \<open>apis/policies/v1\<close> as the JSON texts that travel between the controllers
  and the API server: the layout the field tags of the structs ask for, and how such a text is read.

  The structs of the Kubernetes API (metadata, rules, selectors, conditions, environment variables)
  are written and read by the library: their codecs are the parameter \<open>api_json\<close>.
\<close>

section \<open>Numbers\<close>

definition json_int :: "int \<Rightarrow> string" where
  "json_int v = (if v < 0 then CHR ''-'' # decimal (nat (- v)) else decimal (nat v))"

definition json_int32 :: "int32 \<Rightarrow> string" where
  "json_int32 w = json_int (sint w)"

definition decode_int32 :: "int32 \<Rightarrow> string \<Rightarrow> int32 option" where
  "decode_int32 old raw =
     (case json_kind raw of
        JNumber \<Rightarrow> (case ParseInt32 raw of Inl _ \<Rightarrow> None | Inr v \<Rightarrow> Some (word_of_int v))
      | JNull \<Rightarrow> Some old
      | _ \<Rightarrow> None)"

lemma digit_chars: "digit_value c \<noteq> None \<longleftrightarrow> is_digit c"
  by (auto simp: digit_value_def is_digit_def Let_def)

lemma is_digit_digit_char [simp]: "d < 10 \<Longrightarrow> is_digit (digit_char d)"
  by (simp flip: digit_chars)

lemma decimal_digits: "\<forall>c \<in> set (decimal n). is_digit c"
proof (induction n rule: decimal.induct)
  case (1 n)
  show ?case
  proof (cases "n < 10")
    case True
    then show ?thesis by (subst decimal.simps) simp
  next
    case False
    with 1 show ?thesis by (subst decimal.simps) auto
  qed
qed

lemma digit_char_0: "digit_char 0 = CHR ''0''"
  by code_simp

lemma decimal_hd_nonzero: "0 < n \<Longrightarrow> hd (decimal n) \<noteq> CHR ''0''"
proof (induction n rule: decimal.induct)
  case (1 n)
  show ?case
  proof (cases "n < 10")
    case True
    with "1.prems" have "digit_value (digit_char n) \<noteq> digit_value (digit_char 0)" by simp
    then have "digit_char n \<noteq> CHR ''0''" by (metis digit_char_0)
    with True show ?thesis by (subst decimal.simps) simp
  next
    case False
    with 1 have "hd (decimal (n div 10)) \<noteq> CHR ''0''" by simp
    with False show ?thesis by (subst decimal.simps) simp
  qed
qed

lemma is_digit_not [simp]:
  "\<not> is_digit CHR '',''" "\<not> is_digit CHR '']''" "\<not> is_digit CHR ''}''" "\<not> is_digit CHR ''-''"
  by (simp_all add: is_digit_def)

lemma delimiter_not_number:
  "delimiter t \<Longrightarrow> skip_digits t = t \<and> skip_fraction t = Some t \<and> skip_exponent t = Some t"
  by (cases t) (auto simp: delimiter_def skip_fraction_def skip_exponent_def starts_with_def)

lemma skip_digits_append: "\<forall>c \<in> set s. is_digit c \<Longrightarrow> skip_digits (s @ t) = skip_digits t"
  by (induction s) auto

lemma skip_integer_decimal:
  assumes "delimiter t"
  shows "skip_integer (decimal n @ t) = Some t"
proof (cases "n = 0")
  case True
  have "decimal 0 = ''0''" by (subst decimal.simps) (simp add: digit_char_0)
  with True show ?thesis by (simp add: skip_integer_def)
next
  case False
  obtain c cs where d: "decimal n = c # cs" by (cases "decimal n") auto
  with False decimal_hd_nonzero [of n] decimal_digits [of n] assms show ?thesis
    by (simp add: skip_integer_def skip_digits_append delimiter_not_number)
qed

lemma decimal_hd_is_digit: "is_digit (hd (decimal n))"
  using decimal_digits [of n] by simp

lemma is_digit_char_cases:
  assumes "is_digit c"
  shows "\<not> is_space c \<and> c \<noteq> CHR '']'' \<and> c \<noteq> CHR ''}'' \<and> c \<noteq> CHR ''['' \<and> c \<noteq> CHR ''{'' \<and> c \<noteq> CHR 0x22 \<and>
    c \<noteq> CHR ''t'' \<and> c \<noteq> CHR ''f'' \<and> c \<noteq> CHR ''n'' \<and> c \<noteq> CHR ''-'' \<and> c \<noteq> CHR ''+''"
  using assms by (auto simp: is_digit_def is_space_def)

lemma minus_char_cases [simp]: "\<not> is_space CHR ''-''"
  by (simp add: is_space_def)

lemma json_int_hd:
  "\<exists>c cs. json_int v = c # cs \<and> (is_digit c \<or> c = CHR ''-'')"
  using decimal_digits [of "nat v"] by (cases "decimal (nat v)") (auto simp: json_int_def)

lemma skip_number_json_int:
  assumes "delimiter t"
  shows "skip_number (json_int v @ t) = Some t"
proof (cases "v < 0")
  case True
  with assms show ?thesis
    by (simp add: json_int_def skip_number_def starts_with_def skip_integer_decimal delimiter_not_number)
next
  case False
  have "\<not> starts_with CHR ''-'' (decimal (nat v) @ t)"
    using decimal_digits [of "nat v"] by (cases "decimal (nat v)") (auto simp: starts_with_def)
  with False assms show ?thesis
    by (simp add: json_int_def skip_number_def skip_integer_decimal delimiter_not_number)
qed

lemma json_int_hd_cases:
  "\<exists>c cs. json_int v = c # cs \<and> \<not> is_space c \<and> c \<noteq> CHR '']'' \<and> c \<noteq> CHR ''}'' \<and> c \<noteq> CHR ''['' \<and>
     c \<noteq> CHR ''{'' \<and> c \<noteq> CHR 0x22 \<and> c \<noteq> CHR ''t'' \<and> c \<noteq> CHR ''f'' \<and> c \<noteq> CHR ''n''"
  using json_int_hd [of v] is_digit_char_cases by fastforce

lemma lexes_json_int [simp]: "lexes (json_int v)"
proof -
  obtain c cs where j: "json_int v = c # cs" and n: "\<not> is_space c" "c \<noteq> CHR '']''" "c \<noteq> CHR ''}''"
      "c \<noteq> CHR ''[''" "c \<noteq> CHR ''{''" "c \<noteq> CHR 0x22" "c \<noteq> CHR ''t''" "c \<noteq> CHR ''f''" "c \<noteq> CHR ''n''"
    using json_int_hd_cases by blast
  have "skip_value n (json_int v @ t) = Some t" if "length (json_int v) < n" "delimiter t" for n t
  proof -
    from that(1) obtain m where "n = Suc m" by (cases n) auto
    with n skip_number_json_int [OF that(2), of v] j show ?thesis by (simp add: skip_value.simps)
  qed
  with n j show ?thesis by (simp add: lexes_def)
qed

lemma json_kind_json_int [simp]: "json_kind (json_int v) = JNumber"
proof -
  obtain c cs where j: "json_int v = c # cs" and n: "\<not> is_space c" "c \<noteq> CHR '']''" "c \<noteq> CHR ''}''"
      "c \<noteq> CHR ''[''" "c \<noteq> CHR ''{''" "c \<noteq> CHR 0x22" "c \<noteq> CHR ''t''" "c \<noteq> CHR ''f''" "c \<noteq> CHR ''n''"
    using json_int_hd_cases by blast
  then show ?thesis by (simp add: json_kind_def)
qed

lemma ParseInt32_minus:
  assumes "ParseUint32 ds = Inr un" "un \<le> 2 ^ 31"
  shows "ParseInt32 (CHR ''-'' # ds) = Inr (- int un)"
  using assms by (simp add: ParseInt32_def)

lemma ParseInt32_json_int:
  assumes "- (2 ^ 31) \<le> v" "v < 2 ^ 31"
  shows "ParseInt32 (json_int v) = Inr v"
proof (cases "v < 0")
  case True
  from assms(1) have un: "nat (- v) \<le> 2 ^ 31" by simp
  then have "ParseUint32 (decimal (nat (- v))) = Inr (nat (- v))"
    using parse_digits_decimal [of "nat (- v)" "2 ^ 32 - 1"] by (simp add: ParseUint32_def del: parse_digits.simps)
  from ParseInt32_minus [OF this un] True show ?thesis by (simp add: json_int_def)
next
  case False
  with assms(2) have "nat v < 2 ^ 31" by simp
  from ParseInt32_decimal [OF this] False show ?thesis by (simp add: json_int_def)
qed

lemma lexes_json_int32 [simp]: "lexes (json_int32 w)"
  by (simp add: json_int32_def)

lemma decode_json_int32 [simp]: "decode_int32 old (json_int32 w) = Some w"
proof -
  have "- (2 ^ 31) \<le> sint w \<and> sint w < 2 ^ 31"
    using sint_greater_eq [of w] sint_lt [of w] by simp
  then show ?thesis by (simp add: decode_int32_def json_int32_def ParseInt32_json_int)
qed

section \<open>Structs of the Kubernetes API\<close>

text \<open>
  How the library writes and reads one of its structs; \<open>jcDecode\<close> stores into a value that is there
  already.  A value is read back when the text written for it is a JSON object from which the reader,
  starting with the zero value, builds the same value.  That holds for every value but those with an
  empty slice or map where the struct leaves it out, or a string that is not well-formed.
\<close>

record 'a json_codec =
  jcZero :: 'a
  jcEncode :: "'a \<Rightarrow> string"
  jcDecode :: "'a \<Rightarrow> string \<Rightarrow> 'a option"

record api_json =
  jsonMeta :: "ObjectMeta json_codec"
  jsonRule :: "RuleWithOperations json_codec"
  jsonSelector :: "LabelSelector json_codec"
  jsonCondition :: "Condition json_codec"
  jsonEnvVar :: "EnvVar json_codec"

definition reads_back :: "'a json_codec \<Rightarrow> 'a \<Rightarrow> bool" where
  "reads_back c x \<longleftrightarrow> lexes (jcEncode c x) \<and> json_kind (jcEncode c x) = JObject \<and>
     jcDecode c (jcZero c) (jcEncode c x) = Some x"

lemma reads_backD:
  assumes "reads_back c x"
  shows "lexes (jcEncode c x)" "json_kind (jcEncode c x) = JObject"
    "jcDecode c (jcZero c) (jcEncode c x) = Some x"
  using assms by (simp_all add: reads_back_def)

section \<open>Members of an object\<close>

text \<open>A field with the option \<open>omitempty\<close> is left out when it is empty.\<close>

type_synonym json_members = "(string \<times> string) list"

definition omit_string :: "string \<Rightarrow> string \<Rightarrow> json_members" where
  "omit_string k s = (if s = '''' then [] else [(k, json_string s)])"

definition omit_pointer :: "string \<Rightarrow> ('a \<Rightarrow> string) \<Rightarrow> 'a option \<Rightarrow> json_members" where
  "omit_pointer k enc p = (case p of None \<Rightarrow> [] | Some x \<Rightarrow> [(k, enc x)])"

definition omit_slice :: "string \<Rightarrow> ('a \<Rightarrow> string) \<Rightarrow> 'a slice \<Rightarrow> json_members" where
  "omit_slice k enc s = (if elems s = [] then [] else [(k, marshal_slice enc s)])"

definition marshal_map :: "('v \<Rightarrow> string) \<Rightarrow> (string, 'v) fmap \<Rightarrow> string" where
  "marshal_map enc m = json_object (map (apsnd enc) (sorted_list_of_fmap m))"

definition omit_map :: "string \<Rightarrow> ('v \<Rightarrow> string) \<Rightarrow> (string, 'v) nilmap \<Rightarrow> json_members" where
  "omit_map k enc s = (case s of None \<Rightarrow> [] | Some m \<Rightarrow> if m = fmempty then [] else [(k, marshal_map enc m)])"

text \<open>
  The reader of the API machinery (\<open>sigs.k8s.io/json\<close>) compares the keys exactly: the function that
  stores a member ignores every other key.
\<close>

fun decode_members :: "(string \<Rightarrow> 'a \<Rightarrow> string \<Rightarrow> 'a option) \<Rightarrow> 'a \<Rightarrow> json_members \<Rightarrow> 'a option" where
  "decode_members upd acc [] = Some acc"
| "decode_members upd acc ((k, v) # kvs) = Option.bind (upd k acc v) (\<lambda>acc'. decode_members upd acc' kvs)"

definition decode_object :: "(string \<Rightarrow> 'a \<Rightarrow> string \<Rightarrow> 'a option) \<Rightarrow> 'a \<Rightarrow> string \<Rightarrow> 'a option" where
  "decode_object upd old raw =
     (case json_kind raw of
        JObject \<Rightarrow> decode_members upd old (object_members raw) | JNull \<Rightarrow> Some old | _ \<Rightarrow> None)"

definition decode_pointer :: "('a \<Rightarrow> string \<Rightarrow> 'a option) \<Rightarrow> 'a \<Rightarrow> 'a option \<Rightarrow> string \<Rightarrow> 'a option option" where
  "decode_pointer dec zero old raw =
     (if json_kind raw = JNull then Some None
      else map_option Some (dec (case old of None \<Rightarrow> zero | Some x \<Rightarrow> x) raw))"

definition unmarshal_object :: "(string \<Rightarrow> 'a \<Rightarrow> string \<Rightarrow> 'a option) \<Rightarrow> 'a \<Rightarrow> string \<Rightarrow> 'a option" where
  "unmarshal_object upd zero text = (if json_valid text then decode_object upd zero text else None)"

lemma decode_members_append [simp]:
  "decode_members upd acc (xs @ ys) = Option.bind (decode_members upd acc xs) (\<lambda>a. decode_members upd a ys)"
  by (induction upd acc xs rule: decode_members.induct) (simp_all split: Option.bind_split)

definition well_formed_members :: "json_members \<Rightarrow> bool" where
  "well_formed_members kvs \<longleftrightarrow> (\<forall>(k, v) \<in> set kvs. valid_utf8 k \<and> lexes v)"

lemma well_formed_members_simps [simp]:
  "well_formed_members []"
  "well_formed_members ((k, v) # kvs) \<longleftrightarrow> valid_utf8 k \<and> lexes v \<and> well_formed_members kvs"
  "well_formed_members (xs @ ys) \<longleftrightarrow> well_formed_members xs \<and> well_formed_members ys"
  by (auto simp: well_formed_members_def)

lemma well_formed_omit_string [simp]: "valid_utf8 k \<Longrightarrow> well_formed_members (omit_string k s)"
  by (simp add: omit_string_def)

lemma well_formed_omit_pointer:
  "valid_utf8 k \<Longrightarrow> (\<forall>x. p = Some x \<longrightarrow> lexes (enc x)) \<Longrightarrow> well_formed_members (omit_pointer k enc p)"
  by (simp add: omit_pointer_def split: option.split)

lemma well_formed_omit_slice:
  "valid_utf8 k \<Longrightarrow> (\<forall>x \<in> set (elems s). lexes (enc x)) \<Longrightarrow> well_formed_members (omit_slice k enc s)"
  by (simp add: omit_slice_def lexes_slice)

lemma lexes_marshal_map:
  "\<forall>k x. fmlookup m k = Some x \<longrightarrow> valid_utf8 k \<and> lexes (enc x) \<Longrightarrow> lexes (marshal_map enc m)"
  unfolding marshal_map_def by (rule lexes_json_object) (auto simp: sorted_list_of_fmap_mem)

lemma well_formed_omit_map:
  assumes "valid_utf8 key" "\<forall>m k x. s = Some m \<and> fmlookup m k = Some x \<longrightarrow> valid_utf8 k \<and> lexes (enc x)"
  shows "well_formed_members (omit_map key enc s)"
proof (cases s)
  case (Some m)
  with assms lexes_marshal_map [of m enc] show ?thesis by (simp add: omit_map_def)
qed (simp add: omit_map_def)

lemma lexes_members: "well_formed_members kvs \<Longrightarrow> lexes (json_object kvs)"
  unfolding well_formed_members_def by (rule lexes_json_object)

lemma decode_object_members:
  "well_formed_members kvs \<Longrightarrow> decode_object upd old (json_object kvs) = decode_members upd old kvs"
  by (simp add: decode_object_def well_formed_members_def)

lemma unmarshal_object_members:
  "well_formed_members kvs \<Longrightarrow> unmarshal_object upd zero (json_object kvs) = decode_members upd zero kvs"
  by (simp add: unmarshal_object_def lexes_valid lexes_members decode_object_members)

lemma decode_pointer_string [simp]:
  "valid_utf8 s \<Longrightarrow> decode_pointer decode_string '''' None (json_string s) = Some (Some s)"
  by (simp add: decode_pointer_def)

lemma decode_pointer_int32 [simp]:
  "decode_pointer decode_int32 0 None (json_int32 w) = Some (Some w)"
  by (simp add: decode_pointer_def) (simp add: json_int32_def)

lemma decode_pointer_struct:
  "reads_back c x \<Longrightarrow> decode_pointer (jcDecode c) (jcZero c) None (jcEncode c x) = Some (Some x)"
  by (simp add: decode_pointer_def reads_back_def)

lemma decode_struct_slice:
  "\<forall>x \<in> set (elems s). reads_back c x \<Longrightarrow>
     decode_slice (jcDecode c (jcZero c)) (marshal_slice (jcEncode c) s) = Some s"
  by (rule decode_marshal_slice) (simp add: reads_back_def)

section \<open>Writing policies\<close>

text \<open>
  Every object embeds \<open>TypeMeta\<close>.  The records of the custom resources do not have it: the controllers
  never look at it.
\<close>

definition type_members :: "TypeMeta \<Rightarrow> json_members" where
  "type_members tm = omit_string ''kind'' (tmKind tm) @ omit_string ''apiVersion'' (tmAPIVersion tm)"

definition PolicySpec_members :: "kube_lib \<Rightarrow> api_json \<Rightarrow> 'a PolicySpec_scheme \<Rightarrow> json_members option" where
  "PolicySpec_members L J s = map_option (\<lambda>settings.
     [(''policyServer'', json_string (specPolicyServer s)), (''module'', json_string (specModule s))] @
     omit_string ''mode'' (specMode s) @
     [(''settings'', settings), (''rules'', marshal_slice (jcEncode (jsonRule J)) (specRules s))] @
     omit_pointer ''failurePolicy'' json_string (specFailurePolicy s) @
     [(''mutating'', json_bool (specMutating s))] @
     omit_pointer ''matchPolicy'' json_string (specMatchPolicy s) @
     omit_pointer ''objectSelector'' (jcEncode (jsonSelector J)) (specObjectSelector s) @
     omit_pointer ''sideEffects'' json_string (specSideEffects s) @
     omit_pointer ''timeoutSeconds'' json_int32 (specTimeoutSeconds s)) (marshal_raw L (specSettings s))"

definition ClusterAdmissionPolicySpec_members ::
    "kube_lib \<Rightarrow> api_json \<Rightarrow> ClusterAdmissionPolicySpec \<Rightarrow> json_members option" where
  "ClusterAdmissionPolicySpec_members L J s = map_option (\<lambda>kvs. kvs @
     omit_pointer ''namespaceSelector'' (jcEncode (jsonSelector J)) (specNamespaceSelector s)) (PolicySpec_members L J s)"

definition PolicyStatus_members :: "api_json \<Rightarrow> PolicyStatus \<Rightarrow> json_members" where
  "PolicyStatus_members J st =
     [(''policyStatus'', json_string (statPolicyStatus st))] @
     omit_string ''mode'' (statPolicyMode st) @
     omit_slice ''conditions'' (jcEncode (jsonCondition J)) (Some (statConditions st))"

definition object_text :: "api_json \<Rightarrow> TypeMeta \<Rightarrow> ObjectMeta \<Rightarrow> json_members \<Rightarrow> json_members \<Rightarrow> string" where
  "object_text J tm m spec status = json_object (type_members tm @
     [(''metadata'', jcEncode (jsonMeta J) m), (''spec'', json_object spec), (''status'', json_object status)])"

definition cap_marshal :: "kube_lib \<Rightarrow> api_json \<Rightarrow> TypeMeta \<Rightarrow> ClusterAdmissionPolicy \<Rightarrow> string option" where
  "cap_marshal L J tm r = map_option (\<lambda>spec. object_text J tm (capMeta r) spec (PolicyStatus_members J (capStatus r)))
     (ClusterAdmissionPolicySpec_members L J (capSpec r))"

definition ap_marshal :: "kube_lib \<Rightarrow> api_json \<Rightarrow> TypeMeta \<Rightarrow> AdmissionPolicy \<Rightarrow> string option" where
  "ap_marshal L J tm r = map_option (\<lambda>spec. object_text J tm (apMeta r) spec (PolicyStatus_members J (apStatus r)))
     (PolicySpec_members L J (apSpec r))"

section \<open>Reading policies\<close>

definition upd_PolicySpec ::
    "kube_lib \<Rightarrow> api_json \<Rightarrow> string \<Rightarrow> 'a PolicySpec_scheme \<Rightarrow> string \<Rightarrow> 'a PolicySpec_scheme option" where
  "upd_PolicySpec L J k s v =
     (if k = ''policyServer'' then
        map_option (\<lambda>x. s\<lparr>specPolicyServer := x\<rparr>) (decode_string (specPolicyServer s) v)
      else if k = ''module'' then map_option (\<lambda>x. s\<lparr>specModule := x\<rparr>) (decode_string (specModule s) v)
      else if k = ''mode'' then map_option (\<lambda>x. s\<lparr>specMode := x\<rparr>) (decode_string (specMode s) v)
      else if k = ''settings'' then
        map_option (\<lambda>x. s\<lparr>specSettings := x\<rparr>) (RawUnmarshalJSON L (specSettings s) v)
      else if k = ''rules'' then
        map_option (\<lambda>x. s\<lparr>specRules := x\<rparr>) (decode_slice (jcDecode (jsonRule J) (jcZero (jsonRule J))) v)
      else if k = ''failurePolicy'' then
        map_option (\<lambda>x. s\<lparr>specFailurePolicy := x\<rparr>) (decode_pointer decode_string '''' (specFailurePolicy s) v)
      else if k = ''mutating'' then map_option (\<lambda>x. s\<lparr>specMutating := x\<rparr>) (decode_bool (specMutating s) v)
      else if k = ''matchPolicy'' then
        map_option (\<lambda>x. s\<lparr>specMatchPolicy := x\<rparr>) (decode_pointer decode_string '''' (specMatchPolicy s) v)
      else if k = ''objectSelector'' then
        map_option (\<lambda>x. s\<lparr>specObjectSelector := x\<rparr>)
          (decode_pointer (jcDecode (jsonSelector J)) (jcZero (jsonSelector J)) (specObjectSelector s) v)
      else if k = ''sideEffects'' then
        map_option (\<lambda>x. s\<lparr>specSideEffects := x\<rparr>) (decode_pointer decode_string '''' (specSideEffects s) v)
      else if k = ''timeoutSeconds'' then
        map_option (\<lambda>x. s\<lparr>specTimeoutSeconds := x\<rparr>) (decode_pointer decode_int32 0 (specTimeoutSeconds s) v)
      else Some s)"

definition upd_ClusterAdmissionPolicySpec ::
    "kube_lib \<Rightarrow> api_json \<Rightarrow> string \<Rightarrow> ClusterAdmissionPolicySpec \<Rightarrow> string \<Rightarrow> ClusterAdmissionPolicySpec option" where
  "upd_ClusterAdmissionPolicySpec L J k s v =
     (if k = ''namespaceSelector'' then
        map_option (\<lambda>x. s\<lparr>specNamespaceSelector := x\<rparr>)
          (decode_pointer (jcDecode (jsonSelector J)) (jcZero (jsonSelector J)) (specNamespaceSelector s) v)
      else upd_PolicySpec L J k s v)"

definition upd_PolicyStatus :: "api_json \<Rightarrow> string \<Rightarrow> PolicyStatus \<Rightarrow> string \<Rightarrow> PolicyStatus option" where
  "upd_PolicyStatus J k st v =
     (if k = ''policyStatus'' then
        map_option (\<lambda>x. st\<lparr>statPolicyStatus := x\<rparr>) (decode_string (statPolicyStatus st) v)
      else if k = ''mode'' then map_option (\<lambda>x. st\<lparr>statPolicyMode := x\<rparr>) (decode_string (statPolicyMode st) v)
      else if k = ''conditions'' then
        map_option (\<lambda>x. st\<lparr>statConditions := elems x\<rparr>)
          (decode_slice (jcDecode (jsonCondition J) (jcZero (jsonCondition J))) v)
      else Some st)"

definition zero_PolicySpec :: PolicySpec where
  "zero_PolicySpec = \<lparr>specPolicyServer = '''', specModule = '''', specMode = '''', specSettings = None,
     specRules = None, specFailurePolicy = None, specMutating = False, specMatchPolicy = None,
     specObjectSelector = None, specSideEffects = None, specTimeoutSeconds = None\<rparr>"

definition zero_PolicyStatus :: PolicyStatus where
  "zero_PolicyStatus = \<lparr>statPolicyStatus = '''', statPolicyMode = '''', statConditions = []\<rparr>"

definition zero_ClusterAdmissionPolicy :: "api_json \<Rightarrow> ClusterAdmissionPolicy" where
  "zero_ClusterAdmissionPolicy J = \<lparr>capMeta = jcZero (jsonMeta J),
     capSpec = PolicySpec.extend zero_PolicySpec (ClusterAdmissionPolicySpec.fields None),
     capStatus = zero_PolicyStatus\<rparr>"

definition zero_AdmissionPolicy :: "api_json \<Rightarrow> AdmissionPolicy" where
  "zero_AdmissionPolicy J = \<lparr>apMeta = jcZero (jsonMeta J), apSpec = zero_PolicySpec, apStatus = zero_PolicyStatus\<rparr>"

text \<open>The kind and the version are stored in a field the records do not have.\<close>

definition upd_ClusterAdmissionPolicy ::
    "kube_lib \<Rightarrow> api_json \<Rightarrow> string \<Rightarrow> ClusterAdmissionPolicy \<Rightarrow> string \<Rightarrow> ClusterAdmissionPolicy option" where
  "upd_ClusterAdmissionPolicy L J k r v =
     (if k = ''kind'' \<or> k = ''apiVersion'' then map_option (\<lambda>_. r) (decode_string '''' v)
      else if k = ''metadata'' then map_option (\<lambda>x. r\<lparr>capMeta := x\<rparr>) (jcDecode (jsonMeta J) (capMeta r) v)
      else if k = ''spec'' then
        map_option (\<lambda>x. r\<lparr>capSpec := x\<rparr>) (decode_object (upd_ClusterAdmissionPolicySpec L J) (capSpec r) v)
      else if k = ''status'' then
        map_option (\<lambda>x. r\<lparr>capStatus := x\<rparr>) (decode_object (upd_PolicyStatus J) (capStatus r) v)
      else Some r)"

definition upd_AdmissionPolicy ::
    "kube_lib \<Rightarrow> api_json \<Rightarrow> string \<Rightarrow> AdmissionPolicy \<Rightarrow> string \<Rightarrow> AdmissionPolicy option" where
  "upd_AdmissionPolicy L J k r v =
     (if k = ''kind'' \<or> k = ''apiVersion'' then map_option (\<lambda>_. r) (decode_string '''' v)
      else if k = ''metadata'' then map_option (\<lambda>x. r\<lparr>apMeta := x\<rparr>) (jcDecode (jsonMeta J) (apMeta r) v)
      else if k = ''spec'' then
        map_option (\<lambda>x. r\<lparr>apSpec := x\<rparr>) (decode_object (upd_PolicySpec L J) (apSpec r) v)
      else if k = ''status'' then
        map_option (\<lambda>x. r\<lparr>apStatus := x\<rparr>) (decode_object (upd_PolicyStatus J) (apStatus r) v)
      else Some r)"

definition cap_unmarshal :: "kube_lib \<Rightarrow> api_json \<Rightarrow> string \<Rightarrow> ClusterAdmissionPolicy option" where
  "cap_unmarshal L J = unmarshal_object (upd_ClusterAdmissionPolicy L J) (zero_ClusterAdmissionPolicy J)"

definition ap_unmarshal :: "kube_lib \<Rightarrow> api_json \<Rightarrow> string \<Rightarrow> AdmissionPolicy option" where
  "ap_unmarshal L J = unmarshal_object (upd_AdmissionPolicy L J) (zero_AdmissionPolicy J)"

section \<open>Policies survive\<close>

definition readable_spec :: "api_json \<Rightarrow> 'a PolicySpec_scheme \<Rightarrow> bool" where
  "readable_spec J s \<longleftrightarrow> valid_utf8 (specPolicyServer s) \<and> valid_utf8 (specModule s) \<and> valid_utf8 (specMode s) \<and>
     stable_raw (specSettings s) \<and> list_all (reads_back (jsonRule J)) (elems (specRules s)) \<and>
     pred_option valid_utf8 (specFailurePolicy s) \<and> pred_option valid_utf8 (specMatchPolicy s) \<and>
     pred_option (reads_back (jsonSelector J)) (specObjectSelector s) \<and> pred_option valid_utf8 (specSideEffects s)"

definition readable_status :: "api_json \<Rightarrow> PolicyStatus \<Rightarrow> bool" where
  "readable_status J st \<longleftrightarrow> valid_utf8 (statPolicyStatus st) \<and> valid_utf8 (statPolicyMode st) \<and>
     list_all (reads_back (jsonCondition J)) (statConditions st)"

definition readable_type :: "TypeMeta \<Rightarrow> bool" where
  "readable_type tm \<longleftrightarrow> valid_utf8 (tmKind tm) \<and> valid_utf8 (tmAPIVersion tm)"

definition readable_cap :: "api_json \<Rightarrow> ClusterAdmissionPolicy \<Rightarrow> bool" where
  "readable_cap J r \<longleftrightarrow> reads_back (jsonMeta J) (capMeta r) \<and> readable_spec J (capSpec r) \<and>
     pred_option (reads_back (jsonSelector J)) (specNamespaceSelector (capSpec r)) \<and> readable_status J (capStatus r)"

definition readable_ap :: "api_json \<Rightarrow> AdmissionPolicy \<Rightarrow> bool" where
  "readable_ap J r \<longleftrightarrow> reads_back (jsonMeta J) (apMeta r) \<and> readable_spec J (apSpec r) \<and> readable_status J (apStatus r)"

lemma pred_option_Some: "pred_option P p \<Longrightarrow> p = Some x \<Longrightarrow> P x"
  by simp

lemma utf8_keys [simp]:
  "valid_utf8 ''policyServer''" "valid_utf8 ''module''" "valid_utf8 ''mode''" "valid_utf8 ''rules''"
  "valid_utf8 ''failurePolicy''" "valid_utf8 ''mutating''" "valid_utf8 ''matchPolicy''" "valid_utf8 ''objectSelector''"
  "valid_utf8 ''sideEffects''" "valid_utf8 ''timeoutSeconds''" "valid_utf8 ''namespaceSelector''"
  "valid_utf8 ''policyStatus''" "valid_utf8 ''conditions''" "valid_utf8 ''kind''" "valid_utf8 ''apiVersion''"
  "valid_utf8 ''metadata''" "valid_utf8 ''spec''" "valid_utf8 ''status''"
  by (simp_all add: valid_utf8.simps)

text \<open>One field at a time: reading what was written for a field, or nothing, sets the field.\<close>

lemma decode_omit_string:
  "upd k acc (json_string s) = Some acc' \<Longrightarrow> (s = '''' \<Longrightarrow> acc' = acc) \<Longrightarrow>
     decode_members upd acc (omit_string k s) = Some acc'"
  by (simp add: omit_string_def)

lemma decode_omit_pointer:
  "(\<And>x. p = Some x \<Longrightarrow> upd k acc (enc x) = Some acc') \<Longrightarrow> (p = None \<Longrightarrow> acc' = acc) \<Longrightarrow>
     decode_members upd acc (omit_pointer k enc p) = Some acc'"
  by (cases p) (simp_all add: omit_pointer_def)

lemma decode_omit_slice:
  "(elems s \<noteq> [] \<Longrightarrow> upd k acc (marshal_slice enc s) = Some acc') \<Longrightarrow> (elems s = [] \<Longrightarrow> acc' = acc) \<Longrightarrow>
     decode_members upd acc (omit_slice k enc s) = Some acc'"
  by (simp add: omit_slice_def)

text \<open>Both kinds of policy read the fields of \<open>PolicySpec\<close> alike.\<close>

definition spec_reader ::
    "kube_lib \<Rightarrow> api_json \<Rightarrow> (string \<Rightarrow> 'a PolicySpec_scheme \<Rightarrow> string \<Rightarrow> 'a PolicySpec_scheme option) \<Rightarrow> bool" where
  "spec_reader L J upd \<longleftrightarrow> (\<forall>k s v. k \<noteq> ''namespaceSelector'' \<longrightarrow> upd k s v = upd_PolicySpec L J k s v)"

lemma spec_readers:
  "spec_reader L J (upd_PolicySpec L J)" "spec_reader L J (upd_ClusterAdmissionPolicySpec L J)"
  by (simp_all add: spec_reader_def upd_ClusterAdmissionPolicySpec_def)

lemma read_mode:
  "spec_reader L J upd \<Longrightarrow> specMode acc = '''' \<Longrightarrow> valid_utf8 m \<Longrightarrow>
     decode_members upd acc (omit_string ''mode'' m) = Some (acc\<lparr>specMode := m\<rparr>)"
  by (rule decode_omit_string) (simp_all add: spec_reader_def upd_PolicySpec_def)

lemma read_failurePolicy:
  "spec_reader L J upd \<Longrightarrow> specFailurePolicy acc = None \<Longrightarrow> pred_option valid_utf8 p \<Longrightarrow>
     decode_members upd acc (omit_pointer ''failurePolicy'' json_string p) = Some (acc\<lparr>specFailurePolicy := p\<rparr>)"
  by (rule decode_omit_pointer) (simp_all add: spec_reader_def upd_PolicySpec_def)

lemma read_matchPolicy:
  "spec_reader L J upd \<Longrightarrow> specMatchPolicy acc = None \<Longrightarrow> pred_option valid_utf8 p \<Longrightarrow>
     decode_members upd acc (omit_pointer ''matchPolicy'' json_string p) = Some (acc\<lparr>specMatchPolicy := p\<rparr>)"
  by (rule decode_omit_pointer) (simp_all add: spec_reader_def upd_PolicySpec_def)

lemma read_sideEffects:
  "spec_reader L J upd \<Longrightarrow> specSideEffects acc = None \<Longrightarrow> pred_option valid_utf8 p \<Longrightarrow>
     decode_members upd acc (omit_pointer ''sideEffects'' json_string p) = Some (acc\<lparr>specSideEffects := p\<rparr>)"
  by (rule decode_omit_pointer) (simp_all add: spec_reader_def upd_PolicySpec_def)

lemma read_objectSelector:
  "spec_reader L J upd \<Longrightarrow> specObjectSelector acc = None \<Longrightarrow> pred_option (reads_back (jsonSelector J)) p \<Longrightarrow>
     decode_members upd acc (omit_pointer ''objectSelector'' (jcEncode (jsonSelector J)) p) = Some (acc\<lparr>specObjectSelector := p\<rparr>)"
  by (rule decode_omit_pointer) (simp_all add: spec_reader_def upd_PolicySpec_def decode_pointer_struct)

lemma read_timeoutSeconds:
  "spec_reader L J upd \<Longrightarrow> specTimeoutSeconds acc = None \<Longrightarrow>
     decode_members upd acc (omit_pointer ''timeoutSeconds'' json_int32 p) = Some (acc\<lparr>specTimeoutSeconds := p\<rparr>)"
  by (rule decode_omit_pointer) (simp_all add: spec_reader_def upd_PolicySpec_def)

lemma read_rules:
  "list_all (reads_back (jsonRule J)) (elems rs) \<Longrightarrow>
     decode_slice (jcDecode (jsonRule J) (jcZero (jsonRule J))) (marshal_slice (jcEncode (jsonRule J)) rs) = Some rs"
  by (rule decode_struct_slice) (simp add: list_all_iff)

lemma read_namespaceSelector:
  "specNamespaceSelector acc = None \<Longrightarrow> pred_option (reads_back (jsonSelector J)) p \<Longrightarrow>
     decode_members (upd_ClusterAdmissionPolicySpec L J) acc (omit_pointer ''namespaceSelector'' (jcEncode (jsonSelector J)) p) =
       Some (acc\<lparr>specNamespaceSelector := p\<rparr>)"
  by (rule decode_omit_pointer) (simp_all add: upd_ClusterAdmissionPolicySpec_def decode_pointer_struct)

lemmas spec_fields_read = read_mode read_failurePolicy read_matchPolicy read_sideEffects read_objectSelector
  read_timeoutSeconds read_rules

lemma well_formed_string_pointer [simp]:
  "valid_utf8 k \<Longrightarrow> well_formed_members (omit_pointer k json_string p)"
  "valid_utf8 k \<Longrightarrow> well_formed_members (omit_pointer k json_int32 q)"
  by (simp_all add: well_formed_omit_pointer)

lemma well_formed_struct_pointer:
  "valid_utf8 k \<Longrightarrow> pred_option (reads_back c) p \<Longrightarrow> well_formed_members (omit_pointer k (jcEncode c) p)"
  by (rule well_formed_omit_pointer) (auto dest: reads_backD)

lemma lexes_struct_slice:
  "list_all (reads_back c) (elems s) \<Longrightarrow> lexes (marshal_slice (jcEncode c) s)"
  by (rule lexes_slice) (auto simp: list_all_iff dest: reads_backD)

lemma PolicySpec_members_read:
  assumes "raw_extension_law L" "readable_spec J s" "spec_reader L J upd"
  obtains kvs where "PolicySpec_members L J s = Some kvs" "well_formed_members kvs"
    "decode_members upd (PolicySpec.extend zero_PolicySpec e) kvs =
       Some (PolicySpec.extend (PolicySpec.truncate s) e)"
proof -
  from assms obtain t where t: "marshal_raw L (specSettings s) = Some t" "lexes t"
      "RawUnmarshalJSON L None t = Some (specSettings s)"
    using marshal_raw_stable by (auto simp: readable_spec_def)
  note r = assms(2) [unfolded readable_spec_def]
  let ?kvs = "\<lambda>settings.
     [(''policyServer'', json_string (specPolicyServer s)), (''module'', json_string (specModule s))] @
     omit_string ''mode'' (specMode s) @
     [(''settings'', settings), (''rules'', marshal_slice (jcEncode (jsonRule J)) (specRules s))] @
     omit_pointer ''failurePolicy'' json_string (specFailurePolicy s) @
     [(''mutating'', json_bool (specMutating s))] @
     omit_pointer ''matchPolicy'' json_string (specMatchPolicy s) @
     omit_pointer ''objectSelector'' (jcEncode (jsonSelector J)) (specObjectSelector s) @
     omit_pointer ''sideEffects'' json_string (specSideEffects s) @
     omit_pointer ''timeoutSeconds'' json_int32 (specTimeoutSeconds s)"
  have u: "k \<noteq> ''namespaceSelector'' \<Longrightarrow> upd k acc v = upd_PolicySpec L J k acc v" for k acc v
    using assms(3) by (simp add: spec_reader_def)
  show ?thesis
  proof (rule that)
    show "PolicySpec_members L J s = Some (?kvs t)" using t(1) by (simp add: PolicySpec_members_def)
    show "well_formed_members (?kvs t)"
      using r t(2) by (simp add: well_formed_struct_pointer lexes_struct_slice)
    show "decode_members upd (PolicySpec.extend zero_PolicySpec e) (?kvs t) =
        Some (PolicySpec.extend (PolicySpec.truncate s) e)"
      using r t(3) assms(3)
      by (simp add: spec_fields_read u upd_PolicySpec_def zero_PolicySpec_def PolicySpec.defs)
  qed
qed

lemma PolicyStatus_members_read:
  assumes "readable_status J st"
  shows "well_formed_members (PolicyStatus_members J st)"
    "decode_members (upd_PolicyStatus J) zero_PolicyStatus (PolicyStatus_members J st) = Some st"
proof -
  note r = assms [unfolded readable_status_def]
  have c: "decode_slice (jcDecode (jsonCondition J) (jcZero (jsonCondition J)))
      (marshal_slice (jcEncode (jsonCondition J)) (Some (statConditions st))) = Some (Some (statConditions st))"
    using r by (intro decode_struct_slice) (simp add: list_all_iff)
  have m: "decode_members (upd_PolicyStatus J) acc (omit_string ''mode'' (statPolicyMode st)) =
      Some (acc\<lparr>statPolicyMode := statPolicyMode st\<rparr>)" if "statPolicyMode acc = ''''" for acc
    by (rule decode_omit_string) (use that r in \<open>simp_all add: upd_PolicyStatus_def\<close>)
  have s: "decode_members (upd_PolicyStatus J) acc
        (omit_slice ''conditions'' (jcEncode (jsonCondition J)) (Some (statConditions st))) =
      Some (acc\<lparr>statConditions := statConditions st\<rparr>)" if "statConditions acc = []" for acc
    by (rule decode_omit_slice) (use that c in \<open>simp_all add: upd_PolicyStatus_def\<close>)
  show "well_formed_members (PolicyStatus_members J st)"
    using r by (auto simp: PolicyStatus_members_def list_all_iff intro!: well_formed_omit_slice dest: reads_backD)
  show "decode_members (upd_PolicyStatus J) zero_PolicyStatus (PolicyStatus_members J st) = Some st"
    using r by (simp add: PolicyStatus_members_def m s upd_PolicyStatus_def zero_PolicyStatus_def)
qed

lemma well_formed_type_members [simp]: "well_formed_members (type_members tm)"
  by (simp add: type_members_def)

text \<open>An object is read member by member, when its type, metadata, spec and status are.\<close>

lemma object_text_read:
  assumes "readable_type tm" "reads_back (jsonMeta J) m" "well_formed_members spec" "well_formed_members status"
    and "\<And>k v. k = ''kind'' \<or> k = ''apiVersion'' \<Longrightarrow> upd k zero v = map_option (\<lambda>_. zero) (decode_string '''' v)"
    and "upd ''metadata'' zero (jcEncode (jsonMeta J) m) = Some r1"
    and "upd ''spec'' r1 (json_object spec) = Some r2"
    and "upd ''status'' r2 (json_object status) = Some r"
  shows "unmarshal_object upd zero (object_text J tm m spec status) = Some r"
proof -
  have t: "decode_members upd zero (type_members tm) = Some zero"
    using assms(1,5) by (simp add: type_members_def omit_string_def readable_type_def)
  show ?thesis
    unfolding object_text_def using assms(2-4,6-8) t
    by (subst unmarshal_object_members) (simp_all add: lexes_members reads_back_def)
qed

lemma cap_read_back:
  assumes "raw_extension_law L" "readable_type tm" "readable_cap J r"
  shows "\<exists>text. cap_marshal L J tm r = Some text \<and> cap_unmarshal L J text = Some r"
proof -
  note r = assms(3) [unfolded readable_cap_def]
  from r have s: "readable_spec J (capSpec r)" by simp
  obtain kvs where kvs: "PolicySpec_members L J (capSpec r) = Some kvs" "well_formed_members kvs"
      "decode_members (upd_ClusterAdmissionPolicySpec L J)
         (PolicySpec.extend zero_PolicySpec (ClusterAdmissionPolicySpec.fields None)) kvs =
       Some (PolicySpec.extend (PolicySpec.truncate (capSpec r)) (ClusterAdmissionPolicySpec.fields None))"
    by (rule PolicySpec_members_read [OF assms(1) s spec_readers(2)])
  let ?kvs = "kvs @ omit_pointer ''namespaceSelector'' (jcEncode (jsonSelector J)) (specNamespaceSelector (capSpec r))"
  have spec: "decode_members (upd_ClusterAdmissionPolicySpec L J)
      (PolicySpec.extend zero_PolicySpec (ClusterAdmissionPolicySpec.fields None)) ?kvs = Some (capSpec r)"
    using kvs(3) r
    by (cases "capSpec r") (simp add: read_namespaceSelector PolicySpec.defs ClusterAdmissionPolicySpec.defs)
  have wf: "well_formed_members ?kvs" using kvs(2) r by (simp add: well_formed_struct_pointer)
  have "cap_unmarshal L J (object_text J tm (capMeta r) ?kvs (PolicyStatus_members J (capStatus r))) = Some r"
    unfolding cap_unmarshal_def
  proof (rule object_text_read [OF assms(2) _ wf PolicyStatus_members_read(1)])
    show "reads_back (jsonMeta J) (capMeta r)" "readable_status J (capStatus r)" using r by simp_all
    show "upd_ClusterAdmissionPolicy L J ''metadata'' (zero_ClusterAdmissionPolicy J) (jcEncode (jsonMeta J) (capMeta r)) =
        Some ((zero_ClusterAdmissionPolicy J)\<lparr>capMeta := capMeta r\<rparr>)"
      using r by (simp add: upd_ClusterAdmissionPolicy_def zero_ClusterAdmissionPolicy_def reads_back_def)
    show "upd_ClusterAdmissionPolicy L J ''spec'' ((zero_ClusterAdmissionPolicy J)\<lparr>capMeta := capMeta r\<rparr>) (json_object ?kvs) =
        Some ((zero_ClusterAdmissionPolicy J)\<lparr>capMeta := capMeta r, capSpec := capSpec r\<rparr>)"
      using spec by (simp add: upd_ClusterAdmissionPolicy_def zero_ClusterAdmissionPolicy_def decode_object_members [OF wf])
    show "upd_ClusterAdmissionPolicy L J ''status'' ((zero_ClusterAdmissionPolicy J)\<lparr>capMeta := capMeta r, capSpec := capSpec r\<rparr>)
        (json_object (PolicyStatus_members J (capStatus r))) = Some r"
      using r by (simp add: upd_ClusterAdmissionPolicy_def zero_ClusterAdmissionPolicy_def decode_object_members
          PolicyStatus_members_read)
  qed (auto simp: upd_ClusterAdmissionPolicy_def)
  with kvs(1) show ?thesis by (simp add: cap_marshal_def ClusterAdmissionPolicySpec_members_def)
qed

lemma ap_read_back:
  assumes "raw_extension_law L" "readable_type tm" "readable_ap J r"
  shows "\<exists>text. ap_marshal L J tm r = Some text \<and> ap_unmarshal L J text = Some r"
proof -
  note r = assms(3) [unfolded readable_ap_def]
  from r have s: "readable_spec J (apSpec r)" by simp
  obtain kvs where kvs: "PolicySpec_members L J (apSpec r) = Some kvs" "well_formed_members kvs"
      "decode_members (upd_PolicySpec L J) (PolicySpec.extend zero_PolicySpec ()) kvs =
       Some (PolicySpec.extend (PolicySpec.truncate (apSpec r)) ())"
    by (rule PolicySpec_members_read [OF assms(1) s spec_readers(1)])
  have spec: "decode_members (upd_PolicySpec L J) zero_PolicySpec kvs = Some (apSpec r)"
    using kvs(3) by (cases "apSpec r") (simp add: zero_PolicySpec_def PolicySpec.defs)
  have "ap_unmarshal L J (object_text J tm (apMeta r) kvs (PolicyStatus_members J (apStatus r))) = Some r"
    unfolding ap_unmarshal_def
  proof (rule object_text_read [OF assms(2) _ kvs(2) PolicyStatus_members_read(1)])
    show "reads_back (jsonMeta J) (apMeta r)" "readable_status J (apStatus r)" using r by simp_all
    show "upd_AdmissionPolicy L J ''metadata'' (zero_AdmissionPolicy J) (jcEncode (jsonMeta J) (apMeta r)) =
        Some ((zero_AdmissionPolicy J)\<lparr>apMeta := apMeta r\<rparr>)"
      using r by (simp add: upd_AdmissionPolicy_def zero_AdmissionPolicy_def reads_back_def)
    show "upd_AdmissionPolicy L J ''spec'' ((zero_AdmissionPolicy J)\<lparr>apMeta := apMeta r\<rparr>) (json_object kvs) =
        Some ((zero_AdmissionPolicy J)\<lparr>apMeta := apMeta r, apSpec := apSpec r\<rparr>)"
      using spec by (simp add: upd_AdmissionPolicy_def zero_AdmissionPolicy_def decode_object_members [OF kvs(2)])
    show "upd_AdmissionPolicy L J ''status'' ((zero_AdmissionPolicy J)\<lparr>apMeta := apMeta r, apSpec := apSpec r\<rparr>)
        (json_object (PolicyStatus_members J (apStatus r))) = Some r"
      using r by (simp add: upd_AdmissionPolicy_def zero_AdmissionPolicy_def decode_object_members
          PolicyStatus_members_read)
  qed (auto simp: upd_AdmissionPolicy_def)
  with kvs(1) show ?thesis by (simp add: ap_marshal_def)
qed

section \<open>Reading policy servers\<close>

text \<open>The records of \<open>Policy_Server_Types\<close> do not tell a nil slice from an empty one.\<close>

definition decode_list :: "(string \<Rightarrow> 'a option) \<Rightarrow> string \<Rightarrow> 'a list option" where
  "decode_list f raw = map_option elems (decode_slice f raw)"

definition upd_PolicyServerSpec :: "api_json \<Rightarrow> string \<Rightarrow> PolicyServerSpec \<Rightarrow> string \<Rightarrow> PolicyServerSpec option" where
  "upd_PolicyServerSpec J k s v =
     (if k = ''image'' then map_option (\<lambda>x. s\<lparr>psImage := x\<rparr>) (decode_string (psImage s) v)
      else if k = ''replicas'' then map_option (\<lambda>x. s\<lparr>psReplicas := x\<rparr>) (decode_int32 (psReplicas s) v)
      else if k = ''annotations'' then
        map_option (\<lambda>x. s\<lparr>psAnnotations := x\<rparr>) (decode_map (decode_string '''') (psAnnotations s) v)
      else if k = ''env'' then
        map_option (\<lambda>x. s\<lparr>psEnv := x\<rparr>) (decode_list (jcDecode (jsonEnvVar J) (jcZero (jsonEnvVar J))) v)
      else if k = ''serviceAccountName'' then
        map_option (\<lambda>x. s\<lparr>psServiceAccountName := x\<rparr>) (decode_string (psServiceAccountName s) v)
      else if k = ''imagePullSecret'' then
        map_option (\<lambda>x. s\<lparr>psImagePullSecret := x\<rparr>) (decode_string (psImagePullSecret s) v)
      else if k = ''insecureSources'' then
        map_option (\<lambda>x. s\<lparr>psInsecureSources := x\<rparr>) (decode_slice (decode_string '''') v)
      else if k = ''sourceAuthorities'' then
        map_option (\<lambda>x. s\<lparr>psSourceAuthorities := x\<rparr>)
          (decode_map (decode_list (decode_string '''')) (psSourceAuthorities s) v)
      else if k = ''verificationConfig'' then
        map_option (\<lambda>x. s\<lparr>psVerificationConfig := x\<rparr>) (decode_string (psVerificationConfig s) v)
      else Some s)"

definition upd_PolicyServerStatus :: "api_json \<Rightarrow> string \<Rightarrow> Condition list \<Rightarrow> string \<Rightarrow> Condition list option" where
  "upd_PolicyServerStatus J k cs v =
     (if k = ''conditions'' then decode_list (jcDecode (jsonCondition J) (jcZero (jsonCondition J))) v else Some cs)"

definition zero_PolicyServer :: "api_json \<Rightarrow> PolicyServer" where
  "zero_PolicyServer J = \<lparr>psMeta = jcZero (jsonMeta J),
     psSpec = \<lparr>psImage = '''', psReplicas = 0, psAnnotations = None, psEnv = [], psServiceAccountName = '''',
       psImagePullSecret = '''', psInsecureSources = None, psSourceAuthorities = None, psVerificationConfig = ''''\<rparr>,
     psConditions = []\<rparr>"

definition upd_PolicyServer :: "api_json \<Rightarrow> string \<Rightarrow> PolicyServer \<Rightarrow> string \<Rightarrow> PolicyServer option" where
  "upd_PolicyServer J k r v =
     (if k = ''kind'' \<or> k = ''apiVersion'' then map_option (\<lambda>_. r) (decode_string '''' v)
      else if k = ''metadata'' then map_option (\<lambda>x. r\<lparr>psMeta := x\<rparr>) (jcDecode (jsonMeta J) (psMeta r) v)
      else if k = ''spec'' then
        map_option (\<lambda>x. r\<lparr>psSpec := x\<rparr>) (decode_object (upd_PolicyServerSpec J) (psSpec r) v)
      else if k = ''status'' then
        map_option (\<lambda>x. r\<lparr>psConditions := x\<rparr>) (decode_object (upd_PolicyServerStatus J) (psConditions r) v)
      else Some r)"

definition ps_unmarshal :: "api_json \<Rightarrow> string \<Rightarrow> PolicyServer option" where
  "ps_unmarshal J = unmarshal_object (upd_PolicyServer J) (zero_PolicyServer J)"

lemma server_utf8_keys [simp]:
  "valid_utf8 ''image''" "valid_utf8 ''replicas''" "valid_utf8 ''annotations''" "valid_utf8 ''env''"
  "valid_utf8 ''serviceAccountName''" "valid_utf8 ''imagePullSecret''" "valid_utf8 ''insecureSources''"
  "valid_utf8 ''sourceAuthorities''" "valid_utf8 ''verificationConfig''"
  by (simp_all add: valid_utf8.simps)

text \<open>What \<open>omitempty\<close> makes of an empty slice or map: nothing, which is read as nil.\<close>

definition omitted_slice :: "'a slice \<Rightarrow> 'a slice" where
  "omitted_slice s = (if elems s = [] then None else s)"

definition omitted_map :: "(string, 'v) nilmap \<Rightarrow> (string, 'v) nilmap" where
  "omitted_map s = (if s = Some fmempty then None else s)"

lemma decode_entries_convert:
  "\<forall>(k, x) \<in> set kvs. f (enc x) = Some (g x) \<Longrightarrow>
   decode_entries f m (map (apsnd enc) kvs) = Some (m ++\<^sub>f fmap_of_list (rev (map (apsnd g) kvs)))"
proof (induction kvs arbitrary: m)
  case (Cons kv kvs)
  then show ?case by (cases kv) (auto simp: fmap_of_list_app intro!: fmap_ext split: option.splits)
qed simp

lemma fmap_of_list_convert: "fmap_of_list (map (apsnd g) kvs) = fmmap g (fmap_of_list kvs)"
  by (rule fmap_ext) (induction kvs, auto)

lemma decode_marshal_map:
  assumes "\<forall>k x. fmlookup m k = Some x \<longrightarrow> valid_utf8 k \<and> lexes (enc x) \<and> f (enc x) = Some (g x)"
  shows "decode_map f None (marshal_map enc m) = Some (Some (fmmap g m))"
proof -
  have "object_members (marshal_map enc m) = map (apsnd enc) (sorted_list_of_fmap m)"
    unfolding marshal_map_def using assms by (intro object_members_json_object) (auto simp: sorted_list_of_fmap_mem)
  moreover have "decode_entries f fmempty (map (apsnd enc) (sorted_list_of_fmap m)) = Some (fmempty ++\<^sub>f fmmap g m)"
    using assms by (subst decode_entries_convert)
      (auto simp: sorted_list_of_fmap_mem fmap_of_list_convert rev_map)
  ultimately show ?thesis by (simp add: decode_map_def marshal_map_def)
qed

lemma decode_omit_map:
  "(\<And>m. s = Some m \<Longrightarrow> m \<noteq> fmempty \<Longrightarrow> upd k acc (marshal_map enc m) = Some acc') \<Longrightarrow>
     (omitted_map s = None \<Longrightarrow> acc' = acc) \<Longrightarrow> decode_members upd acc (omit_map k enc s) = Some acc'"
  by (cases s) (auto simp: omit_map_def omitted_map_def)

lemma decode_list_marshal:
  assumes "\<forall>v \<in> set (elems s). lexes (enc v) \<and> f (enc v) = Some v"
  shows "decode_list f (marshal_slice enc s) = Some (elems s)"
  using decode_marshal_slice [OF assms] by (simp add: decode_list_def)

section \<open>The contract of a written resource\<close>

text \<open>
  A resource is written by one party and read by another, perhaps as an object of another version:
  what is read is the view that the reader has of what was written.
\<close>

locale written_resource =
  fixes marshal :: "'a \<Rightarrow> string option"
    and unmarshal :: "string \<Rightarrow> 'b option"
    and readable :: "'a \<Rightarrow> bool"
    and converted :: "'a \<Rightarrow> 'b"
  assumes read_back: "readable x \<Longrightarrow> \<exists>text. marshal x = Some text \<and> unmarshal text = Some (converted x)"
begin

lemma write_read: "readable x \<Longrightarrow> Option.bind (marshal x) unmarshal = Some (converted x)"
  by (auto dest: read_back)

text \<open>Two resources with the same text are the same resource to the reader.\<close>

lemma same_text: "readable x \<Longrightarrow> readable y \<Longrightarrow> marshal x = marshal y \<Longrightarrow> converted x = converted y"
  using read_back [of x] read_back [of y] by auto

lemma list_read_back:
  "list_all readable xs \<Longrightarrow>
     \<exists>texts. those (map marshal xs) = Some texts \<and> those (map unmarshal texts) = Some (map converted xs)"
proof (induction xs)
  case (Cons x xs)
  then obtain t ts where "marshal x = Some t" "unmarshal t = Some (converted x)"
      "those (map marshal xs) = Some ts" "those (map unmarshal ts) = Some (map converted xs)"
    using read_back [of x] by auto
  then show ?case by (intro exI [of _ "t # ts"]) simp
qed simp

end

interpretation cap_json: written_resource "cap_marshal L J tm" "cap_unmarshal L J"
    "\<lambda>r. raw_extension_law L \<and> readable_type tm \<and> readable_cap J r" "\<lambda>r. r"
  for L J tm
  by unfold_locales (simp add: cap_read_back)

interpretation ap_json: written_resource "ap_marshal L J tm" "ap_unmarshal L J"
    "\<lambda>r. raw_extension_law L \<and> readable_type tm \<and> readable_ap J r" "\<lambda>r. r"
  for L J tm
  by unfold_locales (simp add: ap_read_back)

end
