(* ===== verification/V1alpha2.thy ===== *)
theory V1alpha2
  imports Custom_Resource_Json
begin

text \<open>
  The API version \<open>v1alpha2\<close> of the custom resources (\<open>apis/policies/v1alpha2\<close>).  The cluster serves
  it beside \<open>v1\<close>, which it stores, and has no conversion webhook: the API server converts an object by
  rewriting its \<open>apiVersion\<close> and nothing else.  An object that a client writes as \<open>v1alpha2\<close> must
  therefore mean the same to the controllers, which read it as \<open>v1\<close>.
\<close>

section \<open>The group version and the constants\<close>

definition GroupVersion_Group_v1alpha2 :: string where
  "GroupVersion_Group_v1alpha2 = ''policies.kubewarden.io''"

definition GroupVersion_Version_v1alpha2 :: string where
  "GroupVersion_Version_v1alpha2 = ''v1alpha2''"

type_synonym PolicyMode_v1alpha2 = string
type_synonym PolicyStatusEnum_v1alpha2 = string
type_synonym PolicyModeStatus_v1alpha2 = string

definition PolicyStatusUnscheduled_v1alpha2 :: PolicyStatusEnum_v1alpha2 where
  "PolicyStatusUnscheduled_v1alpha2 = ''unscheduled''"

definition PolicyStatusScheduled_v1alpha2 :: PolicyStatusEnum_v1alpha2 where
  "PolicyStatusScheduled_v1alpha2 = ''scheduled''"

definition PolicyStatusPending_v1alpha2 :: PolicyStatusEnum_v1alpha2 where
  "PolicyStatusPending_v1alpha2 = ''pending''"

definition PolicyStatusActive_v1alpha2 :: PolicyStatusEnum_v1alpha2 where
  "PolicyStatusActive_v1alpha2 = ''active''"

definition PolicyModeStatusProtect_v1alpha2 :: PolicyModeStatus_v1alpha2 where
  "PolicyModeStatusProtect_v1alpha2 = ''protect''"

definition PolicyModeStatusMonitor_v1alpha2 :: PolicyModeStatus_v1alpha2 where
  "PolicyModeStatusMonitor_v1alpha2 = ''monitor''"

definition PolicyModeStatusUnknown_v1alpha2 :: PolicyModeStatus_v1alpha2 where
  "PolicyModeStatusUnknown_v1alpha2 = ''unknown''"

definition PolicyActive_v1alpha2 :: string where
  "PolicyActive_v1alpha2 = ''PolicyActive''"

definition PolicyServerConfigurationUpToDate_v1alpha2 :: string where
  "PolicyServerConfigurationUpToDate_v1alpha2 = ''PolicyServerConfigurationUpToDate''"

definition PolicyUniquelyReachable_v1alpha2 :: string where
  "PolicyUniquelyReachable_v1alpha2 = ''PolicyUniquelyReachable''"

definition ReconciliationFailed_v1alpha2 :: string where
  "ReconciliationFailed_v1alpha2 = ''ReconciliationFailed''"

definition ReconciliationSucceeded_v1alpha2 :: string where
  "ReconciliationSucceeded_v1alpha2 = ''ReconciliationSucceeded''"

definition PolicyServerCASecretReconciled_v1alpha2 :: string where
  "PolicyServerCASecretReconciled_v1alpha2 = ''CASecretReconciled''"

definition PolicyServerCARootSecretReconciled_v1alpha2 :: string where
  "PolicyServerCARootSecretReconciled_v1alpha2 = ''CARootSecretReconciled''"

definition PolicyServerConfigMapReconciled_v1alpha2 :: string where
  "PolicyServerConfigMapReconciled_v1alpha2 = ''ConfigMapReconciled''"

definition PolicyServerDeploymentReconciled_v1alpha2 :: string where
  "PolicyServerDeploymentReconciled_v1alpha2 = ''DeploymentReconciled''"

definition PolicyServerServiceReconciled_v1alpha2 :: string where
  "PolicyServerServiceReconciled_v1alpha2 = ''ServiceReconciled''"

lemmas v1alpha2_const_defs = PolicyStatusUnscheduled_v1alpha2_def
  PolicyStatusScheduled_v1alpha2_def
  PolicyStatusPending_v1alpha2_def
  PolicyStatusActive_v1alpha2_def
  PolicyModeStatusProtect_v1alpha2_def
  PolicyModeStatusMonitor_v1alpha2_def
  PolicyModeStatusUnknown_v1alpha2_def
  PolicyActive_v1alpha2_def
  PolicyServerConfigurationUpToDate_v1alpha2_def
  PolicyUniquelyReachable_v1alpha2_def
  ReconciliationFailed_v1alpha2_def
  ReconciliationSucceeded_v1alpha2_def
  PolicyServerCASecretReconciled_v1alpha2_def
  PolicyServerCARootSecretReconciled_v1alpha2_def
  PolicyServerConfigMapReconciled_v1alpha2_def
  PolicyServerDeploymentReconciled_v1alpha2_def
  PolicyServerServiceReconciled_v1alpha2_def

section \<open>The policies\<close>

record PolicySpec_v1alpha2 =
  a2PolicyServer :: string
  a2Module :: string
  a2Mode :: PolicyMode_v1alpha2
  a2Settings :: RawExtension
  a2Rules :: "RuleWithOperations slice"
  a2FailurePolicy :: "string option"
  a2Mutating :: bool
  a2MatchPolicy :: "string option"
  a2ObjectSelector :: "LabelSelector option"
  a2SideEffects :: "string option"
  a2TimeoutSeconds :: "int32 option"

record ClusterAdmissionPolicySpec_v1alpha2 = PolicySpec_v1alpha2 +
  a2NamespaceSelector :: "LabelSelector option"

type_synonym AdmissionPolicySpec_v1alpha2 = PolicySpec_v1alpha2

record PolicyStatus_v1alpha2 =
  a2PolicyStatus :: PolicyStatusEnum_v1alpha2
  a2PolicyMode :: PolicyModeStatus_v1alpha2
  a2Conditions :: "Condition slice"

record ClusterAdmissionPolicy_v1alpha2 =
  a2capType :: TypeMeta
  a2capMeta :: ObjectMeta
  a2capSpec :: ClusterAdmissionPolicySpec_v1alpha2
  a2capStatus :: PolicyStatus_v1alpha2

record AdmissionPolicy_v1alpha2 =
  a2apType :: TypeMeta
  a2apMeta :: ObjectMeta
  a2apSpec :: AdmissionPolicySpec_v1alpha2
  a2apStatus :: PolicyStatus_v1alpha2

section \<open>The methods of ClusterAdmissionPolicy\<close>

definition cap_SetStatus_v1alpha2 :: "PolicyStatusEnum_v1alpha2 \<Rightarrow> ClusterAdmissionPolicy_v1alpha2 \<Rightarrow> ClusterAdmissionPolicy_v1alpha2" where
  "cap_SetStatus_v1alpha2 status r = r\<lparr>a2capStatus := (a2capStatus r)\<lparr>a2PolicyStatus := status\<rparr>\<rparr>"

definition cap_SetPolicyModeStatus_v1alpha2 :: "PolicyModeStatus_v1alpha2 \<Rightarrow> ClusterAdmissionPolicy_v1alpha2 \<Rightarrow> ClusterAdmissionPolicy_v1alpha2" where
  "cap_SetPolicyModeStatus_v1alpha2 policyMode r = r\<lparr>a2capStatus := (a2capStatus r)\<lparr>a2PolicyMode := policyMode\<rparr>\<rparr>"

definition cap_GetStatus_v1alpha2 :: "ClusterAdmissionPolicy_v1alpha2 \<Rightarrow> PolicyStatus_v1alpha2" where
  "cap_GetStatus_v1alpha2 r = a2capStatus r"

definition cap_GetPolicyMode_v1alpha2 :: "ClusterAdmissionPolicy_v1alpha2 \<Rightarrow> PolicyMode_v1alpha2" where
  "cap_GetPolicyMode_v1alpha2 r = a2Mode (a2capSpec r)"

definition cap_GetModule_v1alpha2 :: "ClusterAdmissionPolicy_v1alpha2 \<Rightarrow> string" where
  "cap_GetModule_v1alpha2 r = a2Module (a2capSpec r)"

definition cap_IsMutating_v1alpha2 :: "ClusterAdmissionPolicy_v1alpha2 \<Rightarrow> bool" where
  "cap_IsMutating_v1alpha2 r = a2Mutating (a2capSpec r)"

definition cap_GetSettings_v1alpha2 :: "ClusterAdmissionPolicy_v1alpha2 \<Rightarrow> RawExtension" where
  "cap_GetSettings_v1alpha2 r = a2Settings (a2capSpec r)"

definition cap_GetSideEffects_v1alpha2 :: "ClusterAdmissionPolicy_v1alpha2 \<Rightarrow> string option" where
  "cap_GetSideEffects_v1alpha2 r = a2SideEffects (a2capSpec r)"

definition cap_GetFailurePolicy_v1alpha2 :: "ClusterAdmissionPolicy_v1alpha2 \<Rightarrow> string option" where
  "cap_GetFailurePolicy_v1alpha2 r = a2FailurePolicy (a2capSpec r)"

definition cap_GetMatchPolicy_v1alpha2 :: "ClusterAdmissionPolicy_v1alpha2 \<Rightarrow> string option" where
  "cap_GetMatchPolicy_v1alpha2 r = a2MatchPolicy (a2capSpec r)"

definition cap_GetRules_v1alpha2 :: "ClusterAdmissionPolicy_v1alpha2 \<Rightarrow> RuleWithOperations slice" where
  "cap_GetRules_v1alpha2 r = a2Rules (a2capSpec r)"

definition cap_GetNamespaceSelector_v1alpha2 :: "ClusterAdmissionPolicy_v1alpha2 \<Rightarrow> LabelSelector option" where
  "cap_GetNamespaceSelector_v1alpha2 r = a2NamespaceSelector (a2capSpec r)"

definition cap_GetObjectSelector_v1alpha2 :: "ClusterAdmissionPolicy_v1alpha2 \<Rightarrow> LabelSelector option" where
  "cap_GetObjectSelector_v1alpha2 r = a2ObjectSelector (a2capSpec r)"

definition cap_GetTimeoutSeconds_v1alpha2 :: "ClusterAdmissionPolicy_v1alpha2 \<Rightarrow> int32 option" where
  "cap_GetTimeoutSeconds_v1alpha2 r = a2TimeoutSeconds (a2capSpec r)"

definition cap_GetPolicyServer_v1alpha2 :: "ClusterAdmissionPolicy_v1alpha2 \<Rightarrow> string" where
  "cap_GetPolicyServer_v1alpha2 r = a2PolicyServer (a2capSpec r)"

definition cap_GetObjectMeta_v1alpha2 :: "ClusterAdmissionPolicy_v1alpha2 \<Rightarrow> ObjectMeta" where
  "cap_GetObjectMeta_v1alpha2 r = a2capMeta r"

definition cap_GetUniqueName_v1alpha2 :: "ClusterAdmissionPolicy_v1alpha2 \<Rightarrow> string" where
  "cap_GetUniqueName_v1alpha2 r = ''clusterwide-'' @ Name (a2capMeta r)"

lemmas cap_v1alpha2_defs = cap_SetStatus_v1alpha2_def
  cap_SetPolicyModeStatus_v1alpha2_def
  cap_GetStatus_v1alpha2_def
  cap_GetPolicyMode_v1alpha2_def
  cap_GetModule_v1alpha2_def
  cap_IsMutating_v1alpha2_def
  cap_GetSettings_v1alpha2_def
  cap_GetSideEffects_v1alpha2_def
  cap_GetFailurePolicy_v1alpha2_def
  cap_GetMatchPolicy_v1alpha2_def
  cap_GetRules_v1alpha2_def
  cap_GetNamespaceSelector_v1alpha2_def
  cap_GetObjectSelector_v1alpha2_def
  cap_GetTimeoutSeconds_v1alpha2_def
  cap_GetPolicyServer_v1alpha2_def
  cap_GetObjectMeta_v1alpha2_def
  cap_GetUniqueName_v1alpha2_def

section \<open>The methods of AdmissionPolicy\<close>

text \<open>The loop of \<open>GetRules\<close> copies each rule and sets its scope.\<close>

fun namespaced_rules_v1alpha2 :: "RuleWithOperations list \<Rightarrow> RuleWithOperations list \<Rightarrow> RuleWithOperations list" where
  "namespaced_rules_v1alpha2 [] rules = rules"
| "namespaced_rules_v1alpha2 (rule # rest) rules =
     namespaced_rules_v1alpha2 rest (rules @ [rule\<lparr>ruleScope := Some NamespacedScope\<rparr>])"

definition ap_SetStatus_v1alpha2 :: "PolicyStatusEnum_v1alpha2 \<Rightarrow> AdmissionPolicy_v1alpha2 \<Rightarrow> AdmissionPolicy_v1alpha2" where
  "ap_SetStatus_v1alpha2 status r = r\<lparr>a2apStatus := (a2apStatus r)\<lparr>a2PolicyStatus := status\<rparr>\<rparr>"

definition ap_SetPolicyModeStatus_v1alpha2 :: "PolicyModeStatus_v1alpha2 \<Rightarrow> AdmissionPolicy_v1alpha2 \<Rightarrow> AdmissionPolicy_v1alpha2" where
  "ap_SetPolicyModeStatus_v1alpha2 policyMode r = r\<lparr>a2apStatus := (a2apStatus r)\<lparr>a2PolicyMode := policyMode\<rparr>\<rparr>"

definition ap_GetStatus_v1alpha2 :: "AdmissionPolicy_v1alpha2 \<Rightarrow> PolicyStatus_v1alpha2" where
  "ap_GetStatus_v1alpha2 r = a2apStatus r"

definition ap_GetPolicyMode_v1alpha2 :: "AdmissionPolicy_v1alpha2 \<Rightarrow> PolicyMode_v1alpha2" where
  "ap_GetPolicyMode_v1alpha2 r = a2Mode (a2apSpec r)"

definition ap_GetModule_v1alpha2 :: "AdmissionPolicy_v1alpha2 \<Rightarrow> string" where
  "ap_GetModule_v1alpha2 r = a2Module (a2apSpec r)"

definition ap_IsMutating_v1alpha2 :: "AdmissionPolicy_v1alpha2 \<Rightarrow> bool" where
  "ap_IsMutating_v1alpha2 r = a2Mutating (a2apSpec r)"

definition ap_GetSettings_v1alpha2 :: "AdmissionPolicy_v1alpha2 \<Rightarrow> RawExtension" where
  "ap_GetSettings_v1alpha2 r = a2Settings (a2apSpec r)"

definition ap_GetSideEffects_v1alpha2 :: "AdmissionPolicy_v1alpha2 \<Rightarrow> string option" where
  "ap_GetSideEffects_v1alpha2 r = a2SideEffects (a2apSpec r)"

definition ap_GetFailurePolicy_v1alpha2 :: "AdmissionPolicy_v1alpha2 \<Rightarrow> string option" where
  "ap_GetFailurePolicy_v1alpha2 r = a2FailurePolicy (a2apSpec r)"

definition ap_GetMatchPolicy_v1alpha2 :: "AdmissionPolicy_v1alpha2 \<Rightarrow> string option" where
  "ap_GetMatchPolicy_v1alpha2 r = a2MatchPolicy (a2apSpec r)"

definition ap_GetRules_v1alpha2 :: "AdmissionPolicy_v1alpha2 \<Rightarrow> RuleWithOperations slice" where
  "ap_GetRules_v1alpha2 r = Some (namespaced_rules_v1alpha2 (elems (a2Rules (a2apSpec r))) [])"

definition ap_GetNamespaceSelector_v1alpha2 :: "AdmissionPolicy_v1alpha2 \<Rightarrow> LabelSelector option" where
  "ap_GetNamespaceSelector_v1alpha2 r = Some \<lparr>MatchLabels = Some (fmap_of_list [(''kubernetes.io/metadata.name'', Namespace (a2apMeta r))]),
     MatchExpressions = None\<rparr>"

definition ap_GetObjectSelector_v1alpha2 :: "AdmissionPolicy_v1alpha2 \<Rightarrow> LabelSelector option" where
  "ap_GetObjectSelector_v1alpha2 r = a2ObjectSelector (a2apSpec r)"

definition ap_GetTimeoutSeconds_v1alpha2 :: "AdmissionPolicy_v1alpha2 \<Rightarrow> int32 option" where
  "ap_GetTimeoutSeconds_v1alpha2 r = a2TimeoutSeconds (a2apSpec r)"

definition ap_GetPolicyServer_v1alpha2 :: "AdmissionPolicy_v1alpha2 \<Rightarrow> string" where
  "ap_GetPolicyServer_v1alpha2 r = a2PolicyServer (a2apSpec r)"

definition ap_GetObjectMeta_v1alpha2 :: "AdmissionPolicy_v1alpha2 \<Rightarrow> ObjectMeta" where
  "ap_GetObjectMeta_v1alpha2 r = a2apMeta r"

definition ap_GetUniqueName_v1alpha2 :: "AdmissionPolicy_v1alpha2 \<Rightarrow> string" where
  "ap_GetUniqueName_v1alpha2 r = ''namespaced-'' @ Namespace (a2apMeta r) @ ''-'' @ Name (a2apMeta r)"

lemmas ap_v1alpha2_defs = ap_SetStatus_v1alpha2_def
  ap_SetPolicyModeStatus_v1alpha2_def
  ap_GetStatus_v1alpha2_def
  ap_GetPolicyMode_v1alpha2_def
  ap_GetModule_v1alpha2_def
  ap_IsMutating_v1alpha2_def
  ap_GetSettings_v1alpha2_def
  ap_GetSideEffects_v1alpha2_def
  ap_GetFailurePolicy_v1alpha2_def
  ap_GetMatchPolicy_v1alpha2_def
  ap_GetRules_v1alpha2_def
  ap_GetNamespaceSelector_v1alpha2_def
  ap_GetObjectSelector_v1alpha2_def
  ap_GetTimeoutSeconds_v1alpha2_def
  ap_GetPolicyServer_v1alpha2_def
  ap_GetObjectMeta_v1alpha2_def
  ap_GetUniqueName_v1alpha2_def

section \<open>The interface Policy\<close>

datatype Policy_v1alpha2 =
    ClusterPolicy_v1alpha2 ClusterAdmissionPolicy_v1alpha2
  | NamespacedPolicy_v1alpha2 AdmissionPolicy_v1alpha2

fun GetPolicyMode_v1alpha2 :: "Policy_v1alpha2 \<Rightarrow> PolicyMode_v1alpha2" where
  "GetPolicyMode_v1alpha2 (ClusterPolicy_v1alpha2 r) = cap_GetPolicyMode_v1alpha2 r"
| "GetPolicyMode_v1alpha2 (NamespacedPolicy_v1alpha2 r) = ap_GetPolicyMode_v1alpha2 r"

fun GetModule_v1alpha2 :: "Policy_v1alpha2 \<Rightarrow> string" where
  "GetModule_v1alpha2 (ClusterPolicy_v1alpha2 r) = cap_GetModule_v1alpha2 r"
| "GetModule_v1alpha2 (NamespacedPolicy_v1alpha2 r) = ap_GetModule_v1alpha2 r"

fun IsMutating_v1alpha2 :: "Policy_v1alpha2 \<Rightarrow> bool" where
  "IsMutating_v1alpha2 (ClusterPolicy_v1alpha2 r) = cap_IsMutating_v1alpha2 r"
| "IsMutating_v1alpha2 (NamespacedPolicy_v1alpha2 r) = ap_IsMutating_v1alpha2 r"

fun GetSettings_v1alpha2 :: "Policy_v1alpha2 \<Rightarrow> RawExtension" where
  "GetSettings_v1alpha2 (ClusterPolicy_v1alpha2 r) = cap_GetSettings_v1alpha2 r"
| "GetSettings_v1alpha2 (NamespacedPolicy_v1alpha2 r) = ap_GetSettings_v1alpha2 r"

fun GetStatus_v1alpha2 :: "Policy_v1alpha2 \<Rightarrow> PolicyStatus_v1alpha2" where
  "GetStatus_v1alpha2 (ClusterPolicy_v1alpha2 r) = cap_GetStatus_v1alpha2 r"
| "GetStatus_v1alpha2 (NamespacedPolicy_v1alpha2 r) = ap_GetStatus_v1alpha2 r"

fun GetSideEffects_v1alpha2 :: "Policy_v1alpha2 \<Rightarrow> string option" where
  "GetSideEffects_v1alpha2 (ClusterPolicy_v1alpha2 r) = cap_GetSideEffects_v1alpha2 r"
| "GetSideEffects_v1alpha2 (NamespacedPolicy_v1alpha2 r) = ap_GetSideEffects_v1alpha2 r"

fun GetRules_v1alpha2 :: "Policy_v1alpha2 \<Rightarrow> RuleWithOperations slice" where
  "GetRules_v1alpha2 (ClusterPolicy_v1alpha2 r) = cap_GetRules_v1alpha2 r"
| "GetRules_v1alpha2 (NamespacedPolicy_v1alpha2 r) = ap_GetRules_v1alpha2 r"

fun GetFailurePolicy_v1alpha2 :: "Policy_v1alpha2 \<Rightarrow> string option" where
  "GetFailurePolicy_v1alpha2 (ClusterPolicy_v1alpha2 r) = cap_GetFailurePolicy_v1alpha2 r"
| "GetFailurePolicy_v1alpha2 (NamespacedPolicy_v1alpha2 r) = ap_GetFailurePolicy_v1alpha2 r"

fun GetMatchPolicy_v1alpha2 :: "Policy_v1alpha2 \<Rightarrow> string option" where
  "GetMatchPolicy_v1alpha2 (ClusterPolicy_v1alpha2 r) = cap_GetMatchPolicy_v1alpha2 r"
| "GetMatchPolicy_v1alpha2 (NamespacedPolicy_v1alpha2 r) = ap_GetMatchPolicy_v1alpha2 r"

fun GetNamespaceSelector_v1alpha2 :: "Policy_v1alpha2 \<Rightarrow> LabelSelector option" where
  "GetNamespaceSelector_v1alpha2 (ClusterPolicy_v1alpha2 r) = cap_GetNamespaceSelector_v1alpha2 r"
| "GetNamespaceSelector_v1alpha2 (NamespacedPolicy_v1alpha2 r) = ap_GetNamespaceSelector_v1alpha2 r"

fun GetObjectSelector_v1alpha2 :: "Policy_v1alpha2 \<Rightarrow> LabelSelector option" where
  "GetObjectSelector_v1alpha2 (ClusterPolicy_v1alpha2 r) = cap_GetObjectSelector_v1alpha2 r"
| "GetObjectSelector_v1alpha2 (NamespacedPolicy_v1alpha2 r) = ap_GetObjectSelector_v1alpha2 r"

fun GetTimeoutSeconds_v1alpha2 :: "Policy_v1alpha2 \<Rightarrow> int32 option" where
  "GetTimeoutSeconds_v1alpha2 (ClusterPolicy_v1alpha2 r) = cap_GetTimeoutSeconds_v1alpha2 r"
| "GetTimeoutSeconds_v1alpha2 (NamespacedPolicy_v1alpha2 r) = ap_GetTimeoutSeconds_v1alpha2 r"

fun GetObjectMeta_v1alpha2 :: "Policy_v1alpha2 \<Rightarrow> ObjectMeta" where
  "GetObjectMeta_v1alpha2 (ClusterPolicy_v1alpha2 r) = cap_GetObjectMeta_v1alpha2 r"
| "GetObjectMeta_v1alpha2 (NamespacedPolicy_v1alpha2 r) = ap_GetObjectMeta_v1alpha2 r"

fun GetPolicyServer_v1alpha2 :: "Policy_v1alpha2 \<Rightarrow> string" where
  "GetPolicyServer_v1alpha2 (ClusterPolicy_v1alpha2 r) = cap_GetPolicyServer_v1alpha2 r"
| "GetPolicyServer_v1alpha2 (NamespacedPolicy_v1alpha2 r) = ap_GetPolicyServer_v1alpha2 r"

fun GetUniqueName_v1alpha2 :: "Policy_v1alpha2 \<Rightarrow> string" where
  "GetUniqueName_v1alpha2 (ClusterPolicy_v1alpha2 r) = cap_GetUniqueName_v1alpha2 r"
| "GetUniqueName_v1alpha2 (NamespacedPolicy_v1alpha2 r) = ap_GetUniqueName_v1alpha2 r"

fun SetPolicyModeStatus_v1alpha2 :: "PolicyModeStatus_v1alpha2 \<Rightarrow> Policy_v1alpha2 \<Rightarrow> Policy_v1alpha2" where
  "SetPolicyModeStatus_v1alpha2 x (ClusterPolicy_v1alpha2 r) = ClusterPolicy_v1alpha2 (cap_SetPolicyModeStatus_v1alpha2 x r)"
| "SetPolicyModeStatus_v1alpha2 x (NamespacedPolicy_v1alpha2 r) = NamespacedPolicy_v1alpha2 (ap_SetPolicyModeStatus_v1alpha2 x r)"

fun SetStatus_v1alpha2 :: "PolicyStatusEnum_v1alpha2 \<Rightarrow> Policy_v1alpha2 \<Rightarrow> Policy_v1alpha2" where
  "SetStatus_v1alpha2 x (ClusterPolicy_v1alpha2 r) = ClusterPolicy_v1alpha2 (cap_SetStatus_v1alpha2 x r)"
| "SetStatus_v1alpha2 x (NamespacedPolicy_v1alpha2 r) = NamespacedPolicy_v1alpha2 (ap_SetStatus_v1alpha2 x r)"

definition policy_view_v1alpha2 :: "Policy_v1alpha2 \<Rightarrow> PolicyView" where
  "policy_view_v1alpha2 p = \<lparr>pvMeta = GetObjectMeta_v1alpha2 p, pvMode = GetPolicyMode_v1alpha2 p,
     pvModule = GetModule_v1alpha2 p, pvMutating = IsMutating_v1alpha2 p, pvSettings = GetSettings_v1alpha2 p,
     pvSideEffects = GetSideEffects_v1alpha2 p, pvRules = GetRules_v1alpha2 p,
     pvFailurePolicy = GetFailurePolicy_v1alpha2 p, pvMatchPolicy = GetMatchPolicy_v1alpha2 p,
     pvNamespaceSelector = GetNamespaceSelector_v1alpha2 p, pvObjectSelector = GetObjectSelector_v1alpha2 p,
     pvTimeoutSeconds = GetTimeoutSeconds_v1alpha2 p, pvPolicyServer = GetPolicyServer_v1alpha2 p,
     pvUniqueName = GetUniqueName_v1alpha2 p\<rparr>"

section \<open>Policy servers\<close>

record PolicyServerSpec_v1alpha2 =
  a2Image :: string
  a2Replicas :: int32
  a2Annotations :: "(string, string) nilmap"
  a2Env :: "EnvVar slice"
  a2ServiceAccountName :: string
  a2ImagePullSecret :: string
  a2InsecureSources :: "string slice"
  a2SourceAuthorities :: "(string, string slice) nilmap"
  a2VerificationConfig :: string

record PolicyServerStatus_v1alpha2 =
  a2ServerConditions :: "Condition slice"

record PolicyServer_v1alpha2 =
  a2psType :: TypeMeta
  a2psMeta :: ObjectMeta
  a2psSpec :: PolicyServerSpec_v1alpha2
  a2psStatus :: PolicyServerStatus_v1alpha2

definition NameWithPrefix_v1alpha2 :: "PolicyServer_v1alpha2 \<Rightarrow> string" where
  "NameWithPrefix_v1alpha2 ps = ''policy-server-'' @ Name (a2psMeta ps)"

definition AppLabel_v1alpha2 :: "PolicyServer_v1alpha2 \<Rightarrow> string" where
  "AppLabel_v1alpha2 ps = ''kubewarden-'' @ NameWithPrefix_v1alpha2 ps"

section \<open>Writing\<close>

definition PolicySpec_members_v1alpha2 ::
    "kube_lib \<Rightarrow> api_json \<Rightarrow> 'a PolicySpec_v1alpha2_scheme \<Rightarrow> json_members option" where
  "PolicySpec_members_v1alpha2 L J s = map_option (\<lambda>settings.
     [(''policyServer'', json_string (a2PolicyServer s)), (''module'', json_string (a2Module s))] @
     omit_string ''mode'' (a2Mode s) @
     [(''settings'', settings), (''rules'', marshal_slice (jcEncode (jsonRule J)) (a2Rules s))] @
     omit_pointer ''failurePolicy'' json_string (a2FailurePolicy s) @
     [(''mutating'', json_bool (a2Mutating s))] @
     omit_pointer ''matchPolicy'' json_string (a2MatchPolicy s) @
     omit_pointer ''objectSelector'' (jcEncode (jsonSelector J)) (a2ObjectSelector s) @
     omit_pointer ''sideEffects'' json_string (a2SideEffects s) @
     omit_pointer ''timeoutSeconds'' json_int32 (a2TimeoutSeconds s)) (marshal_raw L (a2Settings s))"

definition ClusterAdmissionPolicySpec_members_v1alpha2 ::
    "kube_lib \<Rightarrow> api_json \<Rightarrow> ClusterAdmissionPolicySpec_v1alpha2 \<Rightarrow> json_members option" where
  "ClusterAdmissionPolicySpec_members_v1alpha2 L J s = map_option (\<lambda>kvs. kvs @
     omit_pointer ''namespaceSelector'' (jcEncode (jsonSelector J)) (a2NamespaceSelector s))
     (PolicySpec_members_v1alpha2 L J s)"

definition PolicyStatus_members_v1alpha2 :: "api_json \<Rightarrow> PolicyStatus_v1alpha2 \<Rightarrow> json_members" where
  "PolicyStatus_members_v1alpha2 J st =
     [(''policyStatus'', json_string (a2PolicyStatus st))] @
     omit_string ''mode'' (a2PolicyMode st) @
     omit_slice ''conditions'' (jcEncode (jsonCondition J)) (a2Conditions st)"

definition cap_marshal_v1alpha2 ::
    "kube_lib \<Rightarrow> api_json \<Rightarrow> ClusterAdmissionPolicy_v1alpha2 \<Rightarrow> string option" where
  "cap_marshal_v1alpha2 L J r = map_option (\<lambda>spec. json_object (type_members (a2capType r) @
     [(''metadata'', jcEncode (jsonMeta J) (a2capMeta r)), (''spec'', json_object spec),
      (''status'', json_object (PolicyStatus_members_v1alpha2 J (a2capStatus r)))]))
     (ClusterAdmissionPolicySpec_members_v1alpha2 L J (a2capSpec r))"

definition ap_marshal_v1alpha2 :: "kube_lib \<Rightarrow> api_json \<Rightarrow> AdmissionPolicy_v1alpha2 \<Rightarrow> string option" where
  "ap_marshal_v1alpha2 L J r = map_option (\<lambda>spec. json_object (type_members (a2apType r) @
     [(''metadata'', jcEncode (jsonMeta J) (a2apMeta r)), (''spec'', json_object spec),
      (''status'', json_object (PolicyStatus_members_v1alpha2 J (a2apStatus r)))]))
     (PolicySpec_members_v1alpha2 L J (a2apSpec r))"

definition PolicyServerSpec_members_v1alpha2 :: "api_json \<Rightarrow> PolicyServerSpec_v1alpha2 \<Rightarrow> json_members" where
  "PolicyServerSpec_members_v1alpha2 J s =
     [(''image'', json_string (a2Image s)), (''replicas'', json_int32 (a2Replicas s))] @
     omit_map ''annotations'' json_string (a2Annotations s) @
     omit_slice ''env'' (jcEncode (jsonEnvVar J)) (a2Env s) @
     omit_string ''serviceAccountName'' (a2ServiceAccountName s) @
     omit_string ''imagePullSecret'' (a2ImagePullSecret s) @
     omit_slice ''insecureSources'' json_string (a2InsecureSources s) @
     omit_map ''sourceAuthorities'' (marshal_slice json_string) (a2SourceAuthorities s) @
     omit_string ''verificationConfig'' (a2VerificationConfig s)"

text \<open>The conditions of a policy server have no \<open>omitempty\<close>: without conditions \<open>null\<close> is written.\<close>

definition ps_marshal_v1alpha2 :: "api_json \<Rightarrow> PolicyServer_v1alpha2 \<Rightarrow> string" where
  "ps_marshal_v1alpha2 J r = json_object (type_members (a2psType r) @
     [(''metadata'', jcEncode (jsonMeta J) (a2psMeta r)),
      (''spec'', json_object (PolicyServerSpec_members_v1alpha2 J (a2psSpec r))),
      (''status'', json_object [(''conditions'',
         marshal_slice (jcEncode (jsonCondition J)) (a2ServerConditions (a2psStatus r)))])])"

section \<open>The same object as v1\<close>

definition spec_as_v1 :: "'a PolicySpec_v1alpha2_scheme \<Rightarrow> PolicySpec" where
  "spec_as_v1 s = \<lparr>specPolicyServer = a2PolicyServer s, specModule = a2Module s, specMode = a2Mode s,
     specSettings = a2Settings s, specRules = a2Rules s, specFailurePolicy = a2FailurePolicy s,
     specMutating = a2Mutating s, specMatchPolicy = a2MatchPolicy s, specObjectSelector = a2ObjectSelector s,
     specSideEffects = a2SideEffects s, specTimeoutSeconds = a2TimeoutSeconds s\<rparr>"

definition status_as_v1 :: "PolicyStatus_v1alpha2 \<Rightarrow> PolicyStatus" where
  "status_as_v1 st = \<lparr>statPolicyStatus = a2PolicyStatus st, statPolicyMode = a2PolicyMode st,
     statConditions = elems (a2Conditions st)\<rparr>"

fun as_v1 :: "Policy_v1alpha2 \<Rightarrow> Policy" where
  "as_v1 (ClusterPolicy_v1alpha2 r) = ClusterPolicy \<lparr>capMeta = a2capMeta r,
     capSpec = PolicySpec.extend (spec_as_v1 (a2capSpec r))
       (ClusterAdmissionPolicySpec.fields (a2NamespaceSelector (a2capSpec r))),
     capStatus = status_as_v1 (a2capStatus r)\<rparr>"
| "as_v1 (NamespacedPolicy_v1alpha2 r) = NamespacedPolicy \<lparr>apMeta = a2apMeta r,
     apSpec = spec_as_v1 (a2apSpec r), apStatus = status_as_v1 (a2apStatus r)\<rparr>"

fun policy_type :: "Policy_v1alpha2 \<Rightarrow> TypeMeta" where
  "policy_type (ClusterPolicy_v1alpha2 r) = a2capType r"
| "policy_type (NamespacedPolicy_v1alpha2 r) = a2apType r"

fun policy_marshal_v1alpha2 :: "kube_lib \<Rightarrow> api_json \<Rightarrow> Policy_v1alpha2 \<Rightarrow> string option" where
  "policy_marshal_v1alpha2 L J (ClusterPolicy_v1alpha2 r) = cap_marshal_v1alpha2 L J r"
| "policy_marshal_v1alpha2 L J (NamespacedPolicy_v1alpha2 r) = ap_marshal_v1alpha2 L J r"

text \<open>The controllers read the text at the endpoint of the kind it was written to.\<close>

fun policy_unmarshal :: "kube_lib \<Rightarrow> api_json \<Rightarrow> Policy_v1alpha2 \<Rightarrow> string \<Rightarrow> Policy option" where
  "policy_unmarshal L J (ClusterPolicy_v1alpha2 r) t = map_option ClusterPolicy (cap_unmarshal L J t)"
| "policy_unmarshal L J (NamespacedPolicy_v1alpha2 r) t = map_option NamespacedPolicy (ap_unmarshal L J t)"

fun readable_policy :: "api_json \<Rightarrow> Policy \<Rightarrow> bool" where
  "readable_policy J (ClusterPolicy r) = readable_cap J r"
| "readable_policy J (NamespacedPolicy r) = readable_ap J r"

lemma PolicySpec_members_as_v1:
  "PolicySpec_members_v1alpha2 L J s = PolicySpec_members L J (PolicySpec.extend (spec_as_v1 s) e)"
  by (simp add: PolicySpec_members_v1alpha2_def PolicySpec_members_def spec_as_v1_def PolicySpec.defs)

lemma PolicySpec_members_as_v1_plain:
  "PolicySpec_members_v1alpha2 L J s = PolicySpec_members L J (spec_as_v1 s)"
  by (simp add: PolicySpec_members_v1alpha2_def PolicySpec_members_def spec_as_v1_def)

lemma PolicyStatus_members_as_v1:
  "PolicyStatus_members_v1alpha2 J st = PolicyStatus_members J (status_as_v1 st)"
  by (cases "a2Conditions st")
    (simp_all add: PolicyStatus_members_v1alpha2_def PolicyStatus_members_def status_as_v1_def omit_slice_def)

text \<open>Both versions write the same bytes.\<close>

lemma cap_marshal_as_v1:
  "as_v1 (ClusterPolicy_v1alpha2 r) = ClusterPolicy q \<Longrightarrow> cap_marshal_v1alpha2 L J r = cap_marshal L J (a2capType r) q"
  by (auto simp: cap_marshal_v1alpha2_def cap_marshal_def object_text_def PolicyStatus_members_as_v1
      ClusterAdmissionPolicySpec_members_v1alpha2_def ClusterAdmissionPolicySpec_members_def
      PolicySpec_members_as_v1 [of L J _ "ClusterAdmissionPolicySpec.fields (a2NamespaceSelector (a2capSpec r))"]
      PolicySpec.defs ClusterAdmissionPolicySpec.defs)

lemma ap_marshal_as_v1:
  "as_v1 (NamespacedPolicy_v1alpha2 r) = NamespacedPolicy q \<Longrightarrow> ap_marshal_v1alpha2 L J r = ap_marshal L J (a2apType r) q"
  by (auto simp: ap_marshal_v1alpha2_def ap_marshal_def object_text_def PolicyStatus_members_as_v1
      PolicySpec_members_as_v1_plain)

lemma policy_v1alpha2_read_back:
  assumes "raw_extension_law L" "readable_type (policy_type p)" "readable_policy J (as_v1 p)"
  shows "\<exists>t. policy_marshal_v1alpha2 L J p = Some t \<and> policy_unmarshal L J p t = Some (as_v1 p)"
proof (cases p)
  case (ClusterPolicy_v1alpha2 r)
  obtain q where q: "as_v1 (ClusterPolicy_v1alpha2 r) = ClusterPolicy q" by simp
  have "raw_extension_law L \<and> readable_type (a2capType r) \<and> readable_cap J q"
    using assms unfolding ClusterPolicy_v1alpha2 q by simp
  from cap_json.read_back [OF this] q show ?thesis
    unfolding ClusterPolicy_v1alpha2 by (auto simp: cap_marshal_as_v1 [OF q] simp del: as_v1.simps)
next
  case (NamespacedPolicy_v1alpha2 r)
  obtain q where q: "as_v1 (NamespacedPolicy_v1alpha2 r) = NamespacedPolicy q" by simp
  have "raw_extension_law L \<and> readable_type (a2apType r) \<and> readable_ap J q"
    using assms unfolding NamespacedPolicy_v1alpha2 q by simp
  from ap_json.read_back [OF this] q show ?thesis
    unfolding NamespacedPolicy_v1alpha2 by (auto simp: ap_marshal_as_v1 [OF q] simp del: as_v1.simps)
qed

lemma namespaced_rules_v1alpha2_eq [simp]:
  "namespaced_rules_v1alpha2 rs acc = acc @ map (\<lambda>r. r\<lparr>ruleScope := Some NamespacedScope\<rparr>) rs"
  by (induction rs arbitrary: acc) auto

text \<open>Every method of the interface answers alike, and a write of the status means the same.\<close>

lemma policy_view_as_v1: "policy_view (as_v1 p) = policy_view_v1alpha2 p"
  by (cases p) (simp_all add: policy_view_def policy_view_v1alpha2_def cap_method_defs ap_method_defs
      cap_v1alpha2_defs ap_v1alpha2_defs namespaced_rules_eq spec_as_v1_def PolicySpec.defs
      ClusterAdmissionPolicySpec.defs)

lemma GetStatus_as_v1: "GetStatus (as_v1 p) = status_as_v1 (GetStatus_v1alpha2 p)"
  by (cases p) (simp_all add: cap_method_defs ap_method_defs cap_v1alpha2_defs ap_v1alpha2_defs)

lemma status_writes_as_v1:
  "as_v1 (SetStatus_v1alpha2 st p) = SetStatus st (as_v1 p)"
  "as_v1 (SetPolicyModeStatus_v1alpha2 m p) = SetPolicyModeStatus m (as_v1 p)"
  by (cases p; simp add: cap_method_defs ap_method_defs cap_v1alpha2_defs ap_v1alpha2_defs status_as_v1_def)+

interpretation cap_v1alpha2: written_resource "cap_marshal_v1alpha2 L J"
    "\<lambda>t. map_option ClusterPolicy (cap_unmarshal L J t)"
    "\<lambda>r. raw_extension_law L \<and> readable_type (a2capType r) \<and> readable_policy J (as_v1 (ClusterPolicy_v1alpha2 r))"
    "\<lambda>r. as_v1 (ClusterPolicy_v1alpha2 r)"
  for L J
proof unfold_locales
  fix r
  assume "raw_extension_law L \<and> readable_type (a2capType r) \<and> readable_policy J (as_v1 (ClusterPolicy_v1alpha2 r))"
  with policy_v1alpha2_read_back [of L "ClusterPolicy_v1alpha2 r" J]
  show "\<exists>t. cap_marshal_v1alpha2 L J r = Some t \<and>
      map_option ClusterPolicy (cap_unmarshal L J t) = Some (as_v1 (ClusterPolicy_v1alpha2 r))"
    by (simp del: as_v1.simps)
qed

interpretation ap_v1alpha2: written_resource "ap_marshal_v1alpha2 L J"
    "\<lambda>t. map_option NamespacedPolicy (ap_unmarshal L J t)"
    "\<lambda>r. raw_extension_law L \<and> readable_type (a2apType r) \<and> readable_policy J (as_v1 (NamespacedPolicy_v1alpha2 r))"
    "\<lambda>r. as_v1 (NamespacedPolicy_v1alpha2 r)"
  for L J
proof unfold_locales
  fix r
  assume "raw_extension_law L \<and> readable_type (a2apType r) \<and> readable_policy J (as_v1 (NamespacedPolicy_v1alpha2 r))"
  with policy_v1alpha2_read_back [of L "NamespacedPolicy_v1alpha2 r" J]
  show "\<exists>t. ap_marshal_v1alpha2 L J r = Some t \<and>
      map_option NamespacedPolicy (ap_unmarshal L J t) = Some (as_v1 (NamespacedPolicy_v1alpha2 r))"
    by (simp del: as_v1.simps)
qed

section \<open>Policy servers as v1\<close>

definition server_as_v1 :: "PolicyServer_v1alpha2 \<Rightarrow> PolicyServer" where
  "server_as_v1 r = \<lparr>psMeta = a2psMeta r,
     psSpec = \<lparr>psImage = a2Image (a2psSpec r), psReplicas = a2Replicas (a2psSpec r),
       psAnnotations = omitted_map (a2Annotations (a2psSpec r)), psEnv = elems (a2Env (a2psSpec r)),
       psServiceAccountName = a2ServiceAccountName (a2psSpec r), psImagePullSecret = a2ImagePullSecret (a2psSpec r),
       psInsecureSources = omitted_slice (a2InsecureSources (a2psSpec r)),
       psSourceAuthorities = map_option (fmmap elems) (omitted_map (a2SourceAuthorities (a2psSpec r))),
       psVerificationConfig = a2VerificationConfig (a2psSpec r)\<rparr>,
     psConditions = elems (a2ServerConditions (a2psStatus r))\<rparr>"

definition readable_strings :: "(string, 'v) nilmap \<Rightarrow> ('v \<Rightarrow> bool) \<Rightarrow> bool" where
  "readable_strings s P \<longleftrightarrow> pred_option (\<lambda>m. list_all (\<lambda>(k, x). valid_utf8 k \<and> P x) (sorted_list_of_fmap m)) s"

definition readable_server_spec :: "api_json \<Rightarrow> PolicyServerSpec_v1alpha2 \<Rightarrow> bool" where
  "readable_server_spec J s \<longleftrightarrow> valid_utf8 (a2Image s) \<and> readable_strings (a2Annotations s) valid_utf8 \<and>
     list_all (reads_back (jsonEnvVar J)) (elems (a2Env s)) \<and> valid_utf8 (a2ServiceAccountName s) \<and>
     valid_utf8 (a2ImagePullSecret s) \<and> list_all valid_utf8 (elems (a2InsecureSources s)) \<and>
     readable_strings (a2SourceAuthorities s) (\<lambda>x. list_all valid_utf8 (elems x)) \<and>
     valid_utf8 (a2VerificationConfig s)"

definition readable_server :: "api_json \<Rightarrow> PolicyServer_v1alpha2 \<Rightarrow> bool" where
  "readable_server J r \<longleftrightarrow> readable_type (a2psType r) \<and> reads_back (jsonMeta J) (a2psMeta r) \<and>
     readable_server_spec J (a2psSpec r) \<and>
     list_all (reads_back (jsonCondition J)) (elems (a2ServerConditions (a2psStatus r)))"

lemma readable_stringsD:
  "readable_strings (Some m) P \<Longrightarrow> fmlookup m k = Some x \<Longrightarrow> valid_utf8 k \<and> P x"
  by (auto simp: readable_strings_def list_all_iff sorted_list_of_fmap_mem)

lemma read_annotations:
  assumes "readable_strings s valid_utf8" "psAnnotations acc = None"
  shows "decode_members (upd_PolicyServerSpec J) acc (omit_map ''annotations'' json_string s) =
     Some (acc\<lparr>psAnnotations := omitted_map s\<rparr>)"
proof (rule decode_omit_map)
  fix m assume s: "s = Some m" "m \<noteq> fmempty"
  with assms readable_stringsD [of m valid_utf8]
  have "decode_map (decode_string '''') None (marshal_map json_string m) = Some (Some (fmmap id m))"
    by (intro decode_marshal_map) auto
  with s assms(2) show "upd_PolicyServerSpec J ''annotations'' acc (marshal_map json_string m) =
      Some (acc\<lparr>psAnnotations := omitted_map s\<rparr>)"
    by (simp add: upd_PolicyServerSpec_def omitted_map_def fmap.map_id)
qed (use assms(2) in simp)

lemma read_sourceAuthorities:
  assumes "readable_strings s (\<lambda>x. list_all valid_utf8 (elems x))" "psSourceAuthorities acc = None"
  shows "decode_members (upd_PolicyServerSpec J) acc (omit_map ''sourceAuthorities'' (marshal_slice json_string) s) =
     Some (acc\<lparr>psSourceAuthorities := map_option (fmmap elems) (omitted_map s)\<rparr>)"
proof (rule decode_omit_map)
  fix m assume s: "s = Some m" "m \<noteq> fmempty"
  have "decode_map (decode_list (decode_string '''')) None (marshal_map (marshal_slice json_string) m) =
      Some (Some (fmmap elems m))"
  proof (rule decode_marshal_map, intro allI impI)
    fix k x assume "fmlookup m k = Some x"
    with s assms(1) have "valid_utf8 k \<and> list_all valid_utf8 (elems x)" using readable_stringsD by fast
    then show "valid_utf8 k \<and> lexes (marshal_slice json_string x) \<and>
        decode_list (decode_string '''') (marshal_slice json_string x) = Some (elems x)"
      by (auto simp: list_all_iff intro!: lexes_slice decode_list_marshal)
  qed
  with s assms(2) show "upd_PolicyServerSpec J ''sourceAuthorities'' acc (marshal_map (marshal_slice json_string) m) =
      Some (acc\<lparr>psSourceAuthorities := map_option (fmmap elems) (omitted_map s)\<rparr>)"
    by (simp add: upd_PolicyServerSpec_def omitted_map_def)
qed (use assms(2) in simp)

lemma read_env:
  assumes "list_all (reads_back (jsonEnvVar J)) (elems s)" "psEnv acc = []"
  shows "decode_members (upd_PolicyServerSpec J) acc (omit_slice ''env'' (jcEncode (jsonEnvVar J)) s) =
     Some (acc\<lparr>psEnv := elems s\<rparr>)"
  by (rule decode_omit_slice)
    (use assms in \<open>simp_all add: upd_PolicyServerSpec_def decode_list_marshal list_all_iff reads_back_def\<close>)

lemma read_insecureSources:
  assumes "list_all valid_utf8 (elems s)" "psInsecureSources acc = None"
  shows "decode_members (upd_PolicyServerSpec J) acc (omit_slice ''insecureSources'' json_string s) =
     Some (acc\<lparr>psInsecureSources := omitted_slice s\<rparr>)"
  by (rule decode_omit_slice)
    (use assms in \<open>simp_all add: upd_PolicyServerSpec_def decode_marshal_slice list_all_iff omitted_slice_def\<close>)

lemma read_server_string:
  "valid_utf8 x \<Longrightarrow> psServiceAccountName acc = '''' \<Longrightarrow>
     decode_members (upd_PolicyServerSpec J) acc (omit_string ''serviceAccountName'' x) = Some (acc\<lparr>psServiceAccountName := x\<rparr>)"
  "valid_utf8 x \<Longrightarrow> psImagePullSecret acc = '''' \<Longrightarrow>
     decode_members (upd_PolicyServerSpec J) acc (omit_string ''imagePullSecret'' x) = Some (acc\<lparr>psImagePullSecret := x\<rparr>)"
  "valid_utf8 x \<Longrightarrow> psVerificationConfig acc = '''' \<Longrightarrow>
     decode_members (upd_PolicyServerSpec J) acc (omit_string ''verificationConfig'' x) = Some (acc\<lparr>psVerificationConfig := x\<rparr>)"
  by (rule decode_omit_string; simp add: upd_PolicyServerSpec_def)+

lemmas server_fields_read = read_annotations read_sourceAuthorities read_env read_insecureSources read_server_string

lemma well_formed_server_spec:
  assumes "readable_server_spec J s"
  shows "well_formed_members (PolicyServerSpec_members_v1alpha2 J s)"
  using assms
  by (auto simp: PolicyServerSpec_members_v1alpha2_def readable_server_spec_def list_all_iff lexes_slice
      intro!: well_formed_omit_slice well_formed_omit_map dest: reads_backD readable_stringsD)

lemma ps_v1alpha2_read_back:
  assumes "readable_server J r"
  shows "ps_unmarshal J (ps_marshal_v1alpha2 J r) = Some (server_as_v1 r)"
proof -
  note r = assms [unfolded readable_server_def]
  let ?zero = "zero_PolicyServer J" and ?v1 = "server_as_v1 r"
  let ?status = "[(''conditions'', marshal_slice (jcEncode (jsonCondition J)) (a2ServerConditions (a2psStatus r)))]"
  have wf: "well_formed_members (PolicyServerSpec_members_v1alpha2 J (a2psSpec r))"
    using r by (simp add: well_formed_server_spec)
  have wfs: "well_formed_members ?status" using r by (simp add: lexes_struct_slice)
  have spec: "decode_members (upd_PolicyServerSpec J) (psSpec ?zero) (PolicyServerSpec_members_v1alpha2 J (a2psSpec r)) =
      Some (psSpec ?v1)"
    using r unfolding readable_server_spec_def
    by (simp add: PolicyServerSpec_members_v1alpha2_def server_fields_read upd_PolicyServerSpec_def
        zero_PolicyServer_def server_as_v1_def)
  have conds: "decode_list (jcDecode (jsonCondition J) (jcZero (jsonCondition J)))
      (marshal_slice (jcEncode (jsonCondition J)) (a2ServerConditions (a2psStatus r))) = Some (psConditions ?v1)"
    using r by (simp add: decode_list_def decode_struct_slice list_all_iff server_as_v1_def)
  have "unmarshal_object (upd_PolicyServer J) ?zero (object_text J (a2psType r) (a2psMeta r)
      (PolicyServerSpec_members_v1alpha2 J (a2psSpec r)) ?status) = Some ?v1"
  proof (rule object_text_read [OF _ _ wf wfs])
    show "readable_type (a2psType r)" "reads_back (jsonMeta J) (a2psMeta r)" using r by simp_all
    show "upd_PolicyServer J ''metadata'' ?zero (jcEncode (jsonMeta J) (a2psMeta r)) = Some (?zero\<lparr>psMeta := a2psMeta r\<rparr>)"
      using r by (simp add: upd_PolicyServer_def zero_PolicyServer_def reads_back_def)
    show "upd_PolicyServer J ''spec'' (?zero\<lparr>psMeta := a2psMeta r\<rparr>) (json_object (PolicyServerSpec_members_v1alpha2 J (a2psSpec r))) =
        Some (?zero\<lparr>psMeta := a2psMeta r, psSpec := psSpec ?v1\<rparr>)"
      using spec by (simp add: upd_PolicyServer_def decode_object_members [OF wf])
    show "upd_PolicyServer J ''status'' (?zero\<lparr>psMeta := a2psMeta r, psSpec := psSpec ?v1\<rparr>) (json_object ?status) = Some ?v1"
      using conds
      by (simp add: upd_PolicyServer_def decode_object_members [OF wfs] upd_PolicyServerStatus_def zero_PolicyServer_def
          server_as_v1_def)
  qed (auto simp: upd_PolicyServer_def)
  then show ?thesis by (simp add: ps_unmarshal_def ps_marshal_v1alpha2_def object_text_def)
qed

interpretation ps_v1alpha2: written_resource "\<lambda>r. Some (ps_marshal_v1alpha2 J r)" "ps_unmarshal J"
    "readable_server J" server_as_v1
  for J
  by unfold_locales (simp add: ps_v1alpha2_read_back)

lemma server_names_as_v1:
  "NameWithPrefix (server_as_v1 r) = NameWithPrefix_v1alpha2 r" "AppLabel (server_as_v1 r) = AppLabel_v1alpha2 r"
  by (simp_all add: NameWithPrefix_def AppLabel_def NameWithPrefix_v1alpha2_def AppLabel_v1alpha2_def server_as_v1_def)

section \<open>Example objects\<close>

text \<open>A codec for metadata that writes the two fields that name an object, and one for structs that stay zero.\<close>

definition demo_upd_meta :: "string \<Rightarrow> ObjectMeta \<Rightarrow> string \<Rightarrow> ObjectMeta option" where
  "demo_upd_meta k m v =
     (if k = ''name'' then map_option (\<lambda>x. m\<lparr>Name := x\<rparr>) (decode_string (Name m) v)
      else if k = ''namespace'' then map_option (\<lambda>x. m\<lparr>Namespace := x\<rparr>) (decode_string (Namespace m) v)
      else Some m)"

definition demo_meta_codec :: "ObjectMeta json_codec" where
  "demo_meta_codec = \<lparr>jcZero = metaZero,
     jcEncode = \<lambda>m. json_object [(''name'', json_string (Name m)), (''namespace'', json_string (Namespace m))],
     jcDecode = decode_object demo_upd_meta\<rparr>"

definition zero_codec :: "'a \<Rightarrow> 'a json_codec" where
  "zero_codec z = \<lparr>jcZero = z, jcEncode = \<lambda>_. json_object [], jcDecode = \<lambda>old _. Some old\<rparr>"

definition demo_json :: api_json where
  "demo_json = \<lparr>jsonMeta = demo_meta_codec,
     jsonRule = zero_codec \<lparr>ruleOperations = None, ruleAPIGroups = None, ruleAPIVersions = None,
       ruleResources = None, ruleScope = None\<rparr>,
     jsonSelector = zero_codec \<lparr>MatchLabels = None, MatchExpressions = None\<rparr>,
     jsonCondition = zero_codec \<lparr>condType = '''', condStatus = '''', condReason = '''', condMessage = ''''\<rparr>,
     jsonEnvVar = zero_codec \<lparr>envName = '''', envValue = '''', envValueFrom = None\<rparr>\<rparr>"

lemma demo_keys [simp]: "valid_utf8 ''name''" "valid_utf8 ''namespace''"
  by (simp_all add: valid_utf8.simps)

lemma demo_meta_reads_back:
  assumes "valid_utf8 n" "valid_utf8 ns"
  shows "reads_back (jsonMeta demo_json) (metaNamed ns n)"
proof -
  have "well_formed_members [(''name'', json_string n), (''namespace'', json_string ns)]" by simp
  from decode_object_members [OF this, of demo_upd_meta] lexes_members [OF this] assms show ?thesis
    by (simp add: reads_back_def demo_json_def demo_meta_codec_def demo_upd_meta_def metaNamed_def metaZero_def)
qed

lemma zero_codec_reads_back: "reads_back (zero_codec z) z"
  by (simp add: reads_back_def zero_codec_def)

definition demo_type :: "string \<Rightarrow> TypeMeta" where
  "demo_type k = \<lparr>tmKind = k, tmAPIVersion = GroupVersion_Group_v1alpha2 @ ''/'' @ GroupVersion_Version_v1alpha2\<rparr>"

lemma demo_type_readable: "valid_utf8 k \<Longrightarrow> readable_type (demo_type k)"
  by (simp add: readable_type_def demo_type_def GroupVersion_Group_v1alpha2_def GroupVersion_Version_v1alpha2_def
      valid_utf8.simps)

definition demo_policy_v1alpha2 :: AdmissionPolicy_v1alpha2 where
  "demo_policy_v1alpha2 = \<lparr>a2apType = demo_type ''AdmissionPolicy'', a2apMeta = metaNamed ''ns'' ''p'',
     a2apSpec = \<lparr>a2PolicyServer = ''default'', a2Module = ''registry://m'', a2Mode = '''', a2Settings = None,
       a2Rules = Some [jcZero (jsonRule demo_json)], a2FailurePolicy = None, a2Mutating = True,
       a2MatchPolicy = Some ''Exact'', a2ObjectSelector = None, a2SideEffects = None, a2TimeoutSeconds = Some 10\<rparr>,
     a2apStatus = \<lparr>a2PolicyStatus = PolicyStatusPending_v1alpha2, a2PolicyMode = '''', a2Conditions = None\<rparr>\<rparr>"

definition demo_server_v1alpha2 :: PolicyServer_v1alpha2 where
  "demo_server_v1alpha2 = \<lparr>a2psType = demo_type ''PolicyServer'', a2psMeta = metaNamed '''' ''s'',
     a2psSpec = \<lparr>a2Image = ''img'', a2Replicas = - 1, a2Annotations = Some fmempty, a2Env = None,
       a2ServiceAccountName = '''', a2ImagePullSecret = ''pull'', a2InsecureSources = Some [''r''],
       a2SourceAuthorities = Some (fmupd ''r'' (Some [''pem'']) fmempty), a2VerificationConfig = ''''\<rparr>,
     a2psStatus = \<lparr>a2ServerConditions = None\<rparr>\<rparr>"

section \<open>Properties\<close>

text \<open>
  C29. An old client's policy keeps its meaning: the JSON text of a policy of either kind, written by the
  field tags of \<open>v1alpha2\<close> with whatever kind and API version, is read by the controllers, with the
  field tags of \<open>v1\<close>, as a policy for which every method of the interface \<open>Policy\<close> gives the same
  answer, unique name, rules and namespace selector included, and which has the same status; fields left
  out by \<open>omitempty\<close> come back as they were.
\<close>

theorem v1alpha2_policy_keeps_meaning:
  assumes "raw_extension_law L" "readable_type (policy_type p)" "readable_policy J (as_v1 p)"
  shows "\<exists>t q. policy_marshal_v1alpha2 L J p = Some t \<and> policy_unmarshal L J p t = Some q \<and>
     policy_view q = policy_view_v1alpha2 p \<and> GetUniqueName q = GetUniqueName_v1alpha2 p \<and>
     statPolicyStatus (GetStatus q) = a2PolicyStatus (GetStatus_v1alpha2 p) \<and>
     statPolicyMode (GetStatus q) = a2PolicyMode (GetStatus_v1alpha2 p) \<and>
     statConditions (GetStatus q) = elems (a2Conditions (GetStatus_v1alpha2 p))"
proof -
  from policy_v1alpha2_read_back [OF assms] obtain t
    where "policy_marshal_v1alpha2 L J p = Some t" "policy_unmarshal L J p t = Some (as_v1 p)" by blast
  moreover have "GetUniqueName (as_v1 p) = GetUniqueName_v1alpha2 p"
    using policy_view_as_v1 [of p] by (simp add: policy_view_def policy_view_v1alpha2_def)
  ultimately show ?thesis by (auto simp: policy_view_as_v1 GetStatus_as_v1 status_as_v1_def)
qed

theorem v1alpha2_policy_keeps_meaning_witness:
  "\<exists>t q. policy_marshal_v1alpha2 ref_lib demo_json (NamespacedPolicy_v1alpha2 demo_policy_v1alpha2) = Some t \<and>
     policy_unmarshal ref_lib demo_json (NamespacedPolicy_v1alpha2 demo_policy_v1alpha2) t = Some q \<and>
     GetUniqueName q = ''namespaced-ns-p'' \<and> statPolicyStatus (GetStatus q) = PolicyStatusPending"
proof -
  let ?p = "NamespacedPolicy_v1alpha2 demo_policy_v1alpha2"
  have "readable_type (policy_type ?p)"
    by (simp add: demo_policy_v1alpha2_def demo_type_readable valid_utf8.simps)
  moreover have "readable_policy demo_json (as_v1 ?p)"
    using demo_meta_reads_back [of "''p''" "''ns''"] zero_codec_reads_back
    by (simp add: demo_policy_v1alpha2_def readable_ap_def readable_spec_def readable_status_def spec_as_v1_def
        status_as_v1_def stable_raw_def valid_utf8.simps PolicyStatusPending_v1alpha2_def demo_json_def zero_codec_def)
  ultimately obtain t q where "policy_marshal_v1alpha2 ref_lib demo_json ?p = Some t"
      "policy_unmarshal ref_lib demo_json ?p t = Some q" "GetUniqueName q = GetUniqueName_v1alpha2 ?p"
      "statPolicyStatus (GetStatus q) = a2PolicyStatus (GetStatus_v1alpha2 ?p)"
    using v1alpha2_policy_keeps_meaning [OF ref_lib_raw, of ?p demo_json] by blast
  then show ?thesis
    by (auto simp: demo_policy_v1alpha2_def ap_v1alpha2_defs PolicyStatusPending_v1alpha2_def PolicyStatusPending_def)
qed

text \<open>
  C30. An old client's policy server keeps its meaning: the JSON text of a \<open>v1alpha2\<close> policy server is
  read by the controllers as the \<open>v1\<close> policy server with the same image, replicas (negative ones
  too), environment, secrets, sources and conditions, and with the same derived names; only an empty
  map or slice that \<open>omitempty\<close> leaves out comes back as nil.
\<close>

theorem v1alpha2_server_keeps_meaning:
  assumes "readable_server J r"
  shows "\<exists>q. ps_unmarshal J (ps_marshal_v1alpha2 J r) = Some q \<and> psMeta q = a2psMeta r \<and>
     NameWithPrefix q = NameWithPrefix_v1alpha2 r \<and> AppLabel q = AppLabel_v1alpha2 r \<and>
     psImage (psSpec q) = a2Image (a2psSpec r) \<and> psReplicas (psSpec q) = a2Replicas (a2psSpec r) \<and>
     psAnnotations (psSpec q) = omitted_map (a2Annotations (a2psSpec r)) \<and>
     psEnv (psSpec q) = elems (a2Env (a2psSpec r)) \<and>
     psServiceAccountName (psSpec q) = a2ServiceAccountName (a2psSpec r) \<and>
     psImagePullSecret (psSpec q) = a2ImagePullSecret (a2psSpec r) \<and>
     psInsecureSources (psSpec q) = omitted_slice (a2InsecureSources (a2psSpec r)) \<and>
     psSourceAuthorities (psSpec q) = map_option (fmmap elems) (omitted_map (a2SourceAuthorities (a2psSpec r))) \<and>
     psVerificationConfig (psSpec q) = a2VerificationConfig (a2psSpec r) \<and>
     psConditions q = elems (a2ServerConditions (a2psStatus r))"
  using ps_v1alpha2_read_back [OF assms] server_names_as_v1
  by (intro exI [of _ "server_as_v1 r"]) (simp add: server_as_v1_def)

theorem v1alpha2_server_keeps_meaning_witness:
  "\<exists>q. ps_unmarshal demo_json (ps_marshal_v1alpha2 demo_json demo_server_v1alpha2) = Some q \<and>
     NameWithPrefix q = ''policy-server-s'' \<and> psReplicas (psSpec q) = - 1 \<and> psAnnotations (psSpec q) = None \<and>
     psSourceAuthorities (psSpec q) = Some (fmupd ''r'' [''pem''] fmempty)"
proof -
  have "readable_server demo_json demo_server_v1alpha2"
    using demo_meta_reads_back [of "''s''" "''''"]
    by (auto simp: readable_server_def readable_server_spec_def demo_server_v1alpha2_def demo_type_readable
        readable_strings_def list_all_iff sorted_list_of_fmap_mem valid_utf8.simps split: if_splits)
  from v1alpha2_server_keeps_meaning [OF this] show ?thesis
    by (auto simp: demo_server_v1alpha2_def NameWithPrefix_v1alpha2_def omitted_map_def
        fmap.map_comp fmmap_fmupd)
qed

text \<open>The constants of the two versions agree, so a status written by one is understood by the other.\<close>

lemma v1alpha2_constants:
  "PolicyStatusUnscheduled_v1alpha2 = PolicyStatusUnscheduled" "PolicyStatusScheduled_v1alpha2 = PolicyStatusScheduled"
  "PolicyStatusPending_v1alpha2 = PolicyStatusPending" "PolicyStatusActive_v1alpha2 = PolicyStatusActive"
  "PolicyModeStatusProtect_v1alpha2 = PolicyModeStatusProtect" "PolicyModeStatusMonitor_v1alpha2 = PolicyModeStatusMonitor"
  "PolicyModeStatusUnknown_v1alpha2 = PolicyModeStatusUnknown" "PolicyActive_v1alpha2 = PolicyActive"
  "PolicyServerConfigurationUpToDate_v1alpha2 = PolicyServerConfigurationUpToDate"
  "PolicyUniquelyReachable_v1alpha2 = PolicyUniquelyReachable" "ReconciliationFailed_v1alpha2 = ReconciliationFailed"
  "ReconciliationSucceeded_v1alpha2 = ReconciliationSucceeded"
  "PolicyServerCASecretReconciled_v1alpha2 = PolicyServerCASecretReconciled"
  "PolicyServerCARootSecretReconciled_v1alpha2 = PolicyServerCARootSecretReconciled"
  "PolicyServerConfigMapReconciled_v1alpha2 = PolicyServerConfigMapReconciled"
  "PolicyServerDeploymentReconciled_v1alpha2 = PolicyServerDeploymentReconciled"
  "PolicyServerServiceReconciled_v1alpha2 = PolicyServerServiceReconciled"
  by (simp_all add: v1alpha2_const_defs const_defs)

end
