(* ===== verification/Registration.thy ===== *)
theory Registration
  imports Program_Start V1alpha2
begin

text \<open>
  What the packages register before and while the manager starts: the types of both API versions with
  the scheme (\<open>groupversion_info.go\<close>, the \<open>init\<close> functions of \<open>apis/policies\<close> and of \<open>main.go\<close>), and
  the webhooks of the custom resources with the manager (\<open>SetupWebhookWithManager\<close>).

  The scheme and its builder belong to the libraries: they are a parameter (\<open>scheme_lib\<close>), with what
  their documentation promises as hypothesis (\<open>scheme_law\<close>).
\<close>

section \<open>The scheme\<close>

text \<open>A Go type is named by its package and its name; its kind is its name.\<close>

record go_type =
  gtPackage :: string
  gtName :: string

record ('b, 's) scheme_lib =
  NewBuilder :: "string \<Rightarrow> string \<Rightarrow> 'b"
  Register :: "'b \<Rightarrow> go_type list \<Rightarrow> 'b"
  AddToScheme :: "'b \<Rightarrow> 's \<Rightarrow> string option \<times> 's"
  clientgo_AddToScheme :: "'s \<Rightarrow> string option \<times> 's"
  registered :: "'b \<Rightarrow> string \<times> string \<times> go_type list"
  recognizes :: "'s \<Rightarrow> string \<Rightarrow> string \<Rightarrow> string \<Rightarrow> go_type option"

text \<open>
  A builder remembers its group, its version and the types registered with it.  Adding it to a scheme,
  when that succeeds, makes the scheme recognize the kind of each type in that group and version, and
  changes no other group or version.
\<close>

definition scheme_law :: "('b, 's) scheme_lib \<Rightarrow> bool" where
  "scheme_law lib \<longleftrightarrow>
     (\<forall>g v. registered lib (NewBuilder lib g v) = (g, v, [])) \<and>
     (\<forall>b ts g v us. registered lib b = (g, v, us) \<longrightarrow> registered lib (Register lib b ts) = (g, v, us @ ts)) \<and>
     (\<forall>b s s' g v us. registered lib b = (g, v, us) \<and> distinct (map gtName us) \<and> AddToScheme lib b s = (None, s') \<longrightarrow>
        (\<forall>t \<in> set us. recognizes lib s' g v (gtName t) = Some t) \<and>
        (\<forall>g' v' k. (g', v') \<noteq> (g, v) \<longrightarrow> recognizes lib s' g' v' k = recognizes lib s g' v' k))"

section \<open>The packages of the custom resources\<close>

text \<open>
  The variable \<open>SchemeBuilder\<close> of a package is initialised first; then the \<open>init\<close> functions of its files
  run, in the order of the file names.
\<close>

definition SchemeBuilder_v1 :: "('b, 's) scheme_lib \<Rightarrow> 'b" where
  "SchemeBuilder_v1 lib = NewBuilder lib group_name GroupVersion_Version"

definition init_admissionpolicy_v1 :: "('b, 's) scheme_lib \<Rightarrow> 'b \<Rightarrow> 'b" where
  "init_admissionpolicy_v1 lib b = Register lib b
     [\<lparr>gtPackage = ''v1'', gtName = ''AdmissionPolicy''\<rparr>, \<lparr>gtPackage = ''v1'', gtName = ''AdmissionPolicyList''\<rparr>]"

definition init_clusteradmissionpolicy_v1 :: "('b, 's) scheme_lib \<Rightarrow> 'b \<Rightarrow> 'b" where
  "init_clusteradmissionpolicy_v1 lib b = Register lib b
     [\<lparr>gtPackage = ''v1'', gtName = ''ClusterAdmissionPolicy''\<rparr>,
      \<lparr>gtPackage = ''v1'', gtName = ''ClusterAdmissionPolicyList''\<rparr>]"

definition init_policyserver_v1 :: "('b, 's) scheme_lib \<Rightarrow> 'b \<Rightarrow> 'b" where
  "init_policyserver_v1 lib b = Register lib b
     [\<lparr>gtPackage = ''v1'', gtName = ''PolicyServer''\<rparr>, \<lparr>gtPackage = ''v1'', gtName = ''PolicyServerList''\<rparr>]"

definition AddToScheme_v1 :: "('b, 's) scheme_lib \<Rightarrow> 's \<Rightarrow> string option \<times> 's" where
  "AddToScheme_v1 lib = AddToScheme lib
     (init_policyserver_v1 lib (init_clusteradmissionpolicy_v1 lib (init_admissionpolicy_v1 lib (SchemeBuilder_v1 lib))))"

definition SchemeBuilder_v1alpha2 :: "('b, 's) scheme_lib \<Rightarrow> 'b" where
  "SchemeBuilder_v1alpha2 lib = NewBuilder lib GroupVersion_Group_v1alpha2 GroupVersion_Version_v1alpha2"

definition init_admissionpolicy_v1alpha2 :: "('b, 's) scheme_lib \<Rightarrow> 'b \<Rightarrow> 'b" where
  "init_admissionpolicy_v1alpha2 lib b = Register lib b
     [\<lparr>gtPackage = ''v1alpha2'', gtName = ''AdmissionPolicy''\<rparr>,
      \<lparr>gtPackage = ''v1alpha2'', gtName = ''AdmissionPolicyList''\<rparr>]"

definition init_clusteradmissionpolicy_v1alpha2 :: "('b, 's) scheme_lib \<Rightarrow> 'b \<Rightarrow> 'b" where
  "init_clusteradmissionpolicy_v1alpha2 lib b = Register lib b
     [\<lparr>gtPackage = ''v1alpha2'', gtName = ''ClusterAdmissionPolicy''\<rparr>,
      \<lparr>gtPackage = ''v1alpha2'', gtName = ''ClusterAdmissionPolicyList''\<rparr>]"

definition init_policyserver_v1alpha2 :: "('b, 's) scheme_lib \<Rightarrow> 'b \<Rightarrow> 'b" where
  "init_policyserver_v1alpha2 lib b = Register lib b
     [\<lparr>gtPackage = ''v1alpha2'', gtName = ''PolicyServer''\<rparr>,
      \<lparr>gtPackage = ''v1alpha2'', gtName = ''PolicyServerList''\<rparr>]"

definition AddToScheme_v1alpha2 :: "('b, 's) scheme_lib \<Rightarrow> 's \<Rightarrow> string option \<times> 's" where
  "AddToScheme_v1alpha2 lib = AddToScheme lib
     (init_policyserver_v1alpha2 lib (init_clusteradmissionpolicy_v1alpha2 lib
       (init_admissionpolicy_v1alpha2 lib (SchemeBuilder_v1alpha2 lib))))"

text \<open>\<open>utilruntime.Must\<close> panics (\<open>None\<close>) on an error.\<close>

definition Must :: "string option \<times> 's \<Rightarrow> 's option" where
  "Must r = (case r of (None, s) \<Rightarrow> Some s | (Some err, s) \<Rightarrow> None)"

definition main_init :: "('b, 's) scheme_lib \<Rightarrow> 's \<Rightarrow> 's option" where
  "main_init lib s = Option.bind (Must (clientgo_AddToScheme lib s)) (\<lambda>s.
     Option.bind (Must (AddToScheme_v1alpha2 lib s)) (\<lambda>s.
       Must (AddToScheme_v1 lib s)))"

lemma Must_Some: "Must r = Some s \<longleftrightarrow> r = (None, s)"
  by (cases r) (auto simp: Must_def split: option.splits)

lemma registered_types:
  assumes "scheme_law lib"
  shows "registered lib (init_policyserver_v1 lib (init_clusteradmissionpolicy_v1 lib
       (init_admissionpolicy_v1 lib (SchemeBuilder_v1 lib)))) = (group_name, ''v1'', map (\<lambda>n. \<lparr>gtPackage = ''v1'', gtName = n\<rparr>)
       [''AdmissionPolicy'', ''AdmissionPolicyList'', ''ClusterAdmissionPolicy'', ''ClusterAdmissionPolicyList'',
        ''PolicyServer'', ''PolicyServerList''])"
    and "registered lib (init_policyserver_v1alpha2 lib (init_clusteradmissionpolicy_v1alpha2 lib
       (init_admissionpolicy_v1alpha2 lib (SchemeBuilder_v1alpha2 lib)))) = (group_name, ''v1alpha2'',
       map (\<lambda>n. \<lparr>gtPackage = ''v1alpha2'', gtName = n\<rparr>)
       [''AdmissionPolicy'', ''AdmissionPolicyList'', ''ClusterAdmissionPolicy'', ''ClusterAdmissionPolicyList'',
        ''PolicyServer'', ''PolicyServerList''])"
  using assms [unfolded scheme_law_def]
  by (simp_all add: init_policyserver_v1_def init_clusteradmissionpolicy_v1_def init_admissionpolicy_v1_def SchemeBuilder_v1_def
      init_policyserver_v1alpha2_def init_clusteradmissionpolicy_v1alpha2_def init_admissionpolicy_v1alpha2_def
      SchemeBuilder_v1alpha2_def GroupVersion_Version_def GroupVersion_Version_v1alpha2_def group_name_def
      GroupVersion_Group_v1alpha2_def)

lemma AddToScheme_recognizes:
  assumes "scheme_law lib" "registered lib b = (g, v, us)" "distinct (map gtName us)" "AddToScheme lib b s = (None, s')"
  shows "t \<in> set us \<Longrightarrow> recognizes lib s' g v (gtName t) = Some t"
    and "(g', v') \<noteq> (g, v) \<Longrightarrow> recognizes lib s' g' v' k = recognizes lib s g' v' k"
  using assms unfolding scheme_law_def by blast+

text \<open>
  When the program gets past its initialisation, its scheme recognizes every kind of custom resource,
  and the list of each, in both versions, as the type of that version.
\<close>

theorem scheme_recognizes_custom_resources:
  assumes "scheme_law lib" "main_init lib s = Some s'"
    and "v \<in> {''v1'', ''v1alpha2''}"
    and "k \<in> {''AdmissionPolicy'', ''AdmissionPolicyList'', ''ClusterAdmissionPolicy'', ''ClusterAdmissionPolicyList'',
       ''PolicyServer'', ''PolicyServerList''}"
  shows "recognizes lib s' group_name v k = Some \<lparr>gtPackage = v, gtName = k\<rparr>"
proof -
  from assms(2) obtain s1 s2 where
    a: "AddToScheme_v1alpha2 lib s1 = (None, s2)" and b: "AddToScheme_v1 lib s2 = (None, s')"
    by (auto simp: main_init_def bind_eq_Some_conv Must_Some)
  note old = AddToScheme_recognizes [OF assms(1) registered_types(2) [OF assms(1)] _ a [unfolded AddToScheme_v1alpha2_def]]
  note new = AddToScheme_recognizes [OF assms(1) registered_types(1) [OF assms(1)] _ b [unfolded AddToScheme_v1_def]]
  show ?thesis
  proof (cases "v = ''v1''")
    case True
    with assms(4) show ?thesis using new(1) [of "\<lparr>gtPackage = v, gtName = k\<rparr>"] by auto
  next
    case False
    with assms(3) have v: "v = ''v1alpha2''" by simp
    with assms(4) have "recognizes lib s2 group_name v k = Some \<lparr>gtPackage = v, gtName = k\<rparr>"
      using old(1) [of "\<lparr>gtPackage = v, gtName = k\<rparr>"] by auto
    moreover have "recognizes lib s' group_name v k = recognizes lib s2 group_name v k"
      using new(2) [of group_name v k] v by simp
    ultimately show ?thesis by simp
  qed
qed

text \<open>A scheme as a map, for which the hypotheses hold.\<close>

definition demo_scheme ::
    "(string \<times> string \<times> go_type list, string \<Rightarrow> string \<Rightarrow> string \<Rightarrow> go_type option) scheme_lib" where
  "demo_scheme = \<lparr>NewBuilder = \<lambda>g v. (g, v, []), Register = \<lambda>(g, v, us) ts. (g, v, us @ ts),
     AddToScheme = \<lambda>(g, v, us) s. (None, \<lambda>g' v' k. if (g', v') = (g, v) \<and> find (\<lambda>t. gtName t = k) us \<noteq> None
       then find (\<lambda>t. gtName t = k) us else s g' v' k),
     clientgo_AddToScheme = \<lambda>s. (None, s), registered = \<lambda>b. b, recognizes = \<lambda>s. s\<rparr>"

lemma find_type: "distinct (map gtName us) \<Longrightarrow> t \<in> set us \<Longrightarrow> find (\<lambda>u. gtName u = gtName t) us = Some t"
  by (induction us) (auto simp: image_iff)

lemma demo_scheme_law: "scheme_law demo_scheme"
  by (auto simp: scheme_law_def demo_scheme_def find_type)

theorem scheme_recognizes_custom_resources_witness:
  "\<exists>s'. main_init demo_scheme (\<lambda>_ _ _. None) = Some s' \<and>
     s' group_name ''v1alpha2'' ''PolicyServer'' = Some \<lparr>gtPackage = ''v1alpha2'', gtName = ''PolicyServer''\<rparr>"
proof -
  have "main_init demo_scheme (\<lambda>_ _ _. None) \<noteq> None"
    by (simp add: main_init_def Must_def demo_scheme_def AddToScheme_v1_def AddToScheme_v1alpha2_def split_beta)
  then obtain s' where s': "main_init demo_scheme (\<lambda>_ _ _. None) = Some s'" by blast
  from scheme_recognizes_custom_resources [OF demo_scheme_law s', of "''v1alpha2''" "''PolicyServer''"] s'
  show ?thesis by (auto simp: demo_scheme_def)
qed

section \<open>Enrolling the webhooks\<close>

definition ps_SetupWebhookWithManager :: "('w, 's) library \<Rightarrow> ('w, 's, string option) startup" where
  "ps_SetupWebhookWithManager lib = do {
     err \<leftarrow> perform lib (CompleteWebhook KPolicyServer);
     (case err of
        Some e \<Rightarrow> ret (Some (wrap_text ''failed enrolling webhook with manager'' e))
      | None \<Rightarrow> ret None)
   }"

definition cap_SetupWebhookWithManager :: "('w, 's) library \<Rightarrow> ('w, 's, string option) startup" where
  "cap_SetupWebhookWithManager lib = do {
     err \<leftarrow> perform lib (CompleteWebhook KClusterAdmissionPolicy);
     (case err of
        Some e \<Rightarrow> ret (Some (wrap_text ''failed enrolling webhook with manager'' e))
      | None \<Rightarrow> ret None)
   }"

definition ap_SetupWebhookWithManager :: "('w, 's) library \<Rightarrow> ('w, 's, string option) startup" where
  "ap_SetupWebhookWithManager lib = do {
     err \<leftarrow> perform lib (CompleteWebhook KAdmissionPolicy);
     (case err of
        Some e \<Rightarrow> ret (Some (wrap_text ''failed enrolling webhook with manager'' e))
      | None \<Rightarrow> ret None)
   }"

text \<open>The function that an entry of the table of webhooks names.\<close>

fun run_registrator :: "registrator \<Rightarrow> ('w, 's) library \<Rightarrow> ('w, 's, string option) startup" where
  "run_registrator PolicyServerRegistrator = ps_SetupWebhookWithManager"
| "run_registrator ClusterAdmissionPolicyRegistrator = cap_SetupWebhookWithManager"
| "run_registrator AdmissionPolicyRegistrator = ap_SetupWebhookWithManager"

fun resource_of :: "kind \<Rightarrow> string" where
  "resource_of KPolicyServer = ''policyservers''"
| "resource_of KClusterAdmissionPolicy = ''clusteradmissionpolicies''"
| "resource_of KAdmissionPolicy = ''admissionpolicies''"
| "resource_of k = ''''"

fun registrator_kind :: "registrator \<Rightarrow> kind" where
  "registrator_kind PolicyServerRegistrator = KPolicyServer"
| "registrator_kind ClusterAdmissionPolicyRegistrator = KClusterAdmissionPolicy"
| "registrator_kind AdmissionPolicyRegistrator = KAdmissionPolicy"

lemma run_registrator_eq:
  "run_state (run_registrator r lib) (s, pre) =
     (case lib (CompleteWebhook (registrator_kind r)) s of (err, s') \<Rightarrow>
        (map_option (wrap_text ''failed enrolling webhook with manager'') err,
         (s', pre @ [(CompleteWebhook (registrator_kind r), err)])))"
  by (cases r) (auto simp: ps_SetupWebhookWithManager_def cap_SetupWebhookWithManager_def ap_SetupWebhookWithManager_def
      perform_def split: prod.splits option.splits)

text \<open>
  Each entry of the table enrolls the webhook of exactly one kind, the one whose resource its rules
  name, and no other step; the error of the library, if any, comes back with its text prefixed.
\<close>

theorem webhook_table_enrolls:
  "list_all (\<lambda>w. map ruleResources (regRules w) = [Some [resource_of (registrator_kind (regRegistrator w))]] \<and>
     (case run_state (run_registrator (regRegistrator w) lib) (s, pre) of (err, (s', steps)) \<Rightarrow>
        steps = pre @ [(CompleteWebhook (registrator_kind (regRegistrator w)), snd (last steps))] \<and>
        err = map_option (wrap_text ''failed enrolling webhook with manager'') (snd (last steps)))) webhooks"
proof -
  have "list_all (\<lambda>w. map ruleResources (regRules w) = [Some [resource_of (registrator_kind (regRegistrator w))]]) webhooks"
    by (simp add: webhooks_def webhook_rule_def)
  then show ?thesis by (auto simp: list_all_iff run_registrator_eq split: prod.splits)
qed

end
