(* ===== verification/Policy_Phases.thy ===== *)
theory Policy_Phases
  imports Policy_Controller Policy_Admission
begin

text \<open>
  What the two policy controllers do to a policy: the phases of its status as a step relation on
  what a reconciliation observes, the refinement of that relation by \<open>startReconciling\<close>, and the
  deletion of a policy.  The operations are those of \<open>Policy_Controller\<close>.
\<close>

section \<open>The phases of a policy\<close>

text \<open>
  What a reconciliation finds out about a policy: it names no policy server, its policy server
  could not be read, it has to wait, or its webhook was registered.
\<close>

datatype observation = NoServer | ServerUnknown | Waiting | Registered

inductive policy_step :: "observation \<Rightarrow> PolicyStatusEnum \<Rightarrow> PolicyStatusEnum \<Rightarrow> bool" where
  no_server: "policy_step NoServer st PolicyStatusUnscheduled"
| server_unknown: "policy_step ServerUnknown st PolicyStatusScheduled"
| waiting: "st \<noteq> PolicyStatusActive \<Longrightarrow> policy_step Waiting st PolicyStatusPending"
| still_active: "policy_step Waiting PolicyStatusActive PolicyStatusActive"
| registered: "policy_step Registered st PolicyStatusActive"

inductive_simps policy_step_simps [simp]:
  "policy_step NoServer st st'" "policy_step ServerUnknown st st'" "policy_step Waiting st st'"
  "policy_step Registered st st'"

inductive_cases policy_step_activeE: "policy_step ob st PolicyStatusActive"

section \<open>What a reconciliation observes\<close>

text \<open>
  The observations, as the requests that make them.  \<open>registration_events\<close>: the policy server, its
  deployment and the answers of a complete rollout were read, then the secret of the root CA, and
  the webhook that the server is last known to have is the one the policy asks for.
\<close>

definition server_get :: "Policy \<Rightarrow> api_error + api_object \<Rightarrow> api_event" where
  "server_get p res = EvGet KPolicyServer (object_key '''' (GetPolicyServer p)) res"

definition webhook_stored ::
    "'w Reconciler \<Rightarrow> Policy \<Rightarrow> Secret \<Rightarrow> string \<Rightarrow> api_event list \<Rightarrow> bool" where
  "webhook_stored r p secret n es \<longleftrightarrow>
     (if IsMutating p then stored_mutating es = Some (mwcWebhooks (mutatingWebhookConfiguration r p secret n))
      else stored_validating es = Some (vwcWebhooks (validatingWebhookConfiguration r p secret n)))"

definition registration_events :: "'w Reconciler \<Rightarrow> Policy \<Rightarrow> api_event list \<Rightarrow> bool" where
  "registration_events r p es \<longleftrightarrow>
     (\<exists>ps d answers secret rest.
        es = server_get p (Inr (OPolicyServer ps)) #
             EvGet KDeployment (deployment_key (DeploymentsNamespace r) p) (Inr (ODeployment d)) # answers @
             EvGet KSecret (object_key (DeploymentsNamespace r) PolicyServerCARootSecretName) (Inr (OSecret secret)) # rest \<and>
        reachable_answers (Lib r) d (GetUniqueName p) answers \<and>
        webhook_stored r p secret (NameWithPrefix ps) rest)"

fun observed :: "'w Reconciler \<Rightarrow> Policy \<Rightarrow> api_event list \<Rightarrow> observation \<Rightarrow> bool" where
  "observed r p es NoServer \<longleftrightarrow> GetPolicyServer p = '''' \<and> es = []"
| "observed r p es ServerUnknown \<longleftrightarrow> GetPolicyServer p \<noteq> '''' \<and>
     (\<exists>res e. es = [server_get p res] \<and> as_PolicyServer res = Inl e)"
| "observed r p es Waiting \<longleftrightarrow> GetPolicyServer p \<noteq> '''' \<and>
     (\<exists>ps rest. es = server_get p (Inr (OPolicyServer ps)) # rest)"
| "observed r p es Registered \<longleftrightarrow> GetPolicyServer p \<noteq> '''' \<and> registration_events r p es"

section \<open>Lemmas\<close>

abbreviation policy_status :: "Policy \<Rightarrow> PolicyStatusEnum" where
  "policy_status p \<equiv> statPolicyStatus (GetStatus p)"

definition policy_cond :: "Policy \<Rightarrow> string \<Rightarrow> Condition option" where
  "policy_cond p t = find_condition t (statConditions (GetStatus p))"

lemma set_condition_simps [simp]:
  "policy_status (set_condition L c p) = policy_status p"
  "statPolicyMode (GetStatus (set_condition L c p)) = statPolicyMode (GetStatus p)"
  "policy_view (set_condition L c p) = policy_view p"
  by (simp_all add: set_condition_def)

lemma policy_cond_set [simp]:
  assumes "set_status_condition_law L"
  shows "policy_cond (set_condition L c p) t = (if t = condType c then Some c else policy_cond p t)"
  by (simp add: policy_cond_def set_condition_def find_set_condition [OF assms])

lemma policy_cond_SetStatus [simp]: "policy_cond (SetStatus st p) t = policy_cond p t"
  "policy_cond (SetPolicyModeStatus m p) t = policy_cond p t"
  by (simp_all add: policy_cond_def)

lemma condition_types [simp]:
  "condType created = PolicyActive" "condType not_created = PolicyActive"
  "condType reachable = PolicyUniquelyReachable" "condType not_reachable = PolicyUniquelyReachable"
  by (simp_all add: created_def not_created_def reachable_def not_reachable_def policy_condition_def)

lemma mark_pending_simps [simp]:
  "policy_view (mark_pending p) = policy_view p" "policy_cond (mark_pending p) t = policy_cond p t"
  "policy_step Waiting (policy_status p) (policy_status (mark_pending p))"
  by (simp_all add: mark_pending_def)

lemma view_getters:
  assumes "policy_view p = policy_view q"
  shows "GetPolicyServer p = GetPolicyServer q" "GetUniqueName p = GetUniqueName q" "IsMutating p = IsMutating q"
    "server_get p = server_get q" "deployment_key ns p = deployment_key ns q"
    "webhook_stored r p secret n = webhook_stored r q secret n"
    "registration_events r p = registration_events r q"
  using policy_view_eqD [OF assms]
  by (auto simp: server_get_def deployment_key_def webhook_stored_def registration_events_def
      mutatingWebhookConfiguration_def validatingWebhookConfiguration_def webhook_meta_def policy_webhook_def
      webhook_service_def webhook_side_effects_def fun_eq_iff)

lemma emits_reconcile_webhook:
  "emits (reconcile_webhook r p secret n) (\<lambda>x es. x \<noteq> Panic \<and> (x = Ok () \<longrightarrow> webhook_stored r p secret n es))"
  by (simp add: reconcile_webhook_def webhook_stored_def mutating.registers_wrapped validating.registers_wrapped)

text \<open>\<open>registered_with\<close>: the policy became active, after its webhook was registered.\<close>

definition registered_with ::
    "'w Reconciler \<Rightarrow> PolicyServer \<Rightarrow> Policy \<Rightarrow> Policy \<times> ctrl_result result \<Rightarrow> api_event list \<Rightarrow> bool" where
  "registered_with r ps p y es \<longleftrightarrow> y = (setPolicyAsActive (Lib r) p, Ok no_requeue) \<and>
     (\<exists>secret rest. es = EvGet KSecret (object_key (DeploymentsNamespace r) PolicyServerCARootSecretName)
             (Inr (OSecret secret)) # rest \<and> webhook_stored r p secret (NameWithPrefix ps) rest)"

lemma emits_register_webhook:
  "emits (register_webhook cl r ps p) (\<lambda>y es. registered_with r ps p y es \<or> (fst y = p \<and> (\<exists>e. snd y = Err e)))"
  unfolding register_webhook_def
proof (rule emits_get, goal_cases)
  case (1 res)
  show ?case
  proof (cases "as_Secret res")
    case (Inl e)
    then show ?thesis by (auto intro!: emits_rules)
  next
    case (Inr secret)
    then have res: "res = Inr (OSecret secret)" by (simp add: as_Secret_Inr)
    show ?thesis
      unfolding res as_Secret.simps sum.case
      by (rule emits_bind [OF emits_reconcile_webhook])
        (auto intro!: emits_rules simp: registered_with_def split: outcome.split)
  qed
qed

lemma emits_reconcile_scheduled:
  "emits (reconcile_scheduled cl r ps p) (\<lambda>y es.
     (\<exists>d answers rest. es = EvGet KDeployment (deployment_key (DeploymentsNamespace r) p) (Inr (ODeployment d)) # answers @ rest \<and>
        reachable_answers (Lib r) d (GetUniqueName p) answers \<and>
        registered_with r ps (set_condition (Lib r) reachable p) y rest) \<or>
     (snd y \<noteq> Panic \<and> fst y \<in> {p, set_condition (Lib r) not_reachable p, set_condition (Lib r) reachable p}))"
  unfolding reconcile_scheduled_def
proof (rule emits_get, goal_cases)
  case (1 res)
  show ?case
  proof (cases "as_Deployment res")
    case (Inl e)
    then show ?thesis by (auto intro!: emits_rules)
  next
    case (Inr d)
    then have res: "res = Inr (ODeployment d)" by (simp add: as_Deployment_Inr)
    show ?thesis
      unfolding res as_Deployment.simps sum.case
    proof (rule emits_bind [OF emits_isPolicyUniquelyReachable], goal_cases)
      case (1 ok answers)
      then show ?case
        by (cases ok) (auto intro!: emits_rules emits_post [OF emits_register_webhook])
    qed
  qed
qed

lemma emits_getPolicyServer:
  "emits (getPolicyServer cl p) (\<lambda>x es. \<exists>res. es = [server_get p res] \<and>
     x = (case as_PolicyServer res of Inl err \<Rightarrow> Err (Wrapped ''could not get policy server: '' (ApiErr err))
          | Inr ps \<Rightarrow> Ok ps))"
  unfolding getPolicyServer_def server_get_def by (auto intro!: emits_rules)

text \<open>The outcome of a reconciliation: what was observed, the new phase, and the condition.\<close>

definition policy_outcome ::
    "'w Reconciler \<Rightarrow> Policy \<Rightarrow> Policy \<Rightarrow> api_event list \<Rightarrow> bool" where
  "policy_outcome r p p' es \<longleftrightarrow> policy_view p' = policy_view p \<and>
     (\<exists>ob. observed r p es ob \<and> policy_step ob (policy_status p) (policy_status p') \<and>
        policy_cond p' PolicyActive = Some (if ob = Registered then created else not_created))"

lemma emits_reconcilePolicy:
  assumes "set_status_condition_law (Lib r)"
  shows "emits (reconcilePolicy cl r p) (\<lambda>y es. snd y \<noteq> Panic \<and> policy_outcome r p (fst y) es)"
proof -
  let ?p = "set_condition (Lib r) not_created p"
  have v: "policy_view ?p = policy_view p" by simp
  note g = view_getters [OF v] view_getters [OF mark_pending_simps(1)]
  show ?thesis
  proof (cases "GetPolicyServer p = ''''")
    case True
    with g assms have "policy_outcome r p (SetStatus PolicyStatusUnscheduled ?p) []"
      unfolding policy_outcome_def by (intro conjI exI [of _ NoServer]) simp_all
    with True g show ?thesis
      by (auto simp: reconcilePolicy_def Let_def intro!: emits_rules)
  next
    case False
    with g(1) have d: "reconcilePolicy cl r p = getPolicyServer cl ?p \<bind> (\<lambda>x. case x of
        Panic \<Rightarrow> ret (?p, Panic)
      | Err e \<Rightarrow> ret (SetStatus PolicyStatusScheduled ?p, Ok no_requeue)
      | Ok ps \<Rightarrow> reconcile_scheduled cl r ps (mark_pending ?p))"
      by (simp add: reconcilePolicy_def Let_def)
    show ?thesis
      unfolding d
    proof (rule emits_bind [OF emits_getPolicyServer], goal_cases)
      case (1 x es)
      then obtain res where es: "es = [server_get p res]"
        and x: "x = (case as_PolicyServer res of
            Inl err \<Rightarrow> Err (Wrapped ''could not get policy server: '' (ApiErr err)) | Inr ps \<Rightarrow> Ok ps)"
        using g by auto
      show ?case
      proof (cases "as_PolicyServer res")
        case (Inl e)
        with assms es False have "policy_outcome r p (SetStatus PolicyStatusScheduled ?p) es"
          unfolding policy_outcome_def by (intro conjI exI [of _ ServerUnknown]) auto
        with Inl x show ?thesis by (auto intro!: emits_rules)
      next
        case (Inr ps)
        then have res: "res = Inr (OPolicyServer ps)" by (simp add: as_PolicyServer_Inr)
        show ?thesis
          unfolding x res as_PolicyServer.simps sum.case outcome.case es
        proof (rule emits_post [OF emits_reconcile_scheduled], intro allI impI, elim disjE exE conjE)
          fix y fs d answers rest
          assume fs: "fs = EvGet KDeployment (deployment_key (DeploymentsNamespace r) (mark_pending ?p))
                (Inr (ODeployment d)) # answers @ rest"
            and a: "reachable_answers (Lib r) d (GetUniqueName (mark_pending ?p)) answers"
            and y: "registered_with r ps (set_condition (Lib r) reachable (mark_pending ?p)) y rest"
          let ?q = "set_condition (Lib r) reachable (mark_pending ?p)"
          have w: "policy_view ?q = policy_view p" by simp
          have v2: "policy_view (mark_pending ?p) = policy_view p" by simp
          from y obtain secret tail where "rest = EvGet KSecret
              (object_key (DeploymentsNamespace r) PolicyServerCARootSecretName) (Inr (OSecret secret)) # tail"
              "webhook_stored r ?q secret (NameWithPrefix ps) tail"
            by (auto simp: registered_with_def)
          then have "registration_events r p ([server_get p (Inr (OPolicyServer ps))] @ fs)"
            unfolding registration_events_def using fs a
            by (auto simp: view_getters(6) [OF w] view_getters(2,5) [OF v2])
          moreover from y have "fst y = setPolicyAsActive (Lib r) ?q" "snd y = Ok no_requeue"
            by (simp_all add: registered_with_def)
          ultimately show "snd y \<noteq> Panic \<and> policy_outcome r p (fst y) ([server_get p (Inr (OPolicyServer ps))] @ fs)"
            unfolding policy_outcome_def using assms False
            by (intro conjI exI [of _ Registered]) (simp_all add: setPolicyAsActive_def)
        next
          fix y fs
          assume x: "snd y \<noteq> Panic"
            and y: "fst y \<in> {mark_pending ?p, set_condition (Lib r) not_reachable (mark_pending ?p),
               set_condition (Lib r) reachable (mark_pending ?p)}"
          have s: "policy_step Waiting (policy_status p) (policy_status (mark_pending ?p))"
            using mark_pending_simps(3) [of ?p] by simp
          from y s assms False show "snd y \<noteq> Panic \<and> policy_outcome r p (fst y) ([server_get p (Inr (OPolicyServer ps))] @ fs)"
            unfolding policy_outcome_def using x
            by (intro conjI exI [of _ Waiting]) (auto simp del: policy_step_simps)
        qed
      qed
    qed
  qed
qed


section \<open>The published status\<close>

lemma configuration_condition_type:
  assumes "set_status_condition_law L" "t \<noteq> PolicyServerConfigurationUpToDate"
  shows "find_condition t (SetPolicyConfigurationCondition L cm d cs) = find_condition t cs"
  using assms(2)
  by (simp add: SetPolicyConfigurationCondition_def find_set_condition [OF assms(1)] configuration_condition_def
      split: option.split)

text \<open>
  \<open>status_completed r p1 p2 es\<close>: \<open>p2\<close> is \<open>p1\<close> with the mode and the configuration condition read
  from the deployment and the config map in \<open>es\<close>, or \<open>p1\<close> itself when one of them was not read.
\<close>

definition status_completed :: "'w Reconciler \<Rightarrow> Policy \<Rightarrow> Policy \<Rightarrow> api_event list \<Rightarrow> bool" where
  "status_completed r p1 p2 es \<longleftrightarrow> no_writes es \<and>
     (p2 = p1 \<or>
      (\<exists>d cm. es = [EvGet KDeployment (deployment_key (DeploymentsNamespace r) p1) (Inr (ODeployment d)),
             EvGet KConfigMap (deployment_key (DeploymentsNamespace r) p1) (Inr (OConfigMap cm))] \<and>
         statPolicyMode (GetStatus p2) = mode_in_config_map (Lib r) cm (GetUniqueName p1) \<and>
         statConditions (GetStatus p2) =
           SetPolicyConfigurationCondition (Lib r) cm d (statConditions (GetStatus p1)) \<and>
         policy_status p2 = policy_status p1 \<and> policy_view p2 = policy_view p1))"

lemma emits_setPolicyStatus:
  "emits (setPolicyStatus (Lib r) (DeploymentsNamespace r) rd p) (\<lambda>y es. status_completed r p (fst y) es)"
  unfolding setPolicyStatus_def status_completed_def
  by (auto intro!: emits_rules simp: as_Inr split: sum.splits)

lemma status_completed_keeps:
  assumes "set_status_condition_law (Lib r)" "status_completed r p1 p2 es"
  shows "policy_status p2 = policy_status p1" "policy_view p2 = policy_view p1"
    "t \<noteq> PolicyServerConfigurationUpToDate \<Longrightarrow> policy_cond p2 t = policy_cond p1 t"
  using assms configuration_condition_type [OF assms(1)]
  by (auto simp: status_completed_def policy_cond_def)

lemma policy_outcome_completed:
  assumes "set_status_condition_law (Lib r)" "policy_outcome r p p1 es" "status_completed r p1 p2 es'"
  shows "policy_outcome r p p2 es"
  using assms(2) status_completed_keeps [OF assms(1,3)] by (simp add: policy_outcome_def)

lemma emits_startReconciling:
  assumes "set_status_condition_law (Lib r)" "DeletionTimestamp (GetObjectMeta p) = None"
  shows "emits (startReconciling cl r p) (\<lambda>x es. x \<noteq> Panic \<and>
     (\<exists>p2 es1 es2 res. es = es1 @ es2 @ [EvWrite (StatusUpdate (OPolicy p2)) res] \<and> policy_outcome r p p2 es1 \<and> no_writes es2 \<and>
       (\<forall>e. res = Inl e \<longrightarrow> x = Err (Wrapped ''update admission policy status error: '' (ApiErr e)))))"
proof -
  have d: "startReconciling cl r p = reconcilePolicy cl r p \<bind> (\<lambda>(p1, x). case x of Panic \<Rightarrow> ret Panic
      | _ \<Rightarrow> setPolicyStatus (Lib r) (DeploymentsNamespace r) (APIReader r) p1 \<bind> (\<lambda>(p2, _).
          api_write cl (StatusUpdate (OPolicy p2)) \<bind> (\<lambda>u. ret (case u of
            Inl err \<Rightarrow> Err (Wrapped ''update admission policy status error: '' (ApiErr err)) | Inr _ \<Rightarrow> x))))"
    using assms(2) by (simp add: startReconciling_def)
  show ?thesis
    unfolding d
  proof (rule emits_bind [OF emits_reconcilePolicy [OF assms(1)]], goal_cases)
    case (1 y es1)
    obtain p1 x where y: "y = (p1, x)" by (cases y)
    with 1 have o: "policy_outcome r p p1 es1" and np: "x \<noteq> Panic" by simp_all
    have "emits (setPolicyStatus (Lib r) (DeploymentsNamespace r) (APIReader r) p1 \<bind> (\<lambda>(p2, _).
          api_write cl (StatusUpdate (OPolicy p2)) \<bind> (\<lambda>u. ret (case u of
            Inl err \<Rightarrow> Err (Wrapped ''update admission policy status error: '' (ApiErr err)) | Inr _ \<Rightarrow> x))))
       (\<lambda>x es'. x \<noteq> Panic \<and> (\<exists>p2 es2 res. es' = es2 @ [EvWrite (StatusUpdate (OPolicy p2)) res] \<and>
          policy_outcome r p p2 es1 \<and> no_writes es2 \<and>
          (\<forall>e. res = Inl e \<longrightarrow> x = Err (Wrapped ''update admission policy status error: '' (ApiErr e)))))"
    proof (rule emits_bind [OF emits_setPolicyStatus], goal_cases)
      case (1 z es2)
      obtain p2 u where z: "z = (p2, u)" by (cases z)
      from 1 z have s: "status_completed r p1 p2 es2" by simp
      from policy_outcome_completed [OF assms(1) o s] s have "policy_outcome r p p2 es1" "no_writes es2"
        by (simp_all add: status_completed_def)
      with np show ?case
        unfolding z prod.case
        by (intro emits_write emits_return) (auto split: sum.split)
    qed
    with 1 y show ?case
      by (cases x) (auto elim!: emits_post)
  qed
qed

section \<open>Deletion\<close>

definition webhook_kind :: "Policy \<Rightarrow> kind" where
  "webhook_kind p = (if IsMutating p then KMutatingWebhookConfiguration else KValidatingWebhookConfiguration)"

definition finalized :: "kube_lib \<Rightarrow> Policy \<Rightarrow> Policy" where
  "finalized L p = UpdateMeta (remove_finalizer L) p"

text \<open>
  The requests that show that the webhook of a policy is gone: it was not found, or its deletion
  was accepted or found nothing to delete.
\<close>

definition webhook_gone :: "Policy \<Rightarrow> api_event list \<Rightarrow> bool" where
  "webhook_gone p es \<longleftrightarrow>
     (\<exists>e. es = [EvGet (webhook_kind p) (object_key '''' (GetUniqueName p)) (Inl e)] \<and> IsNotFound e) \<or>
     (\<exists>ob res. es = [EvGet (webhook_kind p) (object_key '''' (GetUniqueName p)) (Inr ob),
        EvWrite (Delete (webhook_kind p) (key_of ob)) res] \<and> gone res)"

definition policy_updates :: "api_event list \<Rightarrow> api_event list" where
  "policy_updates es = filter (\<lambda>ev. case ev of EvWrite (Update ob) res \<Rightarrow> True | _ \<Rightarrow> False) es"

lemma as_Mutating_NotFound:
  assumes "as_Mutating res = Inl e"
  shows "IsNotFound e \<longleftrightarrow> (\<exists>e'. res = Inl e' \<and> IsNotFound e')"
  using assms by (cases res rule: as_Mutating.cases) (simp_all, (metis decode_error_kind(1))?)

lemma as_Validating_NotFound:
  assumes "as_Validating res = Inl e"
  shows "IsNotFound e \<longleftrightarrow> (\<exists>e'. res = Inl e' \<and> IsNotFound e')"
  using assms by (cases res rule: as_Validating.cases) (simp_all, (metis decode_error_kind(1))?)

lemma webhook_gone_read:
  assumes "webhook_kind p = k"
  shows "webhook_gone p [EvGet k (object_key '''' (GetUniqueName p)) res] \<longleftrightarrow> (\<exists>e. res = Inl e \<and> IsNotFound e)"
  unfolding webhook_gone_def assms by simp

lemma emits_reconcileMutatingWebhook:
  assumes "webhook_kind p = KMutatingWebhookConfiguration"
  shows "emits (reconcileMutatingWebhook cl p)
     (\<lambda>x es. x \<noteq> Panic \<and> policy_updates es = [] \<and> (x = Ok () \<longleftrightarrow> webhook_gone p es))"
  unfolding reconcileMutatingWebhook_def
proof (rule emits_get, goal_cases)
  case (1 res)
  show ?case
  proof (cases "as_Mutating res")
    case (Inl e)
    then have "webhook_gone p [EvGet KMutatingWebhookConfiguration (object_key '''' (GetUniqueName p)) res] \<longleftrightarrow> IsNotFound e"
      unfolding webhook_gone_read [OF assms] by (rule as_Mutating_NotFound [symmetric])
    with Inl show ?thesis by (auto intro!: emits_rules simp: policy_updates_def)
  next
    case (Inr w)
    then have res: "res = Inr (OMutating w)" by (simp add: as_Mutating_Inr)
    have "webhook_gone p [EvGet KMutatingWebhookConfiguration (object_key '''' (GetUniqueName p)) (Inr (OMutating w)),
        EvWrite (Delete KMutatingWebhookConfiguration (key_of (OMutating w))) d] \<longleftrightarrow> gone d" for d
      unfolding webhook_gone_def assms by simp
    then show ?thesis
      unfolding res as_Mutating.simps sum.case
      by (intro emits_write emits_return) (simp add: policy_updates_def gone_def split: sum.split)
  qed
qed

lemma emits_reconcileValidatingWebhook:
  assumes "webhook_kind p = KValidatingWebhookConfiguration"
  shows "emits (reconcileValidatingWebhook cl p)
     (\<lambda>x es. x \<noteq> Panic \<and> policy_updates es = [] \<and> (x = Ok () \<longleftrightarrow> webhook_gone p es))"
  unfolding reconcileValidatingWebhook_def
proof (rule emits_get, goal_cases)
  case (1 res)
  show ?case
  proof (cases "as_Validating res")
    case (Inl e)
    then have "webhook_gone p [EvGet KValidatingWebhookConfiguration (object_key '''' (GetUniqueName p)) res] \<longleftrightarrow> IsNotFound e"
      unfolding webhook_gone_read [OF assms] by (rule as_Validating_NotFound [symmetric])
    with Inl show ?thesis by (auto intro!: emits_rules simp: policy_updates_def)
  next
    case (Inr w)
    then have res: "res = Inr (OValidating w)" by (simp add: as_Validating_Inr)
    have "webhook_gone p [EvGet KValidatingWebhookConfiguration (object_key '''' (GetUniqueName p)) (Inr (OValidating w)),
        EvWrite (Delete KValidatingWebhookConfiguration (key_of (OValidating w))) d] \<longleftrightarrow> gone d" for d
      unfolding webhook_gone_def assms by simp
    then show ?thesis
      unfolding res as_Validating.simps sum.case
      by (intro emits_write emits_return) (simp add: policy_updates_def gone_def split: sum.split)
  qed
qed


lemma emits_delete_webhook:
  "emits (if IsMutating p then reconcileMutatingWebhook cl p else reconcileValidatingWebhook cl p)
     (\<lambda>x es. x \<noteq> Panic \<and> policy_updates es = [] \<and> (x = Ok () \<longleftrightarrow> webhook_gone p es))"
  using emits_reconcileMutatingWebhook [of p cl] emits_reconcileValidatingWebhook [of p cl]
  by (simp add: webhook_kind_def)

lemma emits_reconcilePolicyDeletion:
  "emits (reconcilePolicyDeletion L cl p) (\<lambda>x es. x \<noteq> Panic \<and>
     (if policy_updates es = [] then \<not> webhook_gone p es \<and> (\<exists>e. x = Err e)
      else \<exists>es1 res. es = es1 @ [EvWrite (Update (OPolicy (finalized L p))) res] \<and> webhook_gone p es1 \<and>
         (x = Ok no_requeue \<longleftrightarrow> (\<exists>ob. res = Inr ob))))"
  unfolding reconcilePolicyDeletion_def
proof (rule emits_bind [OF emits_delete_webhook], goal_cases)
  case (1 x es)
  then show ?case
    by (cases x) (auto intro!: emits_rules simp: policy_updates_def finalized_def split: sum.splits)
qed

lemma finalized_meta:
  assumes "finalizer_law L"
  shows "GetObjectMeta (finalized L p) = (GetObjectMeta p)
     \<lparr>Finalizers := filter (\<lambda>f. f \<noteq> KubewardenFinalizer) (Finalizers (GetObjectMeta p))\<rparr>"
  using assms by (cases p) (simp_all add: finalized_def remove_finalizer_def finalizer_law_def)

section \<open>The life of a policy\<close>

text \<open>The status that the requests of a reconciliation stored.\<close>

fun published :: "api_event list \<Rightarrow> Policy option" where
  "published [] = None"
| "published [EvWrite (StatusUpdate (OPolicy p)) (Inr ob)] = Some p"
| "published (ev # es) = published es"

lemma published_append [simp]:
  "published (es @ [EvWrite (StatusUpdate (OPolicy p)) res]) = (case res of Inl e \<Rightarrow> None | Inr ob \<Rightarrow> Some p)"
proof (induction es)
  case Nil
  then show ?case by (cases res) auto
next
  case (Cons ev es)
  have "published (ev # xs @ [y]) = published (xs @ [y])" for xs y
    by (cases xs) auto
  with Cons show ?case by simp
qed

text \<open>
  The life of a policy: the reconciliations it went through, each with the requests it sent.
  Between two of them its specification may be edited in any way; its status is the last one that
  the API server stored.
\<close>

inductive lifetime ::
    "'w Reconciler \<Rightarrow> (Policy \<times> api_event list) list \<Rightarrow> PolicyStatusEnum \<Rightarrow> PolicyStatusEnum \<Rightarrow> bool" for r where
  made: "lifetime r [] st st"
| reconciled: "lifetime r h st (policy_status p) \<Longrightarrow> DeletionTimestamp (GetObjectMeta p) = None \<Longrightarrow>
     trace (snd (run_state (startReconciling (Client r) r p) s)) = trace s @ es \<Longrightarrow>
     lifetime r (h @ [(p, es)]) st (case published es of None \<Rightarrow> policy_status p | Some q \<Rightarrow> policy_status q)"

definition registered_in :: "'w Reconciler \<Rightarrow> Policy \<times> api_event list \<Rightarrow> bool" where
  "registered_in r run \<longleftrightarrow> (\<exists>before after. snd run = before @ after \<and> registration_events r (fst run) before)"

definition server_found :: "Policy \<times> api_event list \<Rightarrow> bool" where
  "server_found run \<longleftrightarrow> (\<exists>ps rest. snd run = server_get (fst run) (Inr (OPolicyServer ps)) # rest)"

lemma registered_inI: "registration_events r p before \<Longrightarrow> registered_in r (p, before @ after)"
  by (auto simp: registered_in_def)

lemma server_foundI [simp]: "server_found (p, server_get p (Inr (OPolicyServer ps)) # rest)"
  by (auto simp: server_found_def)

lemma lifetime_step:
  assumes "set_status_condition_law (Lib r)" "DeletionTimestamp (GetObjectMeta p) = None"
    and "trace (snd (run_state (startReconciling (Client r) r p) s)) = trace s @ es"
    and "published es = Some q" "policy_status q = PolicyStatusActive"
  shows "registered_in r (p, es) \<or> policy_status p = PolicyStatusActive \<and> server_found (p, es)"
proof -
  from emits_startReconciling [OF assms(1,2), of "Client r"] assms(3) obtain p2 es1 es2 res
    where es: "es = (es1 @ es2) @ [EvWrite (StatusUpdate (OPolicy p2)) res]" and "policy_outcome r p p2 es1"
    by (fastforce simp: emits_def dest: spec [of _ s])
  from assms(4) have "q = p2"
    unfolding es published_append by (simp split: sum.splits)
  with \<open>policy_outcome r p p2 es1\<close> assms(5) obtain ob
    where ob: "observed r p es1 ob" "policy_step ob (policy_status p) PolicyStatusActive"
    by (auto simp: policy_outcome_def)
  from ob(2) show ?thesis
    by (cases rule: policy_step_activeE) (use ob(1) es in \<open>auto intro: registered_inI\<close>)
qed

lemma lifetime_active:
  "lifetime r h st st' \<Longrightarrow> set_status_condition_law (Lib r) \<Longrightarrow> st \<noteq> PolicyStatusActive \<Longrightarrow>
   st' = PolicyStatusActive \<Longrightarrow>
   \<exists>before run after. h = before @ run # after \<and> registered_in r run \<and>
     (\<forall>later \<in> set after. published (snd later) \<noteq> None \<longrightarrow> server_found later)"
proof (induction rule: lifetime.induct)
  case (reconciled h st p s es)
  show ?case
  proof (cases "policy_status p = PolicyStatusActive \<and> (published es \<noteq> None \<longrightarrow> server_found (p, es))")
    case True
    with reconciled.IH reconciled.prems obtain before run after where
      "h = before @ run # after" "registered_in r run"
      "\<forall>later \<in> set after. published (snd later) \<noteq> None \<longrightarrow> server_found later" by blast
    with True show ?thesis
      by (intro exI [of _ before] exI [of _ run] exI [of _ "after @ [(p, es)]"]) simp
  next
    case False
    with reconciled.prems(3) obtain q where "published es = Some q" "policy_status q = PolicyStatusActive"
      by (cases "published es") auto
    from lifetime_step [OF reconciled.prems(1) reconciled.hyps(2,3) this] False this
    have "registered_in r (p, es)" by auto
    then show ?thesis
      by (intro exI [of _ h] exI [of _ "(p, es)"] exI [of _ "[]"]) simp
  qed
qed simp

section \<open>A policy that becomes active\<close>

definition demo_document :: ConfigMap where
  "demo_document = \<lparr>cmMeta = (metaNamed ''kubewarden'' ''policy-server-default'')\<lparr>ResourceVersion := ''7''\<rparr>,
     cmData = Some (fmap_of_list [(PolicyServerConfigPoliciesEntry, ''{\"clusterwide-a\":{}}'')])\<rparr>"

definition demo_replica_set :: ReplicaSet where
  "demo_replica_set = \<lparr>rsMeta = (metaNamed ''kubewarden'' ''rs'')
     \<lparr>Labels := fmap_of_list [(DefaultDeploymentUniqueLabelKey, ''h'')],
      Annotations := Some (fmap_of_list [(PolicyServerDeploymentConfigVersionAnnotation, ''7'')])\<rparr>\<rparr>"

definition demo_pod :: Pod where
  "demo_pod = \<lparr>podMeta = (metaNamed ''kubewarden'' ''pod'')\<lparr>Labels := fmap_of_list [(DefaultDeploymentUniqueLabelKey, ''h'')]\<rparr>,
     podConditions = [\<lparr>pcType = ''Ready'', pcStatus = ''True''\<rparr>]\<rparr>"

definition demo_rollout :: script where
  "demo_rollout =
     [AnObject (OPolicyServer demo_server), AnObject (ODeployment (deployment script_reconciler ''7'' demo_server)),
      AnObject (OConfigMap demo_document), AList [OReplicaSet demo_replica_set], AList [OPod demo_pod],
      AnObject (OSecret demo_secret), AnObject (OPolicyServer demo_server),
      AnObject (ODeployment (deployment script_reconciler ''7'' demo_server)), AnObject (OConfigMap demo_document),
      AnObject (OPolicyServer demo_server)]"

abbreviation "demo_run \<equiv> startReconciling script_client script_reconciler (demo_policy ''default'' ''protect'' ''a'')"

lemma demo_document_policy: "isPolicyInConfigMap ref_lib demo_document ''clusterwide-a''"
  by code_simp

lemma demo_getters [simp]:
  "GetPolicyServer (demo_policy s m n) = s" "GetUniqueName (demo_policy s m n) = ''clusterwide-'' @ n"
  "\<not> IsMutating (demo_policy s m n)" "DeletionTimestamp (GetObjectMeta (demo_policy s m n)) = None"
  "policy_status (demo_policy s m n) = ''''"
  by (simp_all add: demo_defs cap_method_defs)

lemma demo_rollout_complete:
  "isLatestReplicaSetFromPolicyServerDeployment demo_replica_set (deployment script_reconciler ''7'' demo_server) ''7''"
  "map_get (Labels (rsMeta demo_replica_set)) DefaultDeploymentUniqueLabelKey = ''h''"
  "map_get (Labels (podMeta demo_pod)) DefaultDeploymentUniqueLabelKey = ''h''" "isPodReady demo_pod"
  "ResourceVersion (cmMeta demo_document) = ''7''"
  "replica_set_items [OReplicaSet demo_replica_set] = [demo_replica_set]" "pod_items [OPod demo_pod] = [demo_pod]"
  by (simp_all add: replica_set_items_def pod_items_def isLatestReplicaSetFromPolicyServerDeployment_def
      demo_replica_set_def demo_pod_def isPodReady_def deployment_def adaptDeploymentSettingsForPolicyServer_def
      has_sources_def demo_server_def Let_def demo_document_def const_defs)

lemmas demo_run_defs = startReconciling_def reconcilePolicy_def getPolicyServer_def reconcile_scheduled_def register_webhook_def
  reconcile_webhook_def isPolicyUniquelyReachable_def ReconcileValidatingWebhookConfiguration_def setPolicyStatus_def
  run_api Let_def demo_rollout_def demo_document_policy demo_rollout_complete
  view_getters [OF set_condition_simps(3)] view_getters [OF mark_pending_simps(1)]

lemma demo_run_active:
  "\<exists>q. published (trace (snd (run_state demo_run (playing demo_rollout)))) = Some q \<and> policy_status q = PolicyStatusActive"
  by (simp add: demo_run_defs setPolicyAsActive_def)

text \<open>
  C8. Over the whole life of a policy, however its specification is edited between the
  reconciliations and whatever the API server answers: if its status became \<open>active\<close>, then some
  reconciliation read a complete rollout of its policy server and registered its webhook, and every
  later one whose status was stored found the policy server.
\<close>

theorem active_policy_was_registered:
  assumes "set_status_condition_law (Lib r)" "lifetime r h st PolicyStatusActive" "st \<noteq> PolicyStatusActive"
  shows "\<exists>before run after. h = before @ run # after \<and> registered_in r run \<and>
     (\<forall>later \<in> set after. published (snd later) \<noteq> None \<longrightarrow> server_found later)"
  using lifetime_active [OF assms(2,1,3)] by simp

theorem active_policy_was_registered_witness:
  "\<exists>es. lifetime script_reconciler [(demo_policy ''default'' ''protect'' ''a'', es)] '''' PolicyStatusActive \<and>
     registered_in script_reconciler (demo_policy ''default'' ''protect'' ''a'', es)"
proof -
  let ?p = "demo_policy ''default'' ''protect'' ''a''" and ?es = "trace (snd (run_state demo_run (playing demo_rollout)))"
  from demo_run_active obtain q where "published ?es = Some q" "policy_status q = PolicyStatusActive" by blast
  with lifetime.reconciled [OF lifetime.made, of ?p script_reconciler "playing demo_rollout" ?es]
  have l: "lifetime script_reconciler [(?p, ?es)] '''' PolicyStatusActive" by simp
  from active_policy_was_registered [OF _ l] ref_lib_conditions show ?thesis
    using l by (auto simp: const_defs Cons_eq_append_conv)
qed

definition reconciles :: "'w Reconciler \<Rightarrow> api_error + Policy \<Rightarrow> ctrl_result result \<Rightarrow> api_event list \<Rightarrow> bool" where
  "reconciles r found x es \<longleftrightarrow>
     (case found of
        Inl e \<Rightarrow> es = [] \<and> x = (if IsNotFound e then Ok no_requeue
                               else Err (Wrapped ''cannot retrieve admission policy: '' (ApiErr e)))
      | Inr p \<Rightarrow> DeletionTimestamp (GetObjectMeta p) = None \<longrightarrow> x \<noteq> Panic \<and>
          (\<exists>p2 es1 es2 res. es = es1 @ es2 @ [EvWrite (StatusUpdate (OPolicy p2)) res] \<and>
             policy_outcome r p p2 es1 \<and> no_writes es2 \<and>
             (\<forall>e. res = Inl e \<longrightarrow> x = Err (Wrapped ''update admission policy status error: '' (ApiErr e)))))"

lemma emits_found:
  assumes "set_status_condition_law (Lib r)"
  shows "emits (startReconciling cl r p) (reconciles r (Inr p))"
proof (cases "DeletionTimestamp (GetObjectMeta p) = None")
  case True
  show ?thesis
    by (rule emits_post [OF emits_startReconciling [OF assms True]]) (simp add: reconciles_def)
next
  case False
  then have "startReconciling cl r p = reconcilePolicyDeletion (Lib r) cl p" by (simp add: startReconciling_def)
  with False show ?thesis
    by (auto simp: reconciles_def intro!: emits_post [OF emits_reconcilePolicyDeletion])
qed

text \<open>
  C11. The two policy controllers refine the phases of a policy: a request for a policy that does
  not exist does nothing; for one that is not being deleted the controller never panics and ends
  with a write of the status, whose phase and condition \<open>PolicyActive\<close> are those of a step of
  \<open>policy_step\<close> from the old phase, for an observation that the requests before the write made.
\<close>

theorem controllers_refine_phases:
  assumes "set_status_condition_law (Lib r)"
  shows "emits (cap_Reconcile r req) (\<lambda>x es. \<exists>res rest. es = EvGet KClusterAdmissionPolicy req res # rest \<and>
       reconciles r (map_sum id ClusterPolicy (as_ClusterAdmissionPolicy res)) x rest) \<and>
     emits (ap_Reconcile r req) (\<lambda>x es. \<exists>res rest. es = EvGet KAdmissionPolicy req res # rest \<and>
       reconciles r (map_sum id NamespacedPolicy (as_AdmissionPolicy res)) x rest)"
proof (intro conjI)
  show "emits (cap_Reconcile r req) (\<lambda>x es. \<exists>res rest. es = EvGet KClusterAdmissionPolicy req res # rest \<and>
       reconciles r (map_sum id ClusterPolicy (as_ClusterAdmissionPolicy res)) x rest)"
    unfolding cap_Reconcile_def
  proof (rule emits_get, goal_cases)
    case (1 res)
    then show ?case
      by (cases "as_ClusterAdmissionPolicy res")
        (auto intro!: emits_return emits_post [OF emits_found [OF assms]] simp: reconciles_def [of _ "Inl _"])
  qed
  show "emits (ap_Reconcile r req) (\<lambda>x es. \<exists>res rest. es = EvGet KAdmissionPolicy req res # rest \<and>
       reconciles r (map_sum id NamespacedPolicy (as_AdmissionPolicy res)) x rest)"
    unfolding ap_Reconcile_def
  proof (rule emits_get, goal_cases)
    case (1 res)
    then show ?case
      by (cases "as_AdmissionPolicy res")
        (auto intro!: emits_return emits_post [OF emits_found [OF assms]] simp: reconciles_def [of _ "Inl _"])
  qed
qed

theorem controllers_refine_phases_witness:
  "let run = run_state (cap_Reconcile script_reconciler (object_key '''' ''a'')) (playing [AnError (NotFound ''gone'')])
   in fst run = Ok no_requeue \<and> length (trace (snd run)) = 1"
proof -
  let ?m = "cap_Reconcile script_reconciler (object_key '''' ''a'')" and ?s = "playing [AnError (NotFound ''gone'')]"
  have "hd (trace (snd (run_state ?m ?s))) = EvGet KClusterAdmissionPolicy (object_key '''' ''a'') (Inl (NotFound ''gone''))"
    by (simp add: cap_Reconcile_def run_api)
  with emits_playing [OF conjunct1 [OF controllers_refine_phases [of script_reconciler]], of "object_key '''' ''a''" "[AnError (NotFound ''gone'')]"]
  show ?thesis by (auto simp: Let_def reconciles_def ref_lib_conditions)
qed

text \<open>
  C16. The finalizer of a policy being deleted is removed last, and only when its webhook is gone:
  the controller updates the policy exactly when the webhook of the kind the policy asks for was
  not found or was deleted, that update is its last request and changes nothing but the finalizer,
  and otherwise it returns an error, so that the deletion is tried again.
\<close>

theorem finalizer_removed_last:
  assumes "finalizer_law (Lib r)" "DeletionTimestamp (GetObjectMeta p) \<noteq> None"
  shows "emits (startReconciling (Client r) r p) (\<lambda>x es. x \<noteq> Panic \<and>
     (if policy_updates es = [] then \<not> webhook_gone p es \<and> (\<exists>e. x = Err e)
      else \<exists>es1 q res. es = es1 @ [EvWrite (Update (OPolicy q)) res] \<and> webhook_gone p es1 \<and>
         q = UpdateMeta (\<lambda>m. m\<lparr>Finalizers := filter (\<lambda>f. f \<noteq> KubewardenFinalizer) (Finalizers m)\<rparr>) p \<and>
         (x = Ok no_requeue \<longleftrightarrow> (\<exists>ob. res = Inr ob))))"
proof -
  have "startReconciling (Client r) r p = reconcilePolicyDeletion (Lib r) (Client r) p"
    using assms(2) by (simp add: startReconciling_def)
  moreover have "finalized (Lib r) p =
      UpdateMeta (\<lambda>m. m\<lparr>Finalizers := filter (\<lambda>f. f \<noteq> KubewardenFinalizer) (Finalizers m)\<rparr>) p"
    using assms(1) by (simp add: finalized_def remove_finalizer_def [abs_def] finalizer_law_def)
  ultimately show ?thesis
    by (auto intro!: emits_post [OF emits_reconcilePolicyDeletion])
qed

definition demo_deleted :: Policy where
  "demo_deleted = UpdateMeta (\<lambda>m. m\<lparr>DeletionTimestamp := Some 1, Finalizers := [KubewardenFinalizer]\<rparr>)
     (demo_policy ''default'' ''protect'' ''a'')"

theorem finalizer_removed_last_witness:
  "let run = run_state (startReconciling script_client script_reconciler demo_deleted)
       (playing [AnError (NotFound ''gone''), AnObject (OPolicy demo_deleted)])
   in \<exists>es1 q res. trace (snd run) = es1 @ [EvWrite (Update (OPolicy q)) res] \<and> webhook_gone demo_deleted es1 \<and>
        Finalizers (GetObjectMeta q) = []"
proof -
  let ?answers = "[AnError (NotFound ''gone''), AnObject (OPolicy demo_deleted)]"
  have d: "DeletionTimestamp (GetObjectMeta demo_deleted) \<noteq> None" by (simp add: demo_deleted_def demo_defs)
  have "policy_updates (trace (snd (run_state (startReconciling script_client script_reconciler demo_deleted)
      (playing ?answers)))) \<noteq> []"
    by (simp add: startReconciling_def reconcilePolicyDeletion_def reconcileValidatingWebhook_def
        reconcileMutatingWebhook_def run_api policy_updates_def d)
  with emits_playing [OF finalizer_removed_last [OF _ d, of script_reconciler], of ?answers]
  show ?thesis by (force simp: Let_def ref_lib_finalizers demo_deleted_def demo_defs)
qed

end
