(* ===== verification/Policy_Configuration.thy ===== *)
theory Policy_Configuration
  imports Policy_Phases Policy_Watches Config_Document
begin

text \<open>
  The config map between the two kinds of controller: the controller of policy servers writes it
  (\<open>internal/pkg/admission/policy-server-configmap.go\<close>), the controllers of policies read it
  (\<open>controllers/policystatus_utils.go\<close>, \<open>policy_utils.go\<close>).
\<close>

section \<open>What the policy controllers read\<close>

lemma unmarshal_fresh: "unmarshal_policies L (Some fmempty) t = unmarshal_policies L None t"
  by (simp add: unmarshal_policies_def decode_map_def cong: json_shape.case_cong)

lemma policy_map_read:
  assumes "read_policies L (nil_get (cmData cm) PolicyServerConfigPoliciesEntry) = Some m"
  shows "getPolicyMapFromConfigMap L cm = Ok (Some m)"
proof (cases "nil_lookup (cmData cm) PolicyServerConfigPoliciesEntry")
  case None
  then have "nil_get (cmData cm) PolicyServerConfigPoliciesEntry = ''''" by (simp add: nil_get_def)
  with assms show ?thesis by (simp add: read_policies_def unmarshal_empty)
next
  case (Some t)
  then have "nil_get (cmData cm) PolicyServerConfigPoliciesEntry = t" by (simp add: nil_get_def)
  with assms Some show ?thesis
    by (simp add: getPolicyMapFromConfigMap_def unmarshal_fresh read_policies_def split: option.splits)
qed

text \<open>
  \<open>serves L cm policies\<close>: to the policy controllers the config map says that exactly these policies
  are served, with which mode, and which policies to reconcile when it changes.
\<close>

definition serves :: "kube_lib \<Rightarrow> ConfigMap \<Rightarrow> Policy list \<Rightarrow> bool" where
  "serves L cm policies \<longleftrightarrow>
     (\<forall>n. isPolicyInConfigMap L cm n \<longleftrightarrow> n \<in> GetUniqueName ` set policies) \<and>
     (\<forall>p \<in> set policies. mode_in_config_map L cm (GetUniqueName p) = GetPolicyMode p) \<and>
     (\<forall>order. (\<forall>m. enumerates (order m) m) \<longrightarrow>
        set (findClusterAdmissionPoliciesForConfigMap L order (OConfigMap cm)) =
          {object_key '''' (GetName p) | p. p \<in> set policies \<and> GetNamespace p = ''''} \<and>
        (fmlookup (Labels (cmMeta cm)) PolicyServerLabelKey \<noteq> None \<longrightarrow>
         set (findAdmissionPoliciesForConfigMap L order (OConfigMap cm)) =
          {object_key (GetNamespace p) (GetName p) | p. p \<in> set policies \<and> GetNamespace p \<noteq> ''''}))"

lemma serves_read:
  assumes "read_policies L (nil_get (cmData cm) PolicyServerConfigPoliciesEntry) = Some (createPoliciesMap policies)"
    and "distinct (map GetUniqueName policies)"
  shows "serves L cm policies"
proof -
  note m = policy_map_read [OF assms(1)]
  note d = createPoliciesMap_distinct [OF assms(2)]
  have l: "fmlookup (createPoliciesMap policies) (GetUniqueName p) = Some (config_entry p)" if "p \<in> set policies" for p
    using that d by auto
  have "nil_lookup (Some (createPoliciesMap policies)) n \<noteq> None \<longleftrightarrow> n \<in> GetUniqueName ` set policies" for n
    using d [of n] by (auto simp: nil_lookup_def)
  then have "isPolicyInConfigMap L cm n \<longleftrightarrow> n \<in> GetUniqueName ` set policies" for n
    by (simp add: isPolicyInConfigMap_def m)
  moreover have "mode_in_config_map L cm (GetUniqueName p) = GetPolicyMode p" if "p \<in> set policies" for p
    using l [OF that] by (simp add: mode_in_config_map_def m nil_lookup_def config_entry_def)
  ultimately show ?thesis
    using requests_of_policies [OF _ assms(2)]
    by (simp add: serves_def findClusterAdmissionPoliciesForConfigMap_def findAdmissionPoliciesForConfigMap_def m range_over_def)
qed



text \<open>
  C18. A policy is found uniquely reachable exactly when the answers of the API server show a
  complete rollout: the config map of the policy server has the policy, the replica set of the
  current revision and of that version of the config map exists, there are pods, and every pod is
  ready and belongs to that replica set.  Nothing is written to find out.
\<close>

theorem reachable_iff_rollout_complete:
  "emits (isPolicyUniquelyReachable L rd d n) (\<lambda>ok es. no_writes es \<and> (ok \<longleftrightarrow> reachable_answers L d n es))"
  by (rule emits_isPolicyUniquelyReachable)

section \<open>The status\<close>

text \<open>The condition that the code sets, for the version of a config map and a deployment.\<close>

definition configuration_verdict :: "ConfigMap \<Rightarrow> Deployment \<Rightarrow> Condition" where
  "configuration_verdict cm d =
     (case nil_lookup (Annotations (depMeta d)) PolicyServerDeploymentConfigVersionAnnotation of
        Some v \<Rightarrow>
          if v = ResourceVersion (cmMeta cm)
          then configuration_condition ConditionTrue ''ConfigurationVersionMatch'' ''Configuration for this policy is up to date''
          else configuration_condition ConditionFalse ''ConfigurationVersionMismatch'' ''Configuration for this policy is not up to date''
      | None \<Rightarrow> configuration_condition ConditionFalse ''UnknownConfigurationVersion''
            (''Configuration version annotation ('' @ PolicyServerDeploymentConfigVersionAnnotation @
             '') in deployment '' @ Name (depMeta d) @ '' is missing''))"

text \<open>
  C19. The status a policy reports about the configuration: when the deployment and the config map
  could be read, the condition \<open>PolicyServerConfigurationUpToDate\<close> is true exactly when the
  deployment was made for that version of the config map, the mode is the one in the config map (or
  unknown), the other conditions and the phase are unchanged; otherwise the policy is unchanged.
\<close>

theorem configuration_status:
  assumes "set_status_condition_law L"
  shows "emits (setPolicyStatus L ns rd p) (\<lambda>(q, x) es. no_writes es \<and>
     (if x \<noteq> Ok () then q = p
      else \<exists>d cm c.
        es = [EvGet KDeployment (deployment_key ns p) (Inr (ODeployment d)),
              EvGet KConfigMap (deployment_key ns p) (Inr (OConfigMap cm))] \<and>
        policy_cond q PolicyServerConfigurationUpToDate = Some c \<and>
        (condStatus c = ConditionTrue \<longleftrightarrow>
           nil_lookup (Annotations (depMeta d)) PolicyServerDeploymentConfigVersionAnnotation =
             Some (ResourceVersion (cmMeta cm))) \<and>
        (\<forall>t. t \<noteq> PolicyServerConfigurationUpToDate \<longrightarrow> policy_cond q t = policy_cond p t) \<and>
        statPolicyMode (GetStatus q) = mode_in_config_map L cm (GetUniqueName p) \<and>
        policy_status q = policy_status p))"
proof -
  have cond: "find_condition t (SetPolicyConfigurationCondition L cm d cs) =
      (if t = PolicyServerConfigurationUpToDate
       then Some (configuration_verdict cm d) else find_condition t cs)" for t cm d cs
    by (simp add: SetPolicyConfigurationCondition_def configuration_verdict_def find_set_condition [OF assms]
        configuration_condition_def split: option.split)
  have verdict: "condStatus (configuration_verdict cm d) = ConditionTrue \<longleftrightarrow>
      nil_lookup (Annotations (depMeta d)) PolicyServerDeploymentConfigVersionAnnotation = Some (ResourceVersion (cmMeta cm))"
    for cm d
    by (auto simp: configuration_verdict_def configuration_condition_def ConditionTrue_def ConditionFalse_def split: option.split)
  show ?thesis
    unfolding setPolicyStatus_def
    by (auto intro!: emits_rules simp: as_Inr policy_cond_def cond verdict split: sum.splits)
qed


lemma demo_deployment_version:
  "nil_lookup (Annotations (depMeta (deployment r v ps))) PolicyServerDeploymentConfigVersionAnnotation = Some v"
  by (simp add: deployment_def adaptDeploymentSettingsForPolicyServer_def Let_def)

theorem configuration_status_witness:
  "let run = run_state (setPolicyStatus ref_lib ''kubewarden'' script_reader (demo_policy ''default'' ''protect'' ''a''))
       (playing [AnObject (ODeployment (deployment script_reconciler ''7'' demo_server)), AnObject (OConfigMap demo_document)])
   in \<exists>c. policy_cond (fst (fst run)) PolicyServerConfigurationUpToDate = Some c \<and> condStatus c = ConditionTrue"
proof -
  let ?answers = "[AnObject (ODeployment (deployment script_reconciler ''7'' demo_server)), AnObject (OConfigMap demo_document)]"
  let ?run = "run_state (setPolicyStatus ref_lib ''kubewarden'' script_reader (demo_policy ''default'' ''protect'' ''a''))
      (playing ?answers)"
  have run: "snd (fst ?run) = Ok ()" "trace (snd ?run) =
      [EvGet KDeployment (deployment_key ''kubewarden'' (demo_policy ''default'' ''protect'' ''a'')) (Inr (ODeployment (deployment script_reconciler ''7'' demo_server))),
       EvGet KConfigMap (deployment_key ''kubewarden'' (demo_policy ''default'' ''protect'' ''a'')) (Inr (OConfigMap demo_document))]"
    by (simp_all add: setPolicyStatus_def run_api)
  from emits_playing [OF configuration_status [OF ref_lib_conditions, of "''kubewarden''" script_reader
      "demo_policy ''default'' ''protect'' ''a''"], of ?answers]
  show ?thesis
    using demo_rollout_complete(5)
    by (auto simp: Let_def case_prod_unfold run demo_deployment_version)
qed

end
