(* ===== verification/Orphaned_Webhooks.thy ===== *)
theory Orphaned_Webhooks
  imports Policy_Phases Policy_Admission
begin

text \<open>
  The webhook of a policy when its field \<open>mutating\<close> is edited.  The controllers of policies write the
  configuration of the kind the policy has now, and delete that one, and never the other kind
  (\<open>controllers/policy_utils.go\<close>); the validating webhook accepts the edit.
\<close>

section \<open>Requests that spare a kind\<close>

fun request_kind :: "write_request \<Rightarrow> kind" where
  "request_kind (Create ob) = kind_of ob"
| "request_kind (Update ob) = kind_of ob"
| "request_kind (StatusUpdate ob) = kind_of ob"
| "request_kind (Patch ob base) = kind_of ob"
| "request_kind (Delete k key) = k"

fun spared :: "kind \<Rightarrow> api_event \<Rightarrow> bool" where
  "spared k (EvWrite q res) \<longleftrightarrow> request_kind q \<noteq> k"
| "spared k ev \<longleftrightarrow> True"

text \<open>\<open>spares k m\<close>: no run of \<open>m\<close> asks to create, change or delete an object of the kind.\<close>

definition spares :: "kind \<Rightarrow> ('w, 'a) api \<Rightarrow> bool" where
  "spares k m \<longleftrightarrow> emits m (\<lambda>x es. list_all (spared k) es)"

named_theorems spares_rules

lemma spares_return [spares_rules]: "spares k (ret x)"
  by (simp add: spares_def emits_return)

lemma spares_bind [spares_rules]:
  "spares k m \<Longrightarrow> (\<And>x. spares k (f x)) \<Longrightarrow> spares k (State_Monad.bind m f)"
  unfolding spares_def by (erule emits_bind) (auto elim: emits_post)

lemma spares_requests [spares_rules]:
  "spares k (api_get rd k' key)" "spares k (api_list rd k' sel)"
  "request_kind q \<noteq> k \<Longrightarrow> spares k (api_write cl q)"
  by (auto simp: spares_def emits_def run_api split: prod.split)

lemma policy_kind_not_webhook [simp]:
  "kind_of (OPolicy p) \<noteq> KMutatingWebhookConfiguration" "kind_of (OPolicy p) \<noteq> KValidatingWebhookConfiguration"
  by (cases p; simp)+

lemma spares_ReconcileMutating:
  "spares KValidatingWebhookConfiguration (ReconcileMutatingWebhookConfiguration r p s n)"
  unfolding ReconcileMutatingWebhookConfiguration_def updateMutatingWebhook_def patch_mutating_if_different_def
  by (auto intro!: spares_rules simp: Let_def split: sum.split)

lemma spares_ReconcileValidating:
  "spares KMutatingWebhookConfiguration (ReconcileValidatingWebhookConfiguration r p s n)"
  unfolding ReconcileValidatingWebhookConfiguration_def updateValidatingWebhook_def patch_validating_if_different_def
  by (auto intro!: spares_rules simp: Let_def split: sum.split)

text \<open>The kind that the controllers never touch for a policy.\<close>

definition other_webhook_kind :: "Policy \<Rightarrow> kind" where
  "other_webhook_kind p = (if IsMutating p then KValidatingWebhookConfiguration else KMutatingWebhookConfiguration)"

lemma other_webhook_kind_view: "policy_view p = policy_view q \<Longrightarrow> other_webhook_kind p = other_webhook_kind q"
  using view_getters(3) [of p q] by (simp add: other_webhook_kind_def)

lemma spares_reconcile_webhook: "spares (other_webhook_kind p) (reconcile_webhook r p s n)"
  unfolding reconcile_webhook_def other_webhook_kind_def
  by (auto intro!: spares_rules spares_ReconcileMutating spares_ReconcileValidating)

lemma spares_reconcile_scheduled: "spares (other_webhook_kind p) (reconcile_scheduled cl r ps p)"
proof -
  have "spares (other_webhook_kind p) (reconcile_webhook r (set_condition (Lib r) reachable p) s n)" for s n
    using spares_reconcile_webhook [of "set_condition (Lib r) reachable p"]
      other_webhook_kind_view [of "set_condition (Lib r) reachable p" p] by simp
  then show ?thesis
    unfolding reconcile_scheduled_def register_webhook_def isPolicyUniquelyReachable_def
    by (auto intro!: spares_rules simp: Let_def split: sum.split)
qed

lemma spares_reconcilePolicy: "spares (other_webhook_kind p) (reconcilePolicy cl r p)"
proof -
  have "spares (other_webhook_kind p) (reconcile_scheduled cl r ps (mark_pending (set_condition (Lib r) not_created p)))" for ps
    using spares_reconcile_scheduled [of "mark_pending (set_condition (Lib r) not_created p)"]
      other_webhook_kind_view [of "mark_pending (set_condition (Lib r) not_created p)" p] by simp
  then show ?thesis
    unfolding reconcilePolicy_def getPolicyServer_def
    by (auto intro!: spares_rules simp: Let_def split: outcome.split)
qed

lemma spares_reconcilePolicyDeletion: "spares (other_webhook_kind p) (reconcilePolicyDeletion L cl p)"
  unfolding reconcilePolicyDeletion_def reconcileMutatingWebhook_def reconcileValidatingWebhook_def other_webhook_kind_def
  by (auto intro!: spares_rules split: sum.split outcome.split)

lemma spares_startReconciling: "spares (other_webhook_kind p) (startReconciling cl r p)"
proof -
  have [simp]: "kind_of (OPolicy q) \<noteq> other_webhook_kind p" for q
    by (simp add: other_webhook_kind_def)
  show ?thesis
    unfolding startReconciling_def setPolicyStatus_def
    by (auto intro!: spares_rules spares_reconcilePolicy spares_reconcilePolicyDeletion split: outcome.split sum.split prod.split)
qed

section \<open>Properties\<close>

text \<open>
  C33. A policy whose field \<open>mutating\<close> is edited leaves its webhook behind: the edit is admitted, and
  afterwards no reconciliation of the policy, the one that deletes it and removes its finalizer
  included, ever asks to change or delete a webhook configuration of the kind it had before, whatever
  the API server answers.
\<close>

theorem edited_policy_orphans_webhook:
  assumes "IsMutating q \<noteq> IsMutating p" "same_kind p q" "GetPolicyServer q = GetPolicyServer p"
    and "GetPolicyMode q = GetPolicyMode p"
  shows "ValidateUpdate q (OPolicy p) = None \<and>
     emits (startReconciling cl r q) (\<lambda>x es. \<forall>a res. EvWrite a res \<in> set es \<longrightarrow> request_kind a \<noteq> webhook_kind p)"
proof
  show "ValidateUpdate q (OPolicy p) = None"
    using assms by (simp add: ValidateUpdate_None validatePolicyUpdate_None)
  have "webhook_kind p = other_webhook_kind q"
    using assms(1) by (simp add: webhook_kind_def other_webhook_kind_def)
  then have "emits (startReconciling cl r q) (\<lambda>x es. list_all (spared (webhook_kind p)) es)"
    using spares_startReconciling [of q cl r] by (simp add: spares_def)
  then show "emits (startReconciling cl r q) (\<lambda>x es. \<forall>a res. EvWrite a res \<in> set es \<longrightarrow> request_kind a \<noteq> webhook_kind p)"
    by (rule emits_mono) (force simp: list_all_iff)
qed

definition demo_deleted_before :: Policy where
  "demo_deleted_before = (case demo_deleted of
       ClusterPolicy r \<Rightarrow> ClusterPolicy (r\<lparr>capSpec := (capSpec r)\<lparr>specMutating := True\<rparr>\<rparr>)
     | NamespacedPolicy r \<Rightarrow> NamespacedPolicy r)"

theorem edited_policy_orphans_webhook_witness:
  "let run = run_state (startReconciling script_client script_reconciler demo_deleted)
       (playing [AnError (NotFound ''gone''), AnObject (OPolicy demo_deleted)])
   in ValidateUpdate demo_deleted (OPolicy demo_deleted_before) = None \<and> policy_updates (trace (snd run)) \<noteq> [] \<and>
      (\<forall>key res. EvWrite (Delete KMutatingWebhookConfiguration key) res \<notin> set (trace (snd run)))"
proof -
  let ?answers = "[AnError (NotFound ''gone''), AnObject (OPolicy demo_deleted)]"
  let ?events = "trace (snd (run_state (startReconciling script_client script_reconciler demo_deleted) (playing ?answers)))"
  have flipped: "IsMutating demo_deleted \<noteq> IsMutating demo_deleted_before"
    "same_kind demo_deleted_before demo_deleted"
    "GetPolicyServer demo_deleted = GetPolicyServer demo_deleted_before"
    "GetPolicyMode demo_deleted = GetPolicyMode demo_deleted_before"
    and mutating: "webhook_kind demo_deleted_before = KMutatingWebhookConfiguration"
    and deleted: "DeletionTimestamp (GetObjectMeta demo_deleted) \<noteq> None"
    by (simp_all add: demo_deleted_before_def demo_deleted_def demo_defs webhook_kind_def
        cap_IsMutating_def cap_GetPolicyServer_def cap_GetPolicyMode_def)
  note orphaned = edited_policy_orphans_webhook [OF flipped, of script_client script_reconciler]
  have "policy_updates ?events \<noteq> []"
    by (simp add: startReconciling_def reconcilePolicyDeletion_def reconcileValidatingWebhook_def
        reconcileMutatingWebhook_def run_api policy_updates_def deleted)
  moreover have "EvWrite a res \<in> set ?events \<Longrightarrow> request_kind a \<noteq> KMutatingWebhookConfiguration" for a res
    using emits_playing [OF conjunct2 [OF orphaned], of ?answers] mutating by auto
  ultimately show ?thesis
    using conjunct1 [OF orphaned] by (fastforce simp: Let_def)
qed

end
