(* ===== verification/Policy_Progress.thy ===== *)
theory Policy_Progress
  imports Policy_Phases
begin

text \<open>
  Progress of the policy controllers: when the API server answers, a policy whose policy server has
  rolled out becomes active.
\<close>

section \<open>Progress\<close>

text \<open>A request that was answered: with an object of the kind asked for, or, for a new object, that it exists.\<close>

fun answered :: "api_event \<Rightarrow> bool" where
  "answered (EvGet k key res) = (case res of Inl e \<Rightarrow> False | Inr ob \<Rightarrow> kind_of ob = k)"
| "answered (EvList k sel res) = (case res of Inl e \<Rightarrow> False | Inr obs \<Rightarrow> True)"
| "answered (EvWrite (Create ob) res) = (case res of Inl e \<Rightarrow> IsAlreadyExists e | Inr ob' \<Rightarrow> True)"
| "answered (EvWrite q res) = (case res of Inl e \<Rightarrow> False | Inr ob \<Rightarrow> True)"

definition all_answered :: "api_event list \<Rightarrow> bool" where
  "all_answered es \<longleftrightarrow> (\<forall>ev \<in> set es. answered ev)"

lemma all_answered_simps [simp]:
  "all_answered []" "all_answered (ev # es) \<longleftrightarrow> answered ev \<and> all_answered es"
  "all_answered (es @ fs) \<longleftrightarrow> all_answered es \<and> all_answered fs"
  by (auto simp: all_answered_def)

lemma answered_kind:
  "answered (EvGet KPolicyServer key res) \<longleftrightarrow> (\<exists>ps. as_PolicyServer res = Inr ps)"
  "answered (EvGet KDeployment key res) \<longleftrightarrow> (\<exists>d. as_Deployment res = Inr d)"
  "answered (EvGet KSecret key res) \<longleftrightarrow> (\<exists>s. as_Secret res = Inr s)"
  "answered (EvGet KMutatingWebhookConfiguration key res) \<longleftrightarrow> (\<exists>m. as_Mutating res = Inr m)"
  "answered (EvGet KValidatingWebhookConfiguration key res) \<longleftrightarrow> (\<exists>v. as_Validating res = Inr v)"
  by (cases res; auto elim!: kind_of.elims simp: as_Inr)+

lemma answered_registration:
  "emits (reconcile_webhook r p s n) (\<lambda>x es. all_answered es \<longrightarrow> x = Ok ())"
proof -
  have "emits (ReconcileMutatingWebhookConfiguration r p s n) (\<lambda>x es. all_answered es \<longrightarrow> x = Ok ())"
    unfolding ReconcileMutatingWebhookConfiguration_def updateMutatingWebhook_def patch_mutating_if_different_def
    by (auto intro!: emits_rules simp: Let_def answered_kind simp del: answered.simps(1) split: sum.split)
  moreover have "emits (ReconcileValidatingWebhookConfiguration r p s n) (\<lambda>x es. all_answered es \<longrightarrow> x = Ok ())"
    unfolding ReconcileValidatingWebhookConfiguration_def updateValidatingWebhook_def patch_validating_if_different_def
    by (auto intro!: emits_rules simp: Let_def answered_kind simp del: answered.simps(1) split: sum.split)
  ultimately show ?thesis
    unfolding reconcile_webhook_def
    by (auto intro!: emits_rules elim!: emits_bind)
qed


lemma answered_register:
  "emits (register_webhook cl r ps p) (\<lambda>y es. all_answered es \<longrightarrow> y = (setPolicyAsActive (Lib r) p, Ok no_requeue))"
  unfolding register_webhook_def
proof (rule emits_get, goal_cases)
  case (1 res)
  show ?case
  proof (cases "as_Secret res")
    case (Inl e)
    then have "\<not> answered (EvGet KSecret key res)" for key
      unfolding answered_kind by simp
    with Inl show ?thesis by (auto intro!: emits_return simp del: answered.simps)
  next
    case (Inr secret)
    show ?thesis
      unfolding Inr sum.case
      by (rule emits_bind [OF answered_registration]) (auto intro!: emits_return split: outcome.split)
  qed
qed

text \<open>The progress a run makes from the deployment \<open>d\<close> of the policy server on.\<close>

definition progress :: "'w Reconciler \<Rightarrow> Policy \<Rightarrow> ctrl_result result \<Rightarrow> PolicyStatusEnum \<Rightarrow> api_event list \<Rightarrow> bool" where
  "progress r p x st es \<longleftrightarrow>
     (\<exists>d answers rest. es = EvGet KDeployment (deployment_key (DeploymentsNamespace r) p) (Inr (ODeployment d)) # answers @ rest \<and>
        (if reachable_answers (Lib r) d (GetUniqueName p) answers
         then x = Ok no_requeue \<and> st = PolicyStatusActive
         else x = Ok (requeue_after 2)))"

lemma answered_scheduled:
  "emits (reconcile_scheduled cl r ps p) (\<lambda>y es. all_answered es \<longrightarrow> progress r p (snd y) (policy_status (fst y)) es)"
  unfolding reconcile_scheduled_def
proof (rule emits_get, goal_cases)
  case (1 res)
  show ?case
  proof (cases "as_Deployment res")
    case (Inl e)
    then have "\<not> answered (EvGet KDeployment key res)" for key
      unfolding answered_kind by simp
    with Inl show ?thesis by (auto intro!: emits_return simp del: answered.simps)
  next
    case (Inr d)
    then have res: "res = Inr (ODeployment d)" by (simp add: as_Deployment_Inr)
    show ?thesis
      unfolding res as_Deployment.simps sum.case
    proof (rule emits_bind [OF emits_isPolicyUniquelyReachable], goal_cases)
      case (1 ok answers)
      have active: "policy_status (setPolicyAsActive (Lib r) q) = PolicyStatusActive" for q
        by (simp add: setPolicyAsActive_def)
      from 1 show ?case
        by (cases ok)
          (auto intro!: emits_return emits_post [OF answered_register] simp: progress_def active simp del: answered.simps)
    qed
  qed
qed

lemma progress_view:
  assumes "policy_view p = policy_view q"
  shows "progress r p = progress r q"
  unfolding fun_eq_iff progress_def view_getters(2) [OF assms] view_getters(5) [OF assms] by simp

lemma answered_reconcilePolicy:
  assumes "GetPolicyServer p \<noteq> ''''"
  shows "emits (reconcilePolicy cl r p) (\<lambda>y es. all_answered es \<longrightarrow>
     (\<exists>ps rest. es = server_get p (Inr (OPolicyServer ps)) # rest \<and> progress r p (snd y) (policy_status (fst y)) rest))"
proof -
  let ?p = "set_condition (Lib r) not_created p"
  note g = view_getters [OF set_condition_simps(3)] view_getters [OF mark_pending_simps(1)]
  have d: "reconcilePolicy cl r p = getPolicyServer cl ?p \<bind> (\<lambda>x. case x of
        Panic \<Rightarrow> ret (?p, Panic)
      | Err e \<Rightarrow> ret (SetStatus PolicyStatusScheduled ?p, Ok no_requeue)
      | Ok ps \<Rightarrow> reconcile_scheduled cl r ps (mark_pending ?p))"
    using assms g(1) by (simp add: reconcilePolicy_def Let_def)
  show ?thesis
    unfolding d
  proof (rule emits_bind [OF emits_getPolicyServer], goal_cases)
    case (1 x es)
    then obtain res where es: "es = [server_get p res]"
      and x: "x = (case as_PolicyServer res of
          Inl err \<Rightarrow> Err (Wrapped ''could not get policy server: '' (ApiErr err)) | Inr ps \<Rightarrow> Ok ps)"
      using g by auto
    show ?case
    proof (cases "as_PolicyServer res")
      case (Inl e)
      then have "\<not> answered (server_get p res)"
        unfolding server_get_def answered_kind by simp
      with es x Inl show ?thesis by (auto intro!: emits_return)
    next
      case (Inr ps)
      then have res: "res = Inr (OPolicyServer ps)" by (simp add: as_PolicyServer_Inr)
      show ?thesis
        unfolding x res as_PolicyServer.simps sum.case outcome.case es
        by (rule emits_post [OF answered_scheduled])
          (auto simp: progress_view [OF mark_pending_simps(1)] progress_view [OF set_condition_simps(3)])
    qed
  qed
qed

text \<open>
  C14. Progress: a reconciliation of a policy that is scheduled, all of whose requests are answered,
  either finds the rollout complete and stores the status \<open>active\<close>, or asks to be called again
  after two seconds.
\<close>

theorem rollout_activates_policy:
  assumes "set_status_condition_law (Lib r)" "DeletionTimestamp (GetObjectMeta p) = None" "GetPolicyServer p \<noteq> ''''"
  shows "emits (startReconciling cl r p) (\<lambda>x es. all_answered es \<longrightarrow>
     (\<exists>ps q before after. es = server_get p (Inr (OPolicyServer ps)) # before @ after \<and> published es = Some q \<and>
        progress r p x (policy_status q) before))"
proof -
  have d: "startReconciling cl r p = reconcilePolicy cl r p \<bind> (\<lambda>(p1, x). case x of Panic \<Rightarrow> ret Panic
      | _ \<Rightarrow> setPolicyStatus (Lib r) (DeploymentsNamespace r) (APIReader r) p1 \<bind> (\<lambda>(p2, _).
          api_write cl (StatusUpdate (OPolicy p2)) \<bind> (\<lambda>u. ret (case u of
            Inl err \<Rightarrow> Err (Wrapped ''update admission policy status error: '' (ApiErr err)) | Inr _ \<Rightarrow> x))))"
    using assms(2) by (simp add: startReconciling_def)
  show ?thesis
    unfolding d
  proof (rule emits_bind [OF answered_reconcilePolicy [OF assms(3)]], goal_cases)
    case (1 y es1)
    obtain p1 x where y: "y = (p1, x)" by (cases y)
    have c: "emits (setPolicyStatus (Lib r) (DeploymentsNamespace r) (APIReader r) p1 \<bind> (\<lambda>(p2, _).
          api_write cl (StatusUpdate (OPolicy p2)) \<bind> (\<lambda>u. ret (case u of
            Inl err \<Rightarrow> Err (Wrapped ''update admission policy status error: '' (ApiErr err)) | Inr _ \<Rightarrow> x))))
         (\<lambda>x' es. all_answered es \<longrightarrow> x' = x \<and> (\<exists>q. published (es1 @ es) = Some q \<and> policy_status q = policy_status p1))"
    proof (rule emits_bind [OF emits_setPolicyStatus], goal_cases)
      case (1 z es2)
      obtain p2 u where z: "z = (p2, u)" by (cases z)
      with 1 status_completed_keeps(1) [OF assms(1), of p1 p2 es2] have "policy_status p2 = policy_status p1" by simp
      then show ?case
        unfolding z prod.case
        by (intro emits_write emits_return)
          (auto simp: append_assoc [symmetric] simp del: append_assoc split: sum.split)
    qed
    have found: "\<exists>ps q before after. es1 @ es = server_get p (Inr (OPolicyServer ps)) # before @ after \<and>
        published (es1 @ es) = Some q \<and> progress r p x (policy_status q) before"
      if "all_answered es1" "published (es1 @ es) = Some q" "policy_status q = policy_status p1" for es q
    proof -
      from 1 y that(1) obtain ps rest where "es1 = server_get p (Inr (OPolicyServer ps)) # rest"
        "progress r p x (policy_status p1) rest" by auto
      with that(2,3) show ?thesis
        by (intro exI [of _ ps] exI [of _ q] exI [of _ rest] exI [of _ es]) simp
    qed
    have e: "emits (setPolicyStatus (Lib r) (DeploymentsNamespace r) (APIReader r) p1 \<bind> (\<lambda>(p2, _).
          api_write cl (StatusUpdate (OPolicy p2)) \<bind> (\<lambda>u. ret (case u of
            Inl err \<Rightarrow> Err (Wrapped ''update admission policy status error: '' (ApiErr err)) | Inr _ \<Rightarrow> x))))
         (\<lambda>x' es. all_answered (es1 @ es) \<longrightarrow>
            (\<exists>ps q before after. es1 @ es = server_get p (Inr (OPolicyServer ps)) # before @ after \<and>
               published (es1 @ es) = Some q \<and> progress r p x' (policy_status q) before))"
    proof (rule emits_post [OF c], intro allI impI)
      fix x' es
      assume h: "all_answered es \<longrightarrow> x' = x \<and> (\<exists>q. published (es1 @ es) = Some q \<and> policy_status q = policy_status p1)"
        and a: "all_answered (es1 @ es)"
      then obtain q where "published (es1 @ es) = Some q" "policy_status q = policy_status p1" "x' = x" by auto
      with found [OF _ this(1,2)] a show "\<exists>ps q before after. es1 @ es = server_get p (Inr (OPolicyServer ps)) # before @ after \<and>
          published (es1 @ es) = Some q \<and> progress r p x' (policy_status q) before" by simp
    qed
    have "all_answered es1 \<longrightarrow> x \<noteq> Panic"
      using 1 y by (auto simp: progress_def split: if_splits)
    with e show ?case
      unfolding y prod.case by (cases x) (auto intro: emits_return)
  qed
qed

theorem rollout_activates_policy_witness:
  "fst (run_state demo_run (playing demo_rollout)) \<in> {Ok no_requeue, Ok (requeue_after 2)}"
proof -
  have "all_answered (trace (snd (run_state demo_run (playing demo_rollout))))"
    by (simp add: demo_run_defs)
  with emits_playing [OF rollout_activates_policy [of script_reconciler "demo_policy ''default'' ''protect'' ''a''" script_client],
      of demo_rollout]
  show ?thesis by (auto simp: ref_lib_conditions progress_def split: if_splits)
qed

end
