(* ===== verification/Server_Lifecycle.thy ===== *)
theory Server_Lifecycle
  imports Policy_Server_Controller
begin

text \<open>
  The life of a policy server under its controller, \<open>controllers/policyserver_controller.go\<close>: its
  deletion, the errors a reconciliation can end with, and bounds on the number of requests of all
  three controllers.
\<close>

section \<open>Deletion\<close>

definition policy_deletions :: "Policy list \<Rightarrow> (api_error + api_object) list \<Rightarrow> api_event list" where
  "policy_deletions policies answers =
     map2 (\<lambda>p res. EvWrite (Delete (policy_kind p) (key_of (OPolicy p))) res) policies answers"

lemma emits_delete_policies:
  "emits (delete_policies cl b policies) (\<lambda>x es. \<exists>answers. length answers = length policies \<and>
     es = policy_deletions policies answers \<and> (x \<longleftrightarrow> b \<or> (\<exists>res \<in> set answers. \<not> gone res)))"
proof (induction policies arbitrary: b)
  case Nil
  then show ?case by (auto intro!: emits_rules simp: policy_deletions_def)
next
  case (Cons p policies)
  have step: "emits (delete_policies cl b' policies) (\<lambda>x es. \<exists>answers. length answers = length (p # policies) \<and>
      EvWrite (Delete (policy_kind p) (key_of (OPolicy p))) res # es = policy_deletions (p # policies) answers \<and>
      (x \<longleftrightarrow> b \<or> (\<exists>res \<in> set answers. \<not> gone res)))"
    if "b' \<longleftrightarrow> b \<or> \<not> gone res" for b' res
    by (rule emits_post [OF Cons.IH]) (use that in \<open>force simp: policy_deletions_def intro: exI [of _ "res # _"]\<close>)
  show ?case
    unfolding delete_policies.simps
  proof (rule emits_write, goal_cases)
    case (1 res)
    show ?case
    proof (cases res)
      case (Inl e)
      show ?thesis unfolding Inl sum.case by (rule step) simp
    next
      case (Inr ob)
      show ?thesis unfolding Inr sum.case by (rule step) simp
    qed
  qed
qed

text \<open>The metadata of a policy server without the finalizer, and what deleting it does.\<close>

definition unfinalized :: "PolicyServer \<Rightarrow> ObjectMeta" where
  "unfinalized ps = (psMeta ps)\<lparr>Finalizers := filter (\<lambda>f. f \<noteq> KubewardenFinalizer) (Finalizers (psMeta ps))\<rparr>"

definition deletion_outcome ::
    "'w Reconciler \<Rightarrow> PolicyServer \<Rightarrow> Policy list \<Rightarrow> ctrl_result result \<Rightarrow> api_event list \<Rightarrow> bool" where
  "deletion_outcome r ps policies x es \<longleftrightarrow>
     (if policies = [] then
        \<exists>answers rest. length answers = 4 \<and> es = deletions r ps answers @ rest \<and>
          (if \<forall>res \<in> set answers. gone res
           then \<exists>q res. rest = [EvWrite (Update (OPolicyServer q)) res] \<and> psMeta q = unfinalized ps \<and>
                 (case res of Inl e \<Rightarrow> if IsConflict e then x = Ok no_requeue else \<exists>e. x = Err e
                    | Inr ob \<Rightarrow> x = Ok no_requeue)
           else rest = [] \<and> (\<exists>e. x = Err e))
      else
        \<exists>answers. length answers = length policies \<and> es = policy_deletions policies answers \<and>
          (if \<forall>res \<in> set answers. gone res then x = Ok requeue_now else \<exists>e. x = Err e))"

lemma emits_ps_reconcileDeletion:
  assumes "finalizer_law (Lib r)"
  shows "emits (ps_reconcileDeletion r ps policies) (deletion_outcome r ps policies)"
proof (cases "policies = []")
  case True
  have "emits (ReconcileDeletion r ps \<bind> (\<lambda>(ps1, x). case x of
      Panic \<Rightarrow> ret Panic
    | Err err \<Rightarrow> ret (Err (Wrapped ''could not reconcile policy server deletion: '' err))
    | Ok _ \<Rightarrow> api_write (Client r) (Update (OPolicyServer (ps1\<lparr>psMeta := remove_finalizer (Lib r) (psMeta ps1)\<rparr>))) \<bind>
        (\<lambda>u. ret (case u of
            Inl err \<Rightarrow> if IsConflict err then Ok no_requeue
                       else Err (Wrapped ''cannot update policy server: '' (ApiErr err))
          | Inr _ \<Rightarrow> Ok no_requeue)))) (deletion_outcome r ps [])"
  proof (rule emits_bind [OF emits_ReconcileDeletion], goal_cases)
    case (1 y es)
    obtain ps1 x where y: "y = (ps1, x)" by (cases y)
    with 1 obtain answers where a: "length answers = 4" "es = deletions r ps answers" "psMeta ps1 = psMeta ps"
      and x: "x = (if \<forall>res \<in> set answers. gone res then Ok () else Err (ReconcilerErrors (concat (map failure answers))))"
      by auto
    have m: "remove_finalizer (Lib r) (psMeta ps1) = unfinalized ps"
      using assms a(3) by (simp add: remove_finalizer_def unfinalized_def finalizer_law_def)
    show ?case
    proof (cases "\<forall>res \<in> set answers. gone res")
      case True
      with a m have "deletion_outcome r ps [] (case u of
            Inl err \<Rightarrow> if IsConflict err then Ok no_requeue
                       else Err (Wrapped ''cannot update policy server: '' (ApiErr err))
          | Inr _ \<Rightarrow> Ok no_requeue)
         (es @ [EvWrite (Update (OPolicyServer (ps1\<lparr>psMeta := remove_finalizer (Lib r) (psMeta ps1)\<rparr>))) u])" for u
        unfolding deletion_outcome_def by (cases u) (auto intro!: exI [of _ answers])
      with True x y show ?thesis by (auto intro!: emits_rules)
    next
      case False
      with a have "deletion_outcome r ps [] (Err e) (es @ [])" for e
        unfolding deletion_outcome_def by (auto intro!: exI [of _ answers])
      with False x y show ?thesis by (auto intro!: emits_rules)
    qed
  qed
  with True show ?thesis
    by (simp add: ps_reconcileDeletion_def Let_def case_prod_beta)
next
  case False
  then show ?thesis
    unfolding ps_reconcileDeletion_def
    by (intro emits_bind [OF emits_delete_policies]) (auto intro!: emits_rules simp: deletion_outcome_def)
qed

section \<open>Bounds and errors of a run\<close>

text \<open>
  \<open>calm n m\<close>: every run of \<open>m\<close> sends at most \<open>n\<close> requests, and its error, if it ends with one, is
  not a \<open>PolicyServerNotReadyError\<close>.
\<close>

fun not_delayed :: "'a result \<Rightarrow> bool" where
  "not_delayed (Err e) \<longleftrightarrow> \<not> IsPolicyServerNotReady e"
| "not_delayed x \<longleftrightarrow> True"

lemma not_delayed_map_err [simp]: "not_delayed (map_err (Wrapped m) x) \<longleftrightarrow> not_delayed x"
  by (cases x) auto

definition calm :: "nat \<Rightarrow> ('w, 'a result) api \<Rightarrow> bool" where
  "calm n m \<longleftrightarrow> emits m (\<lambda>x es. length es \<le> n \<and> not_delayed x)"

lemma calm_fetch_root:
  "calm 1 (fetchOrInitializePolicyServerCARootSecret K r (GenerateCA K) (PemEncodeCertificate K))"
proof -
  have k: "emits (newPrivateKey K n) (\<lambda>x es. es = [] \<and> not_delayed x)" for n
    unfolding newPrivateKey_def by (auto intro!: emits_rules split: sum.split)
  have g: "emits (GenerateCA K) (\<lambda>x es. es = [] \<and> not_delayed x)"
    unfolding GenerateCA_def
    by (rule emits_bind [OF k]) (auto intro!: emits_rules simp: Let_def split: outcome.split sum.split)
  show ?thesis
    unfolding calm_def fetchOrInitializePolicyServerCARootSecret_def buildPolicyServerCARootSecret_def
    by (auto intro!: emits_rules emits_bind [OF g] simp: PemEncodeCertificate_def split: sum.split outcome.split)
qed

lemma calm_reconcileCASecret: "calm 1 (reconcileCASecret r secret)"
  unfolding calm_def reconcileCASecret_def by (auto intro!: emits_rules split: sum.split)

lemma calm_fetch_serving: "calm 1 (fetchOrInitializePolicyServerCASecret K r n ca (GenerateCert K))"
proof -
  have g: "emits (GenerateCert K c cn sans key) (\<lambda>x es. es = [] \<and> not_delayed x)"
    for c cn sans key
    unfolding GenerateCert_def
    by (auto intro!: emits_rules simp: Let_def encode_serving_pair_def PemEncodeCertificate_def pemEncodePrivateKey_def
        split: sum.split outcome.split)
  have b: "emits (buildPolicyServerCASecret K r n ca (GenerateCert K))
      (\<lambda>x es. es = [] \<and> not_delayed x)"
    unfolding buildPolicyServerCASecret_def
    by (auto intro!: emits_rules emits_bind [OF g] simp: extractCaFromSecret_def split: outcome.split sum.split option.split)
  show ?thesis
    unfolding calm_def fetchOrInitializePolicyServerCASecret_def
    by (auto intro!: emits_rules emits_bind [OF b] split: sum.split)
qed

lemma config_map_errors:
  "shouldUpdatePolicyMap L t m = Err e \<Longrightarrow> \<not> IsPolicyServerNotReady e"
  "shouldUpdateSourcesList t s = Err e \<Longrightarrow> \<not> IsPolicyServerNotReady e"
  "patch_policies L b m cm = Err e \<Longrightarrow> \<not> IsPolicyServerNotReady e"
  "patch_sources b s cm = Err e \<Longrightarrow> \<not> IsPolicyServerNotReady e"
  by (auto simp: shouldUpdatePolicyMap_def shouldUpdateSourcesList_def patch_policies_def patch_sources_def
      write_data_def json_marshal_error_def json_unmarshal_error_def split: option.splits if_splits)

lemma calm_updateIfNeeded: "calm 1 (updateIfNeeded r cm policies ps)"
  unfolding calm_def updateIfNeeded_def Let_def
  by (simp split: outcome.split)
    (intro conjI allI impI emits_rules, simp_all split: sum.split, (blast dest: config_map_errors)+)

lemma calm_config_map: "calm 2 (reconcilePolicyServerConfigMap r ps policies)"
proof -
  have "calm 1 (createPolicyServerConfigMap r ps policies)"
    unfolding calm_def createPolicyServerConfigMap_def json_marshal_error_def
    by (auto intro!: emits_rules simp: Let_def split: sum.split option.split)
  with calm_updateIfNeeded show ?thesis
    by (auto simp: calm_def reconcilePolicyServerConfigMap_def intro!: emits_rules elim!: emits_post split: sum.split)
qed

lemma image_of_container_error: "image_of_container n cs = Err e \<Longrightarrow> \<not> IsPolicyServerNotReady e"
  by (induction cs) (auto split: if_splits)

lemma shouldUpdate_error: "shouldUpdatePolicyServerDeployment ps d d' = Err e \<Longrightarrow> \<not> IsPolicyServerNotReady e"
  by (auto simp: shouldUpdatePolicyServerDeployment_def isPolicyServerImageChanged_def
      getPolicyServerImageFromDeployment_def dest: image_of_container_error split: outcome.splits option.splits list.splits if_splits)

lemma calm_update_deployment: "calm 2 (updatePolicyServerDeployment r ps d)"
  unfolding calm_def updatePolicyServerDeployment_def patch_deployment_def
  by (auto intro!: emits_rules split: sum.split outcome.split option.split) (blast dest: shouldUpdate_error)+

lemma calm_create_or_update: "calm 3 (create_or_update_deployment r ps v)"
  using calm_update_deployment
  by (auto simp: calm_def create_or_update_deployment_def Let_def intro!: emits_rules elim!: emits_post split: sum.split)

lemma calm_deployment: "calm 5 (reconcilePolicyServerDeployment r ps)"
  unfolding calm_def reconcilePolicyServerDeployment_def policyServerConfigMapVersion_def
    policyServerImagePullSecretPresent_def
  by (auto intro!: emits_rules emits_post [OF calm_create_or_update [unfolded calm_def]]
      split: sum.split outcome.split api_object.split)

lemma calm_service: "calm 1 (reconcilePolicyServerService r ps)"
  unfolding calm_def reconcilePolicyServerService_def by (auto intro!: emits_rules split: sum.split)


text \<open>The same for the methods that also return the policy server.\<close>

definition calm_step :: "nat \<Rightarrow> ('w, PolicyServer \<times> unit result) api \<Rightarrow> bool" where
  "calm_step n m \<longleftrightarrow> emits m (\<lambda>y es. length es \<le> n \<and> not_delayed (snd y))"

lemma calm_on_error:
  assumes "calm n m" "\<And>v. calm_step k (f v)" "n + k \<le> l"
  shows "calm_step l (on_error L c w ps m f)"
  unfolding calm_step_def on_error_def
proof (rule emits_bind [OF assms(1) [unfolded calm_def]], goal_cases)
  case (1 x es)
  with assms(3) show ?case
    by (cases x) (auto intro!: emits_rules emits_post [OF assms(2) [unfolded calm_step_def]])
qed

lemma calm_Reconcile: "calm_step 12 (Reconcile K r ps policies)"
  unfolding Reconcile_def Let_def
  by (rule calm_on_error [OF calm_fetch_root], rule calm_on_error [OF calm_reconcileCASecret],
      rule calm_on_error [OF calm_fetch_serving], rule calm_on_error [OF calm_reconcileCASecret],
      rule calm_on_error [OF calm_config_map], rule calm_on_error [OF calm_deployment],
      rule calm_on_error [OF calm_service])
    (auto simp: calm_step_def intro!: emits_rules)

text \<open>\<open>brief n m\<close>: every run of \<open>m\<close> sends at most \<open>n\<close> requests.\<close>

definition brief :: "nat \<Rightarrow> ('w, 'a) api \<Rightarrow> bool" where
  "brief n m \<longleftrightarrow> emits m (\<lambda>x es. length es \<le> n)"

lemma brief_bind:
  assumes "brief n m" "\<And>x. brief k (f x)" "n + k \<le> l"
  shows "brief l (State_Monad.bind m f)"
  unfolding brief_def
  by (rule emits_bind [OF assms(1) [unfolded brief_def]])
    (rule emits_post [OF assms(2) [unfolded brief_def]], use assms(3) in auto)

lemma brief_less: "brief n m \<Longrightarrow> n \<le> k \<Longrightarrow> brief k m"
  unfolding brief_def by (erule emits_post) simp

lemma brief_return [simp]: "brief n (ret x)"
  by (simp add: brief_def emits_return)

lemma brief_calm: "calm n m \<Longrightarrow> brief n m"
  unfolding calm_def brief_def by (erule emits_post) simp

lemma brief_mutating: "brief 3 (ReconcileMutatingWebhookConfiguration r p s n)"
  unfolding brief_def ReconcileMutatingWebhookConfiguration_def updateMutatingWebhook_def patch_mutating_if_different_def
  by (auto intro!: emits_rules simp: Let_def split: sum.split)

lemma brief_validating: "brief 3 (ReconcileValidatingWebhookConfiguration r p s n)"
  unfolding brief_def ReconcileValidatingWebhookConfiguration_def updateValidatingWebhook_def patch_validating_if_different_def
  by (auto intro!: emits_rules simp: Let_def split: sum.split)

lemma brief_reconcile_webhook: "brief 3 (reconcile_webhook r p s n)"
  unfolding reconcile_webhook_def
  by (simp add: brief_bind [OF brief_mutating, of 0] brief_bind [OF brief_validating, of 0])

lemma brief_reachable: "brief 3 (isPolicyUniquelyReachable L rd d n)"
  unfolding brief_def isPolicyUniquelyReachable_def
  by (auto intro!: emits_rules simp: Let_def split: sum.split)

lemma brief_get: "brief 1 (api_get rd k key)"
  by (simp add: brief_def emits_def run_api split: prod.split)

lemma brief_write: "brief 1 (api_write cl q)"
  by (simp add: brief_def emits_def run_api split: prod.split)

lemma brief_list: "brief 1 (api_list rd k sel)"
  by (simp add: brief_def emits_def run_api split: prod.split)

lemma brief_register: "brief 4 (register_webhook cl r ps p)"
  unfolding register_webhook_def
  by (rule brief_bind [OF brief_get, of 3])
    (auto intro!: brief_bind [OF brief_reconcile_webhook, of 0] split: sum.split)

lemma brief_scheduled: "brief 8 (reconcile_scheduled cl r ps p)"
  unfolding reconcile_scheduled_def
  by (rule brief_bind [OF brief_get, of 7])
    (auto intro!: brief_bind [OF brief_reachable, of 4] brief_register split: sum.split)

lemma brief_getPolicyServer: "brief 1 (getPolicyServer cl p)"
  unfolding getPolicyServer_def by (auto intro!: brief_bind [OF brief_get, of 0])

lemma brief_reconcilePolicy: "brief 9 (reconcilePolicy cl r p)"
  unfolding reconcilePolicy_def
  by (auto intro!: brief_bind [OF brief_getPolicyServer, of 8] brief_scheduled simp: Let_def split: outcome.split)

lemma brief_setPolicyStatus: "brief 2 (setPolicyStatus L ns rd p)"
  unfolding setPolicyStatus_def
  by (rule brief_bind [OF brief_get, of 1])
    (auto intro!: brief_bind [OF brief_get, of 0] split: sum.split)

lemma brief_deletion: "brief 3 (reconcilePolicyDeletion L cl p)"
proof -
  have "brief 2 (reconcileMutatingWebhook cl p)" "brief 2 (reconcileValidatingWebhook cl p)"
    unfolding reconcileMutatingWebhook_def reconcileValidatingWebhook_def
    by (auto intro!: brief_bind [OF brief_get, of 1] brief_bind [OF brief_write, of 0] split: sum.split)
  then have "brief 2 (if IsMutating p then reconcileMutatingWebhook cl p else reconcileValidatingWebhook cl p)"
    by simp
  then show ?thesis
    unfolding reconcilePolicyDeletion_def
    by (rule brief_bind [of _ _ 1]) (auto intro!: brief_bind [OF brief_write, of 0] split: outcome.split)
qed

lemma brief_startReconciling: "brief 12 (startReconciling cl r p)"
  unfolding startReconciling_def
  by (auto intro!: brief_less [OF brief_deletion] brief_bind [OF brief_reconcilePolicy, of 3]
      brief_bind [OF brief_setPolicyStatus, of 1] brief_bind [OF brief_write, of 0] split: outcome.split prod.split)

lemma brief_policy_controllers: "brief 13 (cap_Reconcile r req)" "brief 13 (ap_Reconcile r req)"
  unfolding cap_Reconcile_def ap_Reconcile_def
  by (auto intro!: brief_bind [OF brief_get, of 12] brief_startReconciling split: sum.split)

section \<open>The controller of policy servers\<close>

text \<open>The number of objects in the answers to the list requests.\<close>

definition objects_listed :: "api_event list \<Rightarrow> nat" where
  "objects_listed es = (\<Sum>ev \<leftarrow> es. case ev of EvList k sel (Inr obs) \<Rightarrow> length obs | _ \<Rightarrow> 0)"

lemma policies_of_length: "length (policies_of b caps aps) \<le> length (listed caps) + length (listed aps)"
proof -
  have "length (List.map_filter f obs) \<le> length obs" for f :: "api_object \<Rightarrow> 'a option" and obs
    by (induction obs) (auto simp: List.map_filter_simps split: option.split)
  then have "length (cap_items obs) \<le> length obs" "length (ap_items obs) \<le> length obs" for obs
    by (simp_all add: cap_items_def ap_items_def)
  then show ?thesis
    unfolding policies_of_def
    by (auto intro!: add_mono intro: le_trans [OF length_filter_le])
qed

lemma brief_delete_policies: "brief (length policies) (delete_policies cl b policies)"
  unfolding brief_def by (rule emits_post [OF emits_delete_policies]) (auto simp: policy_deletions_def)

lemma brief_ReconcileDeletion: "brief 4 (ReconcileDeletion r ps)"
  unfolding brief_def by (rule emits_post [OF emits_ReconcileDeletion]) (auto simp: deletions_def)

lemma brief_ps_reconcileDeletion: "brief (5 + length policies) (ps_reconcileDeletion r ps policies)"
  unfolding ps_reconcileDeletion_def
  by (rule brief_bind [OF brief_delete_policies, of 5])
    (auto intro!: brief_bind [OF brief_ReconcileDeletion, of 1] brief_bind [OF brief_write, of 0]
      simp: Let_def split: prod.split outcome.split)

lemma emits_ps_reconcile:
  "emits (ps_reconcile K r ps policies) (\<lambda>y es. length es \<le> 12 \<and> (case snd y of
     Ok c \<Rightarrow> c = no_requeue | Err e \<Rightarrow> \<not> IsPolicyServerNotReady e | Panic \<Rightarrow> True))"
  unfolding ps_reconcile_def
  by (rule emits_bind [OF calm_Reconcile [unfolded calm_step_def]])
    (auto intro!: emits_rules split: prod.split outcome.split)

lemma brief_ps_reconcile: "brief 12 (ps_reconcile K r ps policies)"
  unfolding brief_def by (rule emits_post [OF emits_ps_reconcile]) simp

lemma emits_ps_Reconcile_length:
  "emits (ps_Reconcile K r req) (\<lambda>x es. length es \<le> 16 + objects_listed es)"
  unfolding ps_Reconcile_def
proof (rule emits_get, goal_cases)
  case (1 res)
  show ?case
  proof (cases "as_PolicyServer res")
    case (Inl e)
    then show ?thesis by (auto intro!: emits_rules)
  next
    case (Inr ps)
    have rest: "brief (13 + length policies)
        (if DeletionTimestamp (psMeta ps) \<noteq> None then ps_reconcileDeletion r ps policies
         else ps_reconcile K r ps policies \<bind> (\<lambda>(ps', x). case x of
             Panic \<Rightarrow> ret Panic
           | _ \<Rightarrow> api_write (Client r) (StatusUpdate (OPolicyServer ps')) \<bind> (\<lambda>u. ret (case u of
                Inl err \<Rightarrow> Err (Wrapped ''update policy server status error: '' (ApiErr err)) | Inr _ \<Rightarrow> x))))" for policies
      by (auto intro!: brief_less [OF brief_ps_reconcileDeletion] brief_bind [OF brief_ps_reconcile, of 1]
          brief_bind [OF brief_write, of 0] split: outcome.split prod.split)
    show ?thesis
      unfolding Inr sum.case
    proof (rule emits_bind [OF emits_GetPolicies], elim disjE exE conjE, goal_cases)
      case (1 x es caps err)
      then show ?case by (auto intro!: emits_rules)
    next
      case (2 x es caps aps)
      then show ?case
      proof (cases "not_found_error aps")
        case (Some err)
        with 2 show ?thesis by (auto intro!: emits_return simp: policies_result_def)
      next
        case None
        with 2 have x: "x = Ok (policies_of SkipDeleted caps aps)" by (simp add: policies_result_def)
        have "objects_listed es = length (listed caps) + length (listed aps)" "length es = 2"
          using 2 by (simp_all add: objects_listed_def listed_def split: sum.split)
        with policies_of_length [of SkipDeleted caps aps] show ?thesis
          unfolding x outcome.case
          by (intro emits_post [OF rest [unfolded brief_def]]) (auto simp: objects_listed_def)
      qed
    qed
  qed
qed

section \<open>Properties\<close>

text \<open>
  C23. Every reconciliation ends after a bounded number of requests, whatever the API server
  answers: at most 13 for a policy, and at most 16 for a policy server, plus one for each object in
  the answers to the list requests (the policies that are deleted with it).
\<close>

theorem reconciliations_bounded:
  "emits (cap_Reconcile r req) (\<lambda>x es. length es \<le> 13) \<and>
   emits (ap_Reconcile r req) (\<lambda>x es. length es \<le> 13) \<and>
   emits (ps_Reconcile K r req) (\<lambda>x es. length es \<le> 16 + objects_listed es)"
  by (intro conjI brief_policy_controllers [unfolded brief_def] emits_ps_Reconcile_length)

text \<open>
  C32. No step of the reconciliation of a policy server returns a \<open>PolicyServerNotReadyError\<close>, so the
  controller never asks to be called again after five seconds: it is either done or returns an
  error.
\<close>

theorem policy_server_never_delayed:
  "emits (ps_reconcile K r ps policies) (\<lambda>y es. case snd y of
     Ok c \<Rightarrow> c = no_requeue | Err e \<Rightarrow> \<not> IsPolicyServerNotReady e | Panic \<Rightarrow> True)"
  by (rule emits_post [OF emits_ps_reconcile]) simp

text \<open>
  C10. While policies are bound to a policy server being deleted, the controller only deletes those
  policies and asks to be called again; once there are none it deletes the four resources, and it
  removes its finalizer from the policy server, changing nothing else of the metadata, exactly when
  each of the four was deleted or did not exist.  An error is returned in all other cases.
\<close>

theorem server_finalizer_removed_last:
  assumes "finalizer_law (Lib r)"
  shows "emits (ps_reconcileDeletion r ps policies) (deletion_outcome r ps policies)"
  by (rule emits_ps_reconcileDeletion [OF assms])

theorem server_finalizer_removed_last_witness:
  "\<exists>e. fst (run_state (ps_reconcileDeletion script_reconciler demo_server [])
     (playing [AnObject (OPolicyServer demo_server), AnError (OtherApiError ''denied'')])) = Err e"
proof -
  let ?run = "run_state (ps_reconcileDeletion script_reconciler demo_server [])
     (playing [AnObject (OPolicyServer demo_server), AnError (OtherApiError ''denied'')])"
  have t: "EvWrite (Delete KSecret (object_key ''kubewarden'' (NameWithPrefix demo_server))) (Inl (OtherApiError ''denied'')) \<in>
      set (trace (snd ?run))"
    by (simp add: ps_reconcileDeletion_def ReconcileDeletion_def delete_resource_def run_api Let_def next_object_def
        setFalseConditionType_def)
  from emits_playing [OF server_finalizer_removed_last, of script_reconciler demo_server "[]"
      "[AnObject (OPolicyServer demo_server), AnError (OtherApiError ''denied'')]"] t
  show ?thesis
    by (auto simp: deletion_outcome_def deletions_def ref_lib_finalizers length_Suc_conv eval_nat_numeral split: if_splits)
qed


end
