(* ===== verification/Go_Memory.thy ===== *)
theory Go_Memory
  imports Go_Prelude
begin

text \<open>
  The memory of a Go program, for the functions whose contract is about sharing (the deep copies of
  \<open>Deep_Copies\<close>): a heap of cells at addresses, pointers, slices and maps as references into it, the
  loops that copy a slice or a map, and a predicate transformer for computations that only allocate.

  Elsewhere in the development a value stands for the structure that a pointer refers to; this theory
  and the next justify that for copies.
\<close>

section \<open>Memory\<close>

type_synonym addr = nat

type_synonym 'c heap = "addr \<Rightarrow> 'c option"

record 'c memory =
  next_addr :: addr
  store :: "'c heap"

text \<open>
  A pointer or a map is nil or an address; a slice is nil or a part of an array, with the index of
  its first element and its length.
\<close>

type_synonym reference = "addr option"

datatype mslice = NilSlice | Slice addr nat nat

definition mem_wf :: "'c memory \<Rightarrow> bool" where
  "mem_wf m \<longleftrightarrow> dom (store m) \<subseteq> {..<next_addr m}"

definition alloc :: "'c \<Rightarrow> ('c memory, addr) state" where
  "alloc c = State (\<lambda>m. (next_addr m, m\<lparr>next_addr := Suc (next_addr m), store := (store m)(next_addr m \<mapsto> c)\<rparr>))"

definition modify_cell :: "addr \<Rightarrow> ('c \<Rightarrow> 'c) \<Rightarrow> ('c memory, unit) state" where
  "modify_cell a f = State (\<lambda>m. ((), m\<lparr>store := (case store m a of None \<Rightarrow> store m | Some c \<Rightarrow> (store m)(a \<mapsto> f c))\<rparr>))"

definition load :: "('c \<Rightarrow> 'a option) \<Rightarrow> 'a \<Rightarrow> addr \<Rightarrow> ('c memory, 'a) state" where
  "load sel dflt a = State (\<lambda>m. (case Option.bind (store m a) sel of None \<Rightarrow> dflt | Some x \<Rightarrow> x, m))"

text \<open>
  \<open>sel\<close> takes the content out of a cell of one type.  The type system of Go makes sure that the cell
  has that type, so the value \<open>dflt\<close> is never read from an object that can be read at all.
\<close>

definition read_cell :: "('c \<Rightarrow> 'a option) \<Rightarrow> 'c heap \<Rightarrow> addr \<Rightarrow> 'a option" where
  "read_cell sel h a = Option.bind (h a) sel"

definition slice_range :: "nat \<Rightarrow> nat \<Rightarrow> 'a list \<Rightarrow> 'a list" where
  "slice_range off n xs = take n (drop off xs)"

section \<open>Readers\<close>

text \<open>A reader gives the value that a piece of memory stands for; \<open>None\<close> if it cannot be read.\<close>

definition read_pointer :: "('c \<Rightarrow> 'x option) \<Rightarrow> ('c heap \<Rightarrow> 'x \<Rightarrow> 'v option) \<Rightarrow> 'c heap \<Rightarrow> reference \<Rightarrow> 'v option option" where
  "read_pointer sel view h p = (case p of
     None \<Rightarrow> Some None
   | Some a \<Rightarrow> Option.bind (read_cell sel h a) (\<lambda>x. map_option Some (view h x)))"

definition read_slice :: "('c \<Rightarrow> 'x list option) \<Rightarrow> ('c heap \<Rightarrow> 'x \<Rightarrow> 'v option) \<Rightarrow> 'c heap \<Rightarrow> mslice \<Rightarrow> 'v slice option" where
  "read_slice sel view h s = (case s of
     NilSlice \<Rightarrow> Some None
   | Slice a off n \<Rightarrow> Option.bind (read_cell sel h a) (\<lambda>xs.
       if off + n \<le> length xs then map_option Some (those (map (view h) (slice_range off n xs))) else None))"

text \<open>The entries of a map, all of them readable.\<close>

definition read_entries :: "('c heap \<Rightarrow> 'x \<Rightarrow> 'v option) \<Rightarrow> 'c heap \<Rightarrow> (string, 'x) fmap \<Rightarrow> (string, 'v) fmap option" where
  "read_entries view h m =
     (if fmpred (\<lambda>k x. view h x \<noteq> None) m then Some (fmmap (\<lambda>x. the (view h x)) m) else None)"

definition read_map :: "('c \<Rightarrow> (string, 'x) fmap option) \<Rightarrow> ('c heap \<Rightarrow> 'x \<Rightarrow> 'v option) \<Rightarrow> 'c heap \<Rightarrow> reference \<Rightarrow>
    (string, 'v) nilmap option" where
  "read_map sel view h p = (case p of
     None \<Rightarrow> Some None
   | Some a \<Rightarrow> Option.bind (read_cell sel h a) (\<lambda>m. map_option Some (read_entries view h m)))"

definition read_plain :: "'c heap \<Rightarrow> 'x \<Rightarrow> 'x option" where
  "read_plain h x = Some x"

lemma read_plain_simp [simp]: "read_plain h x = Some x"
  by (simp add: read_plain_def)

definition mono_reader :: "('c heap \<Rightarrow> 'x \<Rightarrow> 'v option) \<Rightarrow> bool" where
  "mono_reader view \<longleftrightarrow> (\<forall>h h' x v. h \<subseteq>\<^sub>m h' \<longrightarrow> view h x = Some v \<longrightarrow> view h' x = Some v)"

lemma mono_readerI: "(\<And>h h' x v. h \<subseteq>\<^sub>m h' \<Longrightarrow> view h x = Some v \<Longrightarrow> view h' x = Some v) \<Longrightarrow> mono_reader view"
  by (simp add: mono_reader_def)

lemma mono_readerD: "mono_reader view \<Longrightarrow> h \<subseteq>\<^sub>m h' \<Longrightarrow> view h x = Some v \<Longrightarrow> view h' x = Some v"
  by (simp add: mono_reader_def)

definition mono_read :: "('c heap \<Rightarrow> 'v option) \<Rightarrow> bool" where
  "mono_read f \<longleftrightarrow> (\<forall>h h' v. h \<subseteq>\<^sub>m h' \<longrightarrow> f h = Some v \<longrightarrow> f h' = Some v)"

lemma mono_reader_iff: "mono_reader view \<longleftrightarrow> (\<forall>x. mono_read (\<lambda>h. view h x))"
  by (auto simp: mono_reader_def mono_read_def)

lemma mono_read_bind: "mono_read f \<Longrightarrow> (\<And>y. mono_read (g y)) \<Longrightarrow> mono_read (\<lambda>h. Option.bind (f h) (\<lambda>y. g y h))"
  unfolding mono_read_def bind_eq_Some_conv by blast

lemma mono_read_const: "mono_read (\<lambda>h. c)"
  by (simp add: mono_read_def)

lemma mono_read_map_option: "mono_read f \<Longrightarrow> mono_read (\<lambda>h. map_option g (f h))"
  unfolding mono_read_def map_option_eq_Some by blast

lemma mono_read_reader: "mono_reader view \<Longrightarrow> mono_read (\<lambda>h. view h x)"
  by (simp add: mono_reader_iff)

lemmas mono_read_intros = mono_read_bind mono_read_const mono_read_map_option mono_read_reader

lemma read_cell_mono: "h \<subseteq>\<^sub>m h' \<Longrightarrow> read_cell sel h a = Some x \<Longrightarrow> read_cell sel h' a = Some x"
  by (force simp: read_cell_def map_le_def bind_eq_Some_conv dom_def)

lemma those_eq_Some_iff: "those xs = Some ys \<longleftrightarrow> xs = map Some ys"
  by (induction xs arbitrary: ys) (auto split: option.splits simp: Cons_eq_map_conv)

lemma mono_those:
  assumes "mono_reader view" "h \<subseteq>\<^sub>m h'" "those (map (view h) xs) = Some vs"
  shows "those (map (view h') xs) = Some vs"
  using assms(3) mono_readerD [OF assms(1,2)]
  by (auto simp: those_eq_Some_iff list_eq_iff_nth_eq)

lemma mono_read_plain [intro]: "mono_reader read_plain"
  by (simp add: mono_reader_def)

lemma mono_read_pointer [intro]: "mono_reader view \<Longrightarrow> mono_reader (read_pointer sel view)"
  by (rule mono_readerI)
    (auto simp: read_pointer_def bind_eq_Some_conv split: option.splits dest: read_cell_mono mono_readerD)

lemma mono_read_slice [intro]:
  assumes "mono_reader view"
  shows "mono_reader (read_slice sel view)"
proof (rule mono_readerI)
  fix h h' s v
  assume le: "h \<subseteq>\<^sub>m h'" and r: "read_slice sel view h s = Some v"
  show "read_slice sel view h' s = Some v"
  proof (cases s)
    case NilSlice
    with r show ?thesis by (simp add: read_slice_def)
  next
    case (Slice a off n)
    with r obtain xs vs where "read_cell sel h a = Some xs" "off + n \<le> length xs"
      "those (map (view h) (slice_range off n xs)) = Some vs" "v = Some vs"
      by (auto simp: read_slice_def bind_eq_Some_conv split: if_splits)
    with Slice show ?thesis
      by (simp add: read_slice_def read_cell_mono [OF le] mono_those [OF assms le])
  qed
qed

lemma read_entries_Some_iff:
  "read_entries view h m = Some f \<longleftrightarrow>
     (\<forall>k. case fmlookup m k of None \<Rightarrow> fmlookup f k = None | Some x \<Rightarrow> fmlookup f k \<noteq> None \<and> view h x = fmlookup f k)"
proof
  assume "read_entries view h m = Some f"
  then show "\<forall>k. case fmlookup m k of None \<Rightarrow> fmlookup f k = None | Some x \<Rightarrow> fmlookup f k \<noteq> None \<and> view h x = fmlookup f k"
    by (force simp: read_entries_def fmpred_iff split: if_splits option.splits)
next
  assume *: "\<forall>k. case fmlookup m k of None \<Rightarrow> fmlookup f k = None | Some x \<Rightarrow> fmlookup f k \<noteq> None \<and> view h x = fmlookup f k"
  then have "fmpred (\<lambda>k x. view h x \<noteq> None) m" by (fastforce simp: fmpred_iff split: option.splits)
  moreover have "fmmap (\<lambda>x. the (view h x)) m = f"
  proof (rule fmap_ext)
    fix k
    from * have "case fmlookup m k of None \<Rightarrow> fmlookup f k = None | Some x \<Rightarrow> fmlookup f k \<noteq> None \<and> view h x = fmlookup f k"
      by blast
    then show "fmlookup (fmmap (\<lambda>x. the (view h x)) m) k = fmlookup f k"
      by (auto split: option.splits)
  qed
  ultimately show "read_entries view h m = Some f" by (simp add: read_entries_def)
qed

lemma read_entriesD:
  assumes "read_entries view h m = Some f"
  shows "fmlookup m k = None \<Longrightarrow> fmlookup f k = None"
    and "fmlookup m k = Some x \<Longrightarrow> fmlookup f k = view h x \<and> view h x \<noteq> None"
  using assms by (auto simp: read_entries_def fmpred_iff split: if_splits)

lemma mono_read_entries:
  assumes "mono_reader view" "h \<subseteq>\<^sub>m h'" "read_entries view h m = Some f"
  shows "read_entries view h' m = Some f"
  using assms(3) mono_readerD [OF assms(1,2)]
  unfolding read_entries_Some_iff by (fastforce split: option.splits)

lemma mono_read_map [intro]: "mono_reader view \<Longrightarrow> mono_reader (read_map sel view)"
  by (rule mono_readerI)
    (auto simp: read_map_def bind_eq_Some_conv split: option.splits dest: read_cell_mono mono_read_entries)

section \<open>The loops of a copy\<close>

text \<open>
  \<open>cp\<close> copies one piece of memory.  \<open>mk\<close> makes the cell of a content and \<open>sel\<close> takes it out again.
  An array is made with zero values, which the loop overwrites; a loop over a map visits the entries
  in some order (\<open>order\<close>), which the language leaves open.
\<close>

fun copy_each :: "('x \<Rightarrow> ('c memory, 'y) state) \<Rightarrow> ('k \<Rightarrow> 'y \<Rightarrow> 'c \<Rightarrow> 'c) \<Rightarrow> addr \<Rightarrow> ('k \<times> 'x) list \<Rightarrow> ('c memory, unit) state" where
  "copy_each cp put b [] = ret ()"
| "copy_each cp put b ((k, x) # kxs) = do {
     y \<leftarrow> cp x;
     _ \<leftarrow> modify_cell b (put k y);
     copy_each cp put b kxs
   }"

definition put_elem :: "('x list \<Rightarrow> 'c) \<Rightarrow> ('c \<Rightarrow> 'x list option) \<Rightarrow> nat \<Rightarrow> 'x \<Rightarrow> 'c \<Rightarrow> 'c" where
  "put_elem mk sel i y c = (case sel c of None \<Rightarrow> c | Some ys \<Rightarrow> mk (ys[i := y]))"

definition put_entry :: "((string, 'x) fmap \<Rightarrow> 'c) \<Rightarrow> ('c \<Rightarrow> (string, 'x) fmap option) \<Rightarrow> string \<Rightarrow> 'x \<Rightarrow> 'c \<Rightarrow> 'c" where
  "put_entry mk sel k y c = (case sel c of None \<Rightarrow> c | Some f \<Rightarrow> mk (fmupd k y f))"

definition copy_slice :: "('x list \<Rightarrow> 'c) \<Rightarrow> ('c \<Rightarrow> 'x list option) \<Rightarrow> 'x \<Rightarrow> ('x \<Rightarrow> ('c memory, 'x) state) \<Rightarrow>
    mslice \<Rightarrow> ('c memory, mslice) state" where
  "copy_slice mk sel zero cp s = (case s of
     NilSlice \<Rightarrow> ret NilSlice
   | Slice a off n \<Rightarrow> do {
       xs \<leftarrow> load sel [] a;
       b \<leftarrow> alloc (mk (replicate n zero));
       _ \<leftarrow> copy_each cp (put_elem mk sel) b (enumerate 0 (slice_range off n xs));
       ret (Slice b 0 n)
     })"

definition copy_map :: "((string, 'x) fmap \<Rightarrow> 'c) \<Rightarrow> ('c \<Rightarrow> (string, 'x) fmap option) \<Rightarrow>
    ((string, 'x) fmap \<Rightarrow> (string \<times> 'x) list) \<Rightarrow> ('x \<Rightarrow> ('c memory, 'x) state) \<Rightarrow> reference \<Rightarrow> ('c memory, reference) state" where
  "copy_map mk sel order cp p = (case p of
     None \<Rightarrow> ret None
   | Some a \<Rightarrow> do {
       m \<leftarrow> load sel fmempty a;
       b \<leftarrow> alloc (mk fmempty);
       _ \<leftarrow> copy_each cp (put_entry mk sel) b (order m);
       ret (Some b)
     })"

definition copy_pointer :: "('x \<Rightarrow> 'c) \<Rightarrow> ('c \<Rightarrow> 'x option) \<Rightarrow> 'x \<Rightarrow> ('x \<Rightarrow> ('c memory, 'x) state) \<Rightarrow>
    reference \<Rightarrow> ('c memory, reference) state" where
  "copy_pointer mk sel zero cp p = (case p of
     None \<Rightarrow> ret None
   | Some a \<Rightarrow> do {
       x \<leftarrow> load sel zero a;
       b \<leftarrow> alloc (mk zero);
       y \<leftarrow> cp x;
       _ \<leftarrow> modify_cell b (\<lambda>_. mk y);
       ret (Some b)
     })"

section \<open>What a copy may do\<close>

definition extends :: "'c memory \<Rightarrow> 'c memory \<Rightarrow> bool" where
  "extends m m' \<longleftrightarrow> next_addr m \<le> next_addr m' \<and> (\<forall>a < next_addr m. store m' a = store m a) \<and> mem_wf m'"

text \<open>The part of the memory that was allocated after \<open>m\<close>.\<close>

definition fresh :: "'c memory \<Rightarrow> 'c memory \<Rightarrow> 'c heap" where
  "fresh m m' = store m' |` {next_addr m..}"

text \<open>
  The law of a copy: what could be read in the original can be read in the copy, even when only the
  memory that was allocated by the copy is left; and no cell that existed has changed.
\<close>

definition copies :: "('c heap \<Rightarrow> 'x \<Rightarrow> 'v option) \<Rightarrow> ('x \<Rightarrow> ('c memory, 'x) state) \<Rightarrow> bool" where
  "copies view cp \<longleftrightarrow> (\<forall>m x v y m'. mem_wf m \<longrightarrow> view (store m) x = Some v \<longrightarrow> run_state (cp x) m = (y, m') \<longrightarrow>
     extends m m' \<and> view (fresh m m') y = Some v)"

lemma copiesD:
  "copies view cp \<Longrightarrow> mem_wf m \<Longrightarrow> view (store m) x = Some v \<Longrightarrow> run_state (cp x) m = (y, m') \<Longrightarrow>
     extends m m' \<and> view (fresh m m') y = Some v"
  by (simp add: copies_def)

lemma extends_refl: "mem_wf m \<Longrightarrow> extends m m"
  by (simp add: extends_def)

lemma extends_trans: "extends m m1 \<Longrightarrow> extends m1 m2 \<Longrightarrow> extends m m2"
  by (auto simp: extends_def)

lemma extends_wf: "extends m m' \<Longrightarrow> mem_wf m'"
  by (simp add: extends_def)

lemma extends_le: "extends m m' \<Longrightarrow> next_addr m \<le> next_addr m'"
  by (simp add: extends_def)

lemma mem_wf_None: "mem_wf m \<Longrightarrow> next_addr m \<le> a \<Longrightarrow> store m a = None"
  by (force simp: mem_wf_def dom_def)

lemma extends_store: "mem_wf m \<Longrightarrow> extends m m' \<Longrightarrow> store m \<subseteq>\<^sub>m store m'"
  unfolding map_le_def extends_def mem_wf_def by (auto simp: dom_def subset_iff)

lemma restrict_mono: "A \<subseteq> B \<Longrightarrow> h |` A \<subseteq>\<^sub>m h |` B"
  by (auto simp: map_le_def restrict_map_def split: if_splits)

lemma fresh_mono: "extends m m1 \<Longrightarrow> extends m1 m2 \<Longrightarrow> fresh m m1 \<subseteq>\<^sub>m fresh m m2"
  unfolding map_le_def fresh_def restrict_map_def
  by (force split: if_splits simp: extends_def mem_wf_def subset_iff dom_def)

lemma fresh_later: "extends m m1 \<Longrightarrow> fresh m1 m2 \<subseteq>\<^sub>m fresh m m2"
  unfolding fresh_def by (rule restrict_mono) (auto dest: extends_le)

lemma run_alloc [simp]:
  "run_state (alloc c) m = (next_addr m, m\<lparr>next_addr := Suc (next_addr m), store := (store m)(next_addr m \<mapsto> c)\<rparr>)"
  by (simp add: alloc_def)

lemma run_load [simp]:
  "run_state (load sel dflt a) m = (case read_cell sel (store m) a of None \<Rightarrow> dflt | Some x \<Rightarrow> x, m)"
  by (simp add: load_def read_cell_def)

lemma run_modify_cell [simp]:
  "store m a = Some c \<Longrightarrow> run_state (modify_cell a f) m = ((), m\<lparr>store := (store m)(a \<mapsto> f c)\<rparr>)"
  by (simp add: modify_cell_def)

lemma extends_alloc: "mem_wf m \<Longrightarrow> extends m (snd (run_state (alloc c) m))"
  by (auto simp: extends_def mem_wf_def)

lemma extends_modify:
  "extends m m' \<Longrightarrow> next_addr m \<le> a \<Longrightarrow> a < next_addr m' \<Longrightarrow> extends m (m'\<lparr>store := (store m')(a \<mapsto> c)\<rparr>)"
  by (auto simp: extends_def mem_wf_def)

section \<open>The combinators keep the law\<close>

text \<open>
  The loop, from a memory \<open>m\<close> that grew out of \<open>m0\<close> and has the new cell \<open>b\<close>: the elements that are
  written into \<open>b\<close> can be read in the memory beyond \<open>b\<close> alone.
\<close>

lemma copy_each_spec:
  assumes mono: "mono_reader view" and cp: "copies view cp" and wf: "mem_wf m0"
    and ext: "extends m0 m" and b: "next_addr m0 \<le> b" "b < next_addr m" "store m b = Some c"
    and xs: "list_all2 (\<lambda>x v. view (store m0) x = Some v) xs vs" and ks: "length ks = length xs"
    and run: "run_state (copy_each cp put b (zip ks xs)) m = (u, m')"
  shows "extends m0 m' \<and> next_addr m \<le> next_addr m' \<and> store m |` {Suc b..} \<subseteq>\<^sub>m store m' |` {Suc b..} \<and>
    (\<exists>ys. store m' b = Some (fold (\<lambda>(k, y). put k y) (zip ks ys) c) \<and>
       list_all2 (\<lambda>y v. view (store m' |` {Suc b..}) y = Some v) ys vs)"
  using ext b xs ks run
proof (induction xs arbitrary: ks vs m c)
  case Nil
  then show ?case by simp
next
  case (Cons x xs)
  from Cons.prems obtain k ks' where ks: "ks = k # ks'" "length ks' = length xs" by (cases ks) auto
  from Cons.prems obtain v vs' where vs: "vs = v # vs'" "view (store m0) x = Some v"
    "list_all2 (\<lambda>x v. view (store m0) x = Some v) xs vs'" by (cases vs) auto
  obtain y m1 where y: "run_state (cp x) m = (y, m1)" by (cases "run_state (cp x) m")
  have "view (store m) x = Some v"
    using mono_readerD [OF mono extends_store [OF wf Cons.prems(1)]] vs by blast
  from copiesD [OF cp extends_wf [OF Cons.prems(1)] this y]
  have m1: "extends m m1" and read: "view (fresh m m1) y = Some v" by auto
  have c1: "store m1 b = Some c" using m1 Cons.prems by (simp add: extends_def)
  let ?m2 = "m1\<lparr>store := (store m1)(b \<mapsto> put k y c)\<rparr>"
  have lt: "b < next_addr m1" using Cons.prems(3) extends_le [OF m1] by simp
  have "extends m0 ?m2"
    using extends_modify [OF extends_trans [OF Cons.prems(1) m1] Cons.prems(2) lt] .
  moreover have "run_state (copy_each cp put b (zip ks' xs)) ?m2 = (u, m')"
    using Cons.prems(7) by (simp add: ks y c1)
  ultimately have IH: "extends m0 m' \<and> next_addr ?m2 \<le> next_addr m' \<and> store ?m2 |` {Suc b..} \<subseteq>\<^sub>m store m' |` {Suc b..} \<and>
    (\<exists>ys. store m' b = Some (fold (\<lambda>(k, y). put k y) (zip ks' ys) (put k y c)) \<and>
       list_all2 (\<lambda>y v. view (store m' |` {Suc b..}) y = Some v) ys vs')"
    by (intro Cons.IH) (use Cons.prems(2) lt vs(3) ks(2) in simp_all)
  have m2: "store ?m2 |` {Suc b..} = store m1 |` {Suc b..}" by (auto simp: restrict_map_def fun_eq_iff)
  have "store m |` {Suc b..} \<subseteq>\<^sub>m store m1 |` {Suc b..}"
    using extends_store [OF extends_wf [OF Cons.prems(1)] m1] by (auto simp: map_le_def restrict_map_def dom_def split: if_splits)
  then have le: "store m |` {Suc b..} \<subseteq>\<^sub>m store m' |` {Suc b..}"
    using IH m2 map_le_trans by metis
  have "fresh m m1 \<subseteq>\<^sub>m store m1 |` {Suc b..}"
    unfolding fresh_def by (rule restrict_mono) (use Cons.prems(3) in auto)
  then have "view (store m' |` {Suc b..}) y = Some v"
    using IH m2 mono_readerD [OF mono _ read] map_le_trans by metis
  moreover from IH obtain ys where "store m' b = Some (fold (\<lambda>(k, y). put k y) (zip ks' ys) (put k y c))"
    "list_all2 (\<lambda>y v. view (store m' |` {Suc b..}) y = Some v) ys vs'" by auto
  ultimately show ?case
    using IH le extends_le [OF m1] by (auto simp: ks(1) vs(1) intro!: exI [of _ "y # ys"])
qed

lemma fold_put_elem:
  assumes "\<And>xs. sel (mk xs) = Some xs" "length zs = length ys"
  shows "fold (\<lambda>(k, y). put_elem mk sel k y) (zip [length ps..<length ps + length ys] ys) (mk (ps @ zs)) = mk (ps @ ys)"
  using assms(2)
proof (induction ys arbitrary: ps zs)
  case (Cons y ys)
  then obtain z zs' where zs: "zs = z # zs'" "length zs' = length ys" by (cases zs) auto
  have "put_elem mk sel (length ps) y (mk (ps @ zs)) = mk ((ps @ [y]) @ zs')"
    by (simp add: put_elem_def assms(1) zs)
  with Cons.IH [OF zs(2), of "ps @ [y]"] show ?case by (simp add: upt_rec)
qed simp

lemma copies_slice:
  assumes mono: "mono_reader view" and cp: "copies view cp" and sel: "\<And>xs. sel (mk xs) = Some xs"
  shows "copies (read_slice sel view) (copy_slice mk sel zero cp)"
  unfolding copies_def
proof (intro allI impI)
  fix m s w s' m'
  assume wf: "mem_wf m" and r: "read_slice sel view (store m) s = Some w"
    and run: "run_state (copy_slice mk sel zero cp s) m = (s', m')"
  show "extends m m' \<and> read_slice sel view (fresh m m') s' = Some w"
  proof (cases s)
    case NilSlice
    with run r wf show ?thesis by (simp add: copy_slice_def read_slice_def extends_refl)
  next
    case (Slice a off n)
    with r obtain xs vs where x: "read_cell sel (store m) a = Some xs" "off + n \<le> length xs"
      "map (view (store m)) (slice_range off n xs) = map Some vs" "w = Some vs"
      by (auto simp: read_slice_def bind_eq_Some_conv those_eq_Some_iff split: if_splits)
    let ?xs = "slice_range off n xs" let ?b = "next_addr m"
    have len: "length ?xs = n" "length vs = n"
      using x(2,3) by (auto simp: slice_range_def dest: map_eq_imp_length_eq)
    obtain m1 where m1: "run_state (alloc (mk (replicate n zero))) m = (?b, m1)" by simp
    have ext: "extends m m1" using extends_alloc [OF wf, of "mk (replicate n zero)"] m1 by simp
    have new: "?b < next_addr m1" "store m1 ?b = Some (mk (replicate n zero))" using m1 by auto
    obtain m2 where loop: "run_state (copy_each cp (put_elem mk sel) ?b (zip [0..<n] ?xs)) m1 = ((), m2)"
      by (cases "run_state (copy_each cp (put_elem mk sel) ?b (zip [0..<n] ?xs)) m1") auto
    with run Slice x m1 have s': "s' = Slice ?b 0 n" "m' = m2"
      by (auto simp: copy_slice_def enumerate_eq_zip len)
    have "list_all2 (\<lambda>x v. view (store m) x = Some v) ?xs vs"
      using x(3) by (auto simp: list_all2_conv_all_nth list_eq_iff_nth_eq)
    from copy_each_spec [OF mono cp wf ext _ new this _ loop] len
    obtain ys where ys: "extends m m2" "store m2 ?b = Some (fold (\<lambda>(k, y). put_elem mk sel k y) (zip [0..<n] ys) (mk (replicate n zero)))"
      "list_all2 (\<lambda>y v. view (store m2 |` {Suc ?b..}) y = Some v) ys vs" by auto
    from ys(3) len have lys: "length ys = n" by (simp add: list_all2_lengthD)
    from fold_put_elem [of sel mk "replicate n zero" ys "[]", OF sel] lys ys(2)
    have cell: "store m2 ?b = Some (mk ys)" by simp
    have "store m2 |` {Suc ?b..} \<subseteq>\<^sub>m fresh m m2" unfolding fresh_def by (rule restrict_mono) auto
    with ys(3) have "map (view (fresh m m2)) ys = map Some vs"
      by (auto simp: list_all2_conv_all_nth list_eq_iff_nth_eq intro: mono_readerD [OF mono])
    moreover have "read_cell sel (fresh m m2) ?b = Some ys"
      by (simp add: read_cell_def fresh_def cell sel)
    ultimately show ?thesis
      using ys(1) lys x(4) by (simp add: s' read_slice_def those_eq_Some_iff slice_range_def)
  qed
qed

lemma fold_put_entry:
  assumes "\<And>f. sel (mk f) = Some f" "distinct (map fst kys)"
  shows "fold (\<lambda>(k, y). put_entry mk sel k y) kys (mk f) = mk (f ++\<^sub>f fmap_of_list kys)"
  using assms(2)
proof (induction kys arbitrary: f)
  case (Cons ky kys)
  obtain k y where ky: "ky = (k, y)" by (cases ky)
  with Cons.prems have "map_of kys k = None" by (auto simp: map_of_eq_None_iff)
  then have "fmupd k y f ++\<^sub>f fmap_of_list kys = f ++\<^sub>f fmap_of_list (ky # kys)"
    by (intro fmap_ext) (auto simp: ky map_of_eq_None_iff fset_of_list_elem split: option.splits)
  with Cons.IH [of "fmupd k y f"] Cons.prems show ?case
    by (simp add: ky put_entry_def assms(1))
qed simp

lemma read_entries_fmupd:
  assumes "view h y = Some v" "read_entries view h m = Some g"
  shows "read_entries view h (fmupd k y m) = Some (fmupd k v g)"
  unfolding read_entries_Some_iff
proof
  fix j
  from assms(2) have "case fmlookup m j of None \<Rightarrow> fmlookup g j = None | Some x \<Rightarrow> fmlookup g j \<noteq> None \<and> view h x = fmlookup g j"
    unfolding read_entries_Some_iff by blast
  with assms(1) show "case fmlookup (fmupd k y m) j of None \<Rightarrow> fmlookup (fmupd k v g) j = None
      | Some x \<Rightarrow> fmlookup (fmupd k v g) j \<noteq> None \<and> view h x = fmlookup (fmupd k v g) j"
    by (auto split: option.splits)
qed

lemma read_entries_zip:
  assumes "list_all2 (\<lambda>y v. view h y = Some v) ys vs" "length ks = length ys"
  shows "read_entries view h (fmap_of_list (zip ks ys)) = Some (fmap_of_list (zip ks vs))"
  using assms
proof (induction ys vs arbitrary: ks rule: list_all2_induct)
  case (Cons y ys v vs)
  then obtain k ks' where "ks = k # ks'" "length ks' = length ys" by (cases ks) auto
  with Cons show ?case by (simp add: read_entries_fmupd)
qed (simp add: read_entries_Some_iff)

lemma read_entries_order:
  assumes "read_entries view h (fmap_of_list kxs) = Some g" "distinct (map fst kxs)"
  shows "list_all2 (\<lambda>x v. view h x = Some v) (map snd kxs) (map (\<lambda>x. the (view h x)) (map snd kxs))"
    and "g = fmap_of_list (zip (map fst kxs) (map (\<lambda>x. the (view h x)) (map snd kxs)))"
proof -
  have "view h (snd kx) \<noteq> None" if "kx \<in> set kxs" for kx
    using read_entriesD(2) [OF assms(1), of "fst kx" "snd kx"] that assms(2) by simp
  then show all: "list_all2 (\<lambda>x v. view h x = Some v) (map snd kxs) (map (\<lambda>x. the (view h x)) (map snd kxs))"
    by (auto simp: list_all2_conv_all_nth)
  from read_entries_zip [of view h "map snd kxs" "map (\<lambda>x. the (view h x)) (map snd kxs)" "map fst kxs", OF all] assms(1)
  show "g = fmap_of_list (zip (map fst kxs) (map (\<lambda>x. the (view h x)) (map snd kxs)))"
    by (simp add: zip_map_fst_snd)
qed

lemma copies_map:
  assumes mono: "mono_reader view" and cp: "copies view cp" and sel: "\<And>f. sel (mk f) = Some f"
    and order: "\<And>f. distinct (map fst (order f)) \<and> fmap_of_list (order f) = f"
  shows "copies (read_map sel view) (copy_map mk sel order cp)"
  unfolding copies_def
proof (intro allI impI)
  fix m p w p' m'
  assume wf: "mem_wf m" and r: "read_map sel view (store m) p = Some w"
    and run: "run_state (copy_map mk sel order cp p) m = (p', m')"
  show "extends m m' \<and> read_map sel view (fresh m m') p' = Some w"
  proof (cases p)
    case None
    with run r wf show ?thesis by (simp add: copy_map_def read_map_def extends_refl)
  next
    case (Some a)
    with r obtain f g where f: "read_cell sel (store m) a = Some f" "read_entries view (store m) f = Some g" "w = Some g"
      by (auto simp: read_map_def bind_eq_Some_conv)
    let ?b = "next_addr m" and ?ks = "map fst (order f)" and ?xs = "map snd (order f)"
    let ?vs = "map (\<lambda>x. the (view (store m) x)) ?xs"
    have "read_entries view (store m) (fmap_of_list (order f)) = Some g" using f(2) order by simp
    note read = read_entries_order [OF this conjunct1 [OF order]]
    obtain m1 where m1: "run_state (alloc (mk fmempty)) m = (?b, m1)" by simp
    have ext: "extends m m1" using extends_alloc [OF wf, of "mk fmempty"] m1 by simp
    have new: "?b < next_addr m1" "store m1 ?b = Some (mk fmempty)" using m1 by auto
    obtain m2 where loop: "run_state (copy_each cp (put_entry mk sel) ?b (zip ?ks ?xs)) m1 = ((), m2)"
      by (cases "run_state (copy_each cp (put_entry mk sel) ?b (zip ?ks ?xs)) m1") auto
    with run Some m1 f(1) have p': "p' = Some ?b" "m' = m2" by (auto simp: copy_map_def zip_map_fst_snd)
    from copy_each_spec [OF mono cp wf ext _ new read(1) _ loop]
    obtain ys where ys: "extends m m2"
      "store m2 ?b = Some (fold (\<lambda>(k, y). put_entry mk sel k y) (zip ?ks ys) (mk fmempty))"
      "list_all2 (\<lambda>y v. view (store m2 |` {Suc ?b..}) y = Some v) ys ?vs" by auto
    have lys: "length ?ks = length ys" using list_all2_lengthD [OF ys(3)] by simp
    then have "distinct (map fst (zip ?ks ys))" using order [of f] by simp
    from fold_put_entry [of sel mk _ fmempty, OF sel this] ys(2)
    have cell: "read_cell sel (fresh m m2) ?b = Some (fmap_of_list (zip ?ks ys))"
      by (simp add: read_cell_def fresh_def sel)
    have "store m2 |` {Suc ?b..} \<subseteq>\<^sub>m fresh m m2" unfolding fresh_def by (rule restrict_mono) auto
    then have "list_all2 (\<lambda>y v. view (fresh m m2) y = Some v) ys ?vs"
      using ys(3) by (auto elim!: list_all2_mono intro: mono_readerD [OF mono])
    from read_entries_zip [of view "fresh m m2" ys ?vs ?ks, OF this lys] show ?thesis
      using ys(1) f(3) cell read(2) by (simp add: p' read_map_def)
  qed
qed

lemma copies_plain: "copies read_plain ret"
  by (auto simp: copies_def extends_refl)

lemma copies_pointer:
  assumes mono: "mono_reader view" and cp: "copies view cp" and sel: "\<And>x. sel (mk x) = Some x"
  shows "copies (read_pointer sel view) (copy_pointer mk sel zero cp)"
  unfolding copies_def
proof (intro allI impI)
  fix m p w p' m'
  assume wf: "mem_wf m" and r: "read_pointer sel view (store m) p = Some w"
    and run: "run_state (copy_pointer mk sel zero cp p) m = (p', m')"
  show "extends m m' \<and> read_pointer sel view (fresh m m') p' = Some w"
  proof (cases p)
    case None
    with run r wf show ?thesis by (simp add: copy_pointer_def read_pointer_def extends_refl)
  next
    case (Some a)
    with r obtain x v where x: "read_cell sel (store m) a = Some x" "view (store m) x = Some v" "w = Some v"
      by (auto simp: read_pointer_def bind_eq_Some_conv)
    let ?b = "next_addr m"
    obtain m1 where m1: "run_state (alloc (mk zero)) m = (?b, m1)" by simp
    have ext: "extends m m1" using extends_alloc [OF wf, of "mk zero"] m1 by simp
    obtain y m2 where y: "run_state (cp x) m1 = (y, m2)" by (cases "run_state (cp x) m1")
    have "view (store m1) x = Some v" using mono_readerD [OF mono extends_store [OF wf ext] x(2)] .
    from copiesD [OF cp extends_wf [OF ext] this y]
    have m2: "extends m1 m2" and v: "view (fresh m1 m2) y = Some v" by auto
    have lt: "?b < next_addr m2" "next_addr m1 = Suc ?b" using extends_le [OF m2] m1 by auto
    have "store m2 ?b = Some (mk zero)" using m1 m2 by (auto simp: extends_def)
    with run Some x(1) m1 y have p': "p' = Some ?b" "m' = m2\<lparr>store := (store m2)(?b \<mapsto> mk y)\<rparr>"
      by (auto simp: copy_pointer_def)
    have "fresh m1 m2 \<subseteq>\<^sub>m fresh m m'"
      unfolding p' fresh_def using lt by (auto simp: map_le_def restrict_map_def dom_def)
    from mono_readerD [OF mono this v] have "view (fresh m m') y = Some v" .
    moreover have "read_cell sel (fresh m m') ?b = Some y"
      by (simp add: read_cell_def fresh_def p' sel)
    moreover have "extends m m'"
      unfolding p' using extends_modify [OF extends_trans [OF ext m2] _ lt(1)] by simp
    ultimately show ?thesis by (simp add: p'(1) read_pointer_def x(3))
  qed
qed

section \<open>Structs\<close>

text \<open>
  \<open>copying m0 c Q m\<close>: run from \<open>m\<close>, which grew out of \<open>m0\<close>, the computation \<open>c\<close> changes nothing that
  existed in \<open>m0\<close>, and its result satisfies \<open>Q\<close> in every heap that has what was allocated since \<open>m0\<close>.
\<close>

definition copying :: "'c memory \<Rightarrow> ('c memory, 'a) state \<Rightarrow> ('c heap \<Rightarrow> 'a \<Rightarrow> bool) \<Rightarrow> 'c memory \<Rightarrow> bool" where
  "copying m0 c Q m \<longleftrightarrow> (extends m0 m \<longrightarrow> (case run_state c m of (y, m') \<Rightarrow>
     extends m0 m' \<and> fresh m0 m \<subseteq>\<^sub>m fresh m0 m' \<and> (\<forall>h. fresh m0 m' \<subseteq>\<^sub>m h \<longrightarrow> Q h y)))"

lemma copying_ret: "(\<And>h. Q h y) \<Longrightarrow> copying m0 (ret y) Q m"
  by (simp add: copying_def)

lemma copying_bind:
  assumes "mono_reader view" "copies view cp" "mem_wf m0" "view (store m0) x = Some v"
    and "\<And>y m'. copying m0 (k y) (\<lambda>h z. view h y = Some v \<longrightarrow> Q h z) m'"
  shows "copying m0 (State_Monad.bind (cp x) k) Q m"
  unfolding copying_def
proof
  assume ext: "extends m0 m"
  obtain y m1 where y: "run_state (cp x) m = (y, m1)" by (cases "run_state (cp x) m")
  have "view (store m) x = Some v" using mono_readerD [OF assms(1) extends_store [OF assms(3) ext] assms(4)] .
  from copiesD [OF assms(2) extends_wf [OF ext] this y]
  have m1: "extends m m1" "view (fresh m m1) y = Some v" by auto
  have ext1: "extends m0 m1" using extends_trans [OF ext m1(1)] .
  obtain z m2 where z: "run_state (k y) m1 = (z, m2)" by (cases "run_state (k y) m1")
  with assms(5) [of y m1] ext1 have m2: "extends m0 m2" "fresh m0 m1 \<subseteq>\<^sub>m fresh m0 m2"
    "\<And>h. fresh m0 m2 \<subseteq>\<^sub>m h \<Longrightarrow> view h y = Some v \<Longrightarrow> Q h z" by (auto simp: copying_def)
  have "fresh m0 m \<subseteq>\<^sub>m fresh m0 m2" using fresh_mono [OF ext m1(1)] m2(2) map_le_trans by metis
  moreover have "Q h z" if "fresh m0 m2 \<subseteq>\<^sub>m h" for h
  proof (rule m2(3) [OF that])
    have "fresh m m1 \<subseteq>\<^sub>m h" using fresh_later [OF ext, of m1] m2(2) that map_le_trans by metis
    then show "view h y = Some v" using mono_readerD [OF assms(1) _ m1(2)] by blast
  qed
  ultimately show "case run_state (State_Monad.bind (cp x) k) m of (y, m') \<Rightarrow>
      extends m0 m' \<and> fresh m0 m \<subseteq>\<^sub>m fresh m0 m' \<and> (\<forall>h. fresh m0 m' \<subseteq>\<^sub>m h \<longrightarrow> Q h y)"
    using m2(1) by (simp add: y z)
qed

lemma copiesI:
  assumes "\<And>m x v. mem_wf m \<Longrightarrow> view (store m) x = Some v \<Longrightarrow> copying m (cp x) (\<lambda>h y. view h y = Some v) m"
  shows "copies view cp"
  unfolding copies_def
proof (intro allI impI)
  fix m x v y m'
  assume "mem_wf m" "view (store m) x = Some v" "run_state (cp x) m = (y, m')"
  with assms [of m x v] show "extends m m' \<and> view (fresh m m') y = Some v"
    by (auto simp: copying_def extends_refl)
qed

lemma copies_map_option:
  assumes "copies view cp"
  shows "copies (\<lambda>h x. map_option f (view h x)) cp"
  using assms unfolding copies_def by fastforce

end
