(* ===== verification/Deep_Copies.thy ===== *)
theory Deep_Copies
  imports Go_Memory Policy_Types Policy_Server_Types "HOL-Library.List_Lexorder" "HOL-Library.Char_ord"
begin

text \<open>
  The generated deep copies of the custom resources (\<open>apis/policies/v1/zz_generated.deepcopy.go\<close>) and
  \<open>CopyInto\<close>, on the structs as they lie in memory: a record per struct, a pointer, slice or map being
  a reference.  A reader gives the value of \<open>Policy_Types\<close> or \<open>Policy_Server_Types\<close> that a struct in
  memory stands for.

  A function \<open>DeepCopyInto(out)\<close> returns the struct it leaves in \<open>out\<close>.  The structs of the
  Kubernetes API are opaque (\<open>'o\<close>): their deep copies and readers are parameters (\<open>lib_structs\<close>),
  with the contract of a deep copy as hypothesis (\<open>lib_structs_law\<close>).
\<close>

section \<open>The structs in memory\<close>

record ListMeta =
  lmResourceVersion :: string
  lmContinue :: string

record 'o MPolicySpec =
  mPolicyServer :: string
  mModule :: string
  mMode :: PolicyMode
  mSettings :: 'o
  mRules :: mslice
  mFailurePolicy :: reference
  mMutating :: bool
  mMatchPolicy :: reference
  mObjectSelector :: reference
  mSideEffects :: reference
  mTimeoutSeconds :: reference

record 'o MClusterAdmissionPolicySpec =
  mcapPolicySpec :: "'o MPolicySpec"
  mcapNamespaceSelector :: reference

record 'o MAdmissionPolicySpec =
  mapPolicySpec :: "'o MPolicySpec"

record MPolicyStatus =
  mPolicyStatus :: PolicyStatusEnum
  mPolicyMode :: PolicyModeStatus
  mConditions :: mslice

record 'o MClusterAdmissionPolicy =
  mcapTypeMeta :: TypeMeta
  mcapObjectMeta :: 'o
  mcapSpec :: "'o MClusterAdmissionPolicySpec"
  mcapStatus :: MPolicyStatus

record 'o MAdmissionPolicy =
  mapTypeMeta :: TypeMeta
  mapObjectMeta :: 'o
  mapSpec :: "'o MAdmissionPolicySpec"
  mapStatus :: MPolicyStatus

record MPolicyServerSpec =
  mpsImage :: string
  mpsReplicas :: int32
  mpsAnnotations :: reference
  mpsEnv :: mslice
  mpsServiceAccountName :: string
  mpsImagePullSecret :: string
  mpsInsecureSources :: mslice
  mpsSourceAuthorities :: reference
  mpsVerificationConfig :: string

record MPolicyServerStatus =
  mpsConditions :: mslice

record 'o MPolicyServer =
  mpsTypeMeta :: TypeMeta
  mpsObjectMeta :: 'o
  mpsSpec :: MPolicyServerSpec
  mpsStatus :: MPolicyServerStatus

text \<open>A list of objects: the struct is the same for the three kinds but for the type of the items.\<close>

record 'o MObjectList =
  mlTypeMeta :: TypeMeta
  mlListMeta :: 'o
  mlItems :: mslice

type_synonym 'o MClusterAdmissionPolicyList = "'o MObjectList"
type_synonym 'o MAdmissionPolicyList = "'o MObjectList"

section \<open>The cells\<close>

datatype 'o cell =
    CString string
  | CInt32 int32
  | CStrings "string list"
  | CStringMap "(string, string) fmap"
  | CSliceMap "(string, mslice) fmap"
  | CStruct 'o
  | CStructs "'o list"
  | CPolicySpec "'o MPolicySpec"
  | CPolicyStatus MPolicyStatus
  | CClusterAdmissionPolicySpec "'o MClusterAdmissionPolicySpec"
  | CClusterAdmissionPolicy "'o MClusterAdmissionPolicy"
  | CClusterAdmissionPolicies "'o MClusterAdmissionPolicy list"
  | CAdmissionPolicySpec "'o MAdmissionPolicySpec"
  | CAdmissionPolicy "'o MAdmissionPolicy"
  | CAdmissionPolicies "'o MAdmissionPolicy list"
  | CPolicyServerSpec MPolicyServerSpec
  | CPolicyServerStatus MPolicyServerStatus
  | CPolicyServer "'o MPolicyServer"
  | CPolicyServers "'o MPolicyServer list"
  | CObjectList "'o MObjectList"

fun as_string :: "'o cell \<Rightarrow> string option" where "as_string (CString x) = Some x" | "as_string _ = None"
fun as_int32 :: "'o cell \<Rightarrow> int32 option" where "as_int32 (CInt32 x) = Some x" | "as_int32 _ = None"
fun as_strings :: "'o cell \<Rightarrow> string list option" where "as_strings (CStrings x) = Some x" | "as_strings _ = None"
fun as_string_map :: "'o cell \<Rightarrow> (string, string) fmap option" where
  "as_string_map (CStringMap x) = Some x" | "as_string_map _ = None"
fun as_slice_map :: "'o cell \<Rightarrow> (string, mslice) fmap option" where
  "as_slice_map (CSliceMap x) = Some x" | "as_slice_map _ = None"
fun as_struct :: "'o cell \<Rightarrow> 'o option" where "as_struct (CStruct x) = Some x" | "as_struct _ = None"
fun as_structs :: "'o cell \<Rightarrow> 'o list option" where "as_structs (CStructs x) = Some x" | "as_structs _ = None"
fun as_policy_spec :: "'o cell \<Rightarrow> 'o MPolicySpec option" where
  "as_policy_spec (CPolicySpec x) = Some x" | "as_policy_spec _ = None"
fun as_policy_status :: "'o cell \<Rightarrow> MPolicyStatus option" where
  "as_policy_status (CPolicyStatus x) = Some x" | "as_policy_status _ = None"
fun as_cap_spec :: "'o cell \<Rightarrow> 'o MClusterAdmissionPolicySpec option" where
  "as_cap_spec (CClusterAdmissionPolicySpec x) = Some x" | "as_cap_spec _ = None"
fun as_cap :: "'o cell \<Rightarrow> 'o MClusterAdmissionPolicy option" where
  "as_cap (CClusterAdmissionPolicy x) = Some x" | "as_cap _ = None"
fun as_caps :: "'o cell \<Rightarrow> 'o MClusterAdmissionPolicy list option" where
  "as_caps (CClusterAdmissionPolicies x) = Some x" | "as_caps _ = None"
fun as_ap_spec :: "'o cell \<Rightarrow> 'o MAdmissionPolicySpec option" where
  "as_ap_spec (CAdmissionPolicySpec x) = Some x" | "as_ap_spec _ = None"
fun as_ap :: "'o cell \<Rightarrow> 'o MAdmissionPolicy option" where
  "as_ap (CAdmissionPolicy x) = Some x" | "as_ap _ = None"
fun as_aps :: "'o cell \<Rightarrow> 'o MAdmissionPolicy list option" where
  "as_aps (CAdmissionPolicies x) = Some x" | "as_aps _ = None"
fun as_ps_spec :: "'o cell \<Rightarrow> MPolicyServerSpec option" where
  "as_ps_spec (CPolicyServerSpec x) = Some x" | "as_ps_spec _ = None"
fun as_ps_status :: "'o cell \<Rightarrow> MPolicyServerStatus option" where
  "as_ps_status (CPolicyServerStatus x) = Some x" | "as_ps_status _ = None"
fun as_ps :: "'o cell \<Rightarrow> 'o MPolicyServer option" where
  "as_ps (CPolicyServer x) = Some x" | "as_ps _ = None"
fun as_pss :: "'o cell \<Rightarrow> 'o MPolicyServer list option" where
  "as_pss (CPolicyServers x) = Some x" | "as_pss _ = None"
fun as_object_list :: "'o cell \<Rightarrow> 'o MObjectList option" where
  "as_object_list (CObjectList x) = Some x" | "as_object_list _ = None"

section \<open>The structs of the libraries\<close>

type_synonym ('o, 'x) copier = "'x \<Rightarrow> ('o cell memory, 'x) state"
type_synonym ('o, 'x, 'v) mreader = "'o cell heap \<Rightarrow> 'x \<Rightarrow> 'v option"

record 'o lib_structs =
  RawExtension_DeepCopyInto :: "('o, 'o) copier"
  ObjectMeta_DeepCopyInto :: "('o, 'o) copier"
  ListMeta_DeepCopyInto :: "('o, 'o) copier"
  LabelSelector_DeepCopyInto :: "('o, 'o) copier"
  RuleWithOperations_DeepCopyInto :: "('o, 'o) copier"
  EnvVar_DeepCopyInto :: "('o, 'o) copier"
  Condition_DeepCopyInto :: "('o, 'o) copier"
  read_RawExtension :: "('o, 'o, RawExtension) mreader"
  read_ObjectMeta :: "('o, 'o, ObjectMeta) mreader"
  read_ListMeta :: "('o, 'o, ListMeta) mreader"
  read_LabelSelector :: "('o, 'o, LabelSelector) mreader"
  read_RuleWithOperations :: "('o, 'o, RuleWithOperations) mreader"
  read_EnvVar :: "('o, 'o, EnvVar) mreader"
  read_Condition :: "('o, 'o, Condition) mreader"
  zero_struct :: 'o
  range_strings :: "(string, string) fmap \<Rightarrow> (string \<times> string) list"
  range_slices :: "(string, mslice) fmap \<Rightarrow> (string \<times> mslice) list"

definition deep_copier :: "('o, 'x, 'v) mreader \<Rightarrow> ('o, 'x) copier \<Rightarrow> bool" where
  "deep_copier view cp \<longleftrightarrow> mono_reader view \<and> copies view cp"

definition lists_entries :: "((string, 'x) fmap \<Rightarrow> (string \<times> 'x) list) \<Rightarrow> bool" where
  "lists_entries order \<longleftrightarrow> (\<forall>f. distinct (map fst (order f)) \<and> fmap_of_list (order f) = f)"

definition lib_structs_law :: "'o lib_structs \<Rightarrow> bool" where
  "lib_structs_law L \<longleftrightarrow>
     deep_copier (read_RawExtension L) (RawExtension_DeepCopyInto L) \<and>
     deep_copier (read_ObjectMeta L) (ObjectMeta_DeepCopyInto L) \<and>
     deep_copier (read_ListMeta L) (ListMeta_DeepCopyInto L) \<and>
     deep_copier (read_LabelSelector L) (LabelSelector_DeepCopyInto L) \<and>
     deep_copier (read_RuleWithOperations L) (RuleWithOperations_DeepCopyInto L) \<and>
     deep_copier (read_EnvVar L) (EnvVar_DeepCopyInto L) \<and>
     deep_copier (read_Condition L) (Condition_DeepCopyInto L) \<and>
     lists_entries (range_strings L) \<and> lists_entries (range_slices L)"

section \<open>Deep copies of the specs and the statuses\<close>

abbreviation copy_string_pointer :: "reference \<Rightarrow> ('o cell memory, reference) state" where
  "copy_string_pointer \<equiv> copy_pointer CString as_string '''' ret"

abbreviation copy_strings :: "mslice \<Rightarrow> ('o cell memory, mslice) state" where
  "copy_strings \<equiv> copy_slice CStrings as_strings '''' ret"

abbreviation copy_structs :: "'o lib_structs \<Rightarrow> ('o, 'o) copier \<Rightarrow> mslice \<Rightarrow> ('o cell memory, mslice) state" where
  "copy_structs L \<equiv> copy_slice CStructs as_structs (zero_struct L)"

abbreviation copy_selector_pointer :: "'o lib_structs \<Rightarrow> reference \<Rightarrow> ('o cell memory, reference) state" where
  "copy_selector_pointer L \<equiv> copy_pointer CStruct as_struct (zero_struct L) (LabelSelector_DeepCopyInto L)"

definition PolicySpec_DeepCopyInto :: "'o lib_structs \<Rightarrow> ('o, 'o MPolicySpec) copier" where
  "PolicySpec_DeepCopyInto L inn = do {
     let out = inn;
     settings \<leftarrow> RawExtension_DeepCopyInto L (mSettings inn);
     let out = out\<lparr>mSettings := settings\<rparr>;
     rules \<leftarrow> copy_structs L (RuleWithOperations_DeepCopyInto L) (mRules inn);
     let out = out\<lparr>mRules := rules\<rparr>;
     failurePolicy \<leftarrow> copy_string_pointer (mFailurePolicy inn);
     let out = out\<lparr>mFailurePolicy := failurePolicy\<rparr>;
     matchPolicy \<leftarrow> copy_string_pointer (mMatchPolicy inn);
     let out = out\<lparr>mMatchPolicy := matchPolicy\<rparr>;
     objectSelector \<leftarrow> copy_selector_pointer L (mObjectSelector inn);
     let out = out\<lparr>mObjectSelector := objectSelector\<rparr>;
     sideEffects \<leftarrow> copy_string_pointer (mSideEffects inn);
     let out = out\<lparr>mSideEffects := sideEffects\<rparr>;
     timeoutSeconds \<leftarrow> copy_pointer CInt32 as_int32 0 ret (mTimeoutSeconds inn);
     let out = out\<lparr>mTimeoutSeconds := timeoutSeconds\<rparr>;
     ret out
   }"

definition PolicyStatus_DeepCopyInto :: "'o lib_structs \<Rightarrow> ('o, MPolicyStatus) copier" where
  "PolicyStatus_DeepCopyInto L inn = do {
     let out = inn;
     conditions \<leftarrow> copy_structs L (Condition_DeepCopyInto L) (mConditions inn);
     let out = out\<lparr>mConditions := conditions\<rparr>;
     ret out
   }"

definition ClusterAdmissionPolicySpec_DeepCopyInto :: "'o lib_structs \<Rightarrow> ('o, 'o MClusterAdmissionPolicySpec) copier" where
  "ClusterAdmissionPolicySpec_DeepCopyInto L inn = do {
     let out = inn;
     policySpec \<leftarrow> PolicySpec_DeepCopyInto L (mcapPolicySpec inn);
     let out = out\<lparr>mcapPolicySpec := policySpec\<rparr>;
     namespaceSelector \<leftarrow> copy_selector_pointer L (mcapNamespaceSelector inn);
     let out = out\<lparr>mcapNamespaceSelector := namespaceSelector\<rparr>;
     ret out
   }"

definition AdmissionPolicySpec_DeepCopyInto :: "'o lib_structs \<Rightarrow> ('o, 'o MAdmissionPolicySpec) copier" where
  "AdmissionPolicySpec_DeepCopyInto L inn = do {
     let out = inn;
     policySpec \<leftarrow> PolicySpec_DeepCopyInto L (mapPolicySpec inn);
     let out = out\<lparr>mapPolicySpec := policySpec\<rparr>;
     ret out
   }"

text \<open>
  One entry of the source authorities.  The variable that holds the copy stays nil unless the value
  is not nil; the code stores it in both cases.
\<close>

definition copy_source_authority :: "mslice \<Rightarrow> ('o cell memory, mslice) state" where
  "copy_source_authority val = (if val = NilSlice then ret NilSlice else copy_strings val)"

definition PolicyServerSpec_DeepCopyInto :: "'o lib_structs \<Rightarrow> ('o, MPolicyServerSpec) copier" where
  "PolicyServerSpec_DeepCopyInto L inn = do {
     let out = inn;
     annotations \<leftarrow> copy_map CStringMap as_string_map (range_strings L) ret (mpsAnnotations inn);
     let out = out\<lparr>mpsAnnotations := annotations\<rparr>;
     env \<leftarrow> copy_structs L (EnvVar_DeepCopyInto L) (mpsEnv inn);
     let out = out\<lparr>mpsEnv := env\<rparr>;
     insecureSources \<leftarrow> copy_strings (mpsInsecureSources inn);
     let out = out\<lparr>mpsInsecureSources := insecureSources\<rparr>;
     sourceAuthorities \<leftarrow> copy_map CSliceMap as_slice_map (range_slices L) copy_source_authority (mpsSourceAuthorities inn);
     let out = out\<lparr>mpsSourceAuthorities := sourceAuthorities\<rparr>;
     ret out
   }"

definition PolicyServerStatus_DeepCopyInto :: "'o lib_structs \<Rightarrow> ('o, MPolicyServerStatus) copier" where
  "PolicyServerStatus_DeepCopyInto L inn = do {
     let out = inn;
     conditions \<leftarrow> copy_structs L (Condition_DeepCopyInto L) (mpsConditions inn);
     let out = out\<lparr>mpsConditions := conditions\<rparr>;
     ret out
   }"

section \<open>Deep copies of the objects and the lists\<close>

definition ClusterAdmissionPolicy_DeepCopyInto :: "'o lib_structs \<Rightarrow> ('o, 'o MClusterAdmissionPolicy) copier" where
  "ClusterAdmissionPolicy_DeepCopyInto L inn = do {
     let out = inn;
     let out = out\<lparr>mcapTypeMeta := mcapTypeMeta inn\<rparr>;
     meta \<leftarrow> ObjectMeta_DeepCopyInto L (mcapObjectMeta inn);
     let out = out\<lparr>mcapObjectMeta := meta\<rparr>;
     spec \<leftarrow> ClusterAdmissionPolicySpec_DeepCopyInto L (mcapSpec inn);
     let out = out\<lparr>mcapSpec := spec\<rparr>;
     status \<leftarrow> PolicyStatus_DeepCopyInto L (mcapStatus inn);
     let out = out\<lparr>mcapStatus := status\<rparr>;
     ret out
   }"

definition AdmissionPolicy_DeepCopyInto :: "'o lib_structs \<Rightarrow> ('o, 'o MAdmissionPolicy) copier" where
  "AdmissionPolicy_DeepCopyInto L inn = do {
     let out = inn;
     let out = out\<lparr>mapTypeMeta := mapTypeMeta inn\<rparr>;
     meta \<leftarrow> ObjectMeta_DeepCopyInto L (mapObjectMeta inn);
     let out = out\<lparr>mapObjectMeta := meta\<rparr>;
     spec \<leftarrow> AdmissionPolicySpec_DeepCopyInto L (mapSpec inn);
     let out = out\<lparr>mapSpec := spec\<rparr>;
     status \<leftarrow> PolicyStatus_DeepCopyInto L (mapStatus inn);
     let out = out\<lparr>mapStatus := status\<rparr>;
     ret out
   }"

definition PolicyServer_DeepCopyInto :: "'o lib_structs \<Rightarrow> ('o, 'o MPolicyServer) copier" where
  "PolicyServer_DeepCopyInto L inn = do {
     let out = inn;
     let out = out\<lparr>mpsTypeMeta := mpsTypeMeta inn\<rparr>;
     meta \<leftarrow> ObjectMeta_DeepCopyInto L (mpsObjectMeta inn);
     let out = out\<lparr>mpsObjectMeta := meta\<rparr>;
     spec \<leftarrow> PolicyServerSpec_DeepCopyInto L (mpsSpec inn);
     let out = out\<lparr>mpsSpec := spec\<rparr>;
     status \<leftarrow> PolicyServerStatus_DeepCopyInto L (mpsStatus inn);
     let out = out\<lparr>mpsStatus := status\<rparr>;
     ret out
   }"

text \<open>The zero values that \<open>make\<close> puts into an array of objects.\<close>

definition zero_policy_spec :: "'o lib_structs \<Rightarrow> 'o MPolicySpec" where
  "zero_policy_spec L = \<lparr>mPolicyServer = '''', mModule = '''', mMode = '''', mSettings = zero_struct L, mRules = NilSlice,
     mFailurePolicy = None, mMutating = False, mMatchPolicy = None, mObjectSelector = None, mSideEffects = None,
     mTimeoutSeconds = None\<rparr>"

definition zero_policy_status :: MPolicyStatus where
  "zero_policy_status = \<lparr>mPolicyStatus = '''', mPolicyMode = '''', mConditions = NilSlice\<rparr>"

definition zero_cap :: "'o lib_structs \<Rightarrow> 'o MClusterAdmissionPolicy" where
  "zero_cap L = \<lparr>mcapTypeMeta = \<lparr>tmKind = '''', tmAPIVersion = ''''\<rparr>, mcapObjectMeta = zero_struct L,
     mcapSpec = \<lparr>mcapPolicySpec = zero_policy_spec L, mcapNamespaceSelector = None\<rparr>, mcapStatus = zero_policy_status\<rparr>"

definition zero_ap :: "'o lib_structs \<Rightarrow> 'o MAdmissionPolicy" where
  "zero_ap L = \<lparr>mapTypeMeta = \<lparr>tmKind = '''', tmAPIVersion = ''''\<rparr>, mapObjectMeta = zero_struct L,
     mapSpec = \<lparr>mapPolicySpec = zero_policy_spec L\<rparr>, mapStatus = zero_policy_status\<rparr>"

definition zero_ps :: "'o lib_structs \<Rightarrow> 'o MPolicyServer" where
  "zero_ps L = \<lparr>mpsTypeMeta = \<lparr>tmKind = '''', tmAPIVersion = ''''\<rparr>, mpsObjectMeta = zero_struct L,
     mpsSpec = \<lparr>mpsImage = '''', mpsReplicas = 0, mpsAnnotations = None, mpsEnv = NilSlice, mpsServiceAccountName = '''',
       mpsImagePullSecret = '''', mpsInsecureSources = NilSlice, mpsSourceAuthorities = None, mpsVerificationConfig = ''''\<rparr>,
     mpsStatus = \<lparr>mpsConditions = NilSlice\<rparr>\<rparr>"

definition ClusterAdmissionPolicyList_DeepCopyInto :: "'o lib_structs \<Rightarrow> ('o, 'o MClusterAdmissionPolicyList) copier" where
  "ClusterAdmissionPolicyList_DeepCopyInto L inn = do {
     let out = inn;
     let out = out\<lparr>mlTypeMeta := mlTypeMeta inn\<rparr>;
     meta \<leftarrow> ListMeta_DeepCopyInto L (mlListMeta inn);
     let out = out\<lparr>mlListMeta := meta\<rparr>;
     items \<leftarrow> copy_slice CClusterAdmissionPolicies as_caps (zero_cap L) (ClusterAdmissionPolicy_DeepCopyInto L) (mlItems inn);
     let out = out\<lparr>mlItems := items\<rparr>;
     ret out
   }"

definition AdmissionPolicyList_DeepCopyInto :: "'o lib_structs \<Rightarrow> ('o, 'o MAdmissionPolicyList) copier" where
  "AdmissionPolicyList_DeepCopyInto L inn = do {
     let out = inn;
     let out = out\<lparr>mlTypeMeta := mlTypeMeta inn\<rparr>;
     meta \<leftarrow> ListMeta_DeepCopyInto L (mlListMeta inn);
     let out = out\<lparr>mlListMeta := meta\<rparr>;
     items \<leftarrow> copy_slice CAdmissionPolicies as_aps (zero_ap L) (AdmissionPolicy_DeepCopyInto L) (mlItems inn);
     let out = out\<lparr>mlItems := items\<rparr>;
     ret out
   }"

definition PolicyServerList_DeepCopyInto :: "'o lib_structs \<Rightarrow> ('o, 'o MObjectList) copier" where
  "PolicyServerList_DeepCopyInto L inn = do {
     let out = inn;
     let out = out\<lparr>mlTypeMeta := mlTypeMeta inn\<rparr>;
     meta \<leftarrow> ListMeta_DeepCopyInto L (mlListMeta inn);
     let out = out\<lparr>mlListMeta := meta\<rparr>;
     items \<leftarrow> copy_slice CPolicyServers as_pss (zero_ps L) (PolicyServer_DeepCopyInto L) (mlItems inn);
     let out = out\<lparr>mlItems := items\<rparr>;
     ret out
   }"

section \<open>Pointers\<close>

text \<open>
  \<open>DeepCopy\<close>: nil for nil; otherwise \<open>new\<close>, with the first statement of \<open>DeepCopyInto\<close> (\<open>*out = *in\<close>)
  already done, and the rest of \<open>DeepCopyInto\<close>.  (A pointer to a cell of another type does not exist.)
\<close>

definition deep_copy :: "('x \<Rightarrow> 'o cell) \<Rightarrow> ('o cell \<Rightarrow> 'x option) \<Rightarrow> ('o, 'x) copier \<Rightarrow> reference \<Rightarrow>
    ('o cell memory, reference) state" where
  "deep_copy mk sel deepCopyInto inn = (case inn of
     None \<Rightarrow> ret None
   | Some a \<Rightarrow> do {
       cell \<leftarrow> load (\<lambda>c. Some (sel c)) None a;
       (case cell of
          None \<Rightarrow> ret None
        | Some x \<Rightarrow> do {
            b \<leftarrow> alloc (mk x);
            y \<leftarrow> deepCopyInto x;
            _ \<leftarrow> modify_cell b (\<lambda>_. mk y);
            ret (Some b)
          })
     })"

definition PolicySpec_DeepCopy :: "'o lib_structs \<Rightarrow> reference \<Rightarrow> ('o cell memory, reference) state" where
  "PolicySpec_DeepCopy L = deep_copy CPolicySpec as_policy_spec (PolicySpec_DeepCopyInto L)"

definition PolicyStatus_DeepCopy :: "'o lib_structs \<Rightarrow> reference \<Rightarrow> ('o cell memory, reference) state" where
  "PolicyStatus_DeepCopy L = deep_copy CPolicyStatus as_policy_status (PolicyStatus_DeepCopyInto L)"

definition ClusterAdmissionPolicySpec_DeepCopy :: "'o lib_structs \<Rightarrow> reference \<Rightarrow> ('o cell memory, reference) state" where
  "ClusterAdmissionPolicySpec_DeepCopy L =
     deep_copy CClusterAdmissionPolicySpec as_cap_spec (ClusterAdmissionPolicySpec_DeepCopyInto L)"

definition ClusterAdmissionPolicy_DeepCopy :: "'o lib_structs \<Rightarrow> reference \<Rightarrow> ('o cell memory, reference) state" where
  "ClusterAdmissionPolicy_DeepCopy L = deep_copy CClusterAdmissionPolicy as_cap (ClusterAdmissionPolicy_DeepCopyInto L)"

definition ClusterAdmissionPolicyList_DeepCopy :: "'o lib_structs \<Rightarrow> reference \<Rightarrow> ('o cell memory, reference) state" where
  "ClusterAdmissionPolicyList_DeepCopy L = deep_copy CObjectList as_object_list (ClusterAdmissionPolicyList_DeepCopyInto L)"

definition AdmissionPolicySpec_DeepCopy :: "'o lib_structs \<Rightarrow> reference \<Rightarrow> ('o cell memory, reference) state" where
  "AdmissionPolicySpec_DeepCopy L = deep_copy CAdmissionPolicySpec as_ap_spec (AdmissionPolicySpec_DeepCopyInto L)"

definition AdmissionPolicy_DeepCopy :: "'o lib_structs \<Rightarrow> reference \<Rightarrow> ('o cell memory, reference) state" where
  "AdmissionPolicy_DeepCopy L = deep_copy CAdmissionPolicy as_ap (AdmissionPolicy_DeepCopyInto L)"

definition AdmissionPolicyList_DeepCopy :: "'o lib_structs \<Rightarrow> reference \<Rightarrow> ('o cell memory, reference) state" where
  "AdmissionPolicyList_DeepCopy L = deep_copy CObjectList as_object_list (AdmissionPolicyList_DeepCopyInto L)"

definition PolicyServerSpec_DeepCopy :: "'o lib_structs \<Rightarrow> reference \<Rightarrow> ('o cell memory, reference) state" where
  "PolicyServerSpec_DeepCopy L = deep_copy CPolicyServerSpec as_ps_spec (PolicyServerSpec_DeepCopyInto L)"

definition PolicyServerStatus_DeepCopy :: "'o lib_structs \<Rightarrow> reference \<Rightarrow> ('o cell memory, reference) state" where
  "PolicyServerStatus_DeepCopy L = deep_copy CPolicyServerStatus as_ps_status (PolicyServerStatus_DeepCopyInto L)"

definition PolicyServer_DeepCopy :: "'o lib_structs \<Rightarrow> reference \<Rightarrow> ('o cell memory, reference) state" where
  "PolicyServer_DeepCopy L = deep_copy CPolicyServer as_ps (PolicyServer_DeepCopyInto L)"

definition PolicyServerList_DeepCopy :: "'o lib_structs \<Rightarrow> reference \<Rightarrow> ('o cell memory, reference) state" where
  "PolicyServerList_DeepCopy L = deep_copy CObjectList as_object_list (PolicyServerList_DeepCopyInto L)"

text \<open>
  \<open>CopyInto\<close> stores the new pointer in a variable of the interface type \<open>Policy\<close>; \<open>DeepCopyObject\<close>
  returns it as a \<open>runtime.Object\<close>, and the nil interface (\<open>None\<close>) for the nil pointer.
\<close>

datatype MPolicy = MClusterPolicy reference | MNamespacedPolicy reference

datatype MObject =
    MClusterAdmissionPolicyObject addr
  | MClusterAdmissionPolicyListObject addr
  | MAdmissionPolicyObject addr
  | MAdmissionPolicyListObject addr
  | MPolicyServerObject addr
  | MPolicyServerListObject addr

definition cap_CopyInto :: "'o lib_structs \<Rightarrow> reference \<Rightarrow> ('o cell memory, MPolicy) state" where
  "cap_CopyInto L r = do { c \<leftarrow> ClusterAdmissionPolicy_DeepCopy L r; ret (MClusterPolicy c) }"

definition ap_CopyInto :: "'o lib_structs \<Rightarrow> reference \<Rightarrow> ('o cell memory, MPolicy) state" where
  "ap_CopyInto L r = do { c \<leftarrow> AdmissionPolicy_DeepCopy L r; ret (MNamespacedPolicy c) }"

definition ClusterAdmissionPolicy_DeepCopyObject :: "'o lib_structs \<Rightarrow> reference \<Rightarrow> ('o cell memory, MObject option) state" where
  "ClusterAdmissionPolicy_DeepCopyObject L inn = do {
     c \<leftarrow> ClusterAdmissionPolicy_DeepCopy L inn;
     ret (case c of Some a \<Rightarrow> Some (MClusterAdmissionPolicyObject a) | None \<Rightarrow> None)
   }"

definition ClusterAdmissionPolicyList_DeepCopyObject :: "'o lib_structs \<Rightarrow> reference \<Rightarrow> ('o cell memory, MObject option) state" where
  "ClusterAdmissionPolicyList_DeepCopyObject L inn = do {
     c \<leftarrow> ClusterAdmissionPolicyList_DeepCopy L inn;
     ret (case c of Some a \<Rightarrow> Some (MClusterAdmissionPolicyListObject a) | None \<Rightarrow> None)
   }"

definition AdmissionPolicy_DeepCopyObject :: "'o lib_structs \<Rightarrow> reference \<Rightarrow> ('o cell memory, MObject option) state" where
  "AdmissionPolicy_DeepCopyObject L inn = do {
     c \<leftarrow> AdmissionPolicy_DeepCopy L inn;
     ret (case c of Some a \<Rightarrow> Some (MAdmissionPolicyObject a) | None \<Rightarrow> None)
   }"

definition AdmissionPolicyList_DeepCopyObject :: "'o lib_structs \<Rightarrow> reference \<Rightarrow> ('o cell memory, MObject option) state" where
  "AdmissionPolicyList_DeepCopyObject L inn = do {
     c \<leftarrow> AdmissionPolicyList_DeepCopy L inn;
     ret (case c of Some a \<Rightarrow> Some (MAdmissionPolicyListObject a) | None \<Rightarrow> None)
   }"

definition PolicyServer_DeepCopyObject :: "'o lib_structs \<Rightarrow> reference \<Rightarrow> ('o cell memory, MObject option) state" where
  "PolicyServer_DeepCopyObject L inn = do {
     c \<leftarrow> PolicyServer_DeepCopy L inn;
     ret (case c of Some a \<Rightarrow> Some (MPolicyServerObject a) | None \<Rightarrow> None)
   }"

definition PolicyServerList_DeepCopyObject :: "'o lib_structs \<Rightarrow> reference \<Rightarrow> ('o cell memory, MObject option) state" where
  "PolicyServerList_DeepCopyObject L inn = do {
     c \<leftarrow> PolicyServerList_DeepCopy L inn;
     ret (case c of Some a \<Rightarrow> Some (MPolicyServerListObject a) | None \<Rightarrow> None)
   }"

section \<open>What a struct in memory stands for\<close>

abbreviation read_string_pointer :: "('o, reference, string option) mreader" where
  "read_string_pointer \<equiv> read_pointer as_string read_plain"

abbreviation read_strings :: "('o, mslice, string slice) mreader" where
  "read_strings \<equiv> read_slice as_strings read_plain"

definition read_PolicySpec :: "'o lib_structs \<Rightarrow> ('o, 'o MPolicySpec, PolicySpec) mreader" where
  "read_PolicySpec L h s = do {
     settings \<leftarrow> read_RawExtension L h (mSettings s);
     rules \<leftarrow> read_slice as_structs (read_RuleWithOperations L) h (mRules s);
     failurePolicy \<leftarrow> read_string_pointer h (mFailurePolicy s);
     matchPolicy \<leftarrow> read_string_pointer h (mMatchPolicy s);
     objectSelector \<leftarrow> read_pointer as_struct (read_LabelSelector L) h (mObjectSelector s);
     sideEffects \<leftarrow> read_string_pointer h (mSideEffects s);
     timeoutSeconds \<leftarrow> read_pointer as_int32 read_plain h (mTimeoutSeconds s);
     Some \<lparr>specPolicyServer = mPolicyServer s, specModule = mModule s, specMode = mMode s, specSettings = settings,
       specRules = rules, specFailurePolicy = failurePolicy, specMutating = mMutating s, specMatchPolicy = matchPolicy,
       specObjectSelector = objectSelector, specSideEffects = sideEffects, specTimeoutSeconds = timeoutSeconds\<rparr>
   }"

definition read_PolicyStatus :: "'o lib_structs \<Rightarrow> ('o, MPolicyStatus, PolicyStatus) mreader" where
  "read_PolicyStatus L h s = do {
     conditions \<leftarrow> read_slice as_structs (read_Condition L) h (mConditions s);
     Some \<lparr>statPolicyStatus = mPolicyStatus s, statPolicyMode = mPolicyMode s, statConditions = elems conditions\<rparr>
   }"

definition read_ClusterAdmissionPolicySpec ::
    "'o lib_structs \<Rightarrow> ('o, 'o MClusterAdmissionPolicySpec, ClusterAdmissionPolicySpec) mreader" where
  "read_ClusterAdmissionPolicySpec L h s = do {
     policySpec \<leftarrow> read_PolicySpec L h (mcapPolicySpec s);
     namespaceSelector \<leftarrow> read_pointer as_struct (read_LabelSelector L) h (mcapNamespaceSelector s);
     Some (PolicySpec.extend policySpec (ClusterAdmissionPolicySpec.fields namespaceSelector))
   }"

definition read_AdmissionPolicySpec :: "'o lib_structs \<Rightarrow> ('o, 'o MAdmissionPolicySpec, AdmissionPolicySpec) mreader" where
  "read_AdmissionPolicySpec L h s = read_PolicySpec L h (mapPolicySpec s)"

definition read_ClusterAdmissionPolicy ::
    "'o lib_structs \<Rightarrow> ('o, 'o MClusterAdmissionPolicy, TypeMeta \<times> ClusterAdmissionPolicy) mreader" where
  "read_ClusterAdmissionPolicy L h p = do {
     meta \<leftarrow> read_ObjectMeta L h (mcapObjectMeta p);
     spec \<leftarrow> read_ClusterAdmissionPolicySpec L h (mcapSpec p);
     status \<leftarrow> read_PolicyStatus L h (mcapStatus p);
     Some (mcapTypeMeta p, \<lparr>capMeta = meta, capSpec = spec, capStatus = status\<rparr>)
   }"

definition read_AdmissionPolicy :: "'o lib_structs \<Rightarrow> ('o, 'o MAdmissionPolicy, TypeMeta \<times> AdmissionPolicy) mreader" where
  "read_AdmissionPolicy L h p = do {
     meta \<leftarrow> read_ObjectMeta L h (mapObjectMeta p);
     spec \<leftarrow> read_AdmissionPolicySpec L h (mapSpec p);
     status \<leftarrow> read_PolicyStatus L h (mapStatus p);
     Some (mapTypeMeta p, \<lparr>apMeta = meta, apSpec = spec, apStatus = status\<rparr>)
   }"

definition read_source_authority :: "('o, mslice, string list) mreader" where
  "read_source_authority h s = map_option elems (read_strings h s)"

definition read_PolicyServerSpec :: "'o lib_structs \<Rightarrow> ('o, MPolicyServerSpec, PolicyServerSpec) mreader" where
  "read_PolicyServerSpec L h s = do {
     annotations \<leftarrow> read_map as_string_map read_plain h (mpsAnnotations s);
     env \<leftarrow> read_slice as_structs (read_EnvVar L) h (mpsEnv s);
     insecureSources \<leftarrow> read_strings h (mpsInsecureSources s);
     sourceAuthorities \<leftarrow> read_map as_slice_map read_source_authority h (mpsSourceAuthorities s);
     Some \<lparr>psImage = mpsImage s, psReplicas = mpsReplicas s, psAnnotations = annotations, psEnv = elems env,
       psServiceAccountName = mpsServiceAccountName s, psImagePullSecret = mpsImagePullSecret s,
       psInsecureSources = insecureSources, psSourceAuthorities = sourceAuthorities,
       psVerificationConfig = mpsVerificationConfig s\<rparr>
   }"

definition read_PolicyServerStatus :: "'o lib_structs \<Rightarrow> ('o, MPolicyServerStatus, Condition list) mreader" where
  "read_PolicyServerStatus L h s = map_option elems (read_slice as_structs (read_Condition L) h (mpsConditions s))"

definition read_PolicyServer :: "'o lib_structs \<Rightarrow> ('o, 'o MPolicyServer, TypeMeta \<times> PolicyServer) mreader" where
  "read_PolicyServer L h p = do {
     meta \<leftarrow> read_ObjectMeta L h (mpsObjectMeta p);
     spec \<leftarrow> read_PolicyServerSpec L h (mpsSpec p);
     conditions \<leftarrow> read_PolicyServerStatus L h (mpsStatus p);
     Some (mpsTypeMeta p, \<lparr>psMeta = meta, psSpec = spec, psConditions = conditions\<rparr>)
   }"

definition read_list :: "'o lib_structs \<Rightarrow> ('o, mslice, 'v slice) mreader \<Rightarrow>
    ('o, 'o MObjectList, TypeMeta \<times> ListMeta \<times> 'v slice) mreader" where
  "read_list L items h l = do {
     meta \<leftarrow> read_ListMeta L h (mlListMeta l);
     xs \<leftarrow> items h (mlItems l);
     Some (mlTypeMeta l, meta, xs)
   }"

section \<open>Every deep copy keeps the law\<close>

lemma deep_copier_plain: "deep_copier read_plain ret"
  by (simp add: deep_copier_def mono_read_plain copies_plain)

lemma deep_copier_pointer:
  assumes "deep_copier view cp" "\<And>x. sel (mk x) = Some x"
  shows "deep_copier (read_pointer sel view) (copy_pointer mk sel zero cp)"
  using assms by (simp add: deep_copier_def mono_read_pointer copies_pointer)

lemma deep_copier_slice:
  assumes "deep_copier view cp" "\<And>xs. sel (mk xs) = Some xs"
  shows "deep_copier (read_slice sel view) (copy_slice mk sel zero cp)"
  using assms by (simp add: deep_copier_def mono_read_slice copies_slice)

lemma deep_copier_map:
  assumes "deep_copier view cp" "\<And>f. sel (mk f) = Some f" "lists_entries order"
  shows "deep_copier (read_map sel view) (copy_map mk sel order cp)"
  using assms unfolding lists_entries_def deep_copier_def by (blast intro: mono_read_map copies_map)

lemma deep_copier_map_option:
  "deep_copier view cp \<Longrightarrow> deep_copier (\<lambda>h x. map_option f (view h x)) cp"
  by (auto simp: deep_copier_def mono_reader_iff intro: mono_read_intros copies_map_option)

text \<open>The rule for a struct: its reader binds the readers of the fields, its copy binds their copies.\<close>

lemma copying_field:
  assumes "deep_copier view cp" "mem_wf m0" "view (store m0) x = Some v"
    and "\<And>y m'. copying m0 (k y) (\<lambda>h z. view h y = Some v \<longrightarrow> Q h z) m'"
  shows "copying m0 (State_Monad.bind (cp x) k) Q m"
  using assms unfolding deep_copier_def by (blast intro: copying_bind)

lemma deep_copierI:
  assumes "\<And>x. mono_read (\<lambda>h. view h x)"
    and "\<And>m x v. mem_wf m \<Longrightarrow> view (store m) x = Some v \<Longrightarrow> copying m (cp x) (\<lambda>h y. view h y = Some v) m"
  shows "deep_copier view cp"
  using assms by (auto simp: deep_copier_def mono_reader_iff intro: copiesI)

lemma deep_copier_reader: "deep_copier view cp \<Longrightarrow> mono_read (\<lambda>h. view h x)"
  by (simp add: deep_copier_def mono_read_reader)

lemma field_copiers:
  "deep_copier read_string_pointer copy_string_pointer"
  "deep_copier (read_pointer as_int32 read_plain) (copy_pointer CInt32 as_int32 0 ret)"
  "deep_copier read_strings copy_strings"
  by (rule deep_copier_pointer deep_copier_slice deep_copier_plain | simp)+

lemma lib_structsD:
  assumes "lib_structs_law L"
  shows "deep_copier (read_RawExtension L) (RawExtension_DeepCopyInto L)"
    and "deep_copier (read_ObjectMeta L) (ObjectMeta_DeepCopyInto L)"
    and "deep_copier (read_ListMeta L) (ListMeta_DeepCopyInto L)"
    and "deep_copier (read_pointer as_struct (read_LabelSelector L)) (copy_selector_pointer L)"
    and "deep_copier (read_slice as_structs (read_RuleWithOperations L)) (copy_structs L (RuleWithOperations_DeepCopyInto L))"
    and "deep_copier (read_slice as_structs (read_EnvVar L)) (copy_structs L (EnvVar_DeepCopyInto L))"
    and "deep_copier (read_slice as_structs (read_Condition L)) (copy_structs L (Condition_DeepCopyInto L))"
  using assms by (auto simp: lib_structs_law_def intro!: deep_copier_pointer deep_copier_slice)

lemma deep_copier_PolicySpec:
  assumes "lib_structs_law L"
  shows "deep_copier (read_PolicySpec L) (PolicySpec_DeepCopyInto L)"
proof (rule deep_copierI)
  note copiers = lib_structsD [OF assms] field_copiers
  show "mono_read (\<lambda>h. read_PolicySpec L h x)" for x
    unfolding read_PolicySpec_def by (intro mono_read_bind mono_read_const copiers [THEN deep_copier_reader])
  fix m x v
  assume wf: "mem_wf m" and "read_PolicySpec L (store m) x = Some v"
  then obtain a b c d e f g where
    "read_RawExtension L (store m) (mSettings x) = Some a"
    "read_slice as_structs (read_RuleWithOperations L) (store m) (mRules x) = Some b"
    "read_string_pointer (store m) (mFailurePolicy x) = Some c"
    "read_string_pointer (store m) (mMatchPolicy x) = Some d"
    "read_pointer as_struct (read_LabelSelector L) (store m) (mObjectSelector x) = Some e"
    "read_string_pointer (store m) (mSideEffects x) = Some f"
    "read_pointer as_int32 read_plain (store m) (mTimeoutSeconds x) = Some g" and
    v: "v = \<lparr>specPolicyServer = mPolicyServer x, specModule = mModule x, specMode = mMode x, specSettings = a,
       specRules = b, specFailurePolicy = c, specMutating = mMutating x, specMatchPolicy = d,
       specObjectSelector = e, specSideEffects = f, specTimeoutSeconds = g\<rparr>"
    by (auto simp: read_PolicySpec_def bind_eq_Some_conv)
  note fields = this
  show "copying m (PolicySpec_DeepCopyInto L x) (\<lambda>h y. read_PolicySpec L h y = Some v) m"
    unfolding PolicySpec_DeepCopyInto_def Let_def
    by (rule copying_field, rule copiers, rule wf, rule fields)+ (simp add: read_PolicySpec_def v copying_ret)
qed

lemma deep_copier_PolicyStatus:
  assumes "lib_structs_law L"
  shows "deep_copier (read_PolicyStatus L) (PolicyStatus_DeepCopyInto L)"
proof (rule deep_copierI)
  note copiers = lib_structsD [OF assms]
  show "mono_read (\<lambda>h. read_PolicyStatus L h x)" for x
    unfolding read_PolicyStatus_def by (intro mono_read_bind mono_read_const copiers [THEN deep_copier_reader])
  fix m x v
  assume wf: "mem_wf m" and "read_PolicyStatus L (store m) x = Some v"
  then obtain a where fields: "read_slice as_structs (read_Condition L) (store m) (mConditions x) = Some a"
    and v: "v = \<lparr>statPolicyStatus = mPolicyStatus x, statPolicyMode = mPolicyMode x, statConditions = elems a\<rparr>"
    by (auto simp: read_PolicyStatus_def bind_eq_Some_conv)
  show "copying m (PolicyStatus_DeepCopyInto L x) (\<lambda>h y. read_PolicyStatus L h y = Some v) m"
    unfolding PolicyStatus_DeepCopyInto_def Let_def
    by (rule copying_field, rule copiers, rule wf, rule fields) (simp add: read_PolicyStatus_def v copying_ret)
qed

lemma deep_copier_ClusterAdmissionPolicySpec:
  assumes "lib_structs_law L"
  shows "deep_copier (read_ClusterAdmissionPolicySpec L) (ClusterAdmissionPolicySpec_DeepCopyInto L)"
proof (rule deep_copierI)
  note copiers = deep_copier_PolicySpec [OF assms] lib_structsD [OF assms]
  show "mono_read (\<lambda>h. read_ClusterAdmissionPolicySpec L h x)" for x
    unfolding read_ClusterAdmissionPolicySpec_def
    by (intro mono_read_bind mono_read_const copiers [THEN deep_copier_reader])
  fix m x v
  assume wf: "mem_wf m" and "read_ClusterAdmissionPolicySpec L (store m) x = Some v"
  then obtain a b where fields: "read_PolicySpec L (store m) (mcapPolicySpec x) = Some a"
    "read_pointer as_struct (read_LabelSelector L) (store m) (mcapNamespaceSelector x) = Some b"
    and v: "v = PolicySpec.extend a (ClusterAdmissionPolicySpec.fields b)"
    by (auto simp: read_ClusterAdmissionPolicySpec_def bind_eq_Some_conv)
  show "copying m (ClusterAdmissionPolicySpec_DeepCopyInto L x) (\<lambda>h y. read_ClusterAdmissionPolicySpec L h y = Some v) m"
    unfolding ClusterAdmissionPolicySpec_DeepCopyInto_def Let_def
    by (rule copying_field, rule copiers, rule wf, rule fields)+
      (simp add: read_ClusterAdmissionPolicySpec_def v copying_ret)
qed

lemma deep_copier_AdmissionPolicySpec:
  assumes "lib_structs_law L"
  shows "deep_copier (read_AdmissionPolicySpec L) (AdmissionPolicySpec_DeepCopyInto L)"
proof (rule deep_copierI)
  note copiers = deep_copier_PolicySpec [OF assms]
  show "mono_read (\<lambda>h. read_AdmissionPolicySpec L h x)" for x
    unfolding read_AdmissionPolicySpec_def by (rule copiers [THEN deep_copier_reader])
  fix m x v
  assume wf: "mem_wf m" and "read_AdmissionPolicySpec L (store m) x = Some v"
  then have fields: "read_PolicySpec L (store m) (mapPolicySpec x) = Some v"
    by (simp add: read_AdmissionPolicySpec_def)
  show "copying m (AdmissionPolicySpec_DeepCopyInto L x) (\<lambda>h y. read_AdmissionPolicySpec L h y = Some v) m"
    unfolding AdmissionPolicySpec_DeepCopyInto_def Let_def
    by (rule copying_field, rule copiers, rule wf, rule fields) (simp add: read_AdmissionPolicySpec_def copying_ret)
qed

lemma deep_copier_ClusterAdmissionPolicy:
  assumes "lib_structs_law L"
  shows "deep_copier (read_ClusterAdmissionPolicy L) (ClusterAdmissionPolicy_DeepCopyInto L)"
proof (rule deep_copierI)
  note copiers = lib_structsD(2) [OF assms] deep_copier_ClusterAdmissionPolicySpec [OF assms] deep_copier_PolicyStatus [OF assms]
  show "mono_read (\<lambda>h. read_ClusterAdmissionPolicy L h x)" for x
    unfolding read_ClusterAdmissionPolicy_def
    by (intro mono_read_bind mono_read_const copiers [THEN deep_copier_reader])
  fix m x v
  assume wf: "mem_wf m" and "read_ClusterAdmissionPolicy L (store m) x = Some v"
  then obtain a b c where fields: "read_ObjectMeta L (store m) (mcapObjectMeta x) = Some a"
    "read_ClusterAdmissionPolicySpec L (store m) (mcapSpec x) = Some b" "read_PolicyStatus L (store m) (mcapStatus x) = Some c"
    and v: "v = (mcapTypeMeta x, \<lparr>capMeta = a, capSpec = b, capStatus = c\<rparr>)"
    by (auto simp: read_ClusterAdmissionPolicy_def bind_eq_Some_conv)
  show "copying m (ClusterAdmissionPolicy_DeepCopyInto L x) (\<lambda>h y. read_ClusterAdmissionPolicy L h y = Some v) m"
    unfolding ClusterAdmissionPolicy_DeepCopyInto_def Let_def
    by (rule copying_field, rule copiers, rule wf, rule fields)+
      (simp add: read_ClusterAdmissionPolicy_def v copying_ret)
qed

lemma deep_copier_AdmissionPolicy:
  assumes "lib_structs_law L"
  shows "deep_copier (read_AdmissionPolicy L) (AdmissionPolicy_DeepCopyInto L)"
proof (rule deep_copierI)
  note copiers = lib_structsD(2) [OF assms] deep_copier_AdmissionPolicySpec [OF assms] deep_copier_PolicyStatus [OF assms]
  show "mono_read (\<lambda>h. read_AdmissionPolicy L h x)" for x
    unfolding read_AdmissionPolicy_def by (intro mono_read_bind mono_read_const copiers [THEN deep_copier_reader])
  fix m x v
  assume wf: "mem_wf m" and "read_AdmissionPolicy L (store m) x = Some v"
  then obtain a b c where fields: "read_ObjectMeta L (store m) (mapObjectMeta x) = Some a"
    "read_AdmissionPolicySpec L (store m) (mapSpec x) = Some b" "read_PolicyStatus L (store m) (mapStatus x) = Some c"
    and v: "v = (mapTypeMeta x, \<lparr>apMeta = a, apSpec = b, apStatus = c\<rparr>)"
    by (auto simp: read_AdmissionPolicy_def bind_eq_Some_conv)
  show "copying m (AdmissionPolicy_DeepCopyInto L x) (\<lambda>h y. read_AdmissionPolicy L h y = Some v) m"
    unfolding AdmissionPolicy_DeepCopyInto_def Let_def
    by (rule copying_field, rule copiers, rule wf, rule fields)+ (simp add: read_AdmissionPolicy_def v copying_ret)
qed

lemma copy_source_authority_eq: "copy_source_authority = copy_strings"
  by (simp add: fun_eq_iff copy_source_authority_def copy_slice_def)

lemma deep_copier_source_authority: "deep_copier read_source_authority copy_source_authority"
  using deep_copier_map_option [OF field_copiers(3), of elems]
  by (simp add: read_source_authority_def [abs_def] copy_source_authority_eq)

lemma deep_copier_PolicyServerSpec:
  assumes "lib_structs_law L"
  shows "deep_copier (read_PolicyServerSpec L) (PolicyServerSpec_DeepCopyInto L)"
proof (rule deep_copierI)
  have "deep_copier (read_map as_string_map read_plain) (copy_map CStringMap as_string_map (range_strings L) ret)"
    "deep_copier (read_map as_slice_map read_source_authority) (copy_map CSliceMap as_slice_map (range_slices L) copy_source_authority)"
    using assms by (auto simp: lib_structs_law_def intro!: deep_copier_map deep_copier_plain deep_copier_source_authority)
  note copiers = this lib_structsD [OF assms] field_copiers
  show "mono_read (\<lambda>h. read_PolicyServerSpec L h x)" for x
    unfolding read_PolicyServerSpec_def by (intro mono_read_bind mono_read_const copiers [THEN deep_copier_reader])
  fix m x v
  assume wf: "mem_wf m" and "read_PolicyServerSpec L (store m) x = Some v"
  then obtain a b c d where fields: "read_map as_string_map read_plain (store m) (mpsAnnotations x) = Some a"
    "read_slice as_structs (read_EnvVar L) (store m) (mpsEnv x) = Some b"
    "read_strings (store m) (mpsInsecureSources x) = Some c"
    "read_map as_slice_map read_source_authority (store m) (mpsSourceAuthorities x) = Some d"
    and v: "v = \<lparr>psImage = mpsImage x, psReplicas = mpsReplicas x, psAnnotations = a, psEnv = elems b,
       psServiceAccountName = mpsServiceAccountName x, psImagePullSecret = mpsImagePullSecret x,
       psInsecureSources = c, psSourceAuthorities = d, psVerificationConfig = mpsVerificationConfig x\<rparr>"
    by (auto simp: read_PolicyServerSpec_def bind_eq_Some_conv)
  show "copying m (PolicyServerSpec_DeepCopyInto L x) (\<lambda>h y. read_PolicyServerSpec L h y = Some v) m"
    unfolding PolicyServerSpec_DeepCopyInto_def Let_def
    by (rule copying_field, rule copiers, rule wf, rule fields)+ (simp add: read_PolicyServerSpec_def v copying_ret)
qed

lemma deep_copier_PolicyServerStatus:
  assumes "lib_structs_law L"
  shows "deep_copier (read_PolicyServerStatus L) (PolicyServerStatus_DeepCopyInto L)"
proof (rule deep_copierI)
  note copiers = lib_structsD [OF assms]
  show "mono_read (\<lambda>h. read_PolicyServerStatus L h x)" for x
    unfolding read_PolicyServerStatus_def by (intro mono_read_map_option copiers [THEN deep_copier_reader])
  fix m x v
  assume wf: "mem_wf m" and "read_PolicyServerStatus L (store m) x = Some v"
  then obtain a where fields: "read_slice as_structs (read_Condition L) (store m) (mpsConditions x) = Some a" and v: "v = elems a"
    by (auto simp: read_PolicyServerStatus_def)
  show "copying m (PolicyServerStatus_DeepCopyInto L x) (\<lambda>h y. read_PolicyServerStatus L h y = Some v) m"
    unfolding PolicyServerStatus_DeepCopyInto_def Let_def
    by (rule copying_field, rule copiers, rule wf, rule fields) (simp add: read_PolicyServerStatus_def v copying_ret)
qed

lemma deep_copier_PolicyServer:
  assumes "lib_structs_law L"
  shows "deep_copier (read_PolicyServer L) (PolicyServer_DeepCopyInto L)"
proof (rule deep_copierI)
  note copiers = lib_structsD(2) [OF assms] deep_copier_PolicyServerSpec [OF assms] deep_copier_PolicyServerStatus [OF assms]
  show "mono_read (\<lambda>h. read_PolicyServer L h x)" for x
    unfolding read_PolicyServer_def by (intro mono_read_bind mono_read_const copiers [THEN deep_copier_reader])
  fix m x v
  assume wf: "mem_wf m" and "read_PolicyServer L (store m) x = Some v"
  then obtain a b c where fields: "read_ObjectMeta L (store m) (mpsObjectMeta x) = Some a"
    "read_PolicyServerSpec L (store m) (mpsSpec x) = Some b" "read_PolicyServerStatus L (store m) (mpsStatus x) = Some c"
    and v: "v = (mpsTypeMeta x, \<lparr>psMeta = a, psSpec = b, psConditions = c\<rparr>)"
    by (auto simp: read_PolicyServer_def bind_eq_Some_conv)
  show "copying m (PolicyServer_DeepCopyInto L x) (\<lambda>h y. read_PolicyServer L h y = Some v) m"
    unfolding PolicyServer_DeepCopyInto_def Let_def
    by (rule copying_field, rule copiers, rule wf, rule fields)+ (simp add: read_PolicyServer_def v copying_ret)
qed

text \<open>The three kinds of list.\<close>

lemma deep_copier_list:
  assumes "lib_structs_law L" "deep_copier items copy_items"
    and copy: "\<And>inn. copy inn = do {
      meta \<leftarrow> ListMeta_DeepCopyInto L (mlListMeta inn);
      xs \<leftarrow> copy_items (mlItems inn);
      ret (inn\<lparr>mlListMeta := meta, mlItems := xs\<rparr>) }"
  shows "deep_copier (read_list L items) copy"
proof (rule deep_copierI)
  note copiers = lib_structsD(3) [OF assms(1)] assms(2)
  show "mono_read (\<lambda>h. read_list L items h x)" for x
    unfolding read_list_def by (intro mono_read_bind mono_read_const copiers [THEN deep_copier_reader])
  fix m x v
  assume wf: "mem_wf m" and "read_list L items (store m) x = Some v"
  then obtain a b where fields: "read_ListMeta L (store m) (mlListMeta x) = Some a" "items (store m) (mlItems x) = Some b"
    and v: "v = (mlTypeMeta x, a, b)"
    by (auto simp: read_list_def bind_eq_Some_conv)
  show "copying m (copy x) (\<lambda>h y. read_list L items h y = Some v) m"
    unfolding copy by (rule copying_field, rule copiers, rule wf, rule fields)+ (simp add: read_list_def v copying_ret)
qed

lemma deep_copier_lists:
  assumes "lib_structs_law L"
  shows "deep_copier (read_list L (read_slice as_caps (read_ClusterAdmissionPolicy L))) (ClusterAdmissionPolicyList_DeepCopyInto L)"
    and "deep_copier (read_list L (read_slice as_aps (read_AdmissionPolicy L))) (AdmissionPolicyList_DeepCopyInto L)"
    and "deep_copier (read_list L (read_slice as_pss (read_PolicyServer L))) (PolicyServerList_DeepCopyInto L)"
proof -
  note items = deep_copier_slice [of _ _ as_caps CClusterAdmissionPolicies "zero_cap L", OF deep_copier_ClusterAdmissionPolicy [OF assms]]
    deep_copier_slice [of _ _ as_aps CAdmissionPolicies "zero_ap L", OF deep_copier_AdmissionPolicy [OF assms]]
    deep_copier_slice [of _ _ as_pss CPolicyServers "zero_ps L", OF deep_copier_PolicyServer [OF assms]]
  show "deep_copier (read_list L (read_slice as_caps (read_ClusterAdmissionPolicy L))) (ClusterAdmissionPolicyList_DeepCopyInto L)"
    by (rule deep_copier_list [OF assms items(1)]) (simp_all add: ClusterAdmissionPolicyList_DeepCopyInto_def)
  show "deep_copier (read_list L (read_slice as_aps (read_AdmissionPolicy L))) (AdmissionPolicyList_DeepCopyInto L)"
    by (rule deep_copier_list [OF assms items(2)]) (simp_all add: AdmissionPolicyList_DeepCopyInto_def)
  show "deep_copier (read_list L (read_slice as_pss (read_PolicyServer L))) (PolicyServerList_DeepCopyInto L)"
    by (rule deep_copier_list [OF assms items(3)]) (simp_all add: PolicyServerList_DeepCopyInto_def)
qed

lemma deep_copier_deep_copy:
  assumes cp: "deep_copier view cp" and sel: "\<And>x. sel (mk x) = Some x"
  shows "deep_copier (read_pointer sel view) (deep_copy mk sel cp)"
proof -
  have "copies (read_pointer sel view) (deep_copy mk sel cp)"
    unfolding copies_def
  proof (intro allI impI)
    fix m p v y m'
    assume *: "mem_wf m" "read_pointer sel view (store m) p = Some v" "run_state (deep_copy mk sel cp p) m = (y, m')"
    show "extends m m' \<and> read_pointer sel view (fresh m m') y = Some v"
    proof (cases "Option.bind p (read_cell sel (store m))")
      case None
      with * show ?thesis
        by (auto simp: read_pointer_def deep_copy_def extends_refl split: option.splits)
    next
      case (Some x)
      then have "run_state (deep_copy mk sel cp p) m = run_state (copy_pointer mk sel x cp p) m"
        by (auto simp: bind_eq_Some_conv deep_copy_def copy_pointer_def read_cell_def)
      with * show ?thesis
        using deep_copier_pointer [OF cp, of sel mk x, OF sel] by (auto simp: deep_copier_def copies_def)
    qed
  qed
  with cp show ?thesis by (simp add: deep_copier_def mono_read_pointer)
qed

section \<open>The contract of the deep copies\<close>

text \<open>
  A copy is independent of the original: it stands for the same value, it can be read in every heap
  that still has the cells allocated by the copying, whatever happened to the others, and the original
  can be read in every heap that still has the cells from before, which the copying did not change.
\<close>

definition independent_copy :: "('o, 'x, 'v) mreader \<Rightarrow> ('o, 'x) copier \<Rightarrow> 'o cell memory \<Rightarrow> 'x \<Rightarrow> bool" where
  "independent_copy view cp m x \<longleftrightarrow>
     (case (view (store m) x, run_state (cp x) m) of
        (None, _) \<Rightarrow> True
      | (Some v, (y, m')) \<Rightarrow>
          (\<forall>a < next_addr m. store m' a = store m a) \<and>
          (\<forall>h. (\<forall>a \<ge> next_addr m. h a = store m' a) \<longrightarrow> view h y = Some v) \<and>
          (\<forall>h. (\<forall>a < next_addr m. h a = store m a) \<longrightarrow> view h x = Some v))"

lemma deep_copier_independent:
  assumes "deep_copier view cp" "mem_wf m"
  shows "independent_copy view cp m x"
proof (cases "view (store m) x")
  case (Some v)
  obtain y m' where run: "run_state (cp x) m = (y, m')" by (cases "run_state (cp x) m")
  from assms have mono: "mono_reader view" and law: "copies view cp" by (auto simp: deep_copier_def)
  from copiesD [OF law assms(2) Some run] have ext: "extends m m'" and new: "view (fresh m m') y = Some v" by auto
  have "view h y = Some v" if "\<forall>a \<ge> next_addr m. h a = store m' a" for h
    by (rule mono_readerD [OF mono _ new]) (use that in \<open>auto simp: map_le_def fresh_def restrict_map_def split: if_splits\<close>)
  moreover have "view h x = Some v" if "\<forall>a < next_addr m. h a = store m a" for h
    by (rule mono_readerD [OF mono _ Some]) (use that assms(2) in \<open>force simp: map_le_def mem_wf_def dom_def\<close>)
  ultimately show ?thesis
    using ext by (simp add: independent_copy_def Some run extends_def)
qed (simp add: independent_copy_def)

lemma independent_copyD:
  "independent_copy view cp m x \<Longrightarrow> view (store m) x = Some v \<Longrightarrow> run_state (cp x) m = (y, m') \<Longrightarrow>
    (\<And>a. next_addr m \<le> a \<Longrightarrow> h a = store m' a) \<Longrightarrow> view h y = Some v"
  by (simp add: independent_copy_def)

text \<open>In particular when the cells of the original are gone.\<close>

lemma independent_copy_alone:
  assumes "independent_copy view cp m x" "view (store m) x \<noteq> None" "run_state (cp x) m = (y, m')"
  shows "view (fresh m m') y = view (store m) x"
proof -
  obtain v where v: "view (store m) x = Some v" using assms(2) by auto
  with independent_copyD [OF assms(1) v assms(3), of "fresh m m'"] show ?thesis by (simp add: fresh_def)
qed

text \<open>Structs of the libraries for examples: a text and a pointer to another one.\<close>

type_synonym demo_struct = "string \<times> reference"

definition demo_copy :: "(demo_struct, demo_struct) copier" where
  "demo_copy s = do { p \<leftarrow> copy_string_pointer (snd s); ret (fst s, p) }"

definition demo_read :: "(string \<Rightarrow> string option \<Rightarrow> 'v) \<Rightarrow> (demo_struct, demo_struct, 'v) mreader" where
  "demo_read f h s = do { t \<leftarrow> read_string_pointer h (snd s); Some (f (fst s) t) }"

definition demo_structs :: "demo_struct lib_structs" where
  "demo_structs = \<lparr>RawExtension_DeepCopyInto = demo_copy, ObjectMeta_DeepCopyInto = demo_copy,
     ListMeta_DeepCopyInto = demo_copy, LabelSelector_DeepCopyInto = demo_copy,
     RuleWithOperations_DeepCopyInto = demo_copy, EnvVar_DeepCopyInto = demo_copy, Condition_DeepCopyInto = demo_copy,
     read_RawExtension = demo_read (\<lambda>n t. t),
     read_ObjectMeta = demo_read (\<lambda>n t. metaNamed (case t of None \<Rightarrow> '''' | Some ns \<Rightarrow> ns) n),
     read_ListMeta = demo_read (\<lambda>n t. \<lparr>lmResourceVersion = n, lmContinue = ''''\<rparr>),
     read_LabelSelector = demo_read (\<lambda>n t. \<lparr>MatchLabels = None, MatchExpressions = None\<rparr>),
     read_RuleWithOperations = demo_read (\<lambda>n t. \<lparr>ruleOperations = Some [n], ruleAPIGroups = None, ruleAPIVersions = None,
       ruleResources = None, ruleScope = t\<rparr>),
     read_EnvVar = demo_read (\<lambda>n t. \<lparr>envName = n, envValue = '''', envValueFrom = t\<rparr>),
     read_Condition = demo_read (\<lambda>n t. \<lparr>condType = n, condStatus = n, condReason = n, condMessage = n\<rparr>),
     zero_struct = ('''', None), range_strings = sorted_list_of_fmap, range_slices = sorted_list_of_fmap\<rparr>"

lemma deep_copier_demo: "deep_copier (demo_read f) demo_copy"
proof (rule deep_copierI)
  show "mono_read (\<lambda>h. demo_read f h x)" for x
    unfolding demo_read_def by (intro mono_read_bind mono_read_const field_copiers [THEN deep_copier_reader])
  fix m x v
  assume wf: "mem_wf m" and "demo_read f (store m) x = Some v"
  then obtain t where fields: "read_string_pointer (store m) (snd x) = Some t" and v: "v = f (fst x) t"
    by (auto simp: demo_read_def bind_eq_Some_conv)
  show "copying m (demo_copy x) (\<lambda>h y. demo_read f h y = Some v) m"
    unfolding demo_copy_def
    by (rule copying_field, rule field_copiers, rule wf, rule fields) (simp add: demo_read_def v copying_ret)
qed

lemma lists_entries_sorted: "lists_entries sorted_list_of_fmap"
  unfolding lists_entries_def
proof (intro allI conjI)
  show "distinct (map fst (sorted_list_of_fmap f))" for f :: "(string, 'v) fmap"
    by (simp add: sorted_list_of_fmap_def comp_def sorted_list_of_fset.rep_eq)
  show "fmap_of_list (sorted_list_of_fmap f) = f" for f :: "(string, 'v) fmap"
    by (rule fmap_ext) simp
qed

lemma demo_structs_law: "lib_structs_law demo_structs"
  by (simp add: lib_structs_law_def demo_structs_def deep_copier_demo lists_entries_sorted)

text \<open>A policy whose failure policy and one rule's scope share a cell.\<close>

definition demo_policy_memory :: "demo_struct cell memory" where
  "demo_policy_memory = \<lparr>next_addr = 3, store = [
     0 \<mapsto> CString ''Fail'',
     1 \<mapsto> CStructs [(''unused'', None), (''CREATE'', Some 0)],
     2 \<mapsto> CAdmissionPolicy \<lparr>mapTypeMeta = \<lparr>tmKind = ''AdmissionPolicy'', tmAPIVersion = ''''\<rparr>, mapObjectMeta = (''demo'', None),
       mapSpec = \<lparr>mapPolicySpec = \<lparr>mPolicyServer = ''default'', mModule = '''', mMode = ''protect'', mSettings = ('''', None),
         mRules = Slice 1 1 1, mFailurePolicy = Some 0, mMutating = False, mMatchPolicy = None, mObjectSelector = None,
         mSideEffects = None, mTimeoutSeconds = None\<rparr>\<rparr>,
       mapStatus = \<lparr>mPolicyStatus = '''', mPolicyMode = '''', mConditions = NilSlice\<rparr>\<rparr>]\<rparr>"

lemma demo_policy_memory_wf: "mem_wf demo_policy_memory"
  by (auto simp: mem_wf_def demo_policy_memory_def)

lemma demo_policy_memory_next: "next_addr demo_policy_memory = 3"
  by (simp add: demo_policy_memory_def)

text \<open>
  The copy of a list is deep as well: its items stand for the same objects, in the same order, and
  share no memory with the items of the original.
\<close>

lemma list_DeepCopy_independent:
  assumes "lib_structs_law L" "mem_wf m"
  shows "independent_copy (read_pointer as_object_list (read_list L (read_slice as_caps (read_ClusterAdmissionPolicy L))))
       (ClusterAdmissionPolicyList_DeepCopy L) m p \<and>
     independent_copy (read_pointer as_object_list (read_list L (read_slice as_aps (read_AdmissionPolicy L))))
       (AdmissionPolicyList_DeepCopy L) m p \<and>
     independent_copy (read_pointer as_object_list (read_list L (read_slice as_pss (read_PolicyServer L))))
       (PolicyServerList_DeepCopy L) m p"
  using assms
  by (simp add: deep_copier_independent deep_copier_deep_copy deep_copier_lists ClusterAdmissionPolicyList_DeepCopy_def
      AdmissionPolicyList_DeepCopy_def PolicyServerList_DeepCopy_def)

text \<open>A list of two policy servers.\<close>

definition demo_list_memory :: "demo_struct cell memory" where
  "demo_list_memory = \<lparr>next_addr = 4, store = [
     0 \<mapsto> CStrings [''a'', ''registry.local'', ''b''],
     1 \<mapsto> CSliceMap (fmap_of_list [(''ghcr.io'', Slice 0 1 1), (''quay.io'', NilSlice)]),
     2 \<mapsto> CPolicyServers [zero_ps demo_structs, (zero_ps demo_structs)\<lparr>mpsSpec := (mpsSpec (zero_ps demo_structs))
       \<lparr>mpsSourceAuthorities := Some 1\<rparr>\<rparr>],
     3 \<mapsto> CObjectList \<lparr>mlTypeMeta = \<lparr>tmKind = ''PolicyServerList'', tmAPIVersion = ''''\<rparr>, mlListMeta = (''42'', None),
       mlItems = Slice 2 0 2\<rparr>]\<rparr>"

lemma demo_list_memory_wf: "mem_wf demo_list_memory"
  by (auto simp: mem_wf_def demo_list_memory_def)

abbreviation read_demo_list :: "(demo_struct, reference, (TypeMeta \<times> ListMeta \<times> (TypeMeta \<times> PolicyServer) slice) option) mreader" where
  "read_demo_list \<equiv> read_pointer as_object_list (read_list demo_structs (read_slice as_pss (read_PolicyServer demo_structs)))"

lemma demo_list_cells:
  "store demo_list_memory 0 = Some (CStrings [''a'', ''registry.local'', ''b''])"
  "store demo_list_memory 1 = Some (CSliceMap (fmap_of_list [(''ghcr.io'', Slice 0 1 1), (''quay.io'', NilSlice)]))"
  "store demo_list_memory 2 = Some (CPolicyServers [zero_ps demo_structs, (zero_ps demo_structs)\<lparr>mpsSpec :=
     (mpsSpec (zero_ps demo_structs))\<lparr>mpsSourceAuthorities := Some 1\<rparr>\<rparr>])"
  "store demo_list_memory 3 = Some (CObjectList \<lparr>mlTypeMeta = \<lparr>tmKind = ''PolicyServerList'', tmAPIVersion = ''''\<rparr>,
     mlListMeta = (''42'', None), mlItems = Slice 2 0 2\<rparr>)"
  by (simp_all add: demo_list_memory_def)

lemma demo_structs_simps:
  "read_ObjectMeta demo_structs h (n, None) = Some (metaNamed '''' n)"
  "read_ListMeta demo_structs h (n, None) = Some \<lparr>lmResourceVersion = n, lmContinue = ''''\<rparr>"
  "zero_struct demo_structs = ('''', None)"
  by (simp_all add: demo_structs_def demo_read_def read_pointer_def)

text \<open>
  C28. The generated deep copies are deep: the copy of a policy (which \<open>CopyInto\<close> hands out), of a
  policy server, or of a list of them stands for the same value as the original (the same objects in
  the same order) and shares no memory with it.  Whatever is written later through the original leaves
  the copy as it is, and the other way round; the copying itself changes nothing that existed.
\<close>

theorem DeepCopy_independent:
  assumes "lib_structs_law L" "mem_wf m"
  shows "independent_copy (read_pointer as_cap (read_ClusterAdmissionPolicy L)) (ClusterAdmissionPolicy_DeepCopy L) m p \<and>
     independent_copy (read_pointer as_ap (read_AdmissionPolicy L)) (AdmissionPolicy_DeepCopy L) m p \<and>
     independent_copy (read_pointer as_ps (read_PolicyServer L)) (PolicyServer_DeepCopy L) m p \<and>
     independent_copy (read_pointer as_object_list (read_list L (read_slice as_caps (read_ClusterAdmissionPolicy L))))
       (ClusterAdmissionPolicyList_DeepCopy L) m p \<and>
     independent_copy (read_pointer as_object_list (read_list L (read_slice as_aps (read_AdmissionPolicy L))))
       (AdmissionPolicyList_DeepCopy L) m p \<and>
     independent_copy (read_pointer as_object_list (read_list L (read_slice as_pss (read_PolicyServer L))))
       (PolicyServerList_DeepCopy L) m p"
  using assms list_DeepCopy_independent [OF assms]
  by (simp add: deep_copier_independent deep_copier_deep_copy ClusterAdmissionPolicy_DeepCopy_def AdmissionPolicy_DeepCopy_def
      PolicyServer_DeepCopy_def deep_copier_ClusterAdmissionPolicy deep_copier_AdmissionPolicy deep_copier_PolicyServer)

text \<open>The copy of the example is what the policy was, also without the cells of the original.\<close>

theorem DeepCopy_independent_witness:
  "case run_state (AdmissionPolicy_DeepCopy demo_structs (Some 2)) demo_policy_memory of (q, m') \<Rightarrow>
     \<exists>meta p. read_pointer as_ap (read_AdmissionPolicy demo_structs) (fresh demo_policy_memory m') q = Some (Some (meta, p)) \<and>
       ap_GetFailurePolicy p = Some ''Fail'' \<and> map ruleScope (elems (specRules (apSpec p))) = [Some ''Fail'']"
proof -
  let ?read = "read_pointer as_ap (read_AdmissionPolicy demo_structs)"
  have read: "\<exists>meta p. ?read (store demo_policy_memory) (Some 2) = Some (Some (meta, p)) \<and>
       ap_GetFailurePolicy p = Some ''Fail'' \<and> map ruleScope (elems (specRules (apSpec p))) = [Some ''Fail'']"
    by (simp add: demo_policy_memory_def demo_structs_def demo_read_def read_pointer_def read_cell_def read_slice_def
        read_AdmissionPolicy_def read_AdmissionPolicySpec_def read_PolicySpec_def read_PolicyStatus_def slice_range_def
        ap_GetFailurePolicy_def)
  moreover obtain q m' where run: "run_state (AdmissionPolicy_DeepCopy demo_structs (Some 2)) demo_policy_memory = (q, m')"
    by (cases "run_state (AdmissionPolicy_DeepCopy demo_structs (Some 2)) demo_policy_memory")
  moreover have "independent_copy ?read (AdmissionPolicy_DeepCopy demo_structs) demo_policy_memory (Some 2)"
    using DeepCopy_independent [OF demo_structs_law demo_policy_memory_wf, of "Some 2"] by simp
  ultimately show ?thesis
    using independent_copy_alone [of ?read "AdmissionPolicy_DeepCopy demo_structs" demo_policy_memory "Some 2" q m'] by auto
qed

theorem DeepCopy_list_example:
  "case run_state (PolicyServerList_DeepCopy demo_structs (Some 3)) demo_list_memory of (q, m') \<Rightarrow>
     \<exists>ty meta a b. read_demo_list (fresh demo_list_memory m') q = Some (Some (ty, meta, Some [a, b])) \<and>
       psSourceAuthorities (psSpec (snd b)) = Some (fmap_of_list [(''ghcr.io'', [''registry.local'']), (''quay.io'', [])])"
proof -
  let ?sources = "fmap_of_list [(''ghcr.io'', [''registry.local'']), (''quay.io'', [])]"
  have "read_source_authority (store demo_list_memory) (Slice 0 1 1) = Some [''registry.local'']"
    "read_source_authority (store demo_list_memory) NilSlice = Some []"
    by (simp_all add: demo_list_cells read_cell_def read_source_authority_def read_slice_def slice_range_def)
  then have "read_map as_slice_map read_source_authority (store demo_list_memory) (Some 1) = Some (Some ?sources)"
    by (simp add: demo_list_cells read_map_def read_cell_def read_entries_Some_iff del: One_nat_def)
  then have read: "\<exists>ty meta a b. read_demo_list (store demo_list_memory) (Some 3) = Some (Some (ty, meta, Some [a, b])) \<and>
       psSourceAuthorities (psSpec (snd b)) = Some ?sources"
    by (simp add: demo_list_cells demo_structs_simps read_pointer_def read_cell_def read_list_def read_slice_def
        slice_range_def read_PolicyServer_def read_PolicyServerSpec_def read_PolicyServerStatus_def zero_ps_def
        read_map_def [of _ _ _ None] del: One_nat_def)
  moreover obtain q m' where run: "run_state (PolicyServerList_DeepCopy demo_structs (Some 3)) demo_list_memory = (q, m')"
    by (cases "run_state (PolicyServerList_DeepCopy demo_structs (Some 3)) demo_list_memory")
  moreover have "independent_copy read_demo_list (PolicyServerList_DeepCopy demo_structs) demo_list_memory (Some 3)"
    using list_DeepCopy_independent [OF demo_structs_law demo_list_memory_wf, of "Some 3"] by simp
  ultimately show ?thesis
    using independent_copy_alone [of read_demo_list "PolicyServerList_DeepCopy demo_structs" demo_list_memory "Some 3" q m'] by auto
qed

end
