(* ===== verification/V1alpha2_Copies.thy ===== *)
theory V1alpha2_Copies
  imports V1alpha2 Deep_Copies
begin

text \<open>
  The generated deep copies of the API version \<open>v1alpha2\<close>
  (\<open>apis/policies/v1alpha2/zz_generated.deepcopy.go\<close>) and its \<open>CopyInto\<close>.  The structs of both versions
  have the same fields, so the records of \<open>Deep_Copies\<close> are the memory of both; the functions are
  translated from the files of their own version, and each is shown to do what its namesake does.
  Hence a copy made by them is independent as well.
\<close>

type_synonym 'o MClusterAdmissionPolicyList_v1alpha2 = "'o MObjectList"
type_synonym 'o MAdmissionPolicyList_v1alpha2 = "'o MObjectList"
type_synonym 'o MPolicyServerList_v1alpha2 = "'o MObjectList"

section \<open>Copying into a struct\<close>

definition PolicySpec_DeepCopyInto_v1alpha2 :: "'o lib_structs \<Rightarrow> ('o, 'o MPolicySpec) copier" where
  "PolicySpec_DeepCopyInto_v1alpha2 L inn = do {
     let out = inn;
     settings \<leftarrow> RawExtension_DeepCopyInto L (mSettings inn);
     let out = out\<lparr>mSettings := settings\<rparr>;
     rules \<leftarrow> copy_structs L (RuleWithOperations_DeepCopyInto L) (mRules inn);
     let out = out\<lparr>mRules := rules\<rparr>;
     failurePolicy \<leftarrow> copy_string_pointer (mFailurePolicy inn);
     let out = out\<lparr>mFailurePolicy := failurePolicy\<rparr>;
     matchPolicy \<leftarrow> copy_string_pointer (mMatchPolicy inn);
     let out = out\<lparr>mMatchPolicy := matchPolicy\<rparr>;
     objectSelector \<leftarrow> copy_selector_pointer L (mObjectSelector inn);
     let out = out\<lparr>mObjectSelector := objectSelector\<rparr>;
     sideEffects \<leftarrow> copy_string_pointer (mSideEffects inn);
     let out = out\<lparr>mSideEffects := sideEffects\<rparr>;
     timeoutSeconds \<leftarrow> copy_pointer CInt32 as_int32 0 ret (mTimeoutSeconds inn);
     let out = out\<lparr>mTimeoutSeconds := timeoutSeconds\<rparr>;
     ret out
   }"

definition PolicyStatus_DeepCopyInto_v1alpha2 :: "'o lib_structs \<Rightarrow> ('o, MPolicyStatus) copier" where
  "PolicyStatus_DeepCopyInto_v1alpha2 L inn = do {
     let out = inn;
     conditions \<leftarrow> copy_structs L (Condition_DeepCopyInto L) (mConditions inn);
     let out = out\<lparr>mConditions := conditions\<rparr>;
     ret out
   }"

definition ClusterAdmissionPolicySpec_DeepCopyInto_v1alpha2 :: "'o lib_structs \<Rightarrow> ('o, 'o MClusterAdmissionPolicySpec) copier" where
  "ClusterAdmissionPolicySpec_DeepCopyInto_v1alpha2 L inn = do {
     let out = inn;
     policySpec \<leftarrow> PolicySpec_DeepCopyInto_v1alpha2 L (mcapPolicySpec inn);
     let out = out\<lparr>mcapPolicySpec := policySpec\<rparr>;
     namespaceSelector \<leftarrow> copy_selector_pointer L (mcapNamespaceSelector inn);
     let out = out\<lparr>mcapNamespaceSelector := namespaceSelector\<rparr>;
     ret out
   }"

definition AdmissionPolicySpec_DeepCopyInto_v1alpha2 :: "'o lib_structs \<Rightarrow> ('o, 'o MAdmissionPolicySpec) copier" where
  "AdmissionPolicySpec_DeepCopyInto_v1alpha2 L inn = do {
     let out = inn;
     policySpec \<leftarrow> PolicySpec_DeepCopyInto_v1alpha2 L (mapPolicySpec inn);
     let out = out\<lparr>mapPolicySpec := policySpec\<rparr>;
     ret out
   }"

definition PolicyServerSpec_DeepCopyInto_v1alpha2 :: "'o lib_structs \<Rightarrow> ('o, MPolicyServerSpec) copier" where
  "PolicyServerSpec_DeepCopyInto_v1alpha2 L inn = do {
     let out = inn;
     annotations \<leftarrow> copy_map CStringMap as_string_map (range_strings L) ret (mpsAnnotations inn);
     let out = out\<lparr>mpsAnnotations := annotations\<rparr>;
     env \<leftarrow> copy_structs L (EnvVar_DeepCopyInto L) (mpsEnv inn);
     let out = out\<lparr>mpsEnv := env\<rparr>;
     insecureSources \<leftarrow> copy_strings (mpsInsecureSources inn);
     let out = out\<lparr>mpsInsecureSources := insecureSources\<rparr>;
     sourceAuthorities \<leftarrow> copy_map CSliceMap as_slice_map (range_slices L) copy_source_authority (mpsSourceAuthorities inn);
     let out = out\<lparr>mpsSourceAuthorities := sourceAuthorities\<rparr>;
     ret out
   }"

definition PolicyServerStatus_DeepCopyInto_v1alpha2 :: "'o lib_structs \<Rightarrow> ('o, MPolicyServerStatus) copier" where
  "PolicyServerStatus_DeepCopyInto_v1alpha2 L inn = do {
     let out = inn;
     conditions \<leftarrow> copy_structs L (Condition_DeepCopyInto L) (mpsConditions inn);
     let out = out\<lparr>mpsConditions := conditions\<rparr>;
     ret out
   }"

definition ClusterAdmissionPolicy_DeepCopyInto_v1alpha2 :: "'o lib_structs \<Rightarrow> ('o, 'o MClusterAdmissionPolicy) copier" where
  "ClusterAdmissionPolicy_DeepCopyInto_v1alpha2 L inn = do {
     let out = inn;
     let out = out\<lparr>mcapTypeMeta := mcapTypeMeta inn\<rparr>;
     meta \<leftarrow> ObjectMeta_DeepCopyInto L (mcapObjectMeta inn);
     let out = out\<lparr>mcapObjectMeta := meta\<rparr>;
     spec \<leftarrow> ClusterAdmissionPolicySpec_DeepCopyInto_v1alpha2 L (mcapSpec inn);
     let out = out\<lparr>mcapSpec := spec\<rparr>;
     status \<leftarrow> PolicyStatus_DeepCopyInto_v1alpha2 L (mcapStatus inn);
     let out = out\<lparr>mcapStatus := status\<rparr>;
     ret out
   }"

definition AdmissionPolicy_DeepCopyInto_v1alpha2 :: "'o lib_structs \<Rightarrow> ('o, 'o MAdmissionPolicy) copier" where
  "AdmissionPolicy_DeepCopyInto_v1alpha2 L inn = do {
     let out = inn;
     let out = out\<lparr>mapTypeMeta := mapTypeMeta inn\<rparr>;
     meta \<leftarrow> ObjectMeta_DeepCopyInto L (mapObjectMeta inn);
     let out = out\<lparr>mapObjectMeta := meta\<rparr>;
     spec \<leftarrow> AdmissionPolicySpec_DeepCopyInto_v1alpha2 L (mapSpec inn);
     let out = out\<lparr>mapSpec := spec\<rparr>;
     status \<leftarrow> PolicyStatus_DeepCopyInto_v1alpha2 L (mapStatus inn);
     let out = out\<lparr>mapStatus := status\<rparr>;
     ret out
   }"

definition PolicyServer_DeepCopyInto_v1alpha2 :: "'o lib_structs \<Rightarrow> ('o, 'o MPolicyServer) copier" where
  "PolicyServer_DeepCopyInto_v1alpha2 L inn = do {
     let out = inn;
     let out = out\<lparr>mpsTypeMeta := mpsTypeMeta inn\<rparr>;
     meta \<leftarrow> ObjectMeta_DeepCopyInto L (mpsObjectMeta inn);
     let out = out\<lparr>mpsObjectMeta := meta\<rparr>;
     spec \<leftarrow> PolicyServerSpec_DeepCopyInto_v1alpha2 L (mpsSpec inn);
     let out = out\<lparr>mpsSpec := spec\<rparr>;
     status \<leftarrow> PolicyServerStatus_DeepCopyInto_v1alpha2 L (mpsStatus inn);
     let out = out\<lparr>mpsStatus := status\<rparr>;
     ret out
   }"

definition ClusterAdmissionPolicyList_DeepCopyInto_v1alpha2 :: "'o lib_structs \<Rightarrow> ('o, 'o MClusterAdmissionPolicyList_v1alpha2) copier" where
  "ClusterAdmissionPolicyList_DeepCopyInto_v1alpha2 L inn = do {
     let out = inn;
     let out = out\<lparr>mlTypeMeta := mlTypeMeta inn\<rparr>;
     meta \<leftarrow> ListMeta_DeepCopyInto L (mlListMeta inn);
     let out = out\<lparr>mlListMeta := meta\<rparr>;
     items \<leftarrow> copy_slice CClusterAdmissionPolicies as_caps (zero_cap L) (ClusterAdmissionPolicy_DeepCopyInto_v1alpha2 L) (mlItems inn);
     let out = out\<lparr>mlItems := items\<rparr>;
     ret out
   }"

definition AdmissionPolicyList_DeepCopyInto_v1alpha2 :: "'o lib_structs \<Rightarrow> ('o, 'o MAdmissionPolicyList_v1alpha2) copier" where
  "AdmissionPolicyList_DeepCopyInto_v1alpha2 L inn = do {
     let out = inn;
     let out = out\<lparr>mlTypeMeta := mlTypeMeta inn\<rparr>;
     meta \<leftarrow> ListMeta_DeepCopyInto L (mlListMeta inn);
     let out = out\<lparr>mlListMeta := meta\<rparr>;
     items \<leftarrow> copy_slice CAdmissionPolicies as_aps (zero_ap L) (AdmissionPolicy_DeepCopyInto_v1alpha2 L) (mlItems inn);
     let out = out\<lparr>mlItems := items\<rparr>;
     ret out
   }"

definition PolicyServerList_DeepCopyInto_v1alpha2 :: "'o lib_structs \<Rightarrow> ('o, 'o MPolicyServerList_v1alpha2) copier" where
  "PolicyServerList_DeepCopyInto_v1alpha2 L inn = do {
     let out = inn;
     let out = out\<lparr>mlTypeMeta := mlTypeMeta inn\<rparr>;
     meta \<leftarrow> ListMeta_DeepCopyInto L (mlListMeta inn);
     let out = out\<lparr>mlListMeta := meta\<rparr>;
     items \<leftarrow> copy_slice CPolicyServers as_pss (zero_ps L) (PolicyServer_DeepCopyInto_v1alpha2 L) (mlItems inn);
     let out = out\<lparr>mlItems := items\<rparr>;
     ret out
   }"

section \<open>Copying behind a pointer\<close>

definition PolicySpec_DeepCopy_v1alpha2 :: "'o lib_structs \<Rightarrow> reference \<Rightarrow> ('o cell memory, reference) state" where
  "PolicySpec_DeepCopy_v1alpha2 L = deep_copy CPolicySpec as_policy_spec (PolicySpec_DeepCopyInto_v1alpha2 L)"

definition PolicyStatus_DeepCopy_v1alpha2 :: "'o lib_structs \<Rightarrow> reference \<Rightarrow> ('o cell memory, reference) state" where
  "PolicyStatus_DeepCopy_v1alpha2 L = deep_copy CPolicyStatus as_policy_status (PolicyStatus_DeepCopyInto_v1alpha2 L)"

definition ClusterAdmissionPolicySpec_DeepCopy_v1alpha2 :: "'o lib_structs \<Rightarrow> reference \<Rightarrow> ('o cell memory, reference) state" where
  "ClusterAdmissionPolicySpec_DeepCopy_v1alpha2 L =
     deep_copy CClusterAdmissionPolicySpec as_cap_spec (ClusterAdmissionPolicySpec_DeepCopyInto_v1alpha2 L)"

definition ClusterAdmissionPolicy_DeepCopy_v1alpha2 :: "'o lib_structs \<Rightarrow> reference \<Rightarrow> ('o cell memory, reference) state" where
  "ClusterAdmissionPolicy_DeepCopy_v1alpha2 L = deep_copy CClusterAdmissionPolicy as_cap (ClusterAdmissionPolicy_DeepCopyInto_v1alpha2 L)"

definition ClusterAdmissionPolicyList_DeepCopy_v1alpha2 :: "'o lib_structs \<Rightarrow> reference \<Rightarrow> ('o cell memory, reference) state" where
  "ClusterAdmissionPolicyList_DeepCopy_v1alpha2 L = deep_copy CObjectList as_object_list (ClusterAdmissionPolicyList_DeepCopyInto_v1alpha2 L)"

definition AdmissionPolicySpec_DeepCopy_v1alpha2 :: "'o lib_structs \<Rightarrow> reference \<Rightarrow> ('o cell memory, reference) state" where
  "AdmissionPolicySpec_DeepCopy_v1alpha2 L = deep_copy CAdmissionPolicySpec as_ap_spec (AdmissionPolicySpec_DeepCopyInto_v1alpha2 L)"

definition AdmissionPolicy_DeepCopy_v1alpha2 :: "'o lib_structs \<Rightarrow> reference \<Rightarrow> ('o cell memory, reference) state" where
  "AdmissionPolicy_DeepCopy_v1alpha2 L = deep_copy CAdmissionPolicy as_ap (AdmissionPolicy_DeepCopyInto_v1alpha2 L)"

definition AdmissionPolicyList_DeepCopy_v1alpha2 :: "'o lib_structs \<Rightarrow> reference \<Rightarrow> ('o cell memory, reference) state" where
  "AdmissionPolicyList_DeepCopy_v1alpha2 L = deep_copy CObjectList as_object_list (AdmissionPolicyList_DeepCopyInto_v1alpha2 L)"

definition PolicyServerSpec_DeepCopy_v1alpha2 :: "'o lib_structs \<Rightarrow> reference \<Rightarrow> ('o cell memory, reference) state" where
  "PolicyServerSpec_DeepCopy_v1alpha2 L = deep_copy CPolicyServerSpec as_ps_spec (PolicyServerSpec_DeepCopyInto_v1alpha2 L)"

definition PolicyServerStatus_DeepCopy_v1alpha2 :: "'o lib_structs \<Rightarrow> reference \<Rightarrow> ('o cell memory, reference) state" where
  "PolicyServerStatus_DeepCopy_v1alpha2 L = deep_copy CPolicyServerStatus as_ps_status (PolicyServerStatus_DeepCopyInto_v1alpha2 L)"

definition PolicyServer_DeepCopy_v1alpha2 :: "'o lib_structs \<Rightarrow> reference \<Rightarrow> ('o cell memory, reference) state" where
  "PolicyServer_DeepCopy_v1alpha2 L = deep_copy CPolicyServer as_ps (PolicyServer_DeepCopyInto_v1alpha2 L)"

definition PolicyServerList_DeepCopy_v1alpha2 :: "'o lib_structs \<Rightarrow> reference \<Rightarrow> ('o cell memory, reference) state" where
  "PolicyServerList_DeepCopy_v1alpha2 L = deep_copy CObjectList as_object_list (PolicyServerList_DeepCopyInto_v1alpha2 L)"

definition cap_CopyInto_v1alpha2 :: "'o lib_structs \<Rightarrow> reference \<Rightarrow> ('o cell memory, MPolicy) state" where
  "cap_CopyInto_v1alpha2 L r = do { c \<leftarrow> ClusterAdmissionPolicy_DeepCopy_v1alpha2 L r; ret (MClusterPolicy c) }"

definition ap_CopyInto_v1alpha2 :: "'o lib_structs \<Rightarrow> reference \<Rightarrow> ('o cell memory, MPolicy) state" where
  "ap_CopyInto_v1alpha2 L r = do { c \<leftarrow> AdmissionPolicy_DeepCopy_v1alpha2 L r; ret (MNamespacedPolicy c) }"

definition ClusterAdmissionPolicy_DeepCopyObject_v1alpha2 :: "'o lib_structs \<Rightarrow> reference \<Rightarrow> ('o cell memory, MObject option) state" where
  "ClusterAdmissionPolicy_DeepCopyObject_v1alpha2 L inn = do {
     c \<leftarrow> ClusterAdmissionPolicy_DeepCopy_v1alpha2 L inn;
     ret (case c of Some a \<Rightarrow> Some (MClusterAdmissionPolicyObject a) | None \<Rightarrow> None)
   }"

definition ClusterAdmissionPolicyList_DeepCopyObject_v1alpha2 :: "'o lib_structs \<Rightarrow> reference \<Rightarrow> ('o cell memory, MObject option) state" where
  "ClusterAdmissionPolicyList_DeepCopyObject_v1alpha2 L inn = do {
     c \<leftarrow> ClusterAdmissionPolicyList_DeepCopy_v1alpha2 L inn;
     ret (case c of Some a \<Rightarrow> Some (MClusterAdmissionPolicyListObject a) | None \<Rightarrow> None)
   }"

definition AdmissionPolicy_DeepCopyObject_v1alpha2 :: "'o lib_structs \<Rightarrow> reference \<Rightarrow> ('o cell memory, MObject option) state" where
  "AdmissionPolicy_DeepCopyObject_v1alpha2 L inn = do {
     c \<leftarrow> AdmissionPolicy_DeepCopy_v1alpha2 L inn;
     ret (case c of Some a \<Rightarrow> Some (MAdmissionPolicyObject a) | None \<Rightarrow> None)
   }"

definition AdmissionPolicyList_DeepCopyObject_v1alpha2 :: "'o lib_structs \<Rightarrow> reference \<Rightarrow> ('o cell memory, MObject option) state" where
  "AdmissionPolicyList_DeepCopyObject_v1alpha2 L inn = do {
     c \<leftarrow> AdmissionPolicyList_DeepCopy_v1alpha2 L inn;
     ret (case c of Some a \<Rightarrow> Some (MAdmissionPolicyListObject a) | None \<Rightarrow> None)
   }"

definition PolicyServer_DeepCopyObject_v1alpha2 :: "'o lib_structs \<Rightarrow> reference \<Rightarrow> ('o cell memory, MObject option) state" where
  "PolicyServer_DeepCopyObject_v1alpha2 L inn = do {
     c \<leftarrow> PolicyServer_DeepCopy_v1alpha2 L inn;
     ret (case c of Some a \<Rightarrow> Some (MPolicyServerObject a) | None \<Rightarrow> None)
   }"

definition PolicyServerList_DeepCopyObject_v1alpha2 :: "'o lib_structs \<Rightarrow> reference \<Rightarrow> ('o cell memory, MObject option) state" where
  "PolicyServerList_DeepCopyObject_v1alpha2 L inn = do {
     c \<leftarrow> PolicyServerList_DeepCopy_v1alpha2 L inn;
     ret (case c of Some a \<Rightarrow> Some (MPolicyServerListObject a) | None \<Rightarrow> None)
   }"

section \<open>Both versions copy alike\<close>

lemma DeepCopyInto_v1alpha2_eq:
  "PolicySpec_DeepCopyInto_v1alpha2 L = PolicySpec_DeepCopyInto L"
  "PolicyStatus_DeepCopyInto_v1alpha2 L = PolicyStatus_DeepCopyInto L"
  "ClusterAdmissionPolicySpec_DeepCopyInto_v1alpha2 L = ClusterAdmissionPolicySpec_DeepCopyInto L"
  "AdmissionPolicySpec_DeepCopyInto_v1alpha2 L = AdmissionPolicySpec_DeepCopyInto L"
  "PolicyServerSpec_DeepCopyInto_v1alpha2 L = PolicyServerSpec_DeepCopyInto L"
  "PolicyServerStatus_DeepCopyInto_v1alpha2 L = PolicyServerStatus_DeepCopyInto L"
  "ClusterAdmissionPolicy_DeepCopyInto_v1alpha2 L = ClusterAdmissionPolicy_DeepCopyInto L"
  "AdmissionPolicy_DeepCopyInto_v1alpha2 L = AdmissionPolicy_DeepCopyInto L"
  "PolicyServer_DeepCopyInto_v1alpha2 L = PolicyServer_DeepCopyInto L"
  "ClusterAdmissionPolicyList_DeepCopyInto_v1alpha2 L = ClusterAdmissionPolicyList_DeepCopyInto L"
  "AdmissionPolicyList_DeepCopyInto_v1alpha2 L = AdmissionPolicyList_DeepCopyInto L"
  "PolicyServerList_DeepCopyInto_v1alpha2 L = PolicyServerList_DeepCopyInto L"
proof -
  show PolicySpec: "PolicySpec_DeepCopyInto_v1alpha2 L = PolicySpec_DeepCopyInto L"
    by (simp add: fun_eq_iff PolicySpec_DeepCopyInto_v1alpha2_def PolicySpec_DeepCopyInto_def)
  show PolicyStatus: "PolicyStatus_DeepCopyInto_v1alpha2 L = PolicyStatus_DeepCopyInto L"
    by (simp add: fun_eq_iff PolicyStatus_DeepCopyInto_v1alpha2_def PolicyStatus_DeepCopyInto_def)
  show ClusterAdmissionPolicySpec: "ClusterAdmissionPolicySpec_DeepCopyInto_v1alpha2 L = ClusterAdmissionPolicySpec_DeepCopyInto L"
    by (simp add: fun_eq_iff ClusterAdmissionPolicySpec_DeepCopyInto_v1alpha2_def ClusterAdmissionPolicySpec_DeepCopyInto_def PolicySpec)
  show AdmissionPolicySpec: "AdmissionPolicySpec_DeepCopyInto_v1alpha2 L = AdmissionPolicySpec_DeepCopyInto L"
    by (simp add: fun_eq_iff AdmissionPolicySpec_DeepCopyInto_v1alpha2_def AdmissionPolicySpec_DeepCopyInto_def PolicySpec)
  show PolicyServerSpec: "PolicyServerSpec_DeepCopyInto_v1alpha2 L = PolicyServerSpec_DeepCopyInto L"
    by (simp add: fun_eq_iff PolicyServerSpec_DeepCopyInto_v1alpha2_def PolicyServerSpec_DeepCopyInto_def)
  show PolicyServerStatus: "PolicyServerStatus_DeepCopyInto_v1alpha2 L = PolicyServerStatus_DeepCopyInto L"
    by (simp add: fun_eq_iff PolicyServerStatus_DeepCopyInto_v1alpha2_def PolicyServerStatus_DeepCopyInto_def)
  show ClusterAdmissionPolicy: "ClusterAdmissionPolicy_DeepCopyInto_v1alpha2 L = ClusterAdmissionPolicy_DeepCopyInto L"
    by (simp add: fun_eq_iff ClusterAdmissionPolicy_DeepCopyInto_v1alpha2_def ClusterAdmissionPolicy_DeepCopyInto_def PolicyStatus ClusterAdmissionPolicySpec)
  show AdmissionPolicy: "AdmissionPolicy_DeepCopyInto_v1alpha2 L = AdmissionPolicy_DeepCopyInto L"
    by (simp add: fun_eq_iff AdmissionPolicy_DeepCopyInto_v1alpha2_def AdmissionPolicy_DeepCopyInto_def PolicyStatus AdmissionPolicySpec)
  show PolicyServer: "PolicyServer_DeepCopyInto_v1alpha2 L = PolicyServer_DeepCopyInto L"
    by (simp add: fun_eq_iff PolicyServer_DeepCopyInto_v1alpha2_def PolicyServer_DeepCopyInto_def PolicyServerSpec PolicyServerStatus)
  show ClusterAdmissionPolicyList: "ClusterAdmissionPolicyList_DeepCopyInto_v1alpha2 L = ClusterAdmissionPolicyList_DeepCopyInto L"
    by (simp add: fun_eq_iff ClusterAdmissionPolicyList_DeepCopyInto_v1alpha2_def ClusterAdmissionPolicyList_DeepCopyInto_def ClusterAdmissionPolicy)
  show AdmissionPolicyList: "AdmissionPolicyList_DeepCopyInto_v1alpha2 L = AdmissionPolicyList_DeepCopyInto L"
    by (simp add: fun_eq_iff AdmissionPolicyList_DeepCopyInto_v1alpha2_def AdmissionPolicyList_DeepCopyInto_def AdmissionPolicy)
  show PolicyServerList: "PolicyServerList_DeepCopyInto_v1alpha2 L = PolicyServerList_DeepCopyInto L"
    by (simp add: fun_eq_iff PolicyServerList_DeepCopyInto_v1alpha2_def PolicyServerList_DeepCopyInto_def PolicyServer)
qed

lemma DeepCopy_v1alpha2_eq:
  "PolicySpec_DeepCopy_v1alpha2 L = PolicySpec_DeepCopy L"
  "PolicyStatus_DeepCopy_v1alpha2 L = PolicyStatus_DeepCopy L"
  "ClusterAdmissionPolicySpec_DeepCopy_v1alpha2 L = ClusterAdmissionPolicySpec_DeepCopy L"
  "ClusterAdmissionPolicy_DeepCopy_v1alpha2 L = ClusterAdmissionPolicy_DeepCopy L"
  "ClusterAdmissionPolicyList_DeepCopy_v1alpha2 L = ClusterAdmissionPolicyList_DeepCopy L"
  "AdmissionPolicySpec_DeepCopy_v1alpha2 L = AdmissionPolicySpec_DeepCopy L"
  "AdmissionPolicy_DeepCopy_v1alpha2 L = AdmissionPolicy_DeepCopy L"
  "AdmissionPolicyList_DeepCopy_v1alpha2 L = AdmissionPolicyList_DeepCopy L"
  "PolicyServerSpec_DeepCopy_v1alpha2 L = PolicyServerSpec_DeepCopy L"
  "PolicyServerStatus_DeepCopy_v1alpha2 L = PolicyServerStatus_DeepCopy L"
  "PolicyServer_DeepCopy_v1alpha2 L = PolicyServer_DeepCopy L"
  "PolicyServerList_DeepCopy_v1alpha2 L = PolicyServerList_DeepCopy L"
  by (simp_all add: DeepCopyInto_v1alpha2_eq PolicySpec_DeepCopy_v1alpha2_def PolicySpec_DeepCopy_def
    PolicyStatus_DeepCopy_v1alpha2_def PolicyStatus_DeepCopy_def
    ClusterAdmissionPolicySpec_DeepCopy_v1alpha2_def ClusterAdmissionPolicySpec_DeepCopy_def
    ClusterAdmissionPolicy_DeepCopy_v1alpha2_def ClusterAdmissionPolicy_DeepCopy_def
    ClusterAdmissionPolicyList_DeepCopy_v1alpha2_def ClusterAdmissionPolicyList_DeepCopy_def
    AdmissionPolicySpec_DeepCopy_v1alpha2_def AdmissionPolicySpec_DeepCopy_def
    AdmissionPolicy_DeepCopy_v1alpha2_def AdmissionPolicy_DeepCopy_def
    AdmissionPolicyList_DeepCopy_v1alpha2_def AdmissionPolicyList_DeepCopy_def
    PolicyServerSpec_DeepCopy_v1alpha2_def PolicyServerSpec_DeepCopy_def
    PolicyServerStatus_DeepCopy_v1alpha2_def PolicyServerStatus_DeepCopy_def
    PolicyServer_DeepCopy_v1alpha2_def PolicyServer_DeepCopy_def
    PolicyServerList_DeepCopy_v1alpha2_def PolicyServerList_DeepCopy_def)

lemma CopyInto_v1alpha2_eq:
  "cap_CopyInto_v1alpha2 L = cap_CopyInto L"
  "ap_CopyInto_v1alpha2 L = ap_CopyInto L"
  "ClusterAdmissionPolicy_DeepCopyObject_v1alpha2 L = ClusterAdmissionPolicy_DeepCopyObject L"
  "ClusterAdmissionPolicyList_DeepCopyObject_v1alpha2 L = ClusterAdmissionPolicyList_DeepCopyObject L"
  "AdmissionPolicy_DeepCopyObject_v1alpha2 L = AdmissionPolicy_DeepCopyObject L"
  "AdmissionPolicyList_DeepCopyObject_v1alpha2 L = AdmissionPolicyList_DeepCopyObject L"
  "PolicyServer_DeepCopyObject_v1alpha2 L = PolicyServer_DeepCopyObject L"
  "PolicyServerList_DeepCopyObject_v1alpha2 L = PolicyServerList_DeepCopyObject L"
  by (simp_all add: fun_eq_iff DeepCopy_v1alpha2_eq cap_CopyInto_v1alpha2_def cap_CopyInto_def
    ap_CopyInto_v1alpha2_def ap_CopyInto_def
    ClusterAdmissionPolicy_DeepCopyObject_v1alpha2_def ClusterAdmissionPolicy_DeepCopyObject_def
    ClusterAdmissionPolicyList_DeepCopyObject_v1alpha2_def ClusterAdmissionPolicyList_DeepCopyObject_def
    AdmissionPolicy_DeepCopyObject_v1alpha2_def AdmissionPolicy_DeepCopyObject_def
    AdmissionPolicyList_DeepCopyObject_v1alpha2_def AdmissionPolicyList_DeepCopyObject_def
    PolicyServer_DeepCopyObject_v1alpha2_def PolicyServer_DeepCopyObject_def
    PolicyServerList_DeepCopyObject_v1alpha2_def PolicyServerList_DeepCopyObject_def)

text \<open>The copy of an object of the old version is independent of the original, too.\<close>

lemma DeepCopy_v1alpha2_independent:
  assumes "lib_structs_law L" "mem_wf m"
  shows "independent_copy (read_pointer as_cap (read_ClusterAdmissionPolicy L)) (ClusterAdmissionPolicy_DeepCopy_v1alpha2 L) m p \<and>
     independent_copy (read_pointer as_ap (read_AdmissionPolicy L)) (AdmissionPolicy_DeepCopy_v1alpha2 L) m p \<and>
     independent_copy (read_pointer as_ps (read_PolicyServer L)) (PolicyServer_DeepCopy_v1alpha2 L) m p \<and>
     independent_copy (read_pointer as_object_list (read_list L (read_slice as_caps (read_ClusterAdmissionPolicy L))))
       (ClusterAdmissionPolicyList_DeepCopy_v1alpha2 L) m p \<and>
     independent_copy (read_pointer as_object_list (read_list L (read_slice as_aps (read_AdmissionPolicy L))))
       (AdmissionPolicyList_DeepCopy_v1alpha2 L) m p \<and>
     independent_copy (read_pointer as_object_list (read_list L (read_slice as_pss (read_PolicyServer L))))
       (PolicyServerList_DeepCopy_v1alpha2 L) m p"
  using assms list_DeepCopy_independent [OF assms]
  by (simp add: DeepCopy_v1alpha2_eq deep_copier_independent deep_copier_deep_copy ClusterAdmissionPolicy_DeepCopy_def
      AdmissionPolicy_DeepCopy_def PolicyServer_DeepCopy_def deep_copier_ClusterAdmissionPolicy deep_copier_AdmissionPolicy
      deep_copier_PolicyServer)

end
