(* ===== verification/Cluster.thy ===== *)
theory Cluster
  imports Api_Client
begin

text \<open>
  The API server as a store of objects, and reasoning about a controller that shares the store with
  others.

  In the other theories nothing is assumed of the API server.  Here its documented behaviour is
  stated, as the locale \<open>cluster\<close>: an object that is read is the stored one, a create
  request fails if there is one, an update is accepted only for the version that was read, the status
  subresource changes only the status, an object with finalizers is marked and stays until they are
  removed.  Before each request others may change the store as the relation \<open>others\<close> says.  A request
  that fails for another reason than NotFound, AlreadyExists or Conflict may have taken effect.

  \<open>sat\<close> is a rely-guarantee triple: others keep to \<open>others\<close>, each request keeps to the guarantee.
\<close>

section \<open>The store\<close>

type_synonym store = "kind \<Rightarrow> ObjectKey \<Rightarrow> api_object option"

definition put :: "api_object \<Rightarrow> store \<Rightarrow> store" where
  "put ob st = st(kind_of ob := (st (kind_of ob))(key_of ob \<mapsto> ob))"

definition erase :: "kind \<Rightarrow> ObjectKey \<Rightarrow> store \<Rightarrow> store" where
  "erase k key st = st(k := (st k)(key := None))"

lemma put_apply: "put ob st k key = (if k = kind_of ob \<and> key = key_of ob then Some ob else st k key)"
  by (simp add: put_def)

lemma erase_apply: "erase k key st k' key' = (if k' = k \<and> key' = key then None else st k' key')"
  by (simp add: erase_def)

text \<open>Every object lies at its kind and key, and has a name.\<close>

definition store_ok :: "store \<Rightarrow> bool" where
  "store_ok st \<longleftrightarrow> (\<forall>k key ob. st k key = Some ob \<longrightarrow> kind_of ob = k \<and> key_of ob = key \<and> nnName key \<noteq> '''')"

lemma store_okD:
  "store_ok st \<Longrightarrow> st k key = Some ob \<Longrightarrow> kind_of ob = k"
  "store_ok st \<Longrightarrow> st k key = Some ob \<Longrightarrow> key_of ob = key"
  "store_ok st \<Longrightarrow> st k key = Some ob \<Longrightarrow> nnName key \<noteq> ''''"
  by (simp_all add: store_ok_def)

lemma store_ok_put: "store_ok st \<Longrightarrow> nnName (key_of ob) \<noteq> '''' \<Longrightarrow> store_ok (put ob st)"
  by (simp add: store_ok_def put_apply)

lemma store_ok_erase: "store_ok st \<Longrightarrow> store_ok (erase k key st)"
  by (simp add: store_ok_def erase_apply)

fun edit_meta :: "(ObjectMeta \<Rightarrow> ObjectMeta) \<Rightarrow> api_object \<Rightarrow> api_object" where
  "edit_meta f (OConfigMap c) = OConfigMap (c\<lparr>cmMeta := f (cmMeta c)\<rparr>)"
| "edit_meta f (OSecret s) = OSecret (s\<lparr>secMeta := f (secMeta s)\<rparr>)"
| "edit_meta f (ODeployment d) = ODeployment (d\<lparr>depMeta := f (depMeta d)\<rparr>)"
| "edit_meta f (OService s) = OService (s\<lparr>svcMeta := f (svcMeta s)\<rparr>)"
| "edit_meta f (OMutating m) = OMutating (m\<lparr>mwcMeta := f (mwcMeta m)\<rparr>)"
| "edit_meta f (OValidating v) = OValidating (v\<lparr>vwcMeta := f (vwcMeta v)\<rparr>)"
| "edit_meta f (OPolicyServer p) = OPolicyServer (p\<lparr>psMeta := f (psMeta p)\<rparr>)"
| "edit_meta f (OPolicy p) = OPolicy (UpdateMeta f p)"
| "edit_meta f (OReplicaSet r) = OReplicaSet (r\<lparr>rsMeta := f (rsMeta r)\<rparr>)"
| "edit_meta f (OPod p) = OPod (p\<lparr>podMeta := f (podMeta p)\<rparr>)"

lemma GetObjectMeta_UpdateMeta [simp]: "GetObjectMeta (UpdateMeta f p) = f (GetObjectMeta p)"
  by (cases p) simp_all

lemma kind_of_UpdateMeta [simp]: "kind_of (OPolicy (UpdateMeta f p)) = kind_of (OPolicy p)"
  by (cases p) simp_all

lemma meta_of_edit [simp]: "meta_of (edit_meta f ob) = f (meta_of ob)"
  by (cases ob) simp_all

lemma kind_of_edit [simp]: "kind_of (edit_meta f ob) = kind_of ob"
  by (cases ob) simp_all

text \<open>The mark that the API server puts on an object that has finalizers when it is deleted.\<close>

definition terminating :: "nat \<Rightarrow> string \<Rightarrow> api_object \<Rightarrow> api_object" where
  "terminating t v = edit_meta (\<lambda>m. m\<lparr>DeletionTimestamp := Some t, ResourceVersion := v\<rparr>)"

lemma terminating_simps [simp]:
  "kind_of (terminating t v ob) = kind_of ob" "key_of (terminating t v ob) = key_of ob"
  "DeletionTimestamp (meta_of (terminating t v ob)) = Some t"
  "Finalizers (meta_of (terminating t v ob)) = Finalizers (meta_of ob)"
  by (simp_all add: terminating_def key_of_def)

section \<open>What the API server does with a request\<close>

text \<open>
  \<open>completes ob res\<close>: \<open>res\<close> is \<open>ob\<close> with the fields filled in that the server fills in (versions and
  defaults).  \<open>others\<close>: what others may do between two requests.  \<open>indexed\<close>: the field indexes.
\<close>

record api_server =
  completes :: "api_object \<Rightarrow> api_object \<Rightarrow> bool"
  indexed :: "string \<Rightarrow> api_object \<Rightarrow> string list"
  others :: "store \<Rightarrow> store \<Rightarrow> bool"

text \<open>A write to the status subresource.\<close>

definition status_written :: "api_object \<Rightarrow> api_object \<Rightarrow> api_object \<Rightarrow> bool" where
  "status_written old ob res \<longleftrightarrow>
     (\<exists>p p' q v. old = OPolicy p \<and> ob = OPolicy p' \<and> res = OPolicy q \<and> GetStatus q = GetStatus p' \<and>
        policy_view q = policy_view (UpdateMeta (\<lambda>m. m\<lparr>ResourceVersion := v\<rparr>) p)) \<or>
     (\<exists>s s' t v. old = OPolicyServer s \<and> ob = OPolicyServer s' \<and> res = OPolicyServer t \<and>
        t = s\<lparr>psMeta := (psMeta s)\<lparr>ResourceVersion := v\<rparr>, psConditions := psConditions s'\<rparr>)"

text \<open>
  A patch is the difference between the object that was read, the base, and the object wanted.  It has
  the effect of an update when nothing but the version of the stored object changed since the read.
\<close>

definition revised :: "api_object \<Rightarrow> api_object \<Rightarrow> bool" where
  "revised base old \<longleftrightarrow> (\<exists>v. old = edit_meta (\<lambda>m. m\<lparr>ResourceVersion := v\<rparr>) base)"

lemma revised_refl [simp]: "revised ob ob"
  unfolding revised_def
  by (rule exI [of _ "ResourceVersion (meta_of ob)"], cases ob rule: kind_of.cases) simp_all

lemma revised_trans: "revised a b \<Longrightarrow> revised b c \<Longrightarrow> revised a c"
  unfolding revised_def by (elim exE, cases a rule: kind_of.cases) auto

fun accepts :: "api_server \<Rightarrow> write_request \<Rightarrow> api_object \<Rightarrow> store \<Rightarrow> store \<Rightarrow> bool" where
  "accepts S (Create ob) res st st' \<longleftrightarrow>
     st (kind_of ob) (key_of ob) = None \<and> Name (meta_of ob) \<noteq> '''' \<and> completes S ob res \<and> st' = put res st"
| "accepts S (Update ob) res st st' \<longleftrightarrow>
     (\<exists>old. st (kind_of ob) (key_of ob) = Some old \<and> completes S ob res \<and>
        ResourceVersion (meta_of ob) = ResourceVersion (meta_of old) \<and>
        DeletionTimestamp (meta_of ob) = DeletionTimestamp (meta_of old) \<and>
        DeletionTimestamp (meta_of res) = DeletionTimestamp (meta_of old) \<and>
        st' = (if DeletionTimestamp (meta_of old) \<noteq> None \<and> Finalizers (meta_of ob) = []
               then erase (kind_of ob) (key_of ob) st else put res st))"
| "accepts S (StatusUpdate ob) res st st' \<longleftrightarrow>
     (\<exists>old. st (kind_of ob) (key_of ob) = Some old \<and> status_written old ob res \<and> st' = put res st)"
| "accepts S (Patch ob base) res st st' \<longleftrightarrow>
     (\<exists>old. st (kind_of ob) (key_of ob) = Some old \<and> kind_of res = kind_of ob \<and> key_of res = key_of ob \<and>
        DeletionTimestamp (meta_of res) = DeletionTimestamp (meta_of old) \<and>
        (revised base old \<longrightarrow> completes S ob res) \<and> st' = put res st)"
| "accepts S (Delete k key) res st st' \<longleftrightarrow>
     (\<exists>old. st k key = Some old \<and>
        (if Finalizers (meta_of old) = [] then st' = erase k key st else \<exists>t v. st' = put (terminating t v old) st))"

fun refuses :: "api_server \<Rightarrow> write_request \<Rightarrow> api_error \<Rightarrow> store \<Rightarrow> store \<Rightarrow> bool" where
  "refuses S q (NotFound m) st st' \<longleftrightarrow> st' = st \<and> (\<forall>k key. q = Delete k key \<longrightarrow> st k key = None)"
| "refuses S q (AlreadyExists m) st st' \<longleftrightarrow> st' = st \<and> (\<forall>ob. q = Create ob \<longrightarrow> st (kind_of ob) (key_of ob) \<noteq> None)"
| "refuses S q (Conflict m) st st' \<longleftrightarrow> st' = st"
| "refuses S q (OtherApiError m) st st' \<longleftrightarrow> st' = st \<or> (\<exists>res. accepts S q res st st')"

definition selects :: "api_server \<Rightarrow> list_selector \<Rightarrow> api_object \<Rightarrow> bool" where
  "selects S sel ob = (case sel of
     MatchingLabels l v \<Rightarrow> fmlookup (Labels (meta_of ob)) l = Some v
   | MatchingFields f v \<Rightarrow> v \<in> set (indexed S f ob))"

definition found :: "kind \<Rightarrow> ObjectKey \<Rightarrow> api_error + api_object \<Rightarrow> store \<Rightarrow> bool" where
  "found k key x st = (case x of Inl e \<Rightarrow> IsNotFound e \<longrightarrow> st k key = None | Inr ob \<Rightarrow> st k key = Some ob)"

definition found_all :: "api_server \<Rightarrow> kind \<Rightarrow> list_selector \<Rightarrow> api_error + api_object list \<Rightarrow> store \<Rightarrow> bool" where
  "found_all S k sel x st = (case x of Inl e \<Rightarrow> True
     | Inr obs \<Rightarrow> set obs = {ob. \<exists>key. st k key = Some ob \<and> selects S sel ob})"

fun answered :: "api_server \<Rightarrow> api_event \<Rightarrow> store \<Rightarrow> store \<Rightarrow> bool" where
  "answered S (EvGet k key x) st st' \<longleftrightarrow> st' = st \<and> found k key x st"
| "answered S (EvList k sel x) st st' \<longleftrightarrow> st' = st \<and> found_all S k sel x st"
| "answered S (EvWrite q (Inr res)) st st' \<longleftrightarrow> accepts S q res st st'"
| "answered S (EvWrite q (Inl e)) st st' \<longleftrightarrow> refuses S q e st st'"

lemma answered_write:
  "answered S (EvWrite q x) st st' \<Longrightarrow> st' = st \<or> (\<exists>res. accepts S q res st st')"
proof (cases x)
  case (Inl e)
  then show "answered S (EvWrite q x) st st' \<Longrightarrow> ?thesis" by (cases e) auto
qed auto

text \<open>What every accepted request does is also done when the request fails but took effect.\<close>

lemma answered_keeps:
  assumes "answered S (EvWrite q x) st st'" and "I st"
    and "\<And>res st1. accepts S q res st st1 \<Longrightarrow> I st1 \<and> J st1"
  shows "I st' \<and> (\<forall>res. x = Inr res \<longrightarrow> J st')"
  using assms answered_write [OF assms(1)] by (cases x) auto

section \<open>Runs on the store\<close>

inductive evolves :: "api_server \<Rightarrow> (store \<Rightarrow> store \<Rightarrow> bool) \<Rightarrow> store \<Rightarrow> api_event list \<Rightarrow> store \<Rightarrow> bool" where
  no_more: "evolves S G st [] st"
| request: "others S st st1 \<Longrightarrow> answered S ev st1 st2 \<Longrightarrow> G st1 st2 \<Longrightarrow> evolves S G st2 es st3 \<Longrightarrow>
     evolves S G st (ev # es) st3"

inductive_simps evolves_simps [simp]: "evolves S G st [] st'"

lemma evolves_append:
  "evolves S G st es st' \<Longrightarrow> evolves S G st' fs st'' \<Longrightarrow> evolves S G st (es @ fs) st''"
  by (induction rule: evolves.induct) (auto intro: evolves.intros)

lemma evolves_invariant:
  assumes "evolves S G st es st'"
    and "\<And>st st'. others S st st' \<Longrightarrow> I st \<Longrightarrow> I st'" and "\<And>st st'. G st st' \<Longrightarrow> I st \<Longrightarrow> I st'"
  shows "I st \<Longrightarrow> I st'"
  using assms by (induction rule: evolves.induct) blast+

definition sat ::
    "api_server \<Rightarrow> ('w \<Rightarrow> store) \<Rightarrow> (store \<Rightarrow> bool) \<Rightarrow> ('w, 'a) api \<Rightarrow> (store \<Rightarrow> store \<Rightarrow> bool) \<Rightarrow>
     ('a \<Rightarrow> store \<Rightarrow> bool) \<Rightarrow> bool" where
  "sat S contents P m G Q \<longleftrightarrow> (\<forall>s. P (contents (world s)) \<longrightarrow>
     (\<exists>es. trace (snd (run_state m s)) = trace s @ es \<and>
        evolves S G (contents (world s)) es (contents (world (snd (run_state m s)))) \<and>
        Q (fst (run_state m s)) (contents (world (snd (run_state m s))))))"

definition lasting :: "api_server \<Rightarrow> (store \<Rightarrow> bool) \<Rightarrow> bool" where
  "lasting S P \<longleftrightarrow> (\<forall>st st'. others S st st' \<longrightarrow> P st \<longrightarrow> P st')"

lemma lasting_conj: "lasting S P \<Longrightarrow> lasting S Q \<Longrightarrow> lasting S (\<lambda>st. P st \<and> Q st)"
  by (auto simp: lasting_def)

lemma sat_return: "(\<And>st. P st \<Longrightarrow> Q x st) \<Longrightarrow> sat S contents P (ret x) G Q"
  by (auto simp: sat_def)

lemma sat_bind:
  assumes "sat S contents P m G R" and "\<And>x. sat S contents (R x) (f x) G Q"
  shows "sat S contents P (State_Monad.bind m f) G Q"
  unfolding sat_def
proof (intro allI impI)
  fix s :: "'a io"
  assume P: "P (contents (world s))"
  obtain x s1 where m: "run_state m s = (x, s1)" by (cases "run_state m s")
  with assms(1) P obtain es where es: "trace s1 = trace s @ es"
    "evolves S G (contents (world s)) es (contents (world s1))" "R x (contents (world s1))"
    by (auto simp: sat_def dest: spec [of _ s])
  obtain y s2 where f: "run_state (f x) s1 = (y, s2)" by (cases "run_state (f x) s1")
  with assms(2) [of x] es(3) obtain fs where "trace s2 = trace s1 @ fs"
    "evolves S G (contents (world s1)) fs (contents (world s2))" "Q y (contents (world s2))"
    by (auto simp: sat_def dest: spec [of _ s1])
  with es evolves_append [OF es(2)] m f
  show "\<exists>es. trace (snd (run_state (State_Monad.bind m f) s)) = trace s @ es \<and>
      evolves S G (contents (world s)) es (contents (world (snd (run_state (State_Monad.bind m f) s)))) \<and>
      Q (fst (run_state (State_Monad.bind m f) s)) (contents (world (snd (run_state (State_Monad.bind m f) s))))"
    by auto
qed

lemma sat_conseq:
  assumes "sat S contents P m G Q" and "\<And>st. P' st \<Longrightarrow> P st" and "\<And>x st. Q x st \<Longrightarrow> Q' x st"
  shows "sat S contents P' m G Q'"
  using assms unfolding sat_def by meson

lemma sat_pre: "sat S contents P m G Q \<Longrightarrow> (\<And>st. P' st \<Longrightarrow> P st) \<Longrightarrow> sat S contents P' m G Q"
  by (rule sat_conseq)

lemma sat_post: "sat S contents P m G Q \<Longrightarrow> (\<And>x st. Q x st \<Longrightarrow> Q' x st) \<Longrightarrow> sat S contents P m G Q'"
  by (rule sat_conseq)

lemma evolves_mono:
  "evolves S G st es st' \<Longrightarrow> (\<And>st st'. G st st' \<Longrightarrow> G' st st') \<Longrightarrow> evolves S G' st es st'"
  by (induction rule: evolves.induct) (auto intro: evolves.intros)

lemma sat_guar:
  assumes "sat S contents P m G Q" and "\<And>st st'. G st st' \<Longrightarrow> G' st st'"
  shows "sat S contents P m G' Q"
proof -
  have "evolves S G' st es st'" if "evolves S G st es st'" for st es st'
    using that assms(2) by (rule evolves_mono)
  with assms(1) show ?thesis unfolding sat_def by blast
qed

text \<open>What neither the computation nor the others touch is kept.\<close>

lemma sat_frame:
  assumes "sat S contents P m G Q" and F: "lasting S F" "\<And>st st'. G st st' \<Longrightarrow> F st \<Longrightarrow> F st'"
  shows "sat S contents (\<lambda>st. P st \<and> F st) m G (\<lambda>x st. Q x st \<and> F st)"
proof -
  have "evolves S G st es st' \<Longrightarrow> F st \<Longrightarrow> F st'" for st es st'
    using evolves_invariant [where I = F] F by (auto simp: lasting_def)
  with assms(1) show ?thesis unfolding sat_def by blast
qed

text \<open>What every state of a precondition implies may be used as a fact.\<close>

lemma sat_fact:
  assumes "\<And>st. P st \<Longrightarrow> A" and "A \<Longrightarrow> sat S contents P m G Q"
  shows "sat S contents P m G Q"
  using assms unfolding sat_def by blast

lemma sat_emits:
  assumes "sat S contents P m G Q" and "emits m E"
  shows "sat S contents P m G (\<lambda>x st. Q x st \<and> (\<exists>es. E x es))"
  using assms unfolding sat_def emits_def by metis

section \<open>A reconciler on a cluster\<close>

definition reads_from :: "api_server \<Rightarrow> ('w \<Rightarrow> store) \<Rightarrow> ('w, 'z) reader_ops_scheme \<Rightarrow> bool" where
  "reads_from S contents rd \<longleftrightarrow>
     (\<forall>k key w. \<exists>st. others S (contents w) st \<and>
        (case rdGet rd k key w of (x, w') \<Rightarrow> answered S (EvGet k key x) st (contents w'))) \<and>
     (\<forall>k sel w. \<exists>st. others S (contents w) st \<and>
        (case rdList rd k sel w of (x, w') \<Rightarrow> answered S (EvList k sel x) st (contents w')))"

definition writes_to :: "api_server \<Rightarrow> ('w \<Rightarrow> store) \<Rightarrow> 'w client_ops \<Rightarrow> bool" where
  "writes_to S contents cl \<longleftrightarrow>
     (\<forall>q w. \<exists>st. others S (contents w) st \<and>
        (case clWrite cl q w of (x, w') \<Rightarrow> answered S (EvWrite q x) st (contents w')))"

lemma sat_get:
  assumes rd: "reads_from S contents rd" and P: "lasting S P" and G: "\<And>st. G st st"
    and f: "\<And>x. sat S contents (\<lambda>st. P st \<and> found k key x st) (f x) G Q"
  shows "sat S contents P (State_Monad.bind (api_get rd k key) f) G Q"
proof (rule sat_bind [OF _ f], unfold sat_def, intro allI impI)
  fix s :: "'a io"
  assume "P (contents (world s))"
  moreover obtain x w where "rdGet rd k key (world s) = (x, w)" by (cases "rdGet rd k key (world s)")
  moreover from this rd obtain st where "others S (contents (world s)) st" "answered S (EvGet k key x) st (contents w)"
    unfolding reads_from_def by (metis case_prod_conv)
  ultimately show "\<exists>es. trace (snd (run_state (api_get rd k key) s)) = trace s @ es \<and>
      evolves S G (contents (world s)) es (contents (world (snd (run_state (api_get rd k key) s)))) \<and>
      P (contents (world (snd (run_state (api_get rd k key) s)))) \<and>
      found k key (fst (run_state (api_get rd k key) s)) (contents (world (snd (run_state (api_get rd k key) s))))"
    using P G by (auto simp: run_api lasting_def intro!: evolves.intros)
qed

lemma sat_list:
  assumes rd: "reads_from S contents rd" and P: "lasting S P" and G: "\<And>st. G st st"
    and f: "\<And>x. sat S contents (\<lambda>st. P st \<and> found_all S k sel x st) (f x) G Q"
  shows "sat S contents P (State_Monad.bind (api_list rd k sel) f) G Q"
proof (rule sat_bind [OF _ f], unfold sat_def, intro allI impI)
  fix s :: "'a io"
  assume "P (contents (world s))"
  moreover obtain x w where "rdList rd k sel (world s) = (x, w)" by (cases "rdList rd k sel (world s)")
  moreover from this rd obtain st where "others S (contents (world s)) st" "answered S (EvList k sel x) st (contents w)"
    unfolding reads_from_def by (metis case_prod_conv)
  ultimately show "\<exists>es. trace (snd (run_state (api_list rd k sel) s)) = trace s @ es \<and>
      evolves S G (contents (world s)) es (contents (world (snd (run_state (api_list rd k sel) s)))) \<and>
      P (contents (world (snd (run_state (api_list rd k sel) s)))) \<and>
      found_all S k sel (fst (run_state (api_list rd k sel) s)) (contents (world (snd (run_state (api_list rd k sel) s))))"
    using P G by (auto simp: run_api lasting_def intro!: evolves.intros)
qed

lemma sat_write:
  assumes cl: "writes_to S contents cl" and P: "lasting S P"
    and step: "\<And>x st st'. P st \<Longrightarrow> answered S (EvWrite q x) st st' \<Longrightarrow> G st st' \<and> R x st'"
    and f: "\<And>x. sat S contents (R x) (f x) G Q"
  shows "sat S contents P (State_Monad.bind (api_write cl q) f) G Q"
proof (rule sat_bind [OF _ f], unfold sat_def, intro allI impI)
  fix s :: "'a io"
  assume pre: "P (contents (world s))"
  obtain x w where w: "clWrite cl q (world s) = (x, w)" by (cases "clWrite cl q (world s)")
  with cl obtain st where st: "others S (contents (world s)) st" "answered S (EvWrite q x) st (contents w)"
    unfolding writes_to_def by (metis case_prod_conv)
  with pre P have "P st" by (auto simp: lasting_def)
  from step [OF this st(2)] st w show "\<exists>es. trace (snd (run_state (api_write cl q) s)) = trace s @ es \<and>
      evolves S G (contents (world s)) es (contents (world (snd (run_state (api_write cl q) s)))) \<and>
      R (fst (run_state (api_write cl q) s)) (contents (world (snd (run_state (api_write cl q) s))))"
    by (auto simp: run_api simp del: answered.simps intro!: evolves.intros)
qed

text \<open>A read whose answer does not matter.\<close>

lemma sat_get_keep:
  assumes "reads_from S contents rd" "lasting S P" "\<And>st. G st st" "\<And>x. sat S contents P (f x) G Q"
  shows "sat S contents P (State_Monad.bind (api_get rd k key) f) G Q"
  by (rule sat_get [OF assms(1-3)]) (auto intro: sat_pre [OF assms(4)])

lemma sat_list_keep:
  assumes "reads_from S contents rd" "lasting S P" "\<And>st. G st st" "\<And>x. sat S contents P (f x) G Q"
  shows "sat S contents P (State_Monad.bind (api_list rd k sel) f) G Q"
  by (rule sat_list [OF assms(1-3)]) (auto intro: sat_pre [OF assms(4)])

text \<open>The cluster of a reconciler: its clients reach the API server, which keeps the names of objects.\<close>

locale cluster =
  fixes S :: api_server and contents :: "'w \<Rightarrow> store" and r :: "'w Reconciler"
  assumes client_reads: "reads_from S contents (Client r)"
    and reader_reads: "reads_from S contents (APIReader r)"
    and client_writes: "writes_to S contents (Client r)"
    and completes_keeps: "completes S ob res \<Longrightarrow> kind_of res = kind_of ob \<and> key_of res = key_of ob"

end
