(* ===== verification/Webhook_Ownership.thy ===== *)
theory Webhook_Ownership
  imports Cluster Policy_Phases
begin

text \<open>
  The webhooks of the policies in a cluster in which users, the policy server controller and the
  policy controllers act at the same time: what may never be wrong in the store, and what each of them
  may do to it.
\<close>

section \<open>Policies and their webhooks in the store\<close>

definition in_store :: "store \<Rightarrow> Policy \<Rightarrow> bool" where
  "in_store st p \<longleftrightarrow> st (kind_of (OPolicy p)) (key_of (OPolicy p)) = Some (OPolicy p)"

definition pid :: "Policy \<Rightarrow> kind \<times> ObjectKey" where
  "pid p = (kind_of (OPolicy p), key_of (OPolicy p))"

definition policy_kinds :: "kind set" where
  "policy_kinds = {KClusterAdmissionPolicy, KAdmissionPolicy}"

definition webhook_kinds :: "kind set" where
  "webhook_kinds = {KMutatingWebhookConfiguration, KValidatingWebhookConfiguration}"

text \<open>The unique name of the policy at a key.\<close>

definition policy_name :: "kind \<Rightarrow> ObjectKey \<Rightarrow> string" where
  "policy_name k key = (if k = KClusterAdmissionPolicy then ''clusterwide-'' @ nnName key
     else ''namespaced-'' @ nnNamespace key @ ''-'' @ nnName key)"

definition policy_names :: "string set" where
  "policy_names = {policy_name k key | k key. k \<in> policy_kinds}"

definition hook_key :: "string \<Rightarrow> ObjectKey" where
  "hook_key n = object_key '''' n"

definition guarded :: "Policy \<Rightarrow> bool" where
  "guarded p \<longleftrightarrow> KubewardenFinalizer \<in> set (Finalizers (GetObjectMeta p))"

abbreviation deleted :: "Policy \<Rightarrow> bool" where
  "deleted p \<equiv> DeletionTimestamp (GetObjectMeta p) \<noteq> None"

definition active :: "Policy \<Rightarrow> bool" where
  "active p \<longleftrightarrow> (\<exists>c. policy_cond p PolicyActive = Some c \<and> condStatus c = ConditionTrue)"

text \<open>A webhook configuration that the controllers made and that is not being deleted.\<close>

definition live_webhook :: "api_object \<Rightarrow> bool" where
  "live_webhook ob \<longleftrightarrow> fmlookup (Labels (meta_of ob)) ''kubewarden'' = Some ''true'' \<and>
     DeletionTimestamp (meta_of ob) = None"

text \<open>What must hold of the store at every moment.\<close>

definition owned :: "store \<Rightarrow> bool" where
  "owned st \<longleftrightarrow> (\<forall>k key ob. k \<in> webhook_kinds \<longrightarrow> st k key = Some ob \<longrightarrow> live_webhook ob \<longrightarrow>
     (\<exists>p. in_store st p \<and> guarded p \<and> k = webhook_kind p \<and> key = hook_key (GetUniqueName p)))"

definition defaulted :: "store \<Rightarrow> bool" where
  "defaulted st \<longleftrightarrow> (\<forall>p. in_store st p \<longrightarrow> \<not> deleted p \<longrightarrow> guarded p)"

definition distinct_names :: "store \<Rightarrow> bool" where
  "distinct_names st \<longleftrightarrow> (\<forall>p q. in_store st p \<longrightarrow> in_store st q \<longrightarrow> GetUniqueName p = GetUniqueName q \<longrightarrow> p = q)"

definition active_registered :: "store \<Rightarrow> bool" where
  "active_registered st \<longleftrightarrow> (\<forall>p. in_store st p \<longrightarrow> active p \<longrightarrow> \<not> deleted p \<longrightarrow>
     st (webhook_kind p) (hook_key (GetUniqueName p)) \<noteq> None)"

definition consistent :: "store \<Rightarrow> bool" where
  "consistent st \<longleftrightarrow> store_ok st \<and> owned st \<and> defaulted st \<and> distinct_names st \<and> active_registered st"

lemma consistentD:
  "consistent st \<Longrightarrow> store_ok st" "consistent st \<Longrightarrow> owned st" "consistent st \<Longrightarrow> defaulted st"
  "consistent st \<Longrightarrow> distinct_names st" "consistent st \<Longrightarrow> active_registered st"
  by (simp_all add: consistent_def)

lemma ownedD:
  assumes "owned st" "k \<in> webhook_kinds" "st k key = Some ob" "live_webhook ob"
  obtains p where "in_store st p" "guarded p" "k = webhook_kind p" "key = hook_key (GetUniqueName p)"
  using assms unfolding owned_def by blast

lemma hook_key_eq [simp]: "hook_key m = hook_key n \<longleftrightarrow> m = n"
  by (simp add: hook_key_def)

lemma webhook_kind_in [simp]: "webhook_kind p \<in> webhook_kinds"
  by (simp add: webhook_kind_def webhook_kinds_def)

lemma policy_kind_in [simp]: "kind_of (OPolicy p) \<in> policy_kinds"
  by (cases p) (simp_all add: policy_kinds_def)

lemma kinds_disjoint: "k \<in> policy_kinds \<Longrightarrow> k \<notin> webhook_kinds" "k \<in> webhook_kinds \<Longrightarrow> k \<notin> policy_kinds"
  by (auto simp: policy_kinds_def webhook_kinds_def)

lemma kinds_neq [simp]:
  "kind_of (OPolicy p) \<noteq> webhook_kind q" "webhook_kind q \<noteq> kind_of (OPolicy p)" "kind_of (OPolicy p) \<notin> webhook_kinds"
  using kinds_disjoint [of "kind_of (OPolicy p)"] webhook_kind_in [of q] policy_kind_in [of p] by metis+

lemma policy_of_kind: "kind_of ob \<in> policy_kinds \<Longrightarrow> \<exists>p. ob = OPolicy p"
  by (cases ob) (auto simp: policy_kinds_def)

lemma unique_name: "GetUniqueName p = policy_name (kind_of (OPolicy p)) (key_of (OPolicy p))"
  by (cases p) (simp_all add: policy_name_def key_of_def cap_GetUniqueName_def ap_GetUniqueName_def)

lemma unique_name_in [simp]: "GetUniqueName p \<in> policy_names"
  unfolding unique_name policy_names_def using policy_kind_in [of p] by blast

lemma key_of_policy [simp]: "nnName (key_of (OPolicy p)) = GetName p"
  by (simp add: key_of_def)

lemma pid_eqD: "pid p = pid q \<Longrightarrow> GetUniqueName p = GetUniqueName q"
  by (simp add: unique_name pid_def)

lemma view_pid: "policy_view p = policy_view q \<Longrightarrow> pid p = pid q"
  using policy_view_eqD(1,14) [of p q] cluster_namespaced_unique_names
  by (cases p; cases q) (auto simp: pid_def key_of_def simp del: GetUniqueName.simps dest: sym)

lemma in_store_pid: "in_store st p \<Longrightarrow> in_store st q \<Longrightarrow> pid p = pid q \<Longrightarrow> p = q"
  unfolding in_store_def pid_def prod.inject by (metis api_object.inject(8) option.inject)

lemma in_storeI: "store_ok st \<Longrightarrow> st k key = Some (OPolicy p) \<Longrightarrow> in_store st p \<and> pid p = (k, key)"
  using store_okD(1,2) [of st k key "OPolicy p"] by (simp add: in_store_def pid_def)

lemma in_store_named: "store_ok st \<Longrightarrow> in_store st p \<Longrightarrow> nnName (key_of (OPolicy p)) \<noteq> ''''"
  unfolding in_store_def by (rule store_okD(3))

lemma in_store_put: "in_store (put (OPolicy p) st) q \<longleftrightarrow> (if pid q = pid p then q = p else in_store st q)"
  by (auto simp: in_store_def put_apply pid_def)

lemma in_store_put_other [simp]: "kind_of ob \<in> webhook_kinds \<Longrightarrow> in_store (put ob st) q = in_store st q"
  using kinds_neq(3) [of q] by (auto simp: in_store_def put_apply simp del: kinds_neq)

lemma in_store_erase:
  "in_store (erase (kind_of (OPolicy p)) (key_of (OPolicy p)) st) q \<longleftrightarrow> pid q \<noteq> pid p \<and> in_store st q"
  by (auto simp: in_store_def erase_apply pid_def)

lemma in_store_erase_other [simp]: "k \<in> webhook_kinds \<Longrightarrow> in_store (erase k key st) q = in_store st q"
  by (auto simp: in_store_def erase_apply)

lemma hooks_put_policy [simp]: "k \<in> webhook_kinds \<Longrightarrow> put (OPolicy p) st k key = st k key"
  by (auto simp: put_apply)

lemma hooks_erase_policy [simp]: "k \<in> webhook_kinds \<Longrightarrow> erase (kind_of (OPolicy p)) key' st k key = st k key"
  by (auto simp: erase_apply)

section \<open>Changes that keep the store consistent\<close>

definition unhooked :: "string \<Rightarrow> store \<Rightarrow> bool" where
  "unhooked n st \<longleftrightarrow> (\<forall>k \<in> webhook_kinds. \<forall>ob. st k (hook_key n) = Some ob \<longrightarrow> \<not> live_webhook ob)"

lemma owned_mono:
  assumes "owned st" and "\<And>k key. k \<in> webhook_kinds \<Longrightarrow> st' k key = st k key"
    and "\<And>p ob. in_store st p \<Longrightarrow> guarded p \<Longrightarrow> st (webhook_kind p) (hook_key (GetUniqueName p)) = Some ob \<Longrightarrow>
      live_webhook ob \<Longrightarrow> in_store st' p"
  shows "owned st'"
  unfolding owned_def using assms(2,3) by (metis ownedD [OF assms(1)])

text \<open>A policy is replaced by another version of it.\<close>

lemma consistent_replace:
  assumes st: "consistent st" and p: "in_store st p" "pid q = pid p"
    and guard: "guarded p \<Longrightarrow> guarded q \<and> IsMutating q = IsMutating p" "\<not> deleted q \<Longrightarrow> guarded q"
    and act: "active q \<Longrightarrow> \<not> deleted q \<Longrightarrow> st (webhook_kind q) (hook_key (GetUniqueName q)) \<noteq> None"
  shows "consistent (put (OPolicy q) st)"
  unfolding consistent_def
proof (intro conjI)
  have key: "key_of (OPolicy q) = key_of (OPolicy p)" using p(2) by (simp add: pid_def)
  show "store_ok (put (OPolicy q) st)"
    using store_ok_put [of st "OPolicy q"] in_store_named [OF consistentD(1) [OF st] p(1)] consistentD(1) [OF st] key by simp
  show "owned (put (OPolicy q) st)"
    unfolding owned_def
  proof (intro allI impI)
    fix k key ob
    assume k: "k \<in> webhook_kinds" and ob: "put (OPolicy q) st k key = Some ob" "live_webhook ob"
    with ownedD [OF consistentD(2) [OF st] k _ ob(2)] obtain o' where o: "in_store st o'" "guarded o'"
      "k = webhook_kind o'" "key = hook_key (GetUniqueName o')" by auto
    show "\<exists>p. in_store (put (OPolicy q) st) p \<and> guarded p \<and> k = webhook_kind p \<and> key = hook_key (GetUniqueName p)"
    proof (cases "pid o' = pid p")
      case True
      with o p in_store_pid have "o' = p" by blast
      with o guard(1) p(2) pid_eqD [OF p(2)] show ?thesis
        by (intro exI [of _ q]) (auto simp: in_store_put webhook_kind_def)
    next
      case False
      with o p(2) show ?thesis by (intro exI [of _ o']) (auto simp: in_store_put)
    qed
  qed
  show "defaulted (put (OPolicy q) st)"
    using consistentD(3) [OF st] guard(2) by (auto simp: defaulted_def in_store_put)
  show "distinct_names (put (OPolicy q) st)"
    using consistentD(4) [OF st] p pid_eqD [OF p(2)]
    by (auto simp: distinct_names_def in_store_put)
  show "active_registered (put (OPolicy q) st)"
    using consistentD(5) [OF st] act by (auto simp: active_registered_def in_store_put)
qed

text \<open>A policy without webhooks is removed, or replaced by a version that is being deleted.\<close>

lemma consistent_drop:
  assumes st: "consistent st" and n: "unhooked (GetUniqueName p) st \<or> (in_store st p \<and> \<not> guarded p)"
  shows "consistent (erase (kind_of (OPolicy p)) (key_of (OPolicy p)) st)"
    and "in_store st q \<Longrightarrow> pid q = pid p \<Longrightarrow> unhooked (GetUniqueName p) st \<Longrightarrow> deleted p \<Longrightarrow> consistent (put (OPolicy p) st)"
proof -
  have others: "in_store st o' \<Longrightarrow> guarded o' \<Longrightarrow> k = webhook_kind o' \<Longrightarrow> st k (hook_key (GetUniqueName o')) = Some ob \<Longrightarrow>
      live_webhook ob \<Longrightarrow> pid o' \<noteq> pid p" for o' k ob
    using n in_store_pid [of st o' p] pid_eqD [of o' p] webhook_kind_in [of o'] unfolding unhooked_def by metis
  show "consistent (erase (kind_of (OPolicy p)) (key_of (OPolicy p)) st)"
    unfolding consistent_def
  proof (intro conjI)
    show "store_ok (erase (kind_of (OPolicy p)) (key_of (OPolicy p)) st)"
      by (rule store_ok_erase) (rule consistentD(1) [OF st])
    show "owned (erase (kind_of (OPolicy p)) (key_of (OPolicy p)) st)"
      by (rule owned_mono [OF consistentD(2) [OF st]]) (use others in \<open>auto simp: in_store_erase\<close>)
    show "defaulted (erase (kind_of (OPolicy p)) (key_of (OPolicy p)) st)"
      using consistentD(3) [OF st] by (simp add: defaulted_def in_store_erase)
    show "distinct_names (erase (kind_of (OPolicy p)) (key_of (OPolicy p)) st)"
      using consistentD(4) [OF st] by (simp add: distinct_names_def in_store_erase)
    show "active_registered (erase (kind_of (OPolicy p)) (key_of (OPolicy p)) st)"
      using consistentD(5) [OF st] by (simp add: active_registered_def in_store_erase)
  qed
  assume q: "in_store st q" "pid q = pid p" "unhooked (GetUniqueName p) st" "deleted p"
  show "consistent (put (OPolicy p) st)"
    unfolding consistent_def
  proof (intro conjI)
    show "store_ok (put (OPolicy p) st)"
      using store_ok_put [of st "OPolicy p"] in_store_named [OF consistentD(1) [OF st] q(1)] consistentD(1) [OF st] q(2)
      by (simp add: pid_def del: key_of_policy)
    show "owned (put (OPolicy p) st)"
      by (rule owned_mono [OF consistentD(2) [OF st]]) (use others in \<open>auto simp: in_store_put\<close>)
    show "defaulted (put (OPolicy p) st)"
      using consistentD(3) [OF st] q(4) by (auto simp: defaulted_def in_store_put)
    show "distinct_names (put (OPolicy p) st)"
      using consistentD(4) [OF st] q(1,2) pid_eqD [OF q(2)]
      by (auto simp: distinct_names_def in_store_put)
    show "active_registered (put (OPolicy p) st)"
      using consistentD(5) [OF st] q(4) by (auto simp: active_registered_def in_store_put)
  qed
qed

text \<open>A policy with a fresh name is created.\<close>

lemma consistent_create:
  assumes st: "consistent st" and p: "nnName (key_of (OPolicy p)) \<noteq> ''''" "guarded p" "\<not> active p"
    and fresh: "\<forall>q. in_store st q \<longrightarrow> GetUniqueName q \<noteq> GetUniqueName p"
  shows "consistent (put (OPolicy p) st)"
proof -
  from fresh pid_eqD have new: "in_store st q \<Longrightarrow> pid q \<noteq> pid p" for q by metis
  have "owned (put (OPolicy p) st)"
    by (rule owned_mono [OF consistentD(2) [OF st]]) (use new in \<open>auto simp: in_store_put\<close>)
  moreover have "distinct_names (put (OPolicy p) st)"
    using fresh consistentD(4) [OF st] by (auto simp: distinct_names_def in_store_put dest: pid_eqD) (metis+)?
  ultimately show ?thesis
    using p store_ok_put [of st "OPolicy p"] consistentD [OF st]
    by (auto simp: consistent_def defaulted_def active_registered_def in_store_put)
qed

text \<open>A webhook configuration is written or goes away.\<close>

lemma consistent_hook:
  assumes st: "consistent st" and ob: "kind_of ob = webhook_kind p" "key_of ob = hook_key (GetUniqueName p)"
    and p: "in_store st p" "guarded p"
  shows "consistent (put ob st)"
proof -
  have k: "kind_of ob \<in> webhook_kinds" by (simp add: ob)
  from in_store_named [OF consistentD(1) [OF st] p(1)] have "GetUniqueName p \<noteq> ''''"
    by (simp add: unique_name policy_name_def)
  then have "nnName (key_of ob) \<noteq> ''''" by (simp add: ob hook_key_def)
  moreover have "owned (put ob st)"
    using consistentD(2) [OF st] p ob k unfolding owned_def by (auto simp: put_apply split: if_splits)
  moreover have "active_registered (put ob st)"
    using consistentD(5) [OF st] k by (auto simp: active_registered_def put_apply)
  ultimately show ?thesis
    using consistentD [OF st] k store_ok_put [of st ob] by (auto simp: consistent_def defaulted_def distinct_names_def)
qed

lemma consistent_unhook:
  assumes st: "consistent st" and k: "k \<in> webhook_kinds"
    and p: "\<forall>p. in_store st p \<longrightarrow> GetUniqueName p = n \<longrightarrow> active p \<longrightarrow> deleted p"
  shows "consistent (erase k (hook_key n) st)"
    and "st k (hook_key n) = Some ob \<Longrightarrow> consistent (put (terminating t v ob) st)"
proof -
  have "active_registered (erase k (hook_key n) st)"
    using consistentD(5) [OF st] p k by (auto simp: active_registered_def erase_apply)
  moreover have "owned (erase k (hook_key n) st)"
    using consistentD(2) [OF st] k unfolding owned_def by (auto simp: erase_apply split: if_splits)
  ultimately show "consistent (erase k (hook_key n) st)"
    using consistentD [OF st] k store_ok_erase by (auto simp: consistent_def defaulted_def distinct_names_def)
  assume ob: "st k (hook_key n) = Some ob"
  note at = store_okD [OF consistentD(1) [OF st] ob]
  have "\<not> live_webhook (terminating t v ob)" by (simp add: live_webhook_def)
  then have "owned (put (terminating t v ob) st)"
    using consistentD(2) [OF st] k at unfolding owned_def by (auto simp: put_apply split: if_splits)
  moreover have "active_registered (put (terminating t v ob) st)"
    using consistentD(5) [OF st] k at by (auto simp: active_registered_def put_apply)
  ultimately show "consistent (put (terminating t v ob) st)"
    using consistentD [OF st] k at store_ok_put [of st "terminating t v ob"]
    by (auto simp: consistent_def defaulted_def distinct_names_def)
qed

section \<open>What users may do\<close>

text \<open>
  \<open>user_step L d\<close>: one request of a user, of the policy server controller (which deletes policies),
  or of a controller that has nothing to do with policies.  A policy passes through the admission
  webhooks \<open>Default\<close> and \<open>ValidateUpdate\<close>.  Users are assumed not to edit the field \<open>mutating\<close>, not to
  take the finalizer off a policy being deleted, not to give two policies the same unique name, and to
  leave the webhook configurations of the controllers alone.
\<close>

definition foreign :: "store \<Rightarrow> store \<Rightarrow> bool" where
  "foreign st st' \<longleftrightarrow> store_ok st' \<and> (\<forall>k \<in> policy_kinds. st' k = st k) \<and>
     (\<forall>k \<in> webhook_kinds. \<forall>key. st' k key \<noteq> st k key \<longrightarrow>
        (\<forall>n \<in> policy_names. key \<noteq> hook_key n) \<and> (\<forall>ob. st' k key = Some ob \<longrightarrow> \<not> live_webhook ob))"

inductive user_step :: "kube_lib \<Rightarrow> string \<Rightarrow> store \<Rightarrow> store \<Rightarrow> bool" where
  create: "GetName p \<noteq> '''' \<Longrightarrow> \<not> deleted p \<Longrightarrow> statConditions (GetStatus p) = [] \<Longrightarrow>
     \<forall>q. in_store st q \<longrightarrow> GetUniqueName q \<noteq> GetUniqueName p \<Longrightarrow>
     user_step L d st (put (OPolicy (Default L d p)) st)"
| edit: "in_store st p \<Longrightarrow> pid q = pid p \<Longrightarrow> GetStatus q = GetStatus p \<Longrightarrow>
     DeletionTimestamp (GetObjectMeta q) = DeletionTimestamp (GetObjectMeta p) \<Longrightarrow>
     ValidateUpdate (Default L d q) (OPolicy p) = None \<Longrightarrow> IsMutating q = IsMutating p \<Longrightarrow>
     deleted p \<longrightarrow> guarded p \<longrightarrow> guarded q \<Longrightarrow>
     st' = (if deleted q \<and> Finalizers (GetObjectMeta q) = [] then erase (kind_of (OPolicy p)) (key_of (OPolicy p)) st
            else put (OPolicy (Default L d q)) st) \<Longrightarrow>
     user_step L d st st'"
| delete: "k \<in> policy_kinds \<Longrightarrow> accepts S (Delete k key) res st st' \<Longrightarrow> user_step L d st st'"
| elsewhere: "foreign st st' \<Longrightarrow> user_step L d st st'"

section \<open>What the policy controllers may do, and what they rely on\<close>

text \<open>The requests made while the policy with unique name \<open>n\<close> is reconciled.\<close>

definition guar :: "string \<Rightarrow> store \<Rightarrow> store \<Rightarrow> bool" where
  "guar n st st' \<longleftrightarrow> (consistent st \<longrightarrow> consistent st') \<and>
     (\<forall>k key. st' k key \<noteq> st k key \<longrightarrow>
        (k \<in> webhook_kinds \<and> key = hook_key n) \<or> (k \<in> policy_kinds \<and> policy_name k key = n))"

definition environment :: "kube_lib \<Rightarrow> string \<Rightarrow> string \<Rightarrow> store \<Rightarrow> store \<Rightarrow> bool" where
  "environment L d n st st' \<longleftrightarrow> user_step L d st st' \<or> (\<exists>m. m \<noteq> n \<and> guar m st st')"

definition rely :: "string \<Rightarrow> store \<Rightarrow> store \<Rightarrow> bool" where
  "rely n st st' \<longleftrightarrow> consistent st \<longrightarrow> consistent st' \<and>
     (\<forall>k \<in> webhook_kinds. st' k (hook_key n) = st k (hook_key n)) \<and>
     (\<forall>q. in_store st q \<longrightarrow> GetUniqueName q = n \<longrightarrow> guarded q \<longrightarrow>
        (\<exists>q'. in_store st' q' \<and> pid q' = pid q \<and> guarded q' \<and> IsMutating q' = IsMutating q)) \<and>
     (\<forall>q'. in_store st' q' \<longrightarrow> GetUniqueName q' = n \<longrightarrow> active q' \<longrightarrow> \<not> deleted q' \<longrightarrow>
        (\<exists>q. in_store st q \<and> GetUniqueName q = n \<and> active q \<and> \<not> deleted q))"

lemma guar_refl [simp]: "guar n st st"
  by (simp add: guar_def)

lemma rely_refl: "rely n st st"
  unfolding rely_def by blast

lemma rely_trans: "rely n st st1 \<Longrightarrow> rely n st1 st2 \<Longrightarrow> rely n st st2"
  unfolding rely_def by (metis (no_types, lifting) pid_eqD)

lemma rely_guar:
  assumes "guar m st st'" "m \<noteq> n"
  shows "rely n st st'"
proof -
  have "st' k key = st k key" if "k \<in> webhook_kinds \<and> key = hook_key n \<or> k \<in> policy_kinds \<and> policy_name k key = n" for k key
    using assms that kinds_disjoint [of k] unfolding guar_def by (metis hook_key_eq)
  then have "k \<in> webhook_kinds \<Longrightarrow> st' k (hook_key n) = st k (hook_key n)"
    "GetUniqueName q = n \<Longrightarrow> in_store st' q = in_store st q" for k q
    by (auto simp: in_store_def unique_name)
  with assms(1) show ?thesis unfolding rely_def guar_def by metis
qed

lemma same_id_Default [simp]:
  "pid (Default L d p) = pid p" "GetStatus (Default L d p) = GetStatus p" "active (Default L d p) = active p"
  "IsMutating (Default L d p) = IsMutating p" "GetUniqueName (Default L d p) = GetUniqueName p"
  "DeletionTimestamp (GetObjectMeta (Default L d p)) = DeletionTimestamp (GetObjectMeta p)" "GetName (Default L d p) = GetName p"
  by (cases p; simp add: pid_def key_of_def active_def policy_cond_def cap_Default_def ap_Default_def Let_def
      add_kubewarden_finalizer_def cap_GetStatus_def ap_GetStatus_def cap_IsMutating_def ap_IsMutating_def
      cap_GetUniqueName_def ap_GetUniqueName_def)+

lemma guarded_Default:
  assumes "finalizer_law L"
  shows "\<not> deleted p \<Longrightarrow> guarded (Default L d p)" "deleted p \<Longrightarrow> guarded (Default L d p) = guarded p"
  using Default_finalizer [OF assms, of d p] by (auto simp: guarded_def split: if_splits)

lemma rely_replace:
  assumes p: "in_store st p" "pid q = pid p" and c: "consistent (put (OPolicy q) st)"
    and guard: "guarded p \<Longrightarrow> guarded q \<and> IsMutating q = IsMutating p"
    and act: "active q \<Longrightarrow> \<not> deleted q \<Longrightarrow> active p \<and> \<not> deleted p"
  shows "rely n st (put (OPolicy q) st)"
  using assms pid_eqD [OF p(2)] in_store_pid [OF p(1)]
  by (auto simp: rely_def in_store_put) metis+

lemma rely_remove:
  assumes "consistent (erase (kind_of (OPolicy p)) (key_of (OPolicy p)) st)" "in_store st p" "\<not> guarded p"
  shows "rely n st (erase (kind_of (OPolicy p)) (key_of (OPolicy p)) st)"
  using assms in_store_pid [OF assms(2)] by (auto simp: rely_def in_store_erase) metis+

lemma user_step_rely:
  assumes L: "finalizer_law L" and step: "user_step L d st st'" and st: "consistent st"
    and n: "n \<in> policy_names"
  shows "rely n st st' \<and> consistent st'"
proof -
  have "rely n st st'"
    using step
  proof cases
    case (create p)
    have c: "consistent st'"
      unfolding create(1)
      by (rule consistent_create [OF st])
        (use create guarded_Default(1) [OF L, of p d] in
          \<open>auto simp: active_def policy_cond_def find_condition_def\<close>)
    from create(5) pid_eqD have "in_store st q \<Longrightarrow> pid q \<noteq> pid p" for q by metis
    with c show ?thesis
      unfolding create(1) rely_def using create(4)
      by (auto simp: in_store_put active_def policy_cond_def find_condition_def)
  next
    case (edit p q)
    show ?thesis
    proof (cases "deleted q \<and> Finalizers (GetObjectMeta q) = []")
      case True
      with edit have "\<not> guarded p" "st' = erase (kind_of (OPolicy p)) (key_of (OPolicy p)) st"
        by (auto simp: guarded_def)
      with rely_remove [of p st n] consistent_drop(1) [OF st, of p] edit(1,2) show ?thesis by simp
    next
      case False
      have g: "guarded p \<Longrightarrow> guarded (Default L d q)" "\<not> deleted q \<Longrightarrow> guarded (Default L d q)"
        using guarded_Default [OF L, of q d] edit by auto
      have a: "active q = active p" using edit(3) by (simp add: active_def policy_cond_def)
      have "consistent (put (OPolicy (Default L d q)) st)"
        by (rule consistent_replace [OF st edit(1)])
          (use edit g a consistentD(5) [OF st] pid_eqD [OF edit(2)] in
            \<open>auto simp: active_registered_def webhook_kind_def\<close>)
      with False edit show ?thesis
        using rely_replace [of st p "Default L d q" n] g a by auto
    qed
  next
    case (delete k S key res)
    from delete(2) obtain old where old: "st k key = Some old" and st': "if Finalizers (meta_of old) = []
        then st' = erase k key st else \<exists>t v. st' = put (terminating t v old) st" by auto
    note at = store_okD(1,2) [OF consistentD(1) [OF st] old]
    with delete(1) obtain p where "old = OPolicy p" using policy_of_kind by metis
    with old at st' have p: "in_store st p" "k = kind_of (OPolicy p)" "key = key_of (OPolicy p)"
      and st': "if Finalizers (GetObjectMeta p) = [] then st' = erase k key st
        else \<exists>t v. st' = put (terminating t v (OPolicy p)) st" by (auto simp: in_store_def)
    show ?thesis
    proof (cases "Finalizers (GetObjectMeta p) = []")
      case True
      with st' p have "st' = erase (kind_of (OPolicy p)) (key_of (OPolicy p)) st" "\<not> guarded p"
        by (simp_all add: guarded_def)
      with consistent_drop(1) [OF st] p(1) show ?thesis by (auto intro: rely_remove)
    next
      case False
      with st' obtain t v where st': "st' = put (terminating t v (OPolicy p)) st" by auto
      define q where "q = UpdateMeta (\<lambda>m. m\<lparr>DeletionTimestamp := Some t, ResourceVersion := v\<rparr>) p"
      have q: "terminating t v (OPolicy p) = OPolicy q" by (simp add: terminating_def q_def)
      have "pid q = pid p" "guarded q = guarded p" "IsMutating q = IsMutating p" "deleted q"
        by (cases p; simp add: q_def pid_def key_of_def guarded_def cap_IsMutating_def ap_IsMutating_def)+
      with st p(1) show ?thesis
        unfolding st' q by (auto intro!: rely_replace consistent_replace [OF st p(1)])
    qed
  next
    case elsewhere
    then have pol: "in_store st' q = in_store st q" for q
      by (auto simp: foreign_def in_store_def)
    have hook: "k \<in> webhook_kinds \<Longrightarrow> m \<in> policy_names \<Longrightarrow> st' k (hook_key m) = st k (hook_key m)" for k m
      using elsewhere unfolding foreign_def by metis
    have "owned st'"
      using elsewhere consistentD(2) [OF st] unfolding owned_def pol foreign_def by metis
    with st hook elsewhere have "consistent st'"
      by (auto simp: consistent_def foreign_def pol defaulted_def distinct_names_def active_registered_def)
    with hook [OF _ n] pol show ?thesis by (auto simp: rely_def)
  qed
  with st show ?thesis unfolding rely_def by blast
qed

end
