(* ===== verification/Server_Cluster.thy ===== *)
theory Server_Cluster
  imports Webhook_Ownership Policy_Server_Controller Config_Document
begin

text \<open>
  The reconciliation of a policy server on a cluster: what each request touches, and what the cluster
  holds when the reconciliation succeeded.  The locale \<open>server_cluster\<close> says what is assumed: the API
  server keeps the data of a config map and what the controller compares of a deployment, the
  cryptography does not touch the cluster, and the others leave the objects of the policy server alone
  (\<open>server_kept\<close>).
\<close>

section \<open>What a request touches\<close>

fun target :: "write_request \<Rightarrow> kind \<times> ObjectKey" where
  "target (Create ob) = (kind_of ob, key_of ob)"
| "target (Update ob) = (kind_of ob, key_of ob)"
| "target (StatusUpdate ob) = (kind_of ob, key_of ob)"
| "target (Patch ob base) = (kind_of ob, key_of ob)"
| "target (Delete k key) = (k, key)"

definition touches :: "(kind \<times> ObjectKey) set \<Rightarrow> store \<Rightarrow> store \<Rightarrow> bool" where
  "touches A st st' \<longleftrightarrow>
     (store_ok st \<longrightarrow> store_ok st' \<and> (\<forall>k key. (k, key) \<notin> A \<longrightarrow> st' k key = st k key))"

lemma touches_refl [simp]: "touches A st st"
  by (simp add: touches_def)

lemma touches_mono: "touches A st st' \<Longrightarrow> A \<subseteq> B \<Longrightarrow> touches B st st'"
  by (auto simp: touches_def)

lemma touches_other: "touches A st st' \<Longrightarrow> store_ok st \<Longrightarrow> (k, key) \<notin> A \<Longrightarrow> st' k key = st k key"
  by (simp add: touches_def)

lemma touches_put:
  assumes "st (kind_of ob) (key_of ob) \<noteq> None \<or> Name (meta_of ob) \<noteq> ''''"
  shows "touches {(kind_of ob, key_of ob)} st (put ob st)"
proof -
  have "store_ok (put ob st)" if "store_ok st"
    using assms store_okD(3) [OF that, of "kind_of ob" "key_of ob"]
    by (intro store_ok_put [OF that]) (cases "st (kind_of ob) (key_of ob)"; simp add: key_of_def)
  then show ?thesis by (auto simp: touches_def put_apply)
qed

lemma touches_erase: "touches {(k, key)} st (erase k key st)"
  by (auto simp: touches_def erase_apply store_ok_erase)

lemma touches_terminating:
  assumes "st k key = Some ob"
  shows "touches {(k, key)} st (put (terminating t v ob) st)"
proof -
  have "touches {(k, key)} st (put (terminating t v ob) st)" if "store_ok st"
    using touches_put [of st "terminating t v ob"] store_okD [OF that assms] assms by simp
  then show ?thesis by (auto simp: touches_def)
qed

lemma status_written_same:
  assumes "status_written old ob res"
  shows "kind_of res = kind_of old \<and> key_of res = key_of old"
  using assms unfolding status_written_def
proof (elim disjE exE conjE)
  fix p p' q v
  assume o: "old = OPolicy p" "res = OPolicy q" "policy_view q = policy_view (UpdateMeta (\<lambda>m. m\<lparr>ResourceVersion := v\<rparr>) p)"
  from view_pid [OF o(3)] have "pid q = pid (UpdateMeta (\<lambda>m. m\<lparr>ResourceVersion := v\<rparr>) p)" .
  with o show ?thesis by (cases p) (simp_all add: pid_def key_of_def)
qed (simp add: key_of_def)

context cluster
begin

lemma accepts_touches:
  assumes "accepts S q res st st'"
  shows "touches {target q} st st'"
proof (cases q)
  case (Create ob)
  with assms completes_keeps [of ob res] touches_put [of st res] show ?thesis
    by (auto simp: key_of_def)
next
  case (Update ob)
  with assms completes_keeps [of ob res] touches_put [of st res] touches_erase [of "kind_of ob" "key_of ob" st] show ?thesis
    by (auto split: if_splits)
next
  case (StatusUpdate ob)
  with assms obtain old where old: "st (kind_of ob) (key_of ob) = Some old" "status_written old ob res" "st' = put res st" by auto
  have "touches {target q} st st'" if "store_ok st"
    using touches_put [of st res] status_written_same [OF old(2)] store_okD [OF that old(1)] old StatusUpdate by simp
  then show ?thesis by (auto simp: touches_def)
next
  case (Patch ob base)
  with assms touches_put [of st res] show ?thesis by auto
next
  case (Delete k key)
  with assms touches_erase [of k key st] touches_terminating [of st k key] show ?thesis
    by (auto split: if_splits)
qed

lemma answered_touches: "answered S (EvWrite q x) st st' \<Longrightarrow> touches {target q} st st'"
  using answered_write [of S q x st st'] accepts_touches [of q _ st st'] by auto

end

section \<open>Computations that send no request\<close>

definition silent :: "('w \<Rightarrow> store) \<Rightarrow> ('w, 'a) api \<Rightarrow> ('a \<Rightarrow> bool) \<Rightarrow> bool" where
  "silent contents m A \<longleftrightarrow> (\<forall>s. trace (snd (run_state m s)) = trace s \<and>
     contents (world (snd (run_state m s))) = contents (world s) \<and> A (fst (run_state m s)))"

lemma silent_return: "A x \<Longrightarrow> silent contents (ret x) A"
  by (simp add: silent_def)

lemma silent_bind:
  assumes "silent contents m B" and "\<And>x. B x \<Longrightarrow> silent contents (f x) A"
  shows "silent contents (State_Monad.bind m f) A"
  using assms unfolding silent_def by (simp add: case_prod_beta)

lemma silent_effect:
  assumes "\<And>w. contents (snd (g w)) = contents w" and "\<And>x. silent contents (f x) A"
  shows "silent contents (State_Monad.bind (effect g) f) A"
  by (rule silent_bind [where B = "\<lambda>x. True"])
    (use assms in \<open>simp_all add: silent_def run_effect case_prod_beta Let_def\<close>)

lemma sat_silent:
  assumes "silent contents m A"
  shows "sat S contents P m G (\<lambda>x st. P st \<and> A x)"
  using assms unfolding silent_def sat_def by (auto intro!: exI [of _ "[]"])

text \<open>The functions of the cryptography libraries do not change the objects of the cluster.\<close>

definition local_crypto :: "('w \<Rightarrow> store) \<Rightarrow> 'w crypto_ops \<Rightarrow> bool" where
  "local_crypto contents K \<longleftrightarrow>
     (\<forall>n w. contents (snd (rsaGenerateKey K n w)) = contents w) \<and>
     (\<forall>n w. contents (snd (randInt K n w)) = contents w) \<and>
     (\<forall>w. contents (snd (timeNow K w)) = contents w) \<and>
     (\<forall>t p pub priv w. contents (snd (x509CreateCertificate K t p pub priv w)) = contents w)"

lemma silent_crypto:
  assumes "local_crypto contents K"
  shows "silent contents (newPrivateKey K n) (\<lambda>x. True)" "silent contents (GenerateCA K) (\<lambda>x. True)"
    "silent contents (GenerateCert K ca cn sans key) (\<lambda>x. True)"
proof -
  note K = assms [unfolded local_crypto_def]
  show key: "silent contents (newPrivateKey K n) (\<lambda>x. True)" for n
    unfolding newPrivateKey_def by (rule silent_effect) (use K in \<open>auto intro: silent_return\<close>)
  show "silent contents (GenerateCA K) (\<lambda>x. True)"
    unfolding GenerateCA_def
    by (rule silent_bind [OF key])
      (use K in \<open>auto intro!: silent_effect silent_return simp: Let_def split: outcome.split sum.split\<close>)
  show "silent contents (GenerateCert K ca cn sans key) (\<lambda>x. True)"
    unfolding GenerateCert_def
    using K by (auto intro!: silent_effect silent_return simp: Let_def split: sum.split)
qed

lemma silent_secrets:
  assumes "local_crypto contents K"
  shows "silent contents (buildPolicyServerCARootSecret K r (GenerateCA K) (PemEncodeCertificate K))
      (\<lambda>x. \<forall>s. x = Ok s \<longrightarrow> key_of (OSecret s) = object_key (DeploymentsNamespace r) PolicyServerCARootSecretName)"
    "silent contents (buildPolicyServerCASecret K r n ca (GenerateCert K))
      (\<lambda>x. \<forall>s. x = Ok s \<longrightarrow> key_of (OSecret s) = object_key (DeploymentsNamespace r) n)"
  unfolding buildPolicyServerCARootSecret_def buildPolicyServerCASecret_def
  by (auto intro!: silent_bind [OF silent_crypto(2) [OF assms]] silent_bind [OF silent_crypto(3) [OF assms]] silent_return
      simp: key_of_def split: outcome.splits)

section \<open>The objects of a policy server\<close>

abbreviation server_key :: "'w Reconciler \<Rightarrow> PolicyServer \<Rightarrow> ObjectKey" where
  "server_key r ps \<equiv> object_key (DeploymentsNamespace r) (NameWithPrefix ps)"

abbreviation root_key :: "'w Reconciler \<Rightarrow> ObjectKey" where
  "root_key r \<equiv> object_key (DeploymentsNamespace r) PolicyServerCARootSecretName"

definition configured :: "'w Reconciler \<Rightarrow> PolicyServer \<Rightarrow> Policy list \<Rightarrow> string \<Rightarrow> store \<Rightarrow> bool" where
  "configured r ps policies v st \<longleftrightarrow> (\<exists>cm. st KConfigMap (server_key r ps) = Some (OConfigMap cm) \<and>
     ResourceVersion (cmMeta cm) = v \<and>
     read_policies (Lib r) (nil_get (cmData cm) PolicyServerConfigPoliciesEntry) = Some (createPoliciesMap policies))"

definition deployed :: "'w Reconciler \<Rightarrow> PolicyServer \<Rightarrow> string \<Rightarrow> store \<Rightarrow> bool" where
  "deployed r ps v st \<longleftrightarrow>
     (\<exists>d. st KDeployment (server_key r ps) = Some (ODeployment d) \<and> deployment_current r ps v d)"

text \<open>
  \<open>serving\<close>: the objects a policy server needs are all there; the config map holds the policies, and
  the deployment runs what the resource asks for with the version of that config map.
\<close>

definition serving :: "'w Reconciler \<Rightarrow> PolicyServer \<Rightarrow> Policy list \<Rightarrow> store \<Rightarrow> bool" where
  "serving r ps policies st \<longleftrightarrow>
     st KSecret (root_key r) \<noteq> None \<and> st KSecret (server_key r ps) \<noteq> None \<and>
     (\<exists>v. configured r ps policies v st \<and> deployed r ps v st) \<and> st KService (server_key r ps) \<noteq> None"

text \<open>
  What others may do to these objects while the policy server is reconciled: they delete none of them
  and leave the config map alone; of the deployment they write nothing but its status, which is not
  modelled and changes its version.
\<close>

definition server_kept :: "'w Reconciler \<Rightarrow> PolicyServer \<Rightarrow> store \<Rightarrow> store \<Rightarrow> bool" where
  "server_kept r ps st st' \<longleftrightarrow> (store_ok st \<longrightarrow> store_ok st') \<and>
     (\<forall>key \<in> {root_key r, server_key r ps}. st KSecret key \<noteq> None \<longrightarrow> st' KSecret key \<noteq> None) \<and>
     st' KConfigMap (server_key r ps) = st KConfigMap (server_key r ps) \<and>
     (\<forall>ob. st KDeployment (server_key r ps) = Some ob \<longrightarrow>
        (\<exists>ob'. st' KDeployment (server_key r ps) = Some ob' \<and> revised ob ob')) \<and>
     (st KService (server_key r ps) \<noteq> None \<longrightarrow> st' KService (server_key r ps) \<noteq> None)"

lemma deployed_revised:
  assumes "deployment_current r ps v d" "revised (ODeployment d) ob"
  shows "\<exists>d'. ob = ODeployment d' \<and> deployment_current r ps v d'"
  using assms by (auto simp: revised_def deployment_current_def getPolicyServerImageFromDeployment_def)

lemma deployed_kept:
  assumes "server_kept r ps st st'" "deployed r ps v st"
  shows "deployed r ps v st'"
  using assms deployed_revised [of r ps v] unfolding server_kept_def deployed_def by metis

locale server_cluster = cluster S contents r
  for S :: api_server and contents :: "'w \<Rightarrow> store" and r :: "'w Reconciler" +
  fixes K :: "'w crypto_ops" and ps :: PolicyServer
  assumes crypto: "local_crypto contents K"
    and data_kept: "completes S (OConfigMap c) (OConfigMap c') \<Longrightarrow> cmData c' = cmData c"
    and spec_kept: "completes S (ODeployment d) (ODeployment d') \<Longrightarrow> deployment_current r ps v d \<Longrightarrow>
      deployment_current r ps v d'"
    and others_keep: "others S st st' \<Longrightarrow> server_kept r ps st st'"
begin

lemma lasting_ok: "lasting S store_ok"
  using others_keep by (auto simp: lasting_def server_kept_def)

lemma lasting_objects:
  "key \<in> {root_key r, server_key r ps} \<Longrightarrow> lasting S (\<lambda>st. st KSecret key \<noteq> None)"
  "lasting S (\<lambda>st. st KConfigMap (server_key r ps) = x)"
  "lasting S (configured r ps policies v)"
  "lasting S (\<lambda>st. st KService (server_key r ps) \<noteq> None)"
  using others_keep by (auto simp: lasting_def server_kept_def configured_def) metis

lemma lasting_deployed: "lasting S (deployed r ps v)"
  unfolding lasting_def using deployed_kept [OF others_keep] by blast

lemma lasting_revised:
  "lasting S (\<lambda>st. \<exists>old. st KDeployment (server_key r ps) = Some old \<and> revised ob old)"
  unfolding lasting_def
proof (intro allI impI, elim exE conjE)
  fix st st' old
  assume "others S st st'" "st KDeployment (server_key r ps) = Some old" "revised ob old"
  moreover from this obtain old' where "st' KDeployment (server_key r ps) = Some old'" "revised old old'"
    using others_keep unfolding server_kept_def by blast
  ultimately show "\<exists>old. st' KDeployment (server_key r ps) = Some old \<and> revised ob old"
    using revised_trans by blast
qed

section \<open>The secrets\<close>


lemma sat_secret_read:
  "sat S contents (\<lambda>st. store_ok st \<and> found KSecret key (Inr (OSecret s)) st)
     (ret (Ok (clear_resource_version s))) G (\<lambda>x st. store_ok st \<and> (\<forall>s. x = Ok s \<longrightarrow> key_of (OSecret s) = key))"
  by (auto intro!: sat_return dest: store_okD(2) simp: found_def clear_resource_version_def key_of_def)

lemma sat_fetch_root:
  "sat S contents store_ok (fetchOrInitializePolicyServerCARootSecret K r (GenerateCA K) (PemEncodeCertificate K))
     (touches {}) (\<lambda>x st. store_ok st \<and> (\<forall>s. x = Ok s \<longrightarrow> key_of (OSecret s) = root_key r))"
  unfolding fetchOrInitializePolicyServerCARootSecret_def
proof (rule sat_get [OF client_reads lasting_ok touches_refl], goal_cases)
  case (1 x)
  show ?case
  proof (cases "as_Secret x")
    case (Inl e)
    have "sat S contents (\<lambda>st. store_ok st \<and> found KSecret (root_key r) x st)
        (buildPolicyServerCARootSecret K r (GenerateCA K) (PemEncodeCertificate K))
        (touches {}) (\<lambda>x st. store_ok st \<and> (\<forall>s. x = Ok s \<longrightarrow> key_of (OSecret s) = root_key r))"
      by (rule sat_pre [OF sat_silent [OF silent_secrets(1) [OF crypto]]]) simp
    with Inl show ?thesis by (auto intro!: sat_return)
  next
    case (Inr s)
    then have "x = Inr (OSecret s)" by (simp add: as_Secret_Inr)
    then show ?thesis by (simp add: sat_secret_read)
  qed
qed

lemma sat_fetch_serving:
  "sat S contents store_ok (fetchOrInitializePolicyServerCASecret K r n ca (GenerateCert K))
     (touches {}) (\<lambda>x st. store_ok st \<and> (\<forall>s. x = Ok s \<longrightarrow> key_of (OSecret s) = object_key (DeploymentsNamespace r) n))"
  unfolding fetchOrInitializePolicyServerCASecret_def
proof (rule sat_get [OF client_reads lasting_ok touches_refl], goal_cases)
  case (1 x)
  show ?case
  proof (cases "as_Secret x")
    case (Inl e)
    have "sat S contents store_ok (buildPolicyServerCASecret K r n ca (GenerateCert K) \<bind>
        (\<lambda>b. ret (map_err (Wrapped ''cannot fetch or initialize Policy Server CA secret: '') b)))
       (touches {}) (\<lambda>x st. store_ok st \<and> (\<forall>s. x = Ok s \<longrightarrow> key_of (OSecret s) = object_key (DeploymentsNamespace r) n))"
      by (rule sat_bind [OF sat_silent [OF silent_secrets(2) [OF crypto]]])
        (rule sat_return, case_tac x, auto)
    with Inl show ?thesis
      by (auto intro!: sat_return elim: sat_pre)
  next
    case (Inr s)
    then have "x = Inr (OSecret s)" by (simp add: as_Secret_Inr)
    then show ?thesis by (simp add: sat_secret_read)
  qed
qed

text \<open>The secret exists afterwards, also if it was there before.\<close>

lemma sat_reconcileCASecret:
  assumes key: "key_of (OSecret s) = key" "key \<in> {root_key r, server_key r ps}"
  shows "sat S contents (\<lambda>st. store_ok st \<and> (b \<longrightarrow> st KSecret (root_key r) \<noteq> None)) (reconcileCASecret r s)
     (touches {(KSecret, key)})
     (\<lambda>x st. store_ok st \<and> (b \<longrightarrow> st KSecret (root_key r) \<noteq> None) \<and> (\<forall>s'. x = Ok s' \<longrightarrow> st KSecret key \<noteq> None))"
  unfolding reconcileCASecret_def
proof (rule sat_write [OF client_writes, where R = "\<lambda>x st. store_ok st \<and> (b \<longrightarrow> st KSecret (root_key r) \<noteq> None) \<and>
    ((case x of Inr res \<Rightarrow> True | Inl e \<Rightarrow> IsAlreadyExists e) \<longrightarrow> st KSecret key \<noteq> None)"], goal_cases)
  case 1
  show ?case
    using lasting_ok lasting_objects(1) [of "root_key r"] by (auto simp: lasting_def)
next
  case (2 x st st')
  then have t: "touches {(KSecret, key)} st st'" using answered_touches [of "Create (OSecret s)"] key(1) by simp
  have put: "st' KSecret key \<noteq> None \<and> (st KSecret (root_key r) \<noteq> None \<longrightarrow> st' KSecret (root_key r) \<noteq> None)"
    if "accepts S (Create (OSecret s)) res st st'" for res
    using that key(1) completes_keeps [of "OSecret s" res] by (auto simp: put_apply)
  show ?case
  proof (intro conjI t)
    show "store_ok st'" using t 2(1) by (simp add: touches_def)
    show "b \<longrightarrow> st' KSecret (root_key r) \<noteq> None"
      using put answered_write [OF 2(2)] 2(1) by blast
    show "(case x of Inr res \<Rightarrow> True | Inl e \<Rightarrow> IsAlreadyExists e) \<longrightarrow> st' KSecret key \<noteq> None"
      using put 2(2) key(1) by (cases x) (auto simp: IsAlreadyExists_iff)
  qed
next
  case (3 x)
  show ?case
    by (cases "as_Secret x"; cases x) (auto intro!: sat_return simp: as_Secret_Inr)
qed

end

context server_cluster
begin

section \<open>The config map\<close>

lemma stored_config_map:
  assumes "completes S (OConfigMap cm) res" "key_of (OConfigMap cm) = server_key r ps"
    and "read_policies (Lib r) (nil_get (cmData cm) PolicyServerConfigPoliciesEntry) = Some (createPoliciesMap policies)"
  shows "\<exists>v. configured r ps policies v (put res st)"
proof -
  note k = completes_keeps [OF assms(1)]
  then obtain c where c: "res = OConfigMap c" by (cases res rule: kind_of.cases) auto
  with data_kept [OF assms(1) [unfolded c]] k assms(2,3) show ?thesis
    by (auto simp: configured_def put_apply)
qed

lemma sat_updateIfNeeded:
  assumes stable: "stable_policies (Lib r) (createPoliciesMap policies)"
    and key: "key_of (OConfigMap cfg) = server_key r ps"
  shows "sat S contents (\<lambda>st. store_ok st \<and> st KConfigMap (server_key r ps) = Some (OConfigMap cfg))
     (updateIfNeeded r cfg policies ps) (touches {(KConfigMap, server_key r ps)})
     (\<lambda>x st. store_ok st \<and> (x = Ok () \<longrightarrow> (\<exists>v. configured r ps policies v st)))"
    (is "sat S contents ?P _ ?G ?Q")
proof -
  let ?read = "\<lambda>cm. read_policies (Lib r) (nil_get (cmData cm) PolicyServerConfigPoliciesEntry) = Some (createPoliciesMap policies)"
  have patch: "sat S contents ?P (api_write (Client r) (Patch (OConfigMap p) (OConfigMap cfg)) \<bind> (\<lambda>res. ret (case res of
        Inl err \<Rightarrow> Err (Wrapped ''cannot patch PolicyServer Configmap: '' (ApiErr err)) | Inr _ \<Rightarrow> Ok ()))) ?G ?Q"
    if p: "key_of (OConfigMap p) = server_key r ps" "?read p" for p
  proof (rule sat_write [OF client_writes lasting_conj [OF lasting_ok lasting_objects(2)],
        where R = "\<lambda>x st. store_ok st \<and> (\<forall>res. x = Inr res \<longrightarrow> (\<exists>v. configured r ps policies v st))"], goal_cases)
    case (1 x st st')
    then have t: "touches {(KConfigMap, server_key r ps)} st st'"
      using answered_touches [of "Patch (OConfigMap p) (OConfigMap cfg)"] p(1) by simp
    have "\<exists>v. configured r ps policies v st'" if "x = Inr res" for res
      using 1 that p stored_config_map [of p res policies st] by auto
    with t 1(1) show ?case by (auto simp: touches_def)
  qed (auto intro!: sat_return split: sum.splits)
  show ?thesis
  proof (cases "shouldUpdatePolicyMap (Lib r) (nil_get (cmData cfg) PolicyServerConfigPoliciesEntry) (createPoliciesMap policies)")
    case (Ok b)
    note b = this
    show ?thesis
    proof (cases "shouldUpdateSourcesList (nil_get (cmData cfg) PolicyServerConfigSourcesEntry) (createSourcesMap ps)")
      case (Ok b')
      note b' = this
      show ?thesis
      proof (cases "b \<or> b'")
        case True
        have "?read p2 \<and> key_of (OConfigMap p2) = server_key r ps"
          if p: "patch_policies (Lib r) b (createPoliciesMap policies) cfg = Ok p1"
            "patch_sources b' (createSourcesMap ps) p1 = Ok p2" for p1 p2
        proof
          show "?read p2" using patch_steps [OF p _ stable] shouldUpdatePolicyMap_Ok [OF b] by blast
          have "cmMeta p2 = cmMeta cfg"
            using p by (auto simp: patch_policies_def patch_sources_def write_data_def split: if_splits option.splits)
          with key show "key_of (OConfigMap p2) = server_key r ps" by (simp add: key_of_def)
        qed
        with True patch show ?thesis
          by (cases "patch_policies (Lib r) b (createPoliciesMap policies) cfg")
            (auto simp: updateIfNeeded_def Let_def b b' intro!: sat_return split: outcome.split)
      next
        case False
        with shouldUpdatePolicyMap_Ok [OF b] show ?thesis
          by (auto simp: updateIfNeeded_def Let_def b b' configured_def intro!: sat_return)
      qed
    qed (auto simp: updateIfNeeded_def Let_def b intro!: sat_return)
  qed (auto simp: updateIfNeeded_def Let_def intro!: sat_return)
qed

lemma sat_createPolicyServerConfigMap:
  assumes stable: "stable_policies (Lib r) (createPoliciesMap policies)"
  shows "sat S contents store_ok (createPolicyServerConfigMap r ps policies) (touches {(KConfigMap, server_key r ps)})
     (\<lambda>x st. store_ok st \<and> (x = Ok () \<longrightarrow> (\<exists>v. configured r ps policies v st)))"
proof -
  obtain t where t: "marshal_policies (Lib r) (createPoliciesMap policies) = Some t"
      "read_policies (Lib r) t = Some (createPoliciesMap policies)"
    using policies_doc.roundtrip [OF stable] by blast
  let ?cm = "new_config_map r ps t (marshal_sources (createSourcesMap ps))"
  have cm: "key_of (OConfigMap ?cm) = server_key r ps" "nil_get (cmData ?cm) PolicyServerConfigPoliciesEntry = t"
    by (simp_all add: new_config_map_def key_of_def map_get_def)
  have "sat S contents store_ok (api_write (Client r) (Create (OConfigMap ?cm)) \<bind>
      (\<lambda>res. ret (case res of Inl err \<Rightarrow> Err (ApiErr err) | Inr _ \<Rightarrow> Ok ()))) (touches {(KConfigMap, server_key r ps)})
     (\<lambda>x st. store_ok st \<and> (x = Ok () \<longrightarrow> (\<exists>v. configured r ps policies v st)))"
  proof (rule sat_write [OF client_writes lasting_ok,
        where R = "\<lambda>x st. store_ok st \<and> (\<forall>res. x = Inr res \<longrightarrow> (\<exists>v. configured r ps policies v st))"], goal_cases)
    case (1 x st st')
    then have t': "touches {(KConfigMap, server_key r ps)} st st'"
      using answered_touches [of "Create (OConfigMap ?cm)"] cm(1) by simp
    have "\<exists>v. configured r ps policies v st'" if "x = Inr res" for res
      using 1 that cm t stored_config_map [of ?cm res policies st] by auto
    with t' 1(1) show ?case by (auto simp: touches_def)
  qed (auto intro!: sat_return split: sum.splits)
  with t show ?thesis by (simp add: createPolicyServerConfigMap_def Let_def)
qed

lemma sat_reconcilePolicyServerConfigMap:
  assumes stable: "stable_policies (Lib r) (createPoliciesMap policies)"
  shows "sat S contents store_ok (reconcilePolicyServerConfigMap r ps policies) (touches {(KConfigMap, server_key r ps)})
     (\<lambda>x st. store_ok st \<and> (x = Ok () \<longrightarrow> (\<exists>v. configured r ps policies v st)))"
  unfolding reconcilePolicyServerConfigMap_def
proof (rule sat_get [OF client_reads lasting_ok touches_refl], goal_cases)
  case (1 x)
  show ?case
  proof (cases "as_ConfigMap x")
    case (Inl e)
    have "sat S contents (\<lambda>st. store_ok st \<and> found KConfigMap (server_key r ps) x st)
        (createPolicyServerConfigMap r ps policies) (touches {(KConfigMap, server_key r ps)})
        (\<lambda>x st. store_ok st \<and> (x = Ok () \<longrightarrow> (\<exists>v. configured r ps policies v st)))"
      by (rule sat_pre [OF sat_createPolicyServerConfigMap [OF stable]]) simp
    with Inl show ?thesis by (auto intro!: sat_return)
  next
    case (Inr cfg)
    then have x: "x = Inr (OConfigMap cfg)" by (simp add: as_ConfigMap_Inr)
    show ?thesis
      unfolding x as_ConfigMap.simps sum.case
    proof (rule sat_fact)
      fix st assume "store_ok st \<and> found KConfigMap (server_key r ps) (Inr (OConfigMap cfg)) st"
      then show "key_of (OConfigMap cfg) = server_key r ps" by (auto simp: found_def dest: store_okD(2))
    next
      assume "key_of (OConfigMap cfg) = server_key r ps"
      from sat_updateIfNeeded [OF stable this]
      show "sat S contents (\<lambda>st. store_ok st \<and> found KConfigMap (server_key r ps) (Inr (OConfigMap cfg)) st)
          (updateIfNeeded r cfg policies ps) (touches {(KConfigMap, server_key r ps)})
          (\<lambda>x st. store_ok st \<and> (x = Ok () \<longrightarrow> (\<exists>v. configured r ps policies v st)))"
        by (rule sat_pre) (simp add: found_def)
    qed
  qed
qed

text \<open>The version that is read is the version of the config map that is stored.\<close>

lemma sat_version:
  "sat S contents (\<lambda>st. store_ok st \<and> (\<exists>v. configured r ps policies v st)) (policyServerConfigMapVersion r ps) (touches {})
     (\<lambda>x st. store_ok st \<and> (\<forall>v. x = Ok v \<longrightarrow> configured r ps policies v st))"
proof -
  have l: "lasting S (\<lambda>st. store_ok st \<and> (\<exists>v. configured r ps policies v st))"
    using lasting_ok lasting_objects(3) unfolding lasting_def by blast
  show ?thesis
    unfolding policyServerConfigMapVersion_def
  proof (rule sat_get [OF reader_reads l touches_refl], goal_cases)
    case (1 x)
    show ?case
      by (cases "as_ConfigMap x") (auto intro!: sat_return simp: as_ConfigMap_Inr found_def configured_def)
  qed
qed

section \<open>The deployment\<close>

lemma stored_deployment:
  assumes "completes S (ODeployment d) res" "key_of (ODeployment d) = server_key r ps" "deployment_current r ps v d"
  shows "deployed r ps v (put res st)"
proof -
  note k = completes_keeps [OF assms(1)]
  then obtain c where c: "res = ODeployment c" by (cases res rule: kind_of.cases) auto
  with spec_kept [OF assms(1) [unfolded c] assms(3)] k assms(2) show ?thesis
    by (auto simp: deployed_def put_apply)
qed

lemma deployment_key: "key_of (ODeployment (deployment r v ps)) = server_key r ps"
  by (simp add: key_of_def)

abbreviation deploys :: "string \<Rightarrow> unit result \<Rightarrow> store \<Rightarrow> bool" where
  "deploys v x st \<equiv> store_ok st \<and> (x = Ok () \<longrightarrow> deployed r ps v st)"

lemma sat_write_deployment:
  assumes key: "target q = (KDeployment, server_key r ps)" and P: "lasting S P" "\<And>st. P st \<Longrightarrow> store_ok st"
    and acc: "\<And>st st' res. P st \<Longrightarrow> accepts S q res st st' \<Longrightarrow> deployed r ps v st'"
    and f: "\<And>x. sat S contents (\<lambda>st. store_ok st \<and> (\<forall>res. x = Inr res \<longrightarrow> deployed r ps v st)) (f x)
      (touches {(KDeployment, server_key r ps)}) (deploys v)"
  shows "sat S contents P (api_write (Client r) q \<bind> f) (touches {(KDeployment, server_key r ps)}) (deploys v)"
proof (rule sat_write [OF client_writes P(1) _ f], goal_cases)
  case (1 x st st')
  then have t: "touches {(KDeployment, server_key r ps)} st st'" using answered_touches [OF 1(2)] key by simp
  with 1 P(2) acc show ?case by (auto simp: touches_def)
qed

lemma sat_updatePolicyServerDeployment:
  "sat S contents store_ok (updatePolicyServerDeployment r ps (deployment r v ps)) (touches {(KDeployment, server_key r ps)})
     (deploys v)"
  unfolding updatePolicyServerDeployment_def
proof (rule sat_get [OF client_reads lasting_ok touches_refl], goal_cases)
  case (1 x)
  let ?new = "deployment r v ps" and ?found = "\<lambda>st. store_ok st \<and> found KDeployment (server_key r ps) x st"
  show ?case
  proof (cases "as_Deployment x")
    case (Inr old)
    then have x: "x = Inr (ODeployment old)" by (simp add: as_Deployment_Inr)
    have "sat S contents ?found (api_write (Client r) (Patch (ODeployment p) (ODeployment old)) \<bind> (\<lambda>w. ret (case w of
        Inl err \<Rightarrow> Err (Wrapped ''cannot patch policy-server Deployment: '' (ApiErr err)) | Inr _ \<Rightarrow> Ok ())))
        (touches {(KDeployment, server_key r ps)}) (deploys v)"
      if p: "patch_deployment old ?new = Ok p" for p
    proof (rule sat_fact)
      fix st assume "?found st"
      then show "key_of (ODeployment p) = server_key r ps"
        using p by (auto simp: x found_def patch_deployment_def key_of_def dest: store_okD(2) split: option.splits)
    next
      let ?base = "\<lambda>st. store_ok st \<and> (\<exists>o'. st KDeployment (server_key r ps) = Some o' \<and> revised (ODeployment old) o')"
      assume key: "key_of (ODeployment p) = server_key r ps"
      have "sat S contents ?base (api_write (Client r) (Patch (ODeployment p) (ODeployment old)) \<bind> (\<lambda>w. ret (case w of
          Inl err \<Rightarrow> Err (Wrapped ''cannot patch policy-server Deployment: '' (ApiErr err)) | Inr _ \<Rightarrow> Ok ())))
          (touches {(KDeployment, server_key r ps)}) (deploys v)"
      proof (rule sat_write_deployment [OF _ lasting_conj [OF lasting_ok lasting_revised]], goal_cases)
        case (3 st st' res)
        then have "completes S (ODeployment p) res" "st' = put res st" using key by auto
        with stored_deployment [OF _ key patched_current [OF p]] show ?case by simp
      qed (use key in \<open>auto intro!: sat_return split: sum.splits\<close>)
      then show "sat S contents ?found (api_write (Client r) (Patch (ODeployment p) (ODeployment old)) \<bind> (\<lambda>w. ret (case w of
          Inl err \<Rightarrow> Err (Wrapped ''cannot patch policy-server Deployment: '' (ApiErr err)) | Inr _ \<Rightarrow> Ok ())))
          (touches {(KDeployment, server_key r ps)}) (deploys v)"
        by (rule sat_pre) (auto simp: x found_def)
    qed
    moreover have "?found st \<Longrightarrow> shouldUpdatePolicyServerDeployment ps old ?new = Ok False \<Longrightarrow> deployed r ps v st" for st
      using no_update_current by (auto simp: x found_def deployed_def)
    ultimately show ?thesis
      by (auto simp: Inr intro!: sat_return split: outcome.split)
  qed (auto intro!: sat_return)
qed

lemma sat_create_or_update_deployment:
  "sat S contents store_ok (create_or_update_deployment r ps v) (touches {(KDeployment, server_key r ps)}) (deploys v)"
  unfolding create_or_update_deployment_def Let_def
proof (rule sat_write_deployment [OF _ lasting_ok], goal_cases)
  case (3 st st' res)
  then show ?case
    using stored_deployment [OF _ deployment_key own_deployment_current] by simp
next
  case (4 x)
  show ?case
  proof (cases x)
    case (Inl e)
    have "sat S contents (\<lambda>st. store_ok st \<and> (\<forall>res. x = Inr res \<longrightarrow> deployed r ps v st))
        (updatePolicyServerDeployment r ps (deployment r v ps)) (touches {(KDeployment, server_key r ps)}) (deploys v)"
      by (rule sat_pre [OF sat_updatePolicyServerDeployment]) simp
    with Inl show ?thesis by (auto intro!: sat_return)
  qed (auto intro!: sat_return)
qed (simp_all add: deployment_key)

text \<open>The deployment gets the version of the config map that is stored.\<close>

lemma sat_create_or_update_configured:
  "sat S contents (\<lambda>st. store_ok st \<and> configured r ps policies v st) (create_or_update_deployment r ps v)
     (touches {(KDeployment, server_key r ps)})
     (\<lambda>x st. store_ok st \<and> (x = Ok () \<longrightarrow> (\<exists>v. configured r ps policies v st \<and> deployed r ps v st)))"
proof -
  have "lasting S (\<lambda>st. store_ok st \<and> configured r ps policies v st)"
    by (rule lasting_conj [OF lasting_ok lasting_objects(3)])
  then have "sat S contents (\<lambda>st. store_ok st \<and> store_ok st \<and> configured r ps policies v st) (create_or_update_deployment r ps v)
     (touches {(KDeployment, server_key r ps)}) (\<lambda>x st. deploys v x st \<and> store_ok st \<and> configured r ps policies v st)"
    by (rule sat_frame [OF sat_create_or_update_deployment]) (auto simp: touches_def configured_def)
  then show ?thesis by (rule sat_conseq) auto
qed

lemma sat_reconcilePolicyServerDeployment:
  "sat S contents (\<lambda>st. store_ok st \<and> (\<exists>v. configured r ps policies v st)) (reconcilePolicyServerDeployment r ps)
     (touches {(KDeployment, server_key r ps)})
     (\<lambda>x st. store_ok st \<and> (x = Ok () \<longrightarrow> (\<exists>v. configured r ps policies v st \<and> deployed r ps v st)))"
  unfolding reconcilePolicyServerDeployment_def
proof (rule sat_bind [OF sat_guar [OF sat_version touches_mono]], goal_cases)
  case (3 v)
  let ?P = "\<lambda>st. store_ok st \<and> (\<forall>n. v = Ok n \<longrightarrow> configured r ps policies n st)"
  show ?case
  proof (cases v)
    case (Ok n)
    note go = sat_create_or_update_configured [of policies n]
    have "sat S contents (\<lambda>st. store_ok st \<and> configured r ps policies n st) (policyServerImagePullSecretPresent r ps)
       (touches {(KDeployment, server_key r ps)}) (\<lambda>x st. store_ok st \<and> configured r ps policies n st)"
      unfolding policyServerImagePullSecretPresent_def
      by (rule sat_get_keep [OF client_reads lasting_conj [OF lasting_ok lasting_objects(3)] touches_refl])
        (rule sat_return)
    then have "sat S contents (\<lambda>st. store_ok st \<and> configured r ps policies n st)
        (policyServerImagePullSecretPresent r ps \<bind> (\<lambda>p. case p of Ok _ \<Rightarrow> create_or_update_deployment r ps n
          | Err e \<Rightarrow> ret (Err e) | Panic \<Rightarrow> ret Panic)) (touches {(KDeployment, server_key r ps)})
        (\<lambda>x st. store_ok st \<and> (x = Ok () \<longrightarrow> (\<exists>v. configured r ps policies v st \<and> deployed r ps v st)))"
      by (rule sat_bind) (auto intro!: sat_return go split: outcome.split)
    with go Ok show ?thesis by (auto elim: sat_pre)
  qed (auto intro!: sat_return)
qed auto

section \<open>The service\<close>

lemma sat_reconcilePolicyServerService:
  "sat S contents store_ok (reconcilePolicyServerService r ps) (touches {(KService, server_key r ps)})
     (\<lambda>x st. store_ok st \<and> (x = Ok () \<longrightarrow> st KService (server_key r ps) \<noteq> None))"
  unfolding reconcilePolicyServerService_def
proof (rule sat_write [OF client_writes lasting_ok, where R = "\<lambda>x st. store_ok st \<and>
    ((case x of Inr res \<Rightarrow> True | Inl e \<Rightarrow> IsAlreadyExists e) \<longrightarrow> st KService (server_key r ps) \<noteq> None)"], goal_cases)
  case (1 x st st')
  have key: "key_of (OService (service r ps)) = server_key r ps" by (simp add: key_of_def service_def)
  with 1 have t: "touches {(KService, server_key r ps)} st st'" using answered_touches [OF 1(2)] by simp
  have put: "st' KService (server_key r ps) \<noteq> None" if "accepts S (Create (OService (service r ps))) res st st'" for res
    using that key completes_keeps [of "OService (service r ps)" res] by (auto simp: put_apply)
  have "(case x of Inr res \<Rightarrow> True | Inl e \<Rightarrow> IsAlreadyExists e) \<longrightarrow> st' KService (server_key r ps) \<noteq> None"
    using put 1(2) key by (cases x) (auto simp: IsAlreadyExists_iff)
  with t 1(1) show ?case by (simp add: touches_def)
qed (auto intro!: sat_return split: sum.splits)

end

section \<open>The whole reconciliation\<close>

text \<open>The steps do not look at the conditions of the policy server.\<close>

lemma steps_ignore_conditions:
  "NameWithPrefix (ps\<lparr>psConditions := c\<rparr>) = NameWithPrefix ps"
  "reconcilePolicyServerConfigMap r (ps\<lparr>psConditions := c\<rparr>) policies = reconcilePolicyServerConfigMap r ps policies"
  "reconcilePolicyServerDeployment r (ps\<lparr>psConditions := c\<rparr>) = reconcilePolicyServerDeployment r ps"
  "reconcilePolicyServerService r (ps\<lparr>psConditions := c\<rparr>) = reconcilePolicyServerService r ps"
proof -
  show n: "NameWithPrefix (ps\<lparr>psConditions := c\<rparr>) = NameWithPrefix ps" by (simp add: NameWithPrefix_def)
  have s: "service r (ps\<lparr>psConditions := c\<rparr>) = service r ps"
    by (simp add: service_def n metricsEnabled_def AppLabel_def)
  show "reconcilePolicyServerService r (ps\<lparr>psConditions := c\<rparr>) = reconcilePolicyServerService r ps"
    by (simp add: reconcilePolicyServerService_def s)
  have m: "createSourcesMap (ps\<lparr>psConditions := c\<rparr>) = createSourcesMap ps" by (simp add: createSourcesMap_def)
  have u: "updateIfNeeded r cfg policies (ps\<lparr>psConditions := c\<rparr>) = updateIfNeeded r cfg policies ps" for cfg
    by (simp add: updateIfNeeded_def m)
  have nc: "new_config_map r (ps\<lparr>psConditions := c\<rparr>) = new_config_map r ps"
    by (simp add: fun_eq_iff new_config_map_def n)
  have cr: "createPolicyServerConfigMap r (ps\<lparr>psConditions := c\<rparr>) policies = createPolicyServerConfigMap r ps policies"
    unfolding createPolicyServerConfigMap_def m nc ..
  show "reconcilePolicyServerConfigMap r (ps\<lparr>psConditions := c\<rparr>) policies = reconcilePolicyServerConfigMap r ps policies"
    unfolding reconcilePolicyServerConfigMap_def n u cr ..
  have d: "deployment r v (ps\<lparr>psConditions := c\<rparr>) = deployment r v ps" for v
    by (simp add: deployment_def n AppLabel_def adaptDeploymentSettingsForPolicyServer_def admissionContainer_def
        container_mounts_def optional_env_def base_volumes_def has_sources_def Let_def)
  have sp: "psSpec (ps\<lparr>psConditions := c\<rparr>) = psSpec ps" by simp
  have im: "getPolicyServerImageFromDeployment (ps\<lparr>psConditions := c\<rparr>) e = getPolicyServerImageFromDeployment ps e" for e
    by (simp add: getPolicyServerImageFromDeployment_def n)
  have ic: "isPolicyServerImageChanged (ps\<lparr>psConditions := c\<rparr>) e e' = isPolicyServerImageChanged ps e e'" for e e'
    unfolding isPolicyServerImageChanged_def im ..
  have su: "shouldUpdatePolicyServerDeployment (ps\<lparr>psConditions := c\<rparr>) e e' = shouldUpdatePolicyServerDeployment ps e e'" for e e'
    unfolding shouldUpdatePolicyServerDeployment_def ic ..
  have up: "updatePolicyServerDeployment r (ps\<lparr>psConditions := c\<rparr>) e = updatePolicyServerDeployment r ps e" for e
    unfolding updatePolicyServerDeployment_def n su ..
  have cu: "create_or_update_deployment r (ps\<lparr>psConditions := c\<rparr>) v = create_or_update_deployment r ps v" for v
    unfolding create_or_update_deployment_def d up ..
  show "reconcilePolicyServerDeployment r (ps\<lparr>psConditions := c\<rparr>) = reconcilePolicyServerDeployment r ps"
    unfolding reconcilePolicyServerDeployment_def policyServerConfigMapVersion_def policyServerImagePullSecretPresent_def n cu sp ..
qed

text \<open>The objects that a reconciliation may write.\<close>

definition footprint :: "'w Reconciler \<Rightarrow> PolicyServer \<Rightarrow> (kind \<times> ObjectKey) set" where
  "footprint r ps = insert (KSecret, root_key r) {(k, server_key r ps) | k. k \<in> {KSecret, KConfigMap, KDeployment, KService}}"

context server_cluster
begin

lemma sat_on_error:
  assumes m: "sat S contents P m (touches T) R" and T: "T \<subseteq> footprint r ps"
    and k: "\<And>v. sat S contents (R (Ok v)) (k v) (touches (footprint r ps)) (\<lambda>y st. snd y = Ok () \<longrightarrow> U st)"
  shows "sat S contents P (on_error L c w q m k) (touches (footprint r ps)) (\<lambda>y st. snd y = Ok () \<longrightarrow> U st)"
  unfolding on_error_def
proof (rule sat_bind [OF sat_guar [OF m touches_mono]], goal_cases)
  case (3 x)
  show ?case by (cases x) (auto intro!: sat_return k)
qed (use T in auto)

lemma lasting_ex: "(\<And>v. lasting S (P v)) \<Longrightarrow> lasting S (\<lambda>st. \<exists>v. P v st)"
  unfolding lasting_def by blast

text \<open>What the stages before have achieved is kept.\<close>

lemma sat_keep:
  assumes m: "sat S contents (\<lambda>st. store_ok st \<and> A st) m (touches T) (\<lambda>x st. store_ok st \<and> B x st)"
    and F: "lasting S F" and other: "\<And>st st'. store_ok st \<Longrightarrow> F st \<Longrightarrow> touches T st st' \<Longrightarrow> F st'"
  shows "sat S contents (\<lambda>st. store_ok st \<and> A st \<and> F st) m (touches T) (\<lambda>x st. store_ok st \<and> B x st \<and> F st)"
proof -
  have "sat S contents (\<lambda>st. (store_ok st \<and> A st) \<and> store_ok st \<and> F st) m (touches T)
      (\<lambda>x st. (store_ok st \<and> B x st) \<and> store_ok st \<and> F st)"
    by (rule sat_frame [OF m lasting_conj [OF lasting_ok F]]) (use other in \<open>auto simp: touches_def\<close>)
  then show ?thesis by (rule sat_conseq) auto
qed

lemma sat_keep_ok:
  assumes m: "sat S contents store_ok m (touches T) (\<lambda>x st. store_ok st \<and> B x st)"
    and F: "lasting S F" and other: "\<And>st st'. store_ok st \<Longrightarrow> F st \<Longrightarrow> touches T st st' \<Longrightarrow> F st'"
  shows "sat S contents (\<lambda>st. store_ok st \<and> F st) m (touches T) (\<lambda>x st. store_ok st \<and> B x st \<and> F st)"
proof -
  have "sat S contents (\<lambda>st. store_ok st \<and> True) m (touches T) (\<lambda>x st. store_ok st \<and> B x st)"
    by (rule sat_pre [OF m]) simp
  from sat_keep [OF this F other] show ?thesis by (rule sat_pre) simp_all
qed

abbreviation secrets :: "store \<Rightarrow> bool" where
  "secrets st \<equiv> st KSecret (root_key r) \<noteq> None \<and> st KSecret (server_key r ps) \<noteq> None"

lemma lasting_secrets: "lasting S secrets"
  by (rule lasting_conj [OF lasting_objects(1) lasting_objects(1)]) auto

lemma touches_secrets: "store_ok st \<Longrightarrow> secrets st \<Longrightarrow> touches {(k, key)} st st' \<Longrightarrow> k \<noteq> KSecret \<Longrightarrow> secrets st'"
  by (simp add: touches_def)

text \<open>The stages, each with what those before it have achieved.\<close>

abbreviation mapped :: "Policy list \<Rightarrow> store \<Rightarrow> bool" where
  "mapped policies st \<equiv> \<exists>v. configured r ps policies v st"

abbreviation rolled_out :: "Policy list \<Rightarrow> store \<Rightarrow> bool" where
  "rolled_out policies st \<equiv> \<exists>v. configured r ps policies v st \<and> deployed r ps v st"

lemma stage_store_secret:
  assumes "key \<in> {root_key r, server_key r ps}"
  shows "sat S contents (\<lambda>st. store_ok st \<and> key_of (OSecret s) = key \<and> (b \<longrightarrow> st KSecret (root_key r) \<noteq> None))
     (reconcileCASecret r s) (touches {(KSecret, key)})
     (\<lambda>x st. store_ok st \<and> (b \<longrightarrow> st KSecret (root_key r) \<noteq> None) \<and> (\<forall>s'. x = Ok s' \<longrightarrow> st KSecret key \<noteq> None))"
proof (rule sat_fact)
  assume "key_of (OSecret s) = key"
  from sat_reconcileCASecret [OF this assms] show "sat S contents
      (\<lambda>st. store_ok st \<and> key_of (OSecret s) = key \<and> (b \<longrightarrow> st KSecret (root_key r) \<noteq> None)) (reconcileCASecret r s)
      (touches {(KSecret, key)})
      (\<lambda>x st. store_ok st \<and> (b \<longrightarrow> st KSecret (root_key r) \<noteq> None) \<and> (\<forall>s'. x = Ok s' \<longrightarrow> st KSecret key \<noteq> None))"
    by (rule sat_pre) simp
qed simp

lemma stage_serving_secret:
  "sat S contents (\<lambda>st. store_ok st \<and> st KSecret (root_key r) \<noteq> None)
     (fetchOrInitializePolicyServerCASecret K r (NameWithPrefix ps) ca (GenerateCert K)) (touches {})
     (\<lambda>x st. store_ok st \<and> (\<forall>s. x = Ok s \<longrightarrow> key_of (OSecret s) = server_key r ps) \<and> st KSecret (root_key r) \<noteq> None)"
  by (rule sat_keep_ok [OF sat_fetch_serving lasting_objects(1)]) (auto simp: touches_def)

lemma stage_config_map:
  assumes "stable_policies (Lib r) (createPoliciesMap policies)"
  shows "sat S contents (\<lambda>st. store_ok st \<and> secrets st) (reconcilePolicyServerConfigMap r ps policies)
     (touches {(KConfigMap, server_key r ps)}) (\<lambda>x st. store_ok st \<and> (x = Ok () \<longrightarrow> mapped policies st) \<and> secrets st)"
  by (rule sat_keep_ok [OF sat_reconcilePolicyServerConfigMap [OF assms] lasting_secrets]) (rule touches_secrets, auto)

lemma stage_deployment:
  "sat S contents (\<lambda>st. store_ok st \<and> mapped policies st \<and> secrets st) (reconcilePolicyServerDeployment r ps)
     (touches {(KDeployment, server_key r ps)}) (\<lambda>x st. store_ok st \<and> (x = Ok () \<longrightarrow> rolled_out policies st) \<and> secrets st)"
  by (rule sat_keep [OF sat_reconcilePolicyServerDeployment lasting_secrets]) (rule touches_secrets, auto)

lemma touches_rolled_out:
  assumes "store_ok st" "rolled_out policies st" "touches {(KService, key)} st st'"
  shows "rolled_out policies st'"
  using assms by (simp add: touches_def configured_def deployed_def)

lemma stage_service:
  "sat S contents (\<lambda>st. store_ok st \<and> rolled_out policies st \<and> secrets st) (reconcilePolicyServerService r ps)
     (touches {(KService, server_key r ps)})
     (\<lambda>x st. store_ok st \<and> (x = Ok () \<longrightarrow> st KService (server_key r ps) \<noteq> None) \<and> rolled_out policies st \<and> secrets st)"
proof (rule sat_keep_ok [OF sat_reconcilePolicyServerService])
  show "lasting S (\<lambda>st. rolled_out policies st \<and> secrets st)"
    by (rule lasting_conj [OF lasting_ex [OF lasting_conj [OF lasting_objects(3) lasting_deployed]] lasting_secrets])
qed (use touches_secrets touches_rolled_out in blast)

lemma sat_Reconcile:
  assumes stable: "stable_policies (Lib r) (createPoliciesMap policies)"
  shows "sat S contents store_ok (Reconcile K r ps policies) (touches (footprint r ps))
     (\<lambda>y st. snd y = Ok () \<longrightarrow> serving r ps policies st)"
proof -
  have in_fp: "{} \<subseteq> footprint r ps" "{(KSecret, root_key r)} \<subseteq> footprint r ps" "{(KSecret, server_key r ps)} \<subseteq> footprint r ps"
    "{(KConfigMap, server_key r ps)} \<subseteq> footprint r ps" "{(KDeployment, server_key r ps)} \<subseteq> footprint r ps"
    "{(KService, server_key r ps)} \<subseteq> footprint r ps"
    by (simp_all add: footprint_def)
  have keys: "root_key r \<in> {root_key r, server_key r ps}" "server_key r ps \<in> {root_key r, server_key r ps}" by simp_all
  show ?thesis
    unfolding Reconcile_def Let_def setTrueConditionType_def steps_ignore_conditions
    by (rule sat_on_error [OF sat_fetch_root in_fp(1)],
        rule sat_pre, rule sat_on_error [OF stage_store_secret [OF keys(1), of _ False] in_fp(2)],
        rule sat_pre, rule sat_on_error [OF stage_serving_secret in_fp(1)],
        rule sat_pre, rule sat_on_error [OF stage_store_secret [OF keys(2), of _ True] in_fp(3)],
        rule sat_pre, rule sat_on_error [OF stage_config_map [OF stable] in_fp(4)],
        rule sat_pre, rule sat_on_error [OF stage_deployment [of policies] in_fp(5)],
        rule sat_pre, rule sat_on_error [OF stage_service [of policies] in_fp(6)],
        rule sat_return) (simp_all add: serving_def)
qed

end

end
