(* ===== verification/Server_Removal.thy ===== *)
theory Server_Removal
  imports Server_Cluster
begin

text \<open>
  The deletion of a policy server on a cluster: its finalizer is the last thing to go.
\<close>

section \<open>Removing a policy server\<close>

definition server_kinds :: "kind set" where
  "server_kinds = {KDeployment, KSecret, KService, KConfigMap}"

text \<open>An object that is gone, or that the API server is about to remove.\<close>

definition ended :: "api_object option \<Rightarrow> bool" where
  "ended x \<longleftrightarrow> (case x of None \<Rightarrow> True | Some ob \<Rightarrow> DeletionTimestamp (meta_of ob) \<noteq> None)"

definition cleared :: "kind set \<Rightarrow> 'w Reconciler \<Rightarrow> PolicyServer \<Rightarrow> store \<Rightarrow> bool" where
  "cleared D r ps st \<longleftrightarrow> (\<forall>k \<in> D. ended (st k (server_key r ps)))"

lemma ended_delete:
  assumes "store_ok st" "answered S (EvWrite (Delete k key) x) st st'" "gone x"
  shows "ended (st' k key)"
proof (cases x)
  case (Inl e)
  with assms(2,3) show ?thesis by (auto simp: gone_def IsNotFound_iff ended_def)
next
  case (Inr res)
  with assms(2) obtain old where old: "st k key = Some old"
    and "st' = erase k key st \<or> (\<exists>t v. st' = put (terminating t v old) st)"
    by (auto split: if_splits)
  with store_okD(1,2) [OF assms(1) old] show ?thesis by (auto simp: ended_def erase_apply put_apply)
qed

text \<open>
  The requests of a deletion: they touch the objects of the policy server, the policies bound to it and
  the policy server itself, and this last only when its objects are gone.
\<close>

definition removing :: "'w Reconciler \<Rightarrow> PolicyServer \<Rightarrow> Policy list \<Rightarrow> store \<Rightarrow> store \<Rightarrow> bool" where
  "removing r ps policies st st' \<longleftrightarrow>
     touches ({(k, server_key r ps) | k. k \<in> server_kinds} \<union> pid ` set policies \<union> {(KPolicyServer, key_of (OPolicyServer ps))}) st st' \<and>
     (store_ok st \<longrightarrow> st' KPolicyServer (key_of (OPolicyServer ps)) \<noteq> st KPolicyServer (key_of (OPolicyServer ps)) \<longrightarrow>
        cleared server_kinds r ps st)"

lemma removing_refl [simp]: "removing r ps policies st st"
  by (simp add: removing_def)

lemma removing_other:
  assumes "touches {(k, key)} st st'" "k \<in> server_kinds \<and> key = server_key r ps \<or> (k, key) \<in> pid ` set policies"
  shows "removing r ps policies st st'"
proof -
  have "k \<noteq> KPolicyServer"
  proof
    assume k: "k = KPolicyServer"
    with assms(2) obtain p where "KPolicyServer = kind_of (OPolicy p)" by (auto simp: server_kinds_def pid_def)
    with policy_kind_in [of p] show False by (simp add: policy_kinds_def)
  qed
  with assms(1) have "store_ok st \<Longrightarrow> st' KPolicyServer key' = st KPolicyServer key'" for key'
    by (simp add: touches_def)
  moreover from assms have "touches ({(k, server_key r ps) | k. k \<in> server_kinds} \<union> pid ` set policies \<union>
      {(KPolicyServer, key_of (OPolicyServer ps))}) st st'"
    by (auto elim!: touches_mono)
  ultimately show ?thesis by (simp add: removing_def)
qed

text \<open>The others do not make again what was deleted.\<close>

definition removal_kept :: "'w Reconciler \<Rightarrow> PolicyServer \<Rightarrow> store \<Rightarrow> store \<Rightarrow> bool" where
  "removal_kept r ps st st' \<longleftrightarrow> (store_ok st \<longrightarrow> store_ok st') \<and>
     (\<forall>k \<in> server_kinds. ended (st k (server_key r ps)) \<longrightarrow> ended (st' k (server_key r ps)))"

locale server_removal = cluster S contents r
  for S :: api_server and contents :: "'w \<Rightarrow> store" and r :: "'w Reconciler" +
  fixes ps :: PolicyServer
  assumes others_remove: "others S st st' \<Longrightarrow> removal_kept r ps st st'"
begin

lemma lasting_cleared: "D \<subseteq> server_kinds \<Longrightarrow> lasting S (\<lambda>st. store_ok st \<and> (b \<longrightarrow> cleared D r ps st))"
  using others_remove unfolding lasting_def cleared_def removal_kept_def by blast

lemma sat_delete_resource:
  assumes q: "psMeta q = psMeta ps" and D: "insert k D \<subseteq> server_kinds"
  shows "sat S contents (\<lambda>st. store_ok st \<and> (errs = [] \<longrightarrow> cleared D r ps st)) (delete_resource r k c q errs)
     (removing r ps policies)
     (\<lambda>y st. store_ok st \<and> psMeta (fst y) = psMeta ps \<and> (snd y = [] \<longrightarrow> cleared (insert k D) r ps st))"
proof -
  have n: "NameWithPrefix q = NameWithPrefix ps" using q by (simp add: NameWithPrefix_def)
  show ?thesis
    unfolding delete_resource_def n
  proof (rule sat_write [OF client_writes lasting_cleared, where R = "\<lambda>x st. store_ok st \<and>
      (errs = [] \<longrightarrow> gone x \<longrightarrow> cleared (insert k D) r ps st)"], goal_cases)
    case (2 x st st')
    then have t: "touches {(k, server_key r ps)} st st'" using answered_touches [OF 2(2)] by simp
    with 2(1) have same: "(j, key) \<noteq> (k, server_key r ps) \<Longrightarrow> st' j key = st j key" for j key
      by (auto simp: touches_def)
    have "gone x \<Longrightarrow> ended (st' k (server_key r ps))"
      using ended_delete [OF _ 2(2)] 2(1) by simp
    with 2(1) same have "errs = [] \<longrightarrow> gone x \<longrightarrow> cleared (insert k D) r ps st'"
      by (auto simp: cleared_def) (metis prod.inject)
    with t 2(1) D show ?case by (auto simp: touches_def intro!: removing_other [OF t])
  qed (use D q in \<open>auto intro!: sat_return simp: gone_def setFalseConditionType_def split: sum.splits\<close>)
qed

lemma sat_next:
  assumes m: "sat S contents P m G (\<lambda>y st. store_ok st \<and> psMeta (fst y) = psMeta ps \<and> (snd y = [] \<longrightarrow> cleared D r ps st))"
    and f: "\<And>(q :: PolicyServer) (errs :: go_error list). psMeta q = psMeta ps \<Longrightarrow>
      sat S contents (\<lambda>st. store_ok st \<and> (errs = [] \<longrightarrow> cleared D r ps st)) (f q errs) G Q"
  shows "sat S contents P (m \<bind> (\<lambda>(q, errs). f q errs)) G Q"
proof (rule sat_bind [OF m], unfold case_prod_beta, rule sat_fact)
  fix y :: "PolicyServer \<times> go_error list"
  assume "psMeta (fst y) = psMeta ps"
  from f [OF this, of "snd y"] show "sat S contents (\<lambda>st. store_ok st \<and> psMeta (fst y) = psMeta ps \<and>
      (snd y = [] \<longrightarrow> cleared D r ps st)) (f (fst y) (snd y)) G Q"
    by (rule sat_pre) simp
qed simp

lemma sat_ReconcileDeletion:
  "sat S contents store_ok (ReconcileDeletion r ps) (removing r ps policies)
     (\<lambda>y st. store_ok st \<and> psMeta (fst y) = psMeta ps \<and> (snd y = Ok () \<longrightarrow> cleared server_kinds r ps st))"
  unfolding ReconcileDeletion_def
  by (rule sat_next [OF sat_pre [OF sat_delete_resource [where D = "{}"]]], simp, simp add: server_kinds_def, simp add: cleared_def,
      (rule sat_next [OF sat_delete_resource], assumption, simp add: server_kinds_def)+,
      rule sat_return) (auto simp: server_kinds_def insert_commute)

lemma sat_delete_policies:
  assumes "set ps' \<subseteq> set policies"
  shows "sat S contents store_ok (delete_policies (Client r) b ps') (removing r ps policies) (\<lambda>x. store_ok)"
  using assms
proof (induction ps' arbitrary: b)
  case (Cons p ps')
  have ok: "lasting S store_ok" using lasting_cleared [of "{}" False] by simp
  show ?case
    unfolding delete_policies.simps
  proof (rule sat_write [OF client_writes ok, where R = "\<lambda>x. store_ok"], goal_cases)
    case (1 x st st')
    then have t: "touches {(policy_kind p, key_of (OPolicy p))} st st'" using answered_touches [OF 1(2)] by simp
    have "(policy_kind p, key_of (OPolicy p)) \<in> pid ` set policies"
      using Cons.prems by (auto simp: pid_def policy_kind_def)
    with t 1(1) show ?case by (auto simp: touches_def intro: removing_other [OF t])
  next
    case (2 x)
    then show ?case using Cons by (auto split: sum.split)
  qed
qed (simp add: sat_return)

lemma sat_ps_reconcileDeletion:
  "sat S contents store_ok (ps_reconcileDeletion r ps policies) (removing r ps policies)
     (\<lambda>x st. x = Ok no_requeue \<longrightarrow> cleared server_kinds r ps st)"
proof (cases "policies = []")
  case True
  have "sat S contents store_ok (ReconcileDeletion r ps \<bind> (\<lambda>(policyServer1, x). (case x of
         Panic \<Rightarrow> ret Panic
       | Err err \<Rightarrow> ret (Err (Wrapped ''could not reconcile policy server deletion: '' err))
       | Ok _ \<Rightarrow> api_write (Client r) (Update (OPolicyServer
             (policyServer1\<lparr>psMeta := remove_finalizer (Lib r) (psMeta policyServer1)\<rparr>))) \<bind> (\<lambda>u. ret (case u of
             Inl err \<Rightarrow> if IsConflict err then Ok no_requeue else Err (Wrapped ''cannot update policy server: '' (ApiErr err))
           | Inr _ \<Rightarrow> Ok no_requeue))))) (removing r ps policies) (\<lambda>x st. x = Ok no_requeue \<longrightarrow> cleared server_kinds r ps st)"
  proof (rule sat_bind [OF sat_ReconcileDeletion], unfold case_prod_beta, rule sat_fact)
    fix y :: "PolicyServer \<times> unit result"
    let ?q = "OPolicyServer ((fst y)\<lparr>psMeta := remove_finalizer (Lib r) (psMeta (fst y))\<rparr>)"
    let ?P = "\<lambda>st. store_ok st \<and> psMeta (fst y) = psMeta ps \<and> (snd y = Ok () \<longrightarrow> cleared server_kinds r ps st)"
    assume m: "psMeta (fst y) = psMeta ps"
    have key: "key_of ?q = key_of (OPolicyServer ps)" by (simp add: key_of_def m remove_finalizer_def)
    have l: "lasting S (\<lambda>st. store_ok st \<and> (True \<longrightarrow> cleared server_kinds r ps st))" by (rule lasting_cleared) simp
    have "sat S contents (\<lambda>st. store_ok st \<and> (True \<longrightarrow> cleared server_kinds r ps st)) (api_write (Client r) (Update ?q) \<bind> (\<lambda>u. ret (case u of
             Inl err \<Rightarrow> if IsConflict err then Ok no_requeue else Err (Wrapped ''cannot update policy server: '' (ApiErr err))
           | Inr _ \<Rightarrow> Ok no_requeue))) (removing r ps policies) (\<lambda>x st. x = Ok no_requeue \<longrightarrow> cleared server_kinds r ps st)"
    proof (rule sat_write [OF client_writes l, where R = "\<lambda>x. cleared server_kinds r ps"], goal_cases)
      case (1 x st st')
      then have t: "touches {(KPolicyServer, key_of (OPolicyServer ps))} st st'"
        using answered_touches [OF 1(2)] key by simp
      with 1(1) have "cleared server_kinds r ps st'"
        by (auto simp: touches_def cleared_def server_kinds_def)
      with t 1(1) show ?case
        by (auto simp: removing_def elim!: touches_mono)
    qed (simp add: sat_return)
    then show "sat S contents ?P (case snd y of
         Panic \<Rightarrow> ret Panic
       | Err err \<Rightarrow> ret (Err (Wrapped ''could not reconcile policy server deletion: '' err))
       | Ok _ \<Rightarrow> api_write (Client r) (Update ?q) \<bind> (\<lambda>u. ret (case u of
             Inl err \<Rightarrow> if IsConflict err then Ok no_requeue else Err (Wrapped ''cannot update policy server: '' (ApiErr err))
           | Inr _ \<Rightarrow> Ok no_requeue))) (removing r ps policies) (\<lambda>x st. x = Ok no_requeue \<longrightarrow> cleared server_kinds r ps st)"
      by (cases "snd y") (auto intro!: sat_return elim: sat_pre)
  qed simp
  with True show ?thesis by (simp add: ps_reconcileDeletion_def Let_def)
next
  case False
  have "requeue_now \<noteq> no_requeue" by (simp add: requeue_now_def no_requeue_def)
  with False show ?thesis
    unfolding ps_reconcileDeletion_def
    by (intro sat_bind [OF sat_delete_policies [OF subset_refl]]) (auto intro!: sat_return)
qed

end

end
