(* ===== verification/Server_Environment.thy ===== *)
theory Server_Environment
  imports Server_Cluster
begin

text \<open>
  The controller of policy servers is part of the cluster in which the policy controllers work: every
  request it sends is one that \<open>Webhook_Ownership\<close> allows the others.
\<close>

section \<open>The controller of policy servers among the others\<close>

text \<open>
  Everybody acts at the same time: the users, and the policy controllers, whose requests keep to
  \<open>guar\<close>.  A request of the controller of policy servers is one that \<open>user_step\<close> allows.
\<close>

definition abides :: "kube_lib \<Rightarrow> string \<Rightarrow> store \<Rightarrow> store \<Rightarrow> bool" where
  "abides L d st st' \<longleftrightarrow> (consistent st \<longrightarrow> st' = st \<or> user_step L d st st')"

definition everybody :: "kube_lib \<Rightarrow> string \<Rightarrow> store \<Rightarrow> store \<Rightarrow> bool" where
  "everybody L d st st' \<longleftrightarrow> user_step L d st st' \<or> (\<exists>m. guar m st st')"

lemma abides_refl [simp]: "abides L d st st"
  by (simp add: abides_def)

lemma consistent_abides:
  assumes "finalizer_law L" "abides L d st st'" "consistent st"
  shows "consistent st'"
proof -
  have "GetUniqueName p \<in> policy_names" for p by simp
  with assms user_step_rely [OF assms(1)] show ?thesis unfolding abides_def by blast
qed

fun modest :: "write_request \<Rightarrow> bool" where
  "modest (Delete k key) \<longleftrightarrow> k \<notin> webhook_kinds"
| "modest q \<longleftrightarrow> fst (target q) \<notin> policy_kinds \<union> webhook_kinds"

locale system_cluster = cluster S contents r
  for S :: api_server and contents :: "'w \<Rightarrow> store" and r :: "'w Reconciler" +
  fixes K :: "'w crypto_ops" and d :: string
  assumes crypto: "local_crypto contents K"
    and finalizers: "finalizer_law (Lib r)"
    and others_are: "others S = (everybody (Lib r) d)\<^sup>*\<^sup>*"
begin

lemma others_consistent:
  assumes "others S st st'" "consistent st"
  shows "consistent st'"
  using assms(1) unfolding others_are
proof (induction rule: rtranclp_induct)
  case base
  show ?case by (rule assms(2))
next
  case (step st1 st2)
  from step.hyps(2) consistent_abides [OF finalizers, of d st1 st2] step.IH show ?case
    unfolding everybody_def abides_def guar_def by blast
qed

lemma foreign_touches:
  assumes "touches {(k, key)} st st'" "store_ok st" "k \<notin> policy_kinds \<union> webhook_kinds"
  shows "foreign st st'"
proof -
  have "st' j = st j" if "j \<in> policy_kinds \<union> webhook_kinds" for j
  proof
    fix key' show "st' j key' = st j key'"
      by (rule touches_other [OF assms(1,2)]) (use that assms(3) in auto)
  qed
  with assms show ?thesis by (auto simp: foreign_def touches_def)
qed

lemma abides_write:
  assumes q: "modest q" and a: "answered S (EvWrite q x) st st'"
  shows "abides (Lib r) d st st'"
  unfolding abides_def
proof
  assume c: "consistent st"
  obtain k key where t: "target q = (k, key)" by (cases "target q")
  show "st' = st \<or> user_step (Lib r) d st st'"
  proof (cases "k \<in> policy_kinds \<union> webhook_kinds")
    case False
    with answered_touches [OF a] t foreign_touches consistentD(1) [OF c] have "foreign st st'" by simp
    then show ?thesis by (blast intro: user_step.elsewhere)
  next
    case True
    with q t have "q = Delete k key" "k \<in> policy_kinds" by (cases q; auto)+
    with answered_write [OF a] show ?thesis by (blast intro: user_step.delete)
  qed
qed

abbreviation acts :: "('w, 'a) api \<Rightarrow> bool" where
  "acts m \<equiv> sat S contents (\<lambda>st. True) m (abides (Lib r) d) (\<lambda>x st. True)"

lemma acts_return: "acts (ret x)"
  by (simp add: sat_return)

lemma acts_bind: "acts m \<Longrightarrow> (\<And>x. acts (f x)) \<Longrightarrow> acts (m \<bind> f)"
  by (rule sat_bind)

lemma lasting_True: "lasting S (\<lambda>st. True)"
  by (simp add: lasting_def)

lemma acts_get: "(\<And>x. acts (f x)) \<Longrightarrow> acts (api_get (Client r) k key \<bind> f)"
  by (rule sat_get_keep [OF client_reads lasting_True abides_refl])

lemma acts_get_direct: "(\<And>x. acts (f x)) \<Longrightarrow> acts (api_get (APIReader r) k key \<bind> f)"
  by (rule sat_get_keep [OF reader_reads lasting_True abides_refl])

lemma acts_list: "(\<And>x. acts (f x)) \<Longrightarrow> acts (api_list (Client r) k sel \<bind> f)"
  by (rule sat_list_keep [OF client_reads lasting_True abides_refl])

lemma acts_write: "modest q \<Longrightarrow> (\<And>x. acts (f x)) \<Longrightarrow> acts (api_write (Client r) q \<bind> f)"
  by (rule sat_write [OF client_writes lasting_True, where R = "\<lambda>x st. True"]) (simp_all add: abides_write)

lemma acts_silent: "silent contents m A \<Longrightarrow> acts m"
  by (rule sat_post [OF sat_silent]) simp_all

lemmas acts_rules = acts_return acts_get acts_get_direct acts_list acts_write

lemma server_kinds_modest:
  "KSecret \<notin> policy_kinds \<union> webhook_kinds" "KConfigMap \<notin> policy_kinds \<union> webhook_kinds" "KDeployment \<notin> policy_kinds \<union> webhook_kinds"
  "KService \<notin> policy_kinds \<union> webhook_kinds" "KPolicyServer \<notin> policy_kinds \<union> webhook_kinds"
  by (simp_all add: policy_kinds_def webhook_kinds_def)

lemma acts_secrets:
  "acts (fetchOrInitializePolicyServerCARootSecret K r (GenerateCA K) (PemEncodeCertificate K))"
  "acts (reconcileCASecret r s)" "acts (fetchOrInitializePolicyServerCASecret K r n ca (GenerateCert K))"
  unfolding fetchOrInitializePolicyServerCARootSecret_def reconcileCASecret_def fetchOrInitializePolicyServerCASecret_def
  using server_kinds_modest
  by (auto intro!: acts_rules acts_silent [OF silent_secrets(1) [OF crypto]]
      acts_bind [OF acts_silent [OF silent_secrets(2) [OF crypto]]] split: sum.split)

lemma acts_config_map: "acts (reconcilePolicyServerConfigMap r ps policies)"
  unfolding reconcilePolicyServerConfigMap_def updateIfNeeded_def createPolicyServerConfigMap_def Let_def
  using server_kinds_modest by (auto intro!: acts_rules split: sum.split outcome.split option.split)

lemma acts_deployment: "acts (reconcilePolicyServerDeployment r ps)"
proof -
  have u: "acts (updatePolicyServerDeployment r ps e)" for e
    unfolding updatePolicyServerDeployment_def
    using server_kinds_modest by (auto intro!: acts_rules split: sum.split outcome.split)
  have c: "acts (create_or_update_deployment r ps v)" for v
    unfolding create_or_update_deployment_def Let_def
    using server_kinds_modest by (auto intro!: acts_rules u split: sum.split)
  have p: "acts (policyServerImagePullSecretPresent r ps)" "acts (policyServerConfigMapVersion r ps)"
    unfolding policyServerImagePullSecretPresent_def policyServerConfigMapVersion_def by (auto intro!: acts_rules)
  show ?thesis
    unfolding reconcilePolicyServerDeployment_def
    by (auto intro!: acts_bind [OF p(1)] acts_bind [OF p(2)] acts_return c split: outcome.split)
qed

lemma acts_service: "acts (reconcilePolicyServerService r ps)"
  unfolding reconcilePolicyServerService_def using server_kinds_modest by (auto intro!: acts_rules)

lemma acts_on_error: "acts m \<Longrightarrow> (\<And>v. acts (k v)) \<Longrightarrow> acts (on_error L c w ps m k)"
  unfolding on_error_def by (auto intro!: acts_bind acts_return split: outcome.split)

lemma acts_Reconcile: "acts (Reconcile K r ps policies)"
  unfolding Reconcile_def Let_def
  by (intro acts_on_error acts_secrets acts_config_map acts_deployment acts_service acts_return)

lemma acts_GetPolicies: "acts (GetPolicies r ps b)"
  unfolding GetPolicies_def by (auto intro!: acts_rules split: option.split)

lemma acts_delete_policies: "acts (delete_policies (Client r) b ps)"
proof (induction ps arbitrary: b)
  case (Cons p ps)
  have "policy_kind p \<notin> webhook_kinds" by (simp add: policy_kind_def)
  then show ?case by (auto intro!: acts_write Cons.IH split: sum.split)
qed (simp add: acts_return)

lemma acts_deletion: "acts (ps_reconcileDeletion r ps policies)"
proof -
  have "acts (delete_resource r k c q errs)" if "k \<notin> webhook_kinds" for k c q errs
    unfolding delete_resource_def using that by (auto intro!: acts_rules)
  then have "acts (ReconcileDeletion r ps)"
    unfolding ReconcileDeletion_def using server_kinds_modest
    by (auto intro!: acts_bind acts_return split: prod.split)
  then show ?thesis
    unfolding ps_reconcileDeletion_def Let_def using server_kinds_modest
    by (auto intro!: acts_bind [OF acts_delete_policies] acts_bind acts_rules split: prod.split outcome.split)
qed

lemma acts_ps_Reconcile: "acts (ps_Reconcile K r req)"
proof -
  have "acts (ps_reconcile K r ps policies)" for ps policies
    unfolding ps_reconcile_def by (auto intro!: acts_bind [OF acts_Reconcile] acts_return split: prod.split)
  then show ?thesis
    unfolding ps_Reconcile_def using server_kinds_modest
    by (auto intro!: acts_get acts_bind [OF acts_GetPolicies] acts_bind acts_deletion acts_rules
        split: sum.split outcome.split prod.split)
qed

end

end
