(* ===== verification/Policy_Cluster.thy ===== *)
theory Policy_Cluster
  imports Webhook_Ownership
begin

text \<open>
  The policy controllers on a cluster: each of their requests keeps the store consistent, whatever the
  users, the policy server controller and the reconciliations of other policies do in between.
\<close>

section \<open>The webhooks wanted for a policy are stored\<close>

definition wants :: "'w Reconciler \<Rightarrow> Policy \<Rightarrow> api_object \<Rightarrow> bool" where
  "wants r p ob \<longleftrightarrow> (\<exists>secret name.
     if IsMutating p then \<exists>m. ob = OMutating m \<and> mwcWebhooks m = mwcWebhooks (mutatingWebhookConfiguration r p secret name)
     else \<exists>v. ob = OValidating v \<and> vwcWebhooks v = vwcWebhooks (validatingWebhookConfiguration r p secret name))"

definition provides :: "api_server \<Rightarrow> 'w Reconciler \<Rightarrow> Policy \<Rightarrow> api_object \<Rightarrow> bool" where
  "provides S r p res \<longleftrightarrow> (\<exists>ob. wants r p ob \<and> (res = ob \<or> completes S ob res))"

definition hooked :: "api_server \<Rightarrow> 'w Reconciler \<Rightarrow> Policy \<Rightarrow> store \<Rightarrow> bool" where
  "hooked S r p st \<longleftrightarrow>
     (\<exists>res. st (webhook_kind p) (hook_key (GetUniqueName p)) = Some res \<and> provides S r p res)"

definition present :: "Policy \<Rightarrow> store \<Rightarrow> bool" where
  "present p st \<longleftrightarrow> consistent st \<and>
     (\<exists>q. in_store st q \<and> pid q = pid p \<and> guarded q \<and> IsMutating q = IsMutating p)"

lemma hooked_view: "policy_view p = policy_view q \<Longrightarrow> hooked S r p = hooked S r q"
  using policy_view_eqD [of p q]
  by (auto simp: hooked_def [abs_def] provides_def wants_def webhook_kind_def mutatingWebhookConfiguration_def
      validatingWebhookConfiguration_def webhook_meta_def policy_webhook_def webhook_service_def webhook_side_effects_def)

lemma present_view: "policy_view p = policy_view q \<Longrightarrow> present p = present q"
  using policy_view_eqD(4) [of p q] view_pid [of p q] by (simp add: present_def [abs_def])

lemma present_consistent: "present p st \<Longrightarrow> consistent st"
  by (simp add: present_def)

section \<open>The cluster of a policy controller\<close>

locale policy_cluster = cluster S contents r
  for S :: api_server and contents :: "'w \<Rightarrow> store" and r :: "'w Reconciler" +
  fixes d :: string and n :: string
  assumes others_are: "others S = (environment (Lib r) d n)\<^sup>*\<^sup>*"
    and finalizers: "finalizer_law (Lib r)"
    and conditions: "set_status_condition_law (Lib r)"
    and named: "n \<in> policy_names"
begin

lemma others_rely:
  assumes "others S st st'" "consistent st"
  shows "rely n st st' \<and> consistent st'"
  using assms(1) unfolding others_are
proof (induction rule: rtranclp_induct)
  case base
  with assms(2) show ?case by (simp add: rely_refl)
next
  case (step st1 st2)
  from step.hyps(2) have "rely n st1 st2"
  proof (unfold environment_def, elim disjE exE conjE)
    assume "user_step (Lib r) d st1 st2"
    with user_step_rely [OF finalizers this _ named] step.IH show ?thesis by blast
  next
    fix m assume "m \<noteq> n" "guar m st1 st2"
    then show ?thesis by (intro rely_guar)
  qed
  moreover from this step.IH have "consistent st2" by (simp add: rely_def)
  ultimately show ?case using step.IH rely_trans by blast
qed

lemma lasting_consistent: "lasting S consistent"
  using others_rely by (auto simp: lasting_def)

lemma lasting_present: "GetUniqueName p = n \<Longrightarrow> lasting S (present p)"
  unfolding lasting_def present_def
proof (intro allI impI, elim conjE exE)
  fix st st' q
  assume n: "GetUniqueName p = n" and o: "others S st st'" "consistent st"
    and q: "in_store st q" "pid q = pid p" "guarded q" "IsMutating q = IsMutating p"
  from others_rely [OF o] o(2) q n pid_eqD [OF q(2)]
  show "consistent st' \<and> (\<exists>q. in_store st' q \<and> pid q = pid p \<and> guarded q \<and> IsMutating q = IsMutating p)"
    unfolding rely_def by metis
qed

lemma others_hook:
  assumes "others S st st'" "consistent st" "k \<in> webhook_kinds"
  shows "st' k (hook_key n) = st k (hook_key n)"
  using others_rely [OF assms(1,2)] assms(2,3) by (simp add: rely_def)

lemma hook_kept:
  "others S st st' \<Longrightarrow> present p st \<Longrightarrow> k \<in> webhook_kinds \<Longrightarrow> st' k (hook_key n) = st k (hook_key n)"
  by (rule others_hook [OF _ present_consistent])

lemma lasting_hooked:
  assumes "GetUniqueName p = n"
  shows "lasting S (\<lambda>st. present p st \<and> hooked S r p st)"
  using lasting_present [OF assms] hook_kept [OF _ _ webhook_kind_in [of p]]
  unfolding lasting_def hooked_def assms by metis

section \<open>Registering the webhook\<close>

lemma guar_hook:
  assumes "present p st" "GetUniqueName p = n" "kind_of res = webhook_kind p" "key_of res = hook_key n"
  shows "guar n st (put res st) \<and> present p (put res st)"
proof -
  from assms(1) obtain q where q: "in_store st q" "pid q = pid p" "guarded q" "IsMutating q = IsMutating p"
    and c: "consistent st" by (auto simp: present_def)
  have "consistent (put res st)"
    by (rule consistent_hook [OF c _ _ q(1,3)]) (use assms q pid_eqD [OF q(2)] in \<open>auto simp: webhook_kind_def\<close>)
  with q assms(3,4) show ?thesis
    by (auto simp: guar_def present_def put_apply split: if_splits)
qed

lemma stored_hook:
  assumes p: "present p st" "GetUniqueName p = n" and ob: "kind_of ob = webhook_kind p" "key_of ob = hook_key n" "wants r p ob"
    and res: "completes S ob res" "st' = put res st"
  shows "(guar n st st' \<and> present p st') \<and> hooked S r p st'"
proof -
  note k = completes_keeps [OF res(1)]
  from ob k p(2) res have "hooked S r p st'" by (auto simp: hooked_def provides_def put_apply)
  with guar_hook [OF p] k ob res(2) show ?thesis by simp
qed

lemma create_hook:
  assumes p: "present p st" "GetUniqueName p = n" and ob: "kind_of ob = webhook_kind p" "key_of ob = hook_key n" "wants r p ob"
    and a: "answered S (EvWrite (Create ob) x) st st'"
  shows "guar n st st' \<and> present p st' \<and> (\<forall>res. x = Inr res \<longrightarrow> hooked S r p st')"
proof -
  have step: "(guar n st st1 \<and> present p st1) \<and> hooked S r p st1" if "accepts S (Create ob) res st st1" for res st1
    by (rule stored_hook [OF p ob, of res]) (use that ob in simp_all)
  have "(guar n st st' \<and> present p st') \<and> (\<forall>res. x = Inr res \<longrightarrow> hooked S r p st')"
    by (rule answered_keeps [OF a, of "\<lambda>st'. guar n st st' \<and> present p st'"]) (simp add: p(1), rule step)
  then show ?thesis by simp
qed

lemma patch_hook:
  assumes p: "present p st" "GetUniqueName p = n" and base: "st (webhook_kind p) (hook_key n) = Some base" and ob: "kind_of ob = webhook_kind p" "key_of ob = hook_key n" "wants r p ob"
    and a: "answered S (EvWrite (Patch ob base) x) st st'"
  shows "guar n st st' \<and> present p st' \<and> (\<forall>res. x = Inr res \<longrightarrow> hooked S r p st')"
proof -
  have step: "(guar n st st1 \<and> present p st1) \<and> hooked S r p st1" if "accepts S (Patch ob base) res st st1" for res st1
    by (rule stored_hook [OF p ob, of res]) (use that base ob in simp_all)
  have "(guar n st st' \<and> present p st') \<and> (\<forall>res. x = Inr res \<longrightarrow> hooked S r p st')"
    by (rule answered_keeps [OF a, of "\<lambda>st'. guar n st st' \<and> present p st'"]) (simp add: p(1), rule step)
  then show ?thesis by simp
qed

text \<open>The patch of a configuration without a name is never accepted.\<close>

lemma patch_blank:
  assumes p: "consistent st" and ob: "nnName (key_of ob) = ''''"
    and a: "answered S (EvWrite (Patch ob base) x) st st'"
  shows "st' = st \<and> (\<exists>e. x = Inl e)"
proof -
  have "\<not> accepts S (Patch ob base) res st st1" for res st1
    using store_okD(3) [OF consistentD(1) [OF p], of "kind_of ob" "key_of ob"] ob by auto
  with answered_write [OF a] a show ?thesis by (cases x) auto
qed

lemma lasting_base:
  assumes "GetUniqueName p = n" "k \<in> webhook_kinds"
  shows "lasting S (\<lambda>st. present p st \<and> st k (hook_key n) = Some base)"
  using lasting_present [OF assms(1)] hook_kept [OF _ _ assms(2)] unfolding lasting_def by metis

abbreviation registers :: "Policy \<Rightarrow> unit result \<Rightarrow> store \<Rightarrow> bool" where
  "registers p x st \<equiv> present p st \<and> (x = Ok () \<longrightarrow> hooked S r p st)"

lemma sat_patch_mutating:
  assumes n: "GetUniqueName p = n" and k: "IsMutating p"
    and old: "key_of (OMutating old) = hook_key n" and new: "new = mutatingWebhookConfiguration r p s nm"
  shows "sat S contents (\<lambda>st. present p st \<and> st KMutatingWebhookConfiguration (hook_key n) = Some (OMutating old))
     (patch_mutating_if_different r old new) (guar n) (registers p)"
proof (cases "mwcWebhooks old = mwcWebhooks new")
  case True
  with k new have "provides S r p (OMutating old)" by (auto simp: provides_def wants_def)
  with True n k show ?thesis
    by (auto simp: patch_mutating_if_different_def hooked_def webhook_kind_def intro!: sat_return)
next
  case False
  let ?ob = "OMutating (old\<lparr>mwcWebhooks := mwcWebhooks new\<rparr>)"
  have ob: "kind_of ?ob = webhook_kind p" "key_of ?ob = hook_key n" "wants r p ?ob"
    using k old new by (auto simp: webhook_kind_def key_of_def wants_def)
  have "sat S contents (\<lambda>st. present p st \<and> st (webhook_kind p) (hook_key n) = Some (OMutating old))
     (patch_mutating_if_different r old new) (guar n) (registers p)"
    unfolding patch_mutating_if_different_def if_P [OF False]
    by (rule sat_write [OF client_writes lasting_base [OF n webhook_kind_in],
          where R = "\<lambda>x st. present p st \<and> (\<forall>res. x = Inr res \<longrightarrow> hooked S r p st)"])
      (use patch_hook [OF _ n _ ob] in blast, auto intro!: sat_return split: sum.splits)
  with k show ?thesis by (simp add: webhook_kind_def)
qed

lemma sat_update_mutating:
  assumes n: "GetUniqueName p = n" and k: "IsMutating p" and new: "new = mutatingWebhookConfiguration r p s nm"
  shows "sat S contents (present p) (updateMutatingWebhook r p new) (guar n) (registers p)"
  unfolding updateMutatingWebhook_def
proof (rule sat_get [OF client_reads lasting_present [OF n] guar_refl], goal_cases)
  case (1 x)
  show ?case
  proof (cases "as_Mutating x")
    case (Inl e)
    have "sat S contents (present p) (patch_mutating_if_different r zero_mutating new) (guar n) (registers p)"
      unfolding patch_mutating_if_different_def zero_mutating_def new
      by (simp, rule sat_write [OF client_writes lasting_present [OF n],
            where R = "\<lambda>x st. present p st \<and> (\<exists>e. x = Inl e)"])
        (auto dest!: patch_blank [OF present_consistent, rotated 2] simp: key_of_def metaZero_def intro!: sat_return)
    with Inl show ?thesis by (auto intro: sat_pre intro!: sat_return)
  next
    case (Inr old)
    then have x: "x = Inr (OMutating old)" by (simp add: as_Mutating_Inr)
    show ?thesis
      unfolding x as_Mutating.simps sum.case
    proof (rule sat_fact)
      fix st
      assume "present p st \<and> found KMutatingWebhookConfiguration (object_key '''' (GetUniqueName p)) (Inr (OMutating old)) st"
      then show "key_of (OMutating old) = hook_key n"
        using store_okD(2) [OF consistentD(1) [OF present_consistent]] n by (auto simp: found_def hook_key_def)
    next
      assume "key_of (OMutating old) = hook_key n"
      from sat_patch_mutating [OF n k this new]
      show "sat S contents (\<lambda>st. present p st \<and> found KMutatingWebhookConfiguration (object_key '''' (GetUniqueName p))
          (Inr (OMutating old)) st) (patch_mutating_if_different r old new) (guar n) (registers p)"
        by (rule sat_pre) (simp add: found_def hook_key_def n)
    qed
  qed
qed

lemma sat_reconcile_mutating:
  assumes n: "GetUniqueName p = n" and k: "IsMutating p"
  shows "sat S contents (present p) (ReconcileMutatingWebhookConfiguration r p s nm) (guar n) (registers p)"
proof -
  let ?ob = "OMutating (mutatingWebhookConfiguration r p s nm)"
  have ob: "kind_of ?ob = webhook_kind p" "key_of ?ob = hook_key n" "wants r p ?ob"
    using k n by (auto simp: webhook_kind_def key_of_def wants_def hook_key_def mutatingWebhookConfiguration_def webhook_meta_def)
  show ?thesis
    unfolding ReconcileMutatingWebhookConfiguration_def Let_def
  proof (rule sat_write [OF client_writes lasting_present [OF n],
        where R = "\<lambda>x st. present p st \<and> (\<forall>res. x = Inr res \<longrightarrow> hooked S r p st)"], goal_cases)
    case (1 x st st')
    then show ?case using create_hook [OF _ n ob] by blast
  next
    case (2 x)
    then show ?case
      using sat_pre [OF sat_update_mutating [OF n k refl]] by (cases x) (auto intro!: sat_return)
  qed
qed
lemma sat_patch_validating:
  assumes n: "GetUniqueName p = n" and k: "\<not> IsMutating p"
    and old: "key_of (OValidating old) = hook_key n" and new: "new = validatingWebhookConfiguration r p s nm"
  shows "sat S contents (\<lambda>st. present p st \<and> st KValidatingWebhookConfiguration (hook_key n) = Some (OValidating old))
     (patch_validating_if_different r old new) (guar n) (registers p)"
proof (cases "vwcWebhooks old = vwcWebhooks new")
  case True
  with k new have "provides S r p (OValidating old)" by (auto simp: provides_def wants_def)
  with True n k show ?thesis
    by (auto simp: patch_validating_if_different_def hooked_def webhook_kind_def intro!: sat_return)
next
  case False
  let ?ob = "OValidating (old\<lparr>vwcWebhooks := vwcWebhooks new\<rparr>)"
  have ob: "kind_of ?ob = webhook_kind p" "key_of ?ob = hook_key n" "wants r p ?ob"
    using k old new by (auto simp: webhook_kind_def key_of_def wants_def)
  have "sat S contents (\<lambda>st. present p st \<and> st (webhook_kind p) (hook_key n) = Some (OValidating old))
     (patch_validating_if_different r old new) (guar n) (registers p)"
    unfolding patch_validating_if_different_def if_P [OF False]
    by (rule sat_write [OF client_writes lasting_base [OF n webhook_kind_in],
          where R = "\<lambda>x st. present p st \<and> (\<forall>res. x = Inr res \<longrightarrow> hooked S r p st)"])
      (use patch_hook [OF _ n _ ob] in blast, auto intro!: sat_return split: sum.splits)
  with k show ?thesis by (simp add: webhook_kind_def)
qed

lemma sat_update_validating:
  assumes n: "GetUniqueName p = n" and k: "\<not> IsMutating p" and new: "new = validatingWebhookConfiguration r p s nm"
  shows "sat S contents (present p) (updateValidatingWebhook r p new) (guar n) (registers p)"
  unfolding updateValidatingWebhook_def
proof (rule sat_get [OF client_reads lasting_present [OF n] guar_refl], goal_cases)
  case (1 x)
  show ?case
  proof (cases "as_Validating x")
    case (Inl e)
    have "sat S contents (present p) (patch_validating_if_different r zero_validating new) (guar n) (registers p)"
      unfolding patch_validating_if_different_def zero_validating_def new
      by (simp, rule sat_write [OF client_writes lasting_present [OF n],
            where R = "\<lambda>x st. present p st \<and> (\<exists>e. x = Inl e)"])
        (auto dest!: patch_blank [OF present_consistent, rotated 2] simp: key_of_def metaZero_def intro!: sat_return)
    with Inl show ?thesis by (auto intro: sat_pre intro!: sat_return)
  next
    case (Inr old)
    then have x: "x = Inr (OValidating old)" by (simp add: as_Validating_Inr)
    show ?thesis
      unfolding x as_Validating.simps sum.case
    proof (rule sat_fact)
      fix st
      assume "present p st \<and> found KValidatingWebhookConfiguration (object_key '''' (GetUniqueName p)) (Inr (OValidating old)) st"
      then show "key_of (OValidating old) = hook_key n"
        using store_okD(2) [OF consistentD(1) [OF present_consistent]] n by (auto simp: found_def hook_key_def)
    next
      assume "key_of (OValidating old) = hook_key n"
      from sat_patch_validating [OF n k this new]
      show "sat S contents (\<lambda>st. present p st \<and> found KValidatingWebhookConfiguration (object_key '''' (GetUniqueName p))
          (Inr (OValidating old)) st) (patch_validating_if_different r old new) (guar n) (registers p)"
        by (rule sat_pre) (simp add: found_def hook_key_def n)
    qed
  qed
qed

lemma sat_reconcile_validating:
  assumes n: "GetUniqueName p = n" and k: "\<not> IsMutating p"
  shows "sat S contents (present p) (ReconcileValidatingWebhookConfiguration r p s nm) (guar n) (registers p)"
proof -
  let ?ob = "OValidating (validatingWebhookConfiguration r p s nm)"
  have ob: "kind_of ?ob = webhook_kind p" "key_of ?ob = hook_key n" "wants r p ?ob"
    using k n by (auto simp: webhook_kind_def key_of_def wants_def hook_key_def validatingWebhookConfiguration_def webhook_meta_def)
  show ?thesis
    unfolding ReconcileValidatingWebhookConfiguration_def Let_def
  proof (rule sat_write [OF client_writes lasting_present [OF n],
        where R = "\<lambda>x st. present p st \<and> (\<forall>res. x = Inr res \<longrightarrow> hooked S r p st)"], goal_cases)
    case (1 x st st')
    then show ?case using create_hook [OF _ n ob] by blast
  next
    case (2 x)
    then show ?case
      using sat_pre [OF sat_update_validating [OF n k refl]] by (cases x) (auto intro!: sat_return)
  qed
qed

lemma sat_reconcile_webhook:
  assumes "GetUniqueName p = n"
  shows "sat S contents (present p) (reconcile_webhook r p s nm) (guar n) (registers p)"
  unfolding reconcile_webhook_def
  by (auto intro!: sat_bind [OF sat_reconcile_mutating] sat_bind [OF sat_reconcile_validating] sat_return simp: assms)

section \<open>Reconciling a policy\<close>

abbreviation activates :: "Policy \<Rightarrow> Policy \<times> ctrl_result result \<Rightarrow> store \<Rightarrow> bool" where
  "activates p y st \<equiv> present p st \<and> (policy_cond (fst y) PolicyActive = Some created \<longrightarrow> hooked S r p st)"

lemma created_neq [simp]: "not_created \<noteq> created"
  by (simp add: created_def not_created_def policy_condition_def)

lemma lasting_activates: "GetUniqueName p = n \<Longrightarrow> lasting S (activates p y)"
  using lasting_present [of p] lasting_hooked [of p]
  by (cases "policy_cond (fst y) PolicyActive = Some created") simp_all

lemma sat_register_webhook:
  assumes n: "GetUniqueName p = n" and q: "policy_view q = policy_view p" "policy_cond q PolicyActive = Some not_created"
  shows "sat S contents (present p) (register_webhook (Client r) r ps q) (guar n) (activates p)"
  unfolding register_webhook_def
proof (rule sat_get_keep [OF client_reads lasting_present [OF n] guar_refl], goal_cases)
  case (1 x)
  have nq: "GetUniqueName q = n" using policy_view_eqD(14) [OF q(1)] n by simp
  note q_is_p = present_view [OF q(1)] hooked_view [OF q(1), of S r]
  show ?case
  proof (cases "as_Secret x")
    case (Inr secret)
    have "sat S contents (present p) (reconcile_webhook r q secret (NameWithPrefix ps)) (guar n) (registers p)"
      using sat_reconcile_webhook [OF nq] unfolding q_is_p .
    then show ?thesis
      unfolding Inr sum.case
      by (rule sat_bind) (auto intro!: sat_return simp: q split: outcome.splits)
  qed (auto intro!: sat_return simp: q)
qed

lemma sat_reachable:
  assumes "lasting S P"
  shows "sat S contents P (isPolicyUniquelyReachable L (Client r) dep name) (guar n) (\<lambda>x. P)"
  unfolding isPolicyUniquelyReachable_def
  by (auto intro!: sat_get_keep [OF client_reads assms] sat_list_keep [OF client_reads assms] sat_return
      simp: Let_def split: sum.splits)

lemma sat_reconcile_scheduled:
  assumes n: "GetUniqueName p = n" and q: "policy_view q = policy_view p" "policy_cond q PolicyActive = Some not_created"
  shows "sat S contents (present p) (reconcile_scheduled (Client r) r ps q) (guar n) (activates p)"
proof -
  have c: "policy_cond (set_condition (Lib r) reachable q) PolicyActive = Some not_created"
    "policy_cond (set_condition (Lib r) not_reachable q) PolicyActive = Some not_created"
    using q(2) by (simp_all add: policy_cond_set [OF conditions] const_defs)
  show ?thesis
    unfolding reconcile_scheduled_def
  proof (rule sat_get_keep [OF reader_reads lasting_present [OF n] guar_refl], goal_cases)
    case (1 x)
    show ?case
    proof (cases "as_Deployment x")
      case (Inr dep)
      show ?thesis
        unfolding Inr sum.case
        by (rule sat_bind [OF sat_reachable [OF lasting_present [OF n]]])
          (auto intro!: sat_return sat_register_webhook [OF n] simp: c q(1))
    qed (auto intro!: sat_return simp: q)
  qed
qed

lemma sat_reconcilePolicy:
  assumes n: "GetUniqueName p = n"
  shows "sat S contents (present p) (reconcilePolicy (Client r) r p) (guar n) (activates p)"
proof -
  let ?q = "set_condition (Lib r) not_created p"
  have q: "policy_cond ?q PolicyActive = Some not_created" by (simp add: policy_cond_set [OF conditions])
  show ?thesis
    unfolding reconcilePolicy_def getPolicyServer_def Let_def
    by (auto intro!: sat_return sat_get_keep [OF client_reads lasting_present [OF n] guar_refl]
        sat_reconcile_scheduled [OF n] simp: q split: sum.split)
qed

section \<open>Publishing the status\<close>

lemma sat_setPolicyStatus:
  assumes "lasting S P"
  shows "sat S contents P (setPolicyStatus (Lib r) ns (APIReader r) p) (guar n) (\<lambda>y. P)"
  unfolding setPolicyStatus_def
  by (auto intro!: sat_get_keep [OF reader_reads assms] sat_return split: sum.split)

lemma guar_policy:
  assumes "GetUniqueName p = n"
  shows "consistent (put (OPolicy q) st) \<Longrightarrow> pid q = pid p \<Longrightarrow> guar n st (put (OPolicy q) st)"
    and "consistent (erase (kind_of (OPolicy p)) (key_of (OPolicy p)) st) \<Longrightarrow>
      guar n st (erase (kind_of (OPolicy p)) (key_of (OPolicy p)) st)"
  using assms unfolding guar_def pid_def unique_name by (auto simp: put_apply erase_apply split: if_splits)

lemma status_step:
  assumes p: "present p st" "GetUniqueName p = n" and q: "policy_view q = policy_view p"
    and act: "active q \<Longrightarrow> hooked S r p st"
    and a: "answered S (EvWrite (StatusUpdate (OPolicy q)) x) st st'"
  shows "guar n st st' \<and> consistent st'"
proof (cases "st' = st")
  case False
  note c = present_consistent [OF p(1)]
  from False answered_write [OF a] obtain res old where old: "st (kind_of (OPolicy q)) (key_of (OPolicy q)) = Some old"
    and w: "status_written old (OPolicy q) res" and st': "st' = put res st" by auto
  from w obtain o' q' v where o: "old = OPolicy o'" and res: "res = OPolicy q'" and q': "GetStatus q' = GetStatus q"
    "policy_view q' = policy_view (UpdateMeta (\<lambda>m. m\<lparr>ResourceVersion := v\<rparr>) o')"
    by (auto simp: status_written_def)
  from old o in_storeI [OF consistentD(1) [OF c]] have o': "in_store st o'" "pid o' = pid p"
    using view_pid [OF q] by (auto simp: pid_def)
  from p(1) obtain p0 where p0: "in_store st p0" "pid p0 = pid p" "guarded p0" "IsMutating p0 = IsMutating p"
    by (auto simp: present_def)
  with o' in_store_pid have eq: "o' = p0" by metis
  note v = policy_view_eqD(1,4) [OF q'(2)]
  have m: "pid (UpdateMeta (\<lambda>m. m\<lparr>ResourceVersion := v\<rparr>) o') = pid o'"
    "IsMutating (UpdateMeta (\<lambda>m. m\<lparr>ResourceVersion := v\<rparr>) o') = IsMutating o'"
    by (cases o'; simp add: pid_def key_of_def cap_IsMutating_def ap_IsMutating_def)+
  have q'p: "pid q' = pid o'" "guarded q' = guarded o'" "IsMutating q' = IsMutating o'"
    using view_pid [OF q'(2)] m v by (simp_all add: guarded_def)
  have "consistent (put (OPolicy q') st)"
  proof (rule consistent_replace [OF c o'(1)])
    assume "active q'"
    then have "active q" using q'(1) by (simp add: active_def policy_cond_def)
    from act [OF this] show "st (webhook_kind q') (hook_key (GetUniqueName q')) \<noteq> None"
      using q'p p0 eq o'(2) pid_eqD [of q' p] by (auto simp: hooked_def webhook_kind_def)
  qed (use q'p p0 eq in auto)
  with guar_policy(1) [OF p(2)] q'p(1) o'(2) show ?thesis unfolding st' res by simp
qed (use assms in \<open>auto dest: present_consistent\<close>)

lemma sat_publish:
  assumes n: "GetUniqueName p = n" and o: "policy_outcome r p p1 es"
  shows "sat S contents (activates p (p1, x)) (setPolicyStatus (Lib r) (DeploymentsNamespace r) (APIReader r) p1 \<bind> (\<lambda>(p2, _).
      api_write (Client r) (StatusUpdate (OPolicy p2)) \<bind> (\<lambda>u. ret (f u)))) (guar n) (\<lambda>x. consistent)"
proof (rule sat_bind [OF sat_emits [OF sat_setPolicyStatus [OF lasting_activates [OF n]] emits_setPolicyStatus]])
  fix y :: "Policy \<times> unit result"
  obtain p2 u where y: "y = (p2, u)" by (cases y)
  let ?pre = "\<lambda>st. activates p (p1, x) st \<and> (\<exists>es. status_completed r p1 (fst y) es)"
  show "sat S contents ?pre (case y of (p2, _) \<Rightarrow>
      api_write (Client r) (StatusUpdate (OPolicy p2)) \<bind> (\<lambda>u. ret (f u))) (guar n) (\<lambda>x. consistent)"
  proof (rule sat_fact)
    fix st assume "?pre st"
    then show "\<exists>es. status_completed r p1 p2 es" using y by auto
  next
    assume "\<exists>es. status_completed r p1 p2 es"
    then obtain es2 where s: "status_completed r p1 p2 es2" by blast
    from policy_outcome_completed [OF conditions o s] obtain b where
      v: "policy_view p2 = policy_view p" and c: "policy_cond p2 PolicyActive = Some (if b then created else not_created)"
      unfolding policy_outcome_def by metis
    have c1: "policy_cond p1 PolicyActive = policy_cond p2 PolicyActive"
      using status_completed_keeps(3) [OF conditions s] by (simp add: const_defs)
    have b: "active p2 \<Longrightarrow> b"
      using c by (auto simp: active_def not_created_def policy_condition_def split: if_splits)
    have act: "activates p (p1, x) st \<Longrightarrow> active p2 \<Longrightarrow> hooked S r p st" for st
      using c c1 b by simp
    have "sat S contents (activates p (p1, x)) (api_write (Client r) (StatusUpdate (OPolicy p2)) \<bind> (\<lambda>u. ret (f u)))
        (guar n) (\<lambda>x. consistent)"
      by (rule sat_write [OF client_writes lasting_activates [OF n], where R = "\<lambda>x. consistent"])
        (use status_step [OF _ n v] act in blast, auto intro: sat_return)
    then show "sat S contents ?pre (case y of (p2, _) \<Rightarrow>
        api_write (Client r) (StatusUpdate (OPolicy p2)) \<bind> (\<lambda>u. ret (f u))) (guar n) (\<lambda>x. consistent)"
      unfolding y prod.case by (rule sat_pre) simp
  qed
qed

lemma sat_startReconciling:
  assumes n: "GetUniqueName p = n" and d: "\<not> deleted p"
  shows "sat S contents (present p) (startReconciling (Client r) r p) (guar n) (\<lambda>x. consistent)"
proof -
  have "sat S contents (\<lambda>st. activates p y st \<and> (\<exists>es. snd y \<noteq> Panic \<and> policy_outcome r p (fst y) es))
      (case y of (policy1, x) \<Rightarrow> (case x of Panic \<Rightarrow> ret Panic
       | _ \<Rightarrow> setPolicyStatus (Lib r) (DeploymentsNamespace r) (APIReader r) policy1 \<bind> (\<lambda>(policy2, _).
           api_write (Client r) (StatusUpdate (OPolicy policy2)) \<bind> (\<lambda>u. ret (case u of
             Inl err \<Rightarrow> Err (Wrapped ''update admission policy status error: '' (ApiErr err))
           | Inr _ \<Rightarrow> x))))) (guar n) (\<lambda>x. consistent)" for y :: "Policy \<times> ctrl_result result"
  proof (rule sat_fact)
    fix st assume "activates p y st \<and> (\<exists>es. snd y \<noteq> Panic \<and> policy_outcome r p (fst y) es)"
    then show "\<exists>es. snd y \<noteq> Panic \<and> policy_outcome r p (fst y) es" by blast
  next
    assume "\<exists>es. snd y \<noteq> Panic \<and> policy_outcome r p (fst y) es"
    then obtain p1 x es where y: "y = (p1, x)" and x: "x \<noteq> Panic" and o: "policy_outcome r p p1 es"
      by (cases y) auto
    from x show ?thesis
      unfolding y prod.case by (cases x) (auto intro: sat_pre [OF sat_publish [OF n o]])
  qed
  then show ?thesis
    unfolding startReconciling_def if_not_P [OF d]
    by (rule sat_bind [OF sat_emits [OF sat_reconcilePolicy [OF n] emits_reconcilePolicy [OF conditions]]])
qed

section \<open>Deleting a policy\<close>

text \<open>
  While a policy being deleted is reconciled: no policy of its name is active, and no webhook of the
  other kind has its name.
\<close>

definition dying :: "Policy \<Rightarrow> store \<Rightarrow> bool" where
  "dying p st \<longleftrightarrow> consistent st \<and>
     (\<forall>q. in_store st q \<longrightarrow> GetUniqueName q = n \<longrightarrow> active q \<longrightarrow> deleted q) \<and>
     (\<forall>k \<in> webhook_kinds. k \<noteq> webhook_kind p \<longrightarrow> (\<forall>ob. st k (hook_key n) = Some ob \<longrightarrow> \<not> live_webhook ob))"

lemma dying_consistent: "dying p st \<Longrightarrow> consistent st"
  by (simp add: dying_def)

lemma lasting_dying: "lasting S (dying p)"
  unfolding lasting_def
proof (intro allI impI)
  fix st st'
  assume o: "others S st st'" and d: "dying p st"
  note r = others_rely [OF o dying_consistent [OF d]]
  with d have "in_store st' q \<Longrightarrow> GetUniqueName q = n \<Longrightarrow> active q \<Longrightarrow> deleted q" for q
    unfolding rely_def dying_def by metis
  with r d others_hook [OF o dying_consistent [OF d]] show "dying p st'"
    by (simp add: dying_def)
qed

lemma dying_unhooked:
  "dying p st \<Longrightarrow> \<forall>ob. st (webhook_kind p) (hook_key n) = Some ob \<longrightarrow> \<not> live_webhook ob \<Longrightarrow> unhooked n st"
  unfolding dying_def unhooked_def by metis

lemma lasting_dying_unhooked: "lasting S (\<lambda>st. dying p st \<and> unhooked n st)"
  using lasting_dying [of p] others_hook unfolding lasting_def unhooked_def by (metis dying_consistent)

lemma unhook_step:
  assumes d: "dying p st" and a: "answered S (EvWrite (Delete (webhook_kind p) (hook_key n)) x) st st'"
  shows "guar n st st' \<and> dying p st' \<and> (gone x \<longrightarrow> unhooked n st')"
proof -
  let ?k = "webhook_kind p"
  note c = dying_consistent [OF d]
  have step: "guar n st st1 \<and> dying p st1 \<and> unhooked n st1"
    if acc: "accepts S (Delete ?k (hook_key n)) res st st1" for res st1
  proof -
    from acc obtain old where old: "st ?k (hook_key n) = Some old" and st1: "if Finalizers (meta_of old) = []
        then st1 = erase ?k (hook_key n) st else \<exists>t v. st1 = put (terminating t v old) st" by auto
    note at = store_okD(1,2) [OF consistentD(1) [OF c] old]
    have pol: "\<forall>q. in_store st q \<longrightarrow> GetUniqueName q = n \<longrightarrow> active q \<longrightarrow> deleted q"
      using d by (simp add: dying_def)
    from st1 consistent_unhook [OF c webhook_kind_in pol] old have c1: "consistent st1"
      by (auto split: if_splits)
    have same: "st1 k key = st k key" if "\<not> (k = ?k \<and> key = hook_key n)" for k key
      using st1 that at by (auto simp: put_apply erase_apply split: if_splits)
    have gone: "st1 ?k (hook_key n) = Some ob \<Longrightarrow> \<not> live_webhook ob" for ob
      using st1 at by (auto simp: put_apply erase_apply live_webhook_def split: if_splits)
    have "in_store st1 q = in_store st q" for q
      using same [of "kind_of (OPolicy q)" "key_of (OPolicy q)"] by (simp add: in_store_def)
    with c1 d same have "dying p st1" by (auto simp: dying_def)
    moreover from this gone have "unhooked n st1" by (intro dying_unhooked) auto
    moreover have "guar n st st1" using c1 same unfolding guar_def by (metis webhook_kind_in)
    ultimately show ?thesis by simp
  qed
  show ?thesis
  proof (cases x)
    case (Inr res)
    with a step show ?thesis by simp
  next
    case (Inl e)
    have "IsNotFound e \<Longrightarrow> unhooked n st'"
      using a Inl d by (auto simp: IsNotFound_iff intro!: dying_unhooked)
    with answered_write [OF a] step d Inl show ?thesis by auto
  qed
qed

lemma sat_delete_hook:
  assumes key: "key = hook_key n" and k: "k = webhook_kind p"
    and f: "\<And>d. f d = Ok () \<Longrightarrow> gone d"
  shows "sat S contents (dying p) (api_write (Client r) (Delete k key) \<bind> (\<lambda>d. ret (f d))) (guar n)
     (\<lambda>x st. dying p st \<and> (x = Ok () \<longrightarrow> unhooked n st))"
  using unhook_step [of p]
  by (intro sat_write [OF client_writes lasting_dying, where R = "\<lambda>x st. dying p st \<and> (gone x \<longrightarrow> unhooked n st)"])
    (auto simp: key k dest: f intro!: sat_return simp del: answered.simps)

text \<open>The webhook that was read is deleted; there is nothing to delete when none was found.\<close>

lemma sat_delete_found:
  assumes k: "webhook_kind p = k" and ob: "x = Inr ob"
    and f: "\<And>d. f d = Ok () \<Longrightarrow> gone d"
  shows "sat S contents (\<lambda>st. dying p st \<and> found k (object_key '''' n) x st)
     (api_write (Client r) (Delete k (key_of ob)) \<bind> (\<lambda>d. ret (f d))) (guar n)
     (\<lambda>x st. dying p st \<and> (x = Ok () \<longrightarrow> unhooked n st))"
proof (rule sat_fact)
  fix st assume "dying p st \<and> found k (object_key '''' n) x st"
  then show "key_of ob = hook_key n"
    using store_okD(2) [OF consistentD(1) [OF dying_consistent]] by (auto simp: found_def hook_key_def ob)
next
  assume "key_of ob = hook_key n"
  from sat_delete_hook [OF this k [symmetric] f] show ?thesis by (rule sat_pre) simp_all
qed

lemma not_found_unhooked:
  "dying p st \<Longrightarrow> webhook_kind p = k \<Longrightarrow> found k (object_key '''' n) (Inl e) st \<Longrightarrow> IsNotFound e \<Longrightarrow> unhooked n st"
  using dying_unhooked [of p st] by (auto simp: found_def hook_key_def)

lemma sat_delete_mutating:
  assumes k: "webhook_kind p = KMutatingWebhookConfiguration" and n: "GetUniqueName p = n"
  shows "sat S contents (dying p) (reconcileMutatingWebhook (Client r) p) (guar n)
     (\<lambda>x st. dying p st \<and> (x = Ok () \<longrightarrow> unhooked n st))"
  unfolding reconcileMutatingWebhook_def n
proof (rule sat_get [OF client_reads lasting_dying guar_refl], goal_cases)
  case (1 x)
  show ?case
  proof (cases "as_Mutating x")
    case (Inl e)
    with as_Mutating_NotFound [OF Inl] not_found_unhooked [OF _ k] show ?thesis by (auto intro!: sat_return)
  next
    case (Inr w)
    then have x: "x = Inr (OMutating w)" by (simp add: as_Mutating_Inr)
    show ?thesis
      unfolding x as_Mutating.simps sum.case
      by (rule sat_delete_found [OF k refl]) (simp add: gone_def split: sum.splits if_splits)
  qed
qed

lemma sat_delete_validating:
  assumes k: "webhook_kind p = KValidatingWebhookConfiguration" and n: "GetUniqueName p = n"
  shows "sat S contents (dying p) (reconcileValidatingWebhook (Client r) p) (guar n)
     (\<lambda>x st. dying p st \<and> (x = Ok () \<longrightarrow> unhooked n st))"
  unfolding reconcileValidatingWebhook_def n
proof (rule sat_get [OF client_reads lasting_dying guar_refl], goal_cases)
  case (1 x)
  show ?case
  proof (cases "as_Validating x")
    case (Inl e)
    with as_Validating_NotFound [OF Inl] not_found_unhooked [OF _ k] show ?thesis by (auto intro!: sat_return)
  next
    case (Inr w)
    then have x: "x = Inr (OValidating w)" by (simp add: as_Validating_Inr)
    show ?thesis
      unfolding x as_Validating.simps sum.case
      by (rule sat_delete_found [OF k refl]) (simp add: gone_def split: sum.splits if_splits)
  qed
qed

lemma finalize_step:
  assumes n: "GetUniqueName p = n" and d: "deleted p" and st: "dying p st" "unhooked n st"
    and a: "answered S (EvWrite (Update (OPolicy (UpdateMeta (remove_finalizer (Lib r)) p))) x) st st'"
  shows "guar n st st' \<and> consistent st' \<and> unhooked n st'"
proof (cases "st' = st")
  case True
  with st dying_consistent show ?thesis by simp
next
  case False
  let ?p = "UpdateMeta (remove_finalizer (Lib r)) p"
  note c = dying_consistent [OF st(1)]
  have p: "pid ?p = pid p" "deleted ?p"
    using d by (cases p; simp add: pid_def key_of_def remove_finalizer_def)+
  then have np: "GetUniqueName ?p = n" using pid_eqD [OF p(1)] n by simp
  from False answered_write [OF a] obtain res old where old: "st (kind_of (OPolicy ?p)) (key_of (OPolicy ?p)) = Some old"
    and res: "completes S (OPolicy ?p) res" "DeletionTimestamp (meta_of res) = DeletionTimestamp (GetObjectMeta ?p)"
    and st': "st' = erase (kind_of (OPolicy ?p)) (key_of (OPolicy ?p)) st \<or> st' = put res st"
    by (auto split: if_splits)
  note k = completes_keeps [OF res(1)]
  then obtain q where q: "res = OPolicy q" using policy_of_kind [of res] by (metis policy_kind_in)
  from old policy_of_kind [of old] store_okD [OF consistentD(1) [OF c] old] obtain o' where "old = OPolicy o'"
    by (metis policy_kind_in)
  with old in_storeI [OF consistentD(1) [OF c]] have o': "in_store st o'" "pid o' = pid ?p" by (auto simp: pid_def)
  from q k res(2) p(2) have q': "pid q = pid ?p" "deleted q" by (auto simp: pid_def)
  have nq: "GetUniqueName q = n" using pid_eqD [OF q'(1)] np by simp
  have "consistent (put (OPolicy q) st)"
    by (rule consistent_drop(2) [OF c _ o'(1)]) (use o' q' nq st(2) in auto)
  moreover have "consistent (erase (kind_of (OPolicy ?p)) (key_of (OPolicy ?p)) st)"
    by (rule consistent_drop(1) [OF c]) (use np st(2) in simp)
  ultimately show ?thesis
    using st' guar_policy [OF np] q q'(1) st(2) by (auto simp: unhooked_def)
qed

lemma sat_reconcilePolicyDeletion:
  assumes n: "GetUniqueName p = n" and d: "deleted p"
  shows "sat S contents (dying p) (reconcilePolicyDeletion (Lib r) (Client r) p) (guar n)
     (\<lambda>x st. consistent st \<and> (\<forall>y. x = Ok y \<longrightarrow> unhooked n st))"
proof -
  have "sat S contents (dying p) (if IsMutating p then reconcileMutatingWebhook (Client r) p
      else reconcileValidatingWebhook (Client r) p) (guar n) (\<lambda>x st. dying p st \<and> (x = Ok () \<longrightarrow> unhooked n st))"
    using sat_delete_mutating [OF _ n] sat_delete_validating [OF _ n] by (simp add: webhook_kind_def)
  then show ?thesis
    unfolding reconcilePolicyDeletion_def
  proof (rule sat_bind, goal_cases)
    case (1 x)
    show ?case
    proof (cases x)
      case (Ok u)
      have "sat S contents (\<lambda>st. dying p st \<and> unhooked n st)
          (api_write (Client r) (Update (OPolicy (UpdateMeta (remove_finalizer (Lib r)) p))) \<bind>
          (\<lambda>u. ret (case u of Inl err \<Rightarrow> Err (Wrapped ''cannot update admission policy: '' (ApiErr err))
             | Inr _ \<Rightarrow> Ok no_requeue))) (guar n) (\<lambda>x st. consistent st \<and> (\<forall>y. x = Ok y \<longrightarrow> unhooked n st))"
        by (rule sat_write [OF client_writes lasting_dying_unhooked, where R = "\<lambda>x st. consistent st \<and> unhooked n st"])
          (use finalize_step [OF n d] in blast, auto intro!: sat_return)
      with Ok show ?thesis by (auto intro: sat_pre)
    qed (auto intro!: sat_return dying_consistent)
  qed
qed

section \<open>The controllers\<close>

lemma start_state:
  assumes c: "consistent st" and p: "st k key = Some (OPolicy p)" and n: "policy_name k key = n"
  shows "GetUniqueName p = n" "\<not> deleted p \<Longrightarrow> present p st" "deleted p \<Longrightarrow> dying p st"
proof -
  from in_storeI [OF consistentD(1) [OF c] p] have s: "in_store st p" "pid p = (k, key)" by simp_all
  then show nm: "GetUniqueName p = n" using n by (simp add: unique_name pid_def)
  show "present p st" if "\<not> deleted p"
    using s c that consistentD(3) [OF c] by (auto simp: present_def defaulted_def)
  assume d: "deleted p"
  have only: "in_store st q \<Longrightarrow> GetUniqueName q = n \<Longrightarrow> q = p" for q
    using consistentD(4) [OF c] s(1) nm by (simp add: distinct_names_def)
  have "\<not> live_webhook ob" if ob: "j \<in> webhook_kinds" "j \<noteq> webhook_kind p" "st j (hook_key n) = Some ob" for j ob
  proof
    assume "live_webhook ob"
    from ownedD [OF consistentD(2) [OF c] ob(1,3) this] obtain q where
      q: "in_store st q" "j = webhook_kind q" "hook_key n = hook_key (GetUniqueName q)" .
    then have "q = p" using only by simp
    with q(2) ob(2) show False by simp
  qed
  with c d only show "dying p st" by (auto simp: dying_def)
qed

lemma sat_found:
  assumes n: "policy_name k key = n"
  shows "sat S contents (\<lambda>st. consistent st \<and> found k key (Inr (OPolicy p)) st) (startReconciling (Client r) r p)
     (guar n) (\<lambda>x. consistent)"
proof (rule sat_fact)
  fix st assume "consistent st \<and> found k key (Inr (OPolicy p)) st"
  with n start_state(1) [of st k key p] show "GetUniqueName p = n" by (simp add: found_def)
next
  assume nm: "GetUniqueName p = n"
  show ?thesis
  proof (cases "deleted p")
    case False
    from sat_startReconciling [OF nm False] show ?thesis
      by (rule sat_pre) (use start_state(2) [OF _ _ n False] in \<open>simp add: found_def\<close>)
  next
    case True
    then have "startReconciling (Client r) r p = reconcilePolicyDeletion (Lib r) (Client r) p"
      by (simp add: startReconciling_def)
    with sat_conseq [OF sat_reconcilePolicyDeletion [OF nm True], of "\<lambda>st. consistent st \<and> found k key (Inr (OPolicy p)) st"
        "\<lambda>x. consistent"] start_state(3) [OF _ _ n True]
    show ?thesis by (simp add: found_def)
  qed
qed

theorem sat_cap_Reconcile:
  assumes "policy_name KClusterAdmissionPolicy req = n"
  shows "sat S contents consistent (cap_Reconcile r req) (guar n) (\<lambda>x. consistent)"
  unfolding cap_Reconcile_def
proof (rule sat_get [OF reader_reads lasting_consistent guar_refl], goal_cases)
  case (1 x)
  show ?case
  proof (cases "as_ClusterAdmissionPolicy x")
    case (Inr p)
    with sat_found [OF assms] show ?thesis by (simp add: as_ClusterAdmissionPolicy_Inr)
  qed (auto intro: sat_return)
qed

theorem sat_ap_Reconcile:
  assumes "policy_name KAdmissionPolicy req = n"
  shows "sat S contents consistent (ap_Reconcile r req) (guar n) (\<lambda>x. consistent)"
  unfolding ap_Reconcile_def
proof (rule sat_get [OF reader_reads lasting_consistent guar_refl], goal_cases)
  case (1 x)
  show ?case
  proof (cases "as_AdmissionPolicy x")
    case (Inr p)
    with sat_found [OF assms] show ?thesis by (simp add: as_AdmissionPolicy_Inr)
  qed (auto intro: sat_return)
qed

end

end
