(* ===== verification/Reference_Server.thy ===== *)
theory Reference_Server
  imports Cluster Policy_Server_Controller
begin

text \<open>
  An API server that behaves as documented: it keeps the objects in a list, fills in nothing and never
  fails for a reason of its own.  It instantiates the parameters of the theories about the cluster, and
  runs in their examples.
\<close>

type_synonym objects = "api_object list"

definition stored_at :: "objects \<Rightarrow> store" where
  "stored_at obs k key = find (\<lambda>ob. kind_of ob = k \<and> key_of ob = key) obs"

definition replace_object :: "api_object \<Rightarrow> objects \<Rightarrow> objects" where
  "replace_object ob obs = ob # filter (\<lambda>x. \<not> (kind_of x = kind_of ob \<and> key_of x = key_of ob)) obs"

definition remove_object :: "kind \<Rightarrow> ObjectKey \<Rightarrow> objects \<Rightarrow> objects" where
  "remove_object k key obs = filter (\<lambda>x. \<not> (kind_of x = k \<and> key_of x = key)) obs"

lemma find_filter_other:
  "(\<And>x. P x \<Longrightarrow> Q x) \<Longrightarrow> find P (filter Q xs) = find P xs"
  by (induction xs) auto

lemma find_filter_none:
  "(\<And>x. P x \<Longrightarrow> \<not> Q x) \<Longrightarrow> find P (filter Q xs) = None"
  by (induction xs) auto

lemma stored_at_replace [simp]: "stored_at (replace_object ob obs) = put ob (stored_at obs)"
proof (intro ext)
  fix k key
  show "stored_at (replace_object ob obs) k key = put ob (stored_at obs) k key"
    by (cases "k = kind_of ob \<and> key = key_of ob")
      (auto simp: stored_at_def replace_object_def put_apply intro!: find_filter_other)
qed

lemma stored_at_remove [simp]: "stored_at (remove_object k key obs) = erase k key (stored_at obs)"
proof (intro ext)
  fix k' key'
  show "stored_at (remove_object k key obs) k' key' = erase k key (stored_at obs) k' key'"
    by (cases "k' = k \<and> key' = key")
      (auto simp: stored_at_def remove_object_def erase_apply intro!: find_filter_other find_filter_none)
qed

section \<open>Requests\<close>

definition reference_rules :: "(store \<Rightarrow> store \<Rightarrow> bool) \<Rightarrow> api_server" where
  "reference_rules R = \<lparr>completes = (=), indexed = (\<lambda>f ob. cap_index ob @ ap_index ob), others = R\<rparr>"

lemma reference_rules_simps [simp]:
  "completes (reference_rules R) = (=)" "others (reference_rules R) = R"
  by (simp_all add: reference_rules_def)

definition reference_get :: "kind \<Rightarrow> ObjectKey \<Rightarrow> objects \<Rightarrow> (api_error + api_object) \<times> objects" where
  "reference_get k key obs =
     ((case stored_at obs k key of None \<Rightarrow> Inl (NotFound ''not found'') | Some ob \<Rightarrow> Inr ob), obs)"

definition reference_list ::
    "kind \<Rightarrow> list_selector \<Rightarrow> objects \<Rightarrow> (api_error + api_object list) \<times> objects" where
  "reference_list k sel obs =
     (Inr (filter (\<lambda>ob. kind_of ob = k \<and> stored_at obs k (key_of ob) = Some ob \<and>
        selects (reference_rules (=)) sel ob) obs), obs)"

definition updated :: "api_object \<Rightarrow> api_object \<Rightarrow> objects \<Rightarrow> (api_error + api_object) \<times> objects" where
  "updated old ob obs =
     (if ResourceVersion (meta_of ob) \<noteq> ResourceVersion (meta_of old) \<or>
         DeletionTimestamp (meta_of ob) \<noteq> DeletionTimestamp (meta_of old)
      then (Inl (Conflict ''the object has been modified''), obs)
      else (Inr ob, if DeletionTimestamp (meta_of old) \<noteq> None \<and> Finalizers (meta_of ob) = []
                    then remove_object (kind_of ob) (key_of ob) obs else replace_object ob obs))"

fun with_status :: "api_object \<Rightarrow> api_object \<Rightarrow> api_object option" where
  "with_status (OPolicy old) (OPolicy p) = Some (OPolicy (UpdateStatus (\<lambda>_. GetStatus p) old))"
| "with_status (OPolicyServer old) (OPolicyServer p) = Some (OPolicyServer (old\<lparr>psConditions := psConditions p\<rparr>))"
| "with_status old ob = None"

definition missing :: "objects \<Rightarrow> (api_error + api_object) \<times> objects" where
  "missing obs = (Inl (NotFound ''not found''), obs)"

definition malformed :: "objects \<Rightarrow> (api_error + api_object) \<times> objects" where
  "malformed obs = (Inl (OtherApiError ''invalid''), obs)"

fun reference_write :: "write_request \<Rightarrow> objects \<Rightarrow> (api_error + api_object) \<times> objects" where
  "reference_write (Create ob) obs =
     (if Name (meta_of ob) = '''' then malformed obs
      else if stored_at obs (kind_of ob) (key_of ob) = None then (Inr ob, replace_object ob obs)
      else (Inl (AlreadyExists ''already exists''), obs))"
| "reference_write (Update ob) obs =
     (case stored_at obs (kind_of ob) (key_of ob) of None \<Rightarrow> missing obs | Some old \<Rightarrow> updated old ob obs)"
| "reference_write (StatusUpdate ob) obs =
     (case stored_at obs (kind_of ob) (key_of ob) of None \<Rightarrow> missing obs
      | Some old \<Rightarrow> (case with_status old ob of None \<Rightarrow> malformed obs | Some res \<Rightarrow> (Inr res, replace_object res obs)))"
| "reference_write (Patch ob base) obs =
     (case stored_at obs (kind_of ob) (key_of ob) of None \<Rightarrow> missing obs
      | Some old \<Rightarrow> if old = base \<and> DeletionTimestamp (meta_of ob) = DeletionTimestamp (meta_of old)
                    then (Inr ob, replace_object ob obs) else (Inl (Conflict ''the object has been modified''), obs))"
| "reference_write (Delete k key) obs =
     (case stored_at obs k key of None \<Rightarrow> missing obs
      | Some old \<Rightarrow> if Finalizers (meta_of old) = [] then (Inr old, remove_object k key obs)
                    else (Inr old, replace_object (terminating 1 (ResourceVersion (meta_of old)) old) obs))"

definition reference_reader :: "objects reader_ops" where
  "reference_reader = \<lparr>rdGet = reference_get, rdList = reference_list\<rparr>"

definition reference_client :: "objects client_ops" where
  "reference_client = \<lparr>rdGet = reference_get, rdList = reference_list, clWrite = reference_write\<rparr>"

lemma reference_ops [simp]:
  "rdGet reference_reader = reference_get" "rdList reference_reader = reference_list"
  "rdGet reference_client = reference_get" "rdList reference_client = reference_list"
  "clWrite reference_client = reference_write"
  by (simp_all add: reference_reader_def reference_client_def)

definition reference_reconciler :: "objects Reconciler" where
  "reference_reconciler = \<lparr>Client = reference_client, APIReader = reference_reader,
     DeploymentsNamespace = ''kubewarden'', AlwaysAcceptAdmissionReviewsInDeploymentsNamespace = False,
     Lib = ref_lib, metricsPort = 8080\<rparr>"

lemma reference_reconciler_simps [simp]:
  "Client reference_reconciler = reference_client" "APIReader reference_reconciler = reference_reader"
  "DeploymentsNamespace reference_reconciler = ''kubewarden''" "Lib reference_reconciler = ref_lib"
  "metricsPort reference_reconciler = 8080"
  by (simp_all add: reference_reconciler_def)

section \<open>It behaves as documented\<close>

lemma stored_atD: "stored_at obs k key = Some ob \<Longrightarrow> ob \<in> set obs \<and> kind_of ob = k \<and> key_of ob = key"
  by (auto simp: stored_at_def dest: find_SomeD)

lemma reads_reference:
  assumes "\<And>st. R st st" "rdGet rd = reference_get" "rdList rd = reference_list"
  shows "reads_from (reference_rules R) stored_at rd"
proof -
  have "selects (reference_rules (=)) sel = selects (reference_rules R) sel" for sel
    by (auto simp: selects_def reference_rules_def fun_eq_iff split: list_selector.splits)
  with assms show ?thesis
    unfolding reads_from_def
    by (auto simp: reference_get_def reference_list_def found_def found_all_def dest: stored_atD split: option.splits
        intro!: exI [of _ "stored_at w" for w])
qed

lemma policy_with_status:
  assumes "kind_of (OPolicy p) = kind_of (OPolicy q)"
  shows "GetStatus (UpdateStatus (\<lambda>_. GetStatus q) p) = GetStatus q"
    "policy_view (UpdateStatus (\<lambda>_. GetStatus q) p) =
       policy_view (UpdateMeta (\<lambda>m. m\<lparr>ResourceVersion := ResourceVersion (GetObjectMeta p)\<rparr>) p)"
    "kind_of (OPolicy (UpdateStatus (\<lambda>_. GetStatus q) p)) = kind_of (OPolicy p)"
    "key_of (OPolicy (UpdateStatus (\<lambda>_. GetStatus q) p)) = key_of (OPolicy p)"
  using assms by (cases p; cases q; simp add: cap_method_defs ap_method_defs policy_view_def key_of_def)+

lemma with_status_written:
  assumes "with_status old ob = Some res" "kind_of old = kind_of ob"
  shows "status_written old ob res \<and> kind_of res = kind_of old \<and> key_of res = key_of old"
  using assms(1)
proof (cases rule: with_status.elims)
  case (1 p q)
  have k: "kind_of (OPolicy p) = kind_of (OPolicy q)" using assms(2) unfolding 1(1,2) .
  note w = policy_with_status [OF k]
  have res: "res = OPolicy (UpdateStatus (\<lambda>_. GetStatus q) p)" using 1(3) by simp
  have "status_written old ob res"
    unfolding status_written_def 1(1,2) res using w(1,2) by blast
  then show ?thesis unfolding 1(1) res using w(3,4) by simp
next
  case (2 t u)
  have "status_written old ob res"
    unfolding status_written_def using 2
    by (intro disjI2 exI [of _ t] exI [of _ u] exI [of _ "t\<lparr>psConditions := psConditions u\<rparr>"]
        exI [of _ "ResourceVersion (psMeta t)"]) simp
  with 2 show ?thesis by (simp add: key_of_def)
qed simp_all

lemma writes_reference:
  assumes "\<And>st. R st st"
  shows "writes_to (reference_rules R) stored_at reference_client"
proof -
  have "answered (reference_rules R) (EvWrite q x) (stored_at obs) (stored_at obs')"
    if q: "reference_write q obs = (x, obs')" for q obs x obs'
  proof (cases q)
    case (StatusUpdate ob)
    show ?thesis
    proof (cases "\<exists>old res. stored_at obs (kind_of ob) (key_of ob) = Some old \<and> with_status old ob = Some res")
      case True
      then obtain old res where old: "stored_at obs (kind_of ob) (key_of ob) = Some old" and w: "with_status old ob = Some res"
        by blast
      from stored_atD [OF old] with_status_written [OF w] have "status_written old ob res" by simp
      with q old w show ?thesis by (auto simp: StatusUpdate)
    next
      case False
      with q show ?thesis by (auto simp: StatusUpdate missing_def malformed_def split: option.splits)
    qed
  next
    case (Delete k key)
    have "\<exists>t v. put (terminating 1 (ResourceVersion (meta_of old)) old) st = put (terminating t v old) st" for old st
      by blast
    with q Delete show ?thesis by (auto simp: missing_def split: option.splits if_splits)
  qed (use q in \<open>auto simp: missing_def malformed_def updated_def split: option.splits if_splits dest: stored_atD\<close>)
  with assms show ?thesis
    unfolding writes_to_def by (fastforce split: prod.split)
qed

end
