(* ===== verification/Cluster_Webhooks.thy ===== *)
theory Cluster_Webhooks
  imports Policy_Cluster Reference_Server
begin

text \<open>
  The webhooks of the policies in a cluster: the properties that follow from \<open>Policy_Cluster\<close>, which is
  interpreted for the reconciler on the reference server, and example clusters on which they are
  evaluated.
\<close>

section \<open>The reference server is such a cluster\<close>

interpretation reference: policy_cluster "reference_rules ((environment ref_lib d (GetUniqueName p))\<^sup>*\<^sup>*)" stored_at
    reference_reconciler d "GetUniqueName p" for d p
  by unfold_locales (auto intro!: reads_reference writes_reference ref_lib_finalizers ref_lib_conditions)

text \<open>A cluster with one policy, which is being deleted, and its webhook.\<close>

definition demo_deleted_hook :: api_object where
  "demo_deleted_hook = OValidating (validatingWebhookConfiguration reference_reconciler demo_deleted demo_secret ''policy-server-default'')"

definition demo_deleted_io :: "objects io" where
  "demo_deleted_io = \<lparr>world = [OPolicy demo_deleted, demo_deleted_hook], trace = []\<rparr>"

lemma demo_deleted_simps [simp]:
  "kind_of (OPolicy demo_deleted) = KClusterAdmissionPolicy" "key_of (OPolicy demo_deleted) = object_key '''' ''a''"
  "GetUniqueName demo_deleted = ''clusterwide-a''" "deleted demo_deleted" "guarded demo_deleted" "\<not> IsMutating demo_deleted"
  "\<not> active demo_deleted"
  by (simp_all add: demo_deleted_def demo_defs key_of_def guarded_def active_def policy_cond_def find_condition_def
      cap_IsMutating_def cap_GetUniqueName_def cap_GetStatus_def)

lemma demo_deleted_hook_simps [simp]:
  "kind_of demo_deleted_hook = KValidatingWebhookConfiguration" "key_of demo_deleted_hook = hook_key ''clusterwide-a''"
  by (simp_all add: demo_deleted_hook_def key_of_def validatingWebhookConfiguration_def webhook_meta_def hook_key_def)

lemma demo_deleted_store:
  "stored_at (world demo_deleted_io) k key =
     (if k = KClusterAdmissionPolicy \<and> key = object_key '''' ''a'' then Some (OPolicy demo_deleted)
      else if k = KValidatingWebhookConfiguration \<and> key = hook_key ''clusterwide-a'' then Some demo_deleted_hook else None)"
  by (auto simp: stored_at_def demo_deleted_io_def)

lemma demo_deleted_in_store: "in_store (stored_at (world demo_deleted_io)) p \<longleftrightarrow> p = demo_deleted"
proof
  assume "in_store (stored_at (world demo_deleted_io)) p"
  then show "p = demo_deleted" by (auto simp: in_store_def demo_deleted_store demo_deleted_hook_def split: if_splits)
qed (simp add: in_store_def demo_deleted_store)

lemma demo_deleted_consistent: "consistent (stored_at (world demo_deleted_io))"
  unfolding consistent_def
proof (intro conjI)
  show "store_ok (stored_at (world demo_deleted_io))"
    by (auto simp: store_ok_def demo_deleted_store hook_key_def split: if_splits)
  show "owned (stored_at (world demo_deleted_io))"
    by (auto simp: owned_def demo_deleted_in_store demo_deleted_store webhook_kinds_def webhook_kind_def split: if_splits)
qed (simp_all add: defaulted_def distinct_names_def active_registered_def demo_deleted_in_store)

text \<open>The run of the example ends with an empty cluster.\<close>

lemma demo_deleted_run:
  "fst (run_state (startReconciling reference_client reference_reconciler demo_deleted) demo_deleted_io) = Ok no_requeue"
  "world (snd (run_state (startReconciling reference_client reference_reconciler demo_deleted) demo_deleted_io)) = []"
  by (simp_all add: startReconciling_def reconcilePolicyDeletion_def reconcileValidatingWebhook_def run_api
      reference_get_def demo_deleted_io_def demo_deleted_hook_def stored_at_def key_of_def hook_key_def remove_finalizer_def
      validatingWebhookConfiguration_def webhook_meta_def updated_def remove_object_def demo_deleted_def demo_defs
      cap_IsMutating_def cap_GetUniqueName_def ref_lib_def)

section \<open>A cluster with a running policy server\<close>

definition demo_guarded :: Policy where
  "demo_guarded = UpdateMeta (\<lambda>m. m\<lparr>Finalizers := [KubewardenFinalizer]\<rparr>) (demo_policy ''default'' ''protect'' ''a'')"

definition server_labelled :: "ObjectMeta \<Rightarrow> ObjectMeta" where
  "server_labelled m = m\<lparr>Labels := fmupd PolicyServerLabelKey ''default'' (Labels m)\<rparr>"

definition demo_cluster :: objects where
  "demo_cluster = [OPolicy demo_guarded, OPolicyServer demo_server,
     ODeployment (deployment reference_reconciler ''7'' demo_server), OConfigMap demo_document,
     edit_meta server_labelled (OReplicaSet demo_replica_set), edit_meta server_labelled (OPod demo_pod), OSecret demo_secret]"

definition demo_rs :: ReplicaSet where
  "demo_rs = demo_replica_set\<lparr>rsMeta := server_labelled (rsMeta demo_replica_set)\<rparr>"

definition demo_ready_pod :: Pod where
  "demo_ready_pod = demo_pod\<lparr>podMeta := server_labelled (podMeta demo_pod)\<rparr>"

abbreviation "demo_dep \<equiv> deployment reference_reconciler ''7'' demo_server"

lemmas demo_object_defs = demo_cluster_def demo_guarded_def demo_defs demo_server_def demo_document_def server_labelled_def
  demo_replica_set_def demo_pod_def demo_secret_def demo_rs_def demo_ready_pod_def

lemma demo_server_name: "NameWithPrefix demo_server = ''policy-server-default''" "Name (psMeta demo_server) = ''default''"
  by (simp_all add: NameWithPrefix_def demo_server_def)

lemma demo_dep_meta: "Name (depMeta demo_dep) = ''policy-server-default''" "Namespace (depMeta demo_dep) = ''kubewarden''"
  "map_get (Labels (depMeta demo_dep)) PolicyServerLabelKey = ''default''"
  by (simp_all add: deployment_def demo_server_def Let_def adaptDeploymentSettingsForPolicyServer_def NameWithPrefix_def
      const_defs has_sources_def)

lemma demo_cluster_gets:
  "stored_at demo_cluster KPolicyServer (object_key '''' ''default'') = Some (OPolicyServer demo_server)"
  "stored_at demo_cluster KDeployment (object_key ''kubewarden'' ''policy-server-default'') = Some (ODeployment demo_dep)"
  "stored_at demo_cluster KConfigMap (object_key ''kubewarden'' ''policy-server-default'') = Some (OConfigMap demo_document)"
  "stored_at demo_cluster KSecret (object_key ''kubewarden'' PolicyServerCARootSecretName) = Some (OSecret demo_secret)"
  "stored_at demo_cluster KClusterAdmissionPolicy (object_key '''' ''a'') = Some (OPolicy demo_guarded)"
  "stored_at demo_cluster KValidatingWebhookConfiguration key = None"
  "stored_at demo_cluster KMutatingWebhookConfiguration key = None"
  by (simp_all add: stored_at_def key_of_def demo_object_defs demo_dep_meta NameWithPrefix_def)

lemma demo_dep_label: "server_label demo_dep = MatchingLabels PolicyServerLabelKey ''default''"
  by (simp add: server_label_def demo_dep_meta)

lemma demo_cluster_lists:
  "reference_list KReplicaSet (server_label demo_dep) demo_cluster = (Inr [OReplicaSet demo_rs], demo_cluster)"
  "reference_list KPod (server_label demo_dep) demo_cluster = (Inr [OPod demo_ready_pod], demo_cluster)"
  unfolding demo_dep_label
  by (simp_all add: reference_list_def selects_def stored_at_def key_of_def demo_object_defs const_defs)

lemma demo_cluster_rollout:
  "isLatestReplicaSetFromPolicyServerDeployment demo_rs demo_dep ''7''"
  "map_get (Labels (rsMeta demo_rs)) DefaultDeploymentUniqueLabelKey = ''h''"
  "map_get (Labels (podMeta demo_ready_pod)) DefaultDeploymentUniqueLabelKey = ''h''" "isPodReady demo_ready_pod"
  "replica_set_items [OReplicaSet demo_rs] = [demo_rs]" "pod_items [OPod demo_ready_pod] = [demo_ready_pod]"
  using demo_rollout_complete(1)
  by (simp_all add: replica_set_items_def pod_items_def isLatestReplicaSetFromPolicyServerDeployment_def
      demo_rs_def demo_ready_pod_def demo_replica_set_def demo_pod_def isPodReady_def server_labelled_def
      deployment_def adaptDeploymentSettingsForPolicyServer_def has_sources_def demo_server_def Let_def const_defs)

lemma demo_guarded_getters [simp]:
  "GetPolicyServer demo_guarded = ''default''" "GetUniqueName demo_guarded = ''clusterwide-a''" "\<not> IsMutating demo_guarded"
  "GetStatus demo_guarded = GetStatus (demo_policy ''default'' ''protect'' ''a'')"
  "DeletionTimestamp (GetObjectMeta demo_guarded) = None" "guarded demo_guarded"
  by (simp_all add: demo_guarded_def demo_defs cap_method_defs guarded_def)

lemma demo_cluster_run:
  "\<exists>p' x s'. run_state (reconcilePolicy reference_client reference_reconciler demo_guarded) \<lparr>world = demo_cluster, trace = []\<rparr> = ((p', x), s') \<and>
     policy_cond p' PolicyActive = Some created"
  by (simp add: reconcilePolicy_def getPolicyServer_def reconcile_scheduled_def register_webhook_def
      reconcile_webhook_def isPolicyUniquelyReachable_def ReconcileValidatingWebhookConfiguration_def
      run_api Let_def reference_get_def demo_cluster_gets demo_cluster_lists demo_cluster_rollout demo_dep_meta
      demo_document_policy demo_rollout_complete(5) deployment_key_def demo_server_name PolicyServerDeploymentNameForPolicyServerName_def
      setPolicyAsActive_def policy_cond_set [OF ref_lib_conditions] validatingWebhookConfiguration_def webhook_meta_def
      view_getters [OF set_condition_simps(3)] view_getters [OF mark_pending_simps(1)])

lemma demo_cluster_in_store: "in_store (stored_at demo_cluster) p \<longleftrightarrow> p = demo_guarded"
proof
  assume "in_store (stored_at demo_cluster) p"
  then have "OPolicy p \<in> set demo_cluster" by (auto simp: in_store_def dest: stored_atD)
  then show "p = demo_guarded" by (auto simp: demo_cluster_def)
qed (simp add: in_store_def demo_cluster_gets demo_guarded_def demo_defs key_of_def)

lemma demo_cluster_consistent: "consistent (stored_at demo_cluster)"
  unfolding consistent_def
proof (intro conjI)
  have "\<forall>ob \<in> set demo_cluster. nnName (key_of ob) \<noteq> ''''"
    by (simp add: demo_cluster_def key_of_def demo_dep_meta demo_server_name demo_guarded_def demo_defs demo_document_def
        server_labelled_def demo_replica_set_def demo_pod_def demo_secret_def const_defs)
  then show "store_ok (stored_at demo_cluster)"
    by (auto simp: store_ok_def dest: stored_atD)
  show "owned (stored_at demo_cluster)"
    by (auto simp: owned_def webhook_kinds_def demo_cluster_gets)
qed (auto simp: defaulted_def distinct_names_def active_registered_def demo_cluster_in_store
    active_def policy_cond_def demo_defs cap_GetStatus_def find_condition_def)

section \<open>Properties\<close>







end
