(* ===== verification/Cluster_Servers.thy ===== *)
theory Cluster_Servers
  imports Server_Removal Server_Environment Cluster_Webhooks
begin

text \<open>
  The policy servers in a cluster: the properties that follow from \<open>Server_Cluster\<close>, \<open>Server_Removal\<close>
  and \<open>Server_Environment\<close>, which are interpreted for the reconciler on the reference server, and
  example clusters on which they are evaluated.
\<close>

section \<open>The reference server is such a cluster\<close>

text \<open>Cryptography that always succeeds and leaves the cluster alone.\<close>

definition reference_crypto :: "objects crypto_ops" where
  "reference_crypto = \<lparr>rsaGenerateKey = (\<lambda>n w. (Inr ''key'', w)), randInt = (\<lambda>n w. (Inr 1, w)),
     timeNow = (\<lambda>w. (\<lparr>tmYear = 2022, tmMonth = 1, tmDay = 1, tmNanos = 0\<rparr>, w)),
     x509CreateCertificate = (\<lambda>t p pub priv w. (Inr ''cert'', w)),
     x509ParseCertificate = (\<lambda>b. let t = \<lparr>tmYear = 2022, tmMonth = 1, tmDay = 1, tmNanos = 0\<rparr> in Inr (caTemplate 1 t t)),
     publicKeyOf = (\<lambda>k. k), MarshalPKIXPublicKey = (\<lambda>k. Inr k), MarshalPKCS1PrivateKey = (\<lambda>k. k),
     ParsePKCS1PrivateKey = (\<lambda>b. Inr b), pemEncode = (\<lambda>t b. Inr (t @ b)), netParseIP = (\<lambda>s. None)\<rparr>"

lemma reference_crypto_local: "local_crypto stored_at reference_crypto"
  by (simp add: local_crypto_def reference_crypto_def)

interpretation up: server_cluster "reference_rules (server_kept reference_reconciler ps)" stored_at
    reference_reconciler reference_crypto ps for ps
  by unfold_locales (auto intro!: reads_reference writes_reference reference_crypto_local simp: server_kept_def)

interpretation down: server_removal "reference_rules (removal_kept reference_reconciler ps)" stored_at
    reference_reconciler ps for ps
  by unfold_locales (auto intro!: reads_reference writes_reference simp: removal_kept_def)

interpretation system: system_cluster "reference_rules ((everybody ref_lib d)\<^sup>*\<^sup>*)" stored_at
    reference_reconciler reference_crypto d for d
  by unfold_locales (auto intro!: reads_reference writes_reference reference_crypto_local ref_lib_finalizers)

section \<open>Example clusters\<close>

abbreviation "empty_cluster \<equiv> \<lparr>world = [] :: objects, trace = []\<rparr>"

abbreviation "demo_policies \<equiv> [demo_policy ''s'' ''protect'' ''a'']"

lemma stored_at_empty [simp]: "stored_at [] = (\<lambda>k key. None)"
  by (simp add: stored_at_def fun_eq_iff)

lemma store_ok_empty [simp]: "store_ok (\<lambda>k key. None)"
  by (simp add: store_ok_def)

text \<open>In an empty cluster everything is created.\<close>

lemma demo_reconciled:
  "snd (fst (run_state (Reconcile reference_crypto reference_reconciler demo_server demo_policies) empty_cluster)) = Ok ()"
proof -
  obtain t where t: "marshal_policies ref_lib (createPoliciesMap demo_policies) = Some t"
    using policies_doc.roundtrip [OF demo_stable] by blast
  show ?thesis
    by (simp add: Reconcile_def on_error_def Let_def fetchOrInitializePolicyServerCARootSecret_def run_api reference_get_def
        buildPolicyServerCARootSecret_def GenerateCA_def newPrivateKey_def run_effect reference_crypto_def PemEncodeCertificate_def
        reconcileCASecret_def fetchOrInitializePolicyServerCASecret_def buildPolicyServerCASecret_def extractCaFromSecret_def
        GenerateCert_def encode_serving_pair_def pemEncodePrivateKey_def put_apply key_of_def t
        reconcilePolicyServerConfigMap_def createPolicyServerConfigMap_def new_config_map_def const_defs
        reconcilePolicyServerDeployment_def policyServerConfigMapVersion_def create_or_update_deployment_def
        reconcilePolicyServerService_def service_def setTrueConditionType_def demo_server_def NameWithPrefix_def)
qed

text \<open>A policy server that is being deleted, with its finalizer and its service.\<close>

definition demo_removed :: PolicyServer where
  "demo_removed = demo_server\<lparr>psMeta := (psMeta demo_server)\<lparr>DeletionTimestamp := Some 1, Finalizers := [KubewardenFinalizer]\<rparr>\<rparr>"

definition demo_removed_io :: "objects io" where
  "demo_removed_io = \<lparr>world = [OPolicyServer demo_removed, OService (service reference_reconciler demo_removed)], trace = []\<rparr>"

lemma demo_removed_simps [simp]:
  "NameWithPrefix demo_removed = ''policy-server-default''" "key_of (OPolicyServer demo_removed) = object_key '''' ''default''"
  "key_of (OService (service reference_reconciler demo_removed)) = object_key ''kubewarden'' ''policy-server-default''"
  by (simp_all add: demo_removed_def demo_server_def NameWithPrefix_def key_of_def service_def)

lemma demo_removed_ok: "store_ok (stored_at (world demo_removed_io))"
  by (auto simp: store_ok_def demo_removed_io_def dest!: stored_atD)

lemma demo_removed_run:
  "fst (run_state (ps_reconcileDeletion reference_reconciler demo_removed []) demo_removed_io) = Ok no_requeue"
  by (simp add: ps_reconcileDeletion_def ReconcileDeletion_def delete_resource_def run_api demo_removed_io_def stored_at_def
      missing_def remove_object_def service_def Let_def updated_def key_of_def remove_finalizer_def setFalseConditionType_def
      demo_removed_def demo_server_def NameWithPrefix_def)

section \<open>Properties\<close>



text \<open>
  C5. While a policy server is deleted, its finalizer is not removed, and the policy server does not
  disappear, before its deployment, service, config map and secret are gone from the cluster or about to
  be removed by the API server, which is also the case when the deletion ends.  Nothing else is touched
  but the policies that are still bound to it.
\<close>

theorem removed_server_is_cleared:
  assumes "server_removal S contents r ps" and "store_ok (contents (world s))"
  shows "\<exists>es. trace (snd (run_state (ps_reconcileDeletion r ps policies) s)) = trace s @ es \<and>
     evolves S (removing r ps policies) (contents (world s)) es
       (contents (world (snd (run_state (ps_reconcileDeletion r ps policies) s)))) \<and>
     (fst (run_state (ps_reconcileDeletion r ps policies) s) = Ok no_requeue \<longrightarrow>
        cleared server_kinds r ps (contents (world (snd (run_state (ps_reconcileDeletion r ps policies) s)))))"
  using server_removal.sat_ps_reconcileDeletion [OF assms(1)] assms(2) unfolding sat_def by blast

theorem removed_server_is_cleared_witness:
  "cleared server_kinds reference_reconciler demo_removed
     (stored_at (world (snd (run_state (ps_reconcileDeletion reference_reconciler demo_removed []) demo_removed_io))))"
  using removed_server_is_cleared [OF down.server_removal_axioms demo_removed_ok, where policies = "[]"] demo_removed_run by blast



end
