(* ===== verification/Spec2Isabelle.thy ===== *)
theory Spec2Isabelle
  imports Registration Policy_Configuration Orphaned_Webhooks Policy_Progress Server_Lifecycle V1alpha2_Copies
    Cluster_Servers
begin

text \<open>
  A model of the Kubewarden controller, the Go program that runs the Kubewarden policy servers of a
  Kubernetes cluster, with the theorems that make it correct.

  The program.  Three controllers watch the cluster.  The controller of the custom resource
  \<^emph>\<open>PolicyServer\<close> keeps, for every policy server, a secret with a certificate (signed by a root CA
  that lives in another secret), a config map with the policies bound to the server, a deployment
  and a service.  The controllers of \<^emph>\<open>AdmissionPolicy\<close> and \<^emph>\<open>ClusterAdmissionPolicy\<close> register the
  webhook of a policy with the API server once its policy server really serves it, and keep the
  status of the policy.  Two admission webhooks default and validate the custom resources.  The
  controllers share no memory: they meet in the objects they read from and write to the API server.

  The theories, from the bottom, and the code they model (paths below \<open>src/\<close>).
  \<^item> \<open>Go_Prelude\<close>, \<open>Go_Text\<close>, \<open>Go_Json\<close>, \<open>Json_Roundtrip\<close>: what the code uses of the language and
    its standard library: nil slices and maps, outcomes with panics, \<open>strings.Join\<close>, \<open>strconv\<close>,
    \<open>path/filepath\<close>, \<open>encoding/json\<close> on bytes, and the round trip of JSON strings, arrays and
    objects.
  \<^item> \<open>Kubewarden_Constants\<close>: \<open>internal/pkg/constants\<close>.
  \<^item> \<open>Kube_Objects\<close>: the fields of the Kubernetes API objects that the code reads or writes.
  \<^item> \<open>Policy_Types\<close>, \<open>Policy_Interface\<close>, \<open>Policy_Server_Types\<close>: the custom resources of
    \<open>apis/policies/v1\<close>, the Go interface \<open>Policy\<close> as a datatype with one constructor per
    implementation, \<open>internal/pkg/naming\<close>.
  \<^item> \<open>Policy_Admission\<close>: the defaulting and validating webhooks, \<open>apis/policies/v1/*_webhook.go\<close>.
  \<^item> \<open>Api_Client\<close>: the API server as an arbitrary function on a state of the world, the trace of
    the requests, and the logic \<open>emits\<close> in which the theorems about the controllers are stated.
  \<^item> \<open>Certificates\<close>, \<open>Ca_Secret\<close>: \<open>internal/pkg/admissionregistration\<close> and
    \<open>internal/pkg/admission/policy-server-ca-secret.go\<close>.
  \<^item> \<open>Config_Map\<close>, \<open>Config_Document\<close>: \<open>internal/pkg/admission/policy-server-configmap.go\<close>, its
    operations and what its two documents mean.
  \<^item> \<open>Server_Deployment\<close>, \<open>Server_Service\<close>, \<open>Webhook_Config\<close>, \<open>Server_Reconciler\<close>: the files
    \<open>policy-server-deployment.go\<close>, \<open>policy-server-service.go\<close>, \<open>mutating-webhook.go\<close> and
    \<open>validating-webhook.go\<close>, \<open>reconciler.go\<close> of \<open>internal/pkg/admission\<close>.
  \<^item> \<open>Policy_Status\<close>, \<open>Policy_Controller\<close>, \<open>Policy_Phases\<close>, \<open>Policy_Watches\<close>,
    \<open>Policy_Server_Controller\<close>: the package \<open>controllers\<close>.
  \<^item> \<open>Policy_Progress\<close>, \<open>Policy_Configuration\<close>, \<open>Server_Lifecycle\<close>: what several
    reconciliations achieve together: a policy goes from scheduled to active, its configuration
    reaches the policy server, a policy server comes up and goes away.
  \<^item> \<open>Orphaned_Webhooks\<close>: what happens to the webhook of a policy whose field \<open>mutating\<close> is edited.
  \<^item> \<open>Cluster\<close>, \<open>Webhook_Ownership\<close>, \<open>Policy_Cluster\<close>, \<open>Reference_Server\<close>, \<open>Cluster_Webhooks\<close>: the policy
    controllers on the objects of a cluster that users and other controllers change at the same time.
    They model no further code: they state what the API server, the users and the other controllers
    may do, and prove what the controllers of the theories above achieve among them.
  \<^item> \<open>Server_Cluster\<close>, \<open>Server_Removal\<close>, \<open>Server_Environment\<close>, \<open>Cluster_Servers\<close>: the same for the
    controller of policy servers.
  \<^item> \<open>Manager_Setup\<close>, \<open>Program_Start\<close>: \<open>environment.go\<close>, \<open>main.go\<close>, \<open>internal/pkg/metrics\<close> and
    the functions \<open>SetupWithManager\<close> of the controllers: what the program reads from its
    environment, and in which order it sets itself up, each step able to fail.
  \<^item> \<open>Registration\<close>: \<open>groupversion_info.go\<close> and the \<open>init\<close> functions, which register the types of both
    API versions with the scheme, and \<open>SetupWebhookWithManager\<close> of the custom resources.
  \<^item> \<open>Go_Memory\<close>, \<open>Deep_Copies\<close>: objects as they lie in memory, pointers, slices and maps as
    addresses of a store, and the generated functions \<open>DeepCopyInto\<close>, \<open>DeepCopy\<close> and
    \<open>DeepCopyObject\<close> of \<open>apis/policies/v1/zz_generated.deepcopy.go\<close> on it.
  \<^item> \<open>Custom_Resource_Json\<close>: the custom resources as the JSON texts their field tags ask for, and
    how the controllers read such a text.
  \<^item> \<open>V1alpha2\<close>, \<open>V1alpha2_Copies\<close>: \<open>apis/policies/v1alpha2\<close>, the older API version, which the
    cluster converts to \<open>v1\<close> without touching anything but \<open>apiVersion\<close>.

  State and operations.  A Go function that talks to the API server is a computation in the state
  monad over a state \<open>'w\<close> of the world and a trace.  It returns an outcome: a value, an error value,
  or a panic.  A pointer argument that the function changes is returned changed.  The client, the
  cryptography and the Kubernetes helper functions are not part of the repository: they are
  arbitrary functions (\<open>reader_ops\<close>, \<open>client_ops\<close>, \<open>crypto_ops\<close>, \<open>kube_lib\<close>, \<open>api_json\<close>), and the few facts
  about the helpers that are used are named hypotheses (\<open>set_status_condition_law\<close>,
  \<open>finalizer_law\<close>, \<open>raw_extension_law\<close>, \<open>pkcs1_law\<close>, \<open>field_index_law\<close>, \<open>lib_structs_law\<close>,
  \<open>scheme_law\<close>), each with an instance that satisfies it.
  Nothing is assumed of the API server, so the theorems about \<open>emits\<close> hold for every answer, every
  failure and every change made by others between two requests.

  The cluster.  The theories about the cluster do assume something, the hypotheses of the locale
  \<open>cluster\<close> and of those that extend it.  The API server behaves as documented (\<open>accepts\<close>, \<open>refuses\<close>,
  \<open>found\<close>): updates are checked against the version read, finalizers delay deletion, the status is a
  subresource.  A request that fails may still have taken effect.  The caches of the client have caught
  up: a read answers with what is stored at some moment after the previous request.
  \<^item> \<open>policy_cluster\<close>: one policy is reconciled by one worker at a time, as controller-runtime does it;
    the reconciliations of other policies run at the same time (\<open>environment\<close>).  Users (\<open>user_step\<close>) may
    create, edit and delete policies through the admission webhooks, but do not edit the field
    \<open>mutating\<close> (see \<open>Orphaned_Webhooks\<close> for what happens then), do not give two policies the same unique
    name (see \<open>Config_Document\<close>), do not take the finalizer off a policy that is being deleted, and
    leave the webhook configurations of the controllers alone.
  \<^item> \<open>server_cluster\<close>: nobody else writes the objects of a policy server while it is reconciled, but for
    the status of the deployment (\<open>server_kept\<close>); the API server keeps the data of a config map and the
    fields of a deployment that the controller compares.  \<open>server_removal\<close>: nobody makes these objects
    again while they are deleted (\<open>removal_kept\<close>).
  \<^item> \<open>system_cluster\<close>: everybody acts at the same time; the requests of the controller of policy servers
    turn out to be among those that \<open>user_step\<close> allows, so that the two groups of theorems fit together.

  \<open>Reference_Server\<close> is an API server that satisfies the hypotheses and runs in the examples.

  Interfaces.  The locales are the contracts between components: \<open>policy_methods\<close> (what a type has to
  offer to be a policy), \<open>config_document\<close> (a document that is written as JSON and compared with
  the stored one), \<open>webhook_registry\<close> (registering one kind of webhook configuration),
  \<open>reconcile_step\<close> (one stage of the reconciliation of a policy server), \<open>written_resource\<close> (a
  resource written by one party and read by another), \<open>cluster\<close> with its extensions \<open>policy_cluster\<close>,
  \<open>server_cluster\<close>, \<open>server_removal\<close> and \<open>system_cluster\<close> (the cluster as the controllers find it).  Each is interpreted on the
  definitions of the code in the theory of the component that provides it.

  Bounds and fuel.  \<open>int32\<close> is a 32 bit word.  The JSON scanner recurses with fuel \<open>json_fuel\<close>, one
  more than the length of the text; every call consumes a character before it recurses, so the fuel
  never runs out on a text the scanner accepts (the round trips of \<open>Json_Roundtrip\<close> depend on it).

  What the lemmas show.  The theories of the language and of the objects hold simplification rules
  and round trips.  \<open>Policy_Admission\<close> characterises what the webhooks accept.  The theories of
  \<open>internal/pkg/admission\<close> and \<open>controllers\<close> hold for every operation its behaviour on every
  answer of the API server (functional lemmas), and what a whole reconciliation may and must send
  (the rules for \<open>emits\<close>).  \<open>Policy_Progress\<close>, \<open>Policy_Configuration\<close> and \<open>Server_Lifecycle\<close>
  compose these for an API server that stores what it is sent.  \<open>Policy_Cluster\<close> proves with a
  rely-guarantee logic (\<open>sat\<close>) that the requests of the policy controllers keep the cluster consistent:
  no webhook without its policy, no active policy without its webhook.  \<open>Server_Cluster\<close> and
  \<open>Server_Removal\<close> prove with it that a reconciled policy server has all its objects, up to date, and
  that a policy server keeps its finalizer until its objects are gone.  \<open>Deep_Copies\<close> shows that a copy has
  the value of the original and shares no memory with it.  \<open>V1alpha2\<close> shows that an object written as
  \<open>v1alpha2\<close> is read by the controllers as a \<open>v1\<close> object with the same meaning, and \<open>Registration\<close> that the
  scheme recognizes both.  This theory holds what relates the webhook of a policy to the service and the
  deployment of its server.

  Not modelled.  Log messages; the text of the command line flags' help; the fixtures of the unit
  tests (\<open>internal/pkg/admission/testing_common.go\<close>).
\<close>

section \<open>Properties across components\<close>

text \<open>
  C20. The webhook of a policy reaches the pods of its policy server: the service that the webhook
  configuration names is the service of the policy server, on a port of that service which leads to
  the port the server is told to listen on and is probed on, the service selects the pods of the
  deployment, and the host the API server connects to is the one the serving certificate names.
\<close>

theorem webhook_reaches_policy_server:
  "let wh = policy_webhook r p secret (NameWithPrefix ps); svc = service r ps; d = deployment r v ps in
     mwcWebhooks (mutatingWebhookConfiguration r p secret (NameWithPrefix ps)) = Some [AdmissionWebhook.extend wh (MutatingWebhook.fields None)] \<and>
     vwcWebhooks (validatingWebhookConfiguration r p secret (NameWithPrefix ps)) = Some [wh] \<and>
     (\<exists>ref port c probe. whService wh = Some ref \<and> object_key (srNamespace ref) (srName ref) = key_of (OService svc) \<and>
        port \<in> set (svcPorts svc) \<and> srPort ref = Some (svcPort port) \<and>
        tplContainers (depTemplate d) = [c] \<and> ctReadinessProbe c = Some probe \<and> hgPort probe = svcTargetPort port \<and>
        env_var ''KUBEWARDEN_PORT'' (decimal (unat (svcPort port))) \<in> set (elems (ctEnv c)) \<and>
        svcSelector svc \<subseteq>\<^sub>f Labels (tplMeta (depTemplate d)) \<and>
        srName ref @ ''.'' @ srNamespace ref @ ''.svc'' = service_host r (NameWithPrefix ps))"
proof -
  let ?port = "\<lparr>svcPortName = ''policy-server'', svcPort = PolicyServerPort,
     svcTargetPort = FromInt PolicyServerPort, svcProtocol = ProtocolTCP\<rparr>"
  have "mwcWebhooks (mutatingWebhookConfiguration r p secret (NameWithPrefix ps)) =
      Some [AdmissionWebhook.extend (policy_webhook r p secret (NameWithPrefix ps)) (MutatingWebhook.fields None)]"
    "vwcWebhooks (validatingWebhookConfiguration r p secret (NameWithPrefix ps)) = Some [policy_webhook r p secret (NameWithPrefix ps)]"
    by (simp_all add: mutatingWebhookConfiguration_def validatingWebhookConfiguration_def)
  moreover have "whService (policy_webhook r p secret (NameWithPrefix ps)) = Some (webhook_service r p (NameWithPrefix ps))"
    by (simp add: policy_webhook_def)
  moreover have "object_key (srNamespace (webhook_service r p (NameWithPrefix ps))) (srName (webhook_service r p (NameWithPrefix ps)))
      = key_of (OService (service r ps))"
    by (simp add: webhook_service_def key_of_def service_def)
  moreover have "?port \<in> set (svcPorts (service r ps))" by (simp add: service_def)
  moreover have "srPort (webhook_service r p (NameWithPrefix ps)) = Some (svcPort ?port)" by (simp add: webhook_service_def)
  moreover have "tplContainers (depTemplate (deployment r v ps)) = [admissionContainer r ps]" by simp
  moreover have "ctReadinessProbe (admissionContainer r ps) = Some \<lparr>hgPath = PolicyServerReadinessProbe,
      hgPort = svcTargetPort ?port, hgScheme = URISchemeHTTPS\<rparr>"
    by (simp add: admissionContainer_def)
  moreover have "env_var ''KUBEWARDEN_PORT'' (decimal (unat (svcPort ?port))) \<in> set (elems (ctEnv (admissionContainer r ps)))"
    unfolding admissionContainer_def default_env_def by simp
  moreover have "svcSelector (service r ps) \<subseteq>\<^sub>f Labels (tplMeta (depTemplate (deployment r v ps)))"
    by (simp add: service_def fmsubset_alt_def fmpred_iff)
  moreover have "srName (webhook_service r p (NameWithPrefix ps)) @ ''.'' @ srNamespace (webhook_service r p (NameWithPrefix ps)) @ ''.svc''
      = service_host r (NameWithPrefix ps)"
    by (simp add: webhook_service_def service_host_def)
  ultimately show ?thesis
    unfolding Let_def
    by (intro conjI exI [of _ "webhook_service r p (NameWithPrefix ps)"] exI [of _ ?port] exI [of _ "admissionContainer r ps"]
        exI [of _ "\<lparr>hgPath = PolicyServerReadinessProbe, hgPort = svcTargetPort ?port, hgScheme = URISchemeHTTPS\<rparr>"])
      (assumption | simp only: HTTPGetAction.simps)+
qed

end
